(* ===== verification/Prelude.thy ===== *)
theory Prelude
  imports Main "HOL-Library.Char_ord" "HOL-Library.List_Lexorder"
begin

text \<open>
  Shared vocabulary of the development: Go's fixed-width integer conversions, the parts of
  the Go standard library the indexer calls (\<open>strconv\<close>, \<open>encoding/hex\<close>, \<open>strings\<close>), the result
  types of fallible code and the generic list lemmas the component theories use.

  A Go \<open>int64\<close>, \<open>int\<close> (64 bit on every platform the program is built for), \<open>int16\<close> or \<open>uint64\<close>
  is an \<open>int\<close>; every conversion that can lose information goes through \<open>int64\<close>, \<open>int16\<close>,
  \<open>int32\<close> or \<open>uint64\<close> below, which wrap exactly as Go does. A Go string or byte slice is a
  \<open>string\<close>: an Isabelle \<open>char\<close> is one byte.
\<close>

named_theorems exec_simps "equations that run one database statement"
named_theorems frame_simps "tables a statement leaves alone"

type_synonym address = string
type_synonym hash = string
type_synonym error = string

subsection \<open>Fixed-width integers\<close>

definition int64 :: "int \<Rightarrow> int" where
  "int64 x = signed_take_bit 63 x"

definition int32 :: "int \<Rightarrow> int" where
  "int32 x = signed_take_bit 31 x"

definition int16 :: "int \<Rightarrow> int" where
  "int16 x = signed_take_bit 15 x"

definition uint64 :: "int \<Rightarrow> int" where
  "uint64 x = take_bit 64 x"

definition MaxInt64 :: int where
  "MaxInt64 = 9223372036854775807"

definition MinInt64 :: int where
  "MinInt64 = - 9223372036854775808"

definition fits_int64 :: "int \<Rightarrow> bool" where
  "fits_int64 x \<longleftrightarrow> MinInt64 \<le> x \<and> x \<le> MaxInt64"

definition fits_int32 :: "int \<Rightarrow> bool" where
  "fits_int32 x \<longleftrightarrow> - 2147483648 \<le> x \<and> x \<le> 2147483647"

lemma int64_id [simp]: "fits_int64 x \<Longrightarrow> int64 x = x"
  by (simp add: int64_def fits_int64_def MinInt64_def MaxInt64_def signed_take_bit_int_eq_self)

lemma fits_int64_int64 [simp]: "fits_int64 (int64 x)"
  using signed_take_bit_int_less_exp [of 63 x] signed_take_bit_int_greater_eq_minus_exp [of 63 x]
  by (simp add: int64_def fits_int64_def MinInt64_def MaxInt64_def)

lemma int64_small: "0 \<le> x \<Longrightarrow> x < 9223372036854775808 \<Longrightarrow> int64 x = x"
  by (simp add: fits_int64_def MinInt64_def MaxInt64_def)

lemma int16_id: "- 32768 \<le> x \<Longrightarrow> x < 32768 \<Longrightarrow> int16 x = x"
  by (simp add: int16_def signed_take_bit_int_eq_self)

lemma uint64_id: "0 \<le> x \<Longrightarrow> x < 18446744073709551616 \<Longrightarrow> uint64 x = x"
  by (simp add: uint64_def take_bit_int_eq_self)

lemma uint64_range: "0 \<le> uint64 x" "uint64 x < 18446744073709551616"
  using take_bit_int_less_exp [of 64 x] by (simp_all add: uint64_def)


subsection \<open>Decimal numbers: strconv and big.Int\<close>

definition digit_val :: "char \<Rightarrow> int option" where
  "digit_val c = (let n = of_char c :: int in if 48 \<le> n \<and> n \<le> 57 then Some (n - 48) else None)"

definition digit_char :: "int \<Rightarrow> char" where
  "digit_char d = char_of (48 + d)"

fun parse_digits :: "int \<Rightarrow> string \<Rightarrow> int option" where
  "parse_digits acc [] = Some acc"
| "parse_digits acc (c # cs) =
     (case digit_val c of None \<Rightarrow> None | Some d \<Rightarrow> parse_digits (10 * acc + d) cs)"

definition parse_nat :: "string \<Rightarrow> int option" where
  "parse_nat s = (if s = [] then None else parse_digits 0 s)"

text \<open>\<open>new(big.Int).SetString(s, 10)\<close>: an optional sign and at least one digit.\<close>

definition SetString10 :: "string \<Rightarrow> int option" where
  "SetString10 s =
     (case s of
        [] \<Rightarrow> None
      | c # cs \<Rightarrow>
          if c = CHR ''-'' then map_option uminus (parse_nat cs)
          else if c = CHR ''+'' then parse_nat cs
          else parse_nat s)"

text \<open>\<open>strconv.ParseInt(s, 10, 64)\<close> and \<open>strconv.Atoi\<close>: the same syntax, with a range error.\<close>

definition ParseInt64 :: "string \<Rightarrow> int option" where
  "ParseInt64 s =
     (case SetString10 s of
        None \<Rightarrow> None
      | Some v \<Rightarrow> if fits_int64 v then Some v else None)"

abbreviation Atoi :: "string \<Rightarrow> int option" where
  "Atoi \<equiv> ParseInt64"

text \<open>\<open>strconv.ParseUint(s, 10, 64)\<close>: digits only, no sign.\<close>

definition ParseUint64 :: "string \<Rightarrow> int option" where
  "ParseUint64 s =
     (case parse_nat s of
        None \<Rightarrow> None
      | Some n \<Rightarrow> if n < 18446744073709551616 then Some n else None)"

text \<open>The decimal digits of a number that is not negative.\<close>

function int_digits :: "int \<Rightarrow> int list" where
  "int_digits n = (if n < 10 then [n] else int_digits (n div 10) @ [n mod 10])"
  by auto
termination
  by (relation "measure nat") auto

declare int_digits.simps [simp del]

text \<open>\<open>strconv.FormatInt(v, 10)\<close>, also what \<open>%d\<close> prints.\<close>

definition FormatInt :: "int \<Rightarrow> string" where
  "FormatInt v =
     (if v < 0 then CHR ''-'' # map digit_char (int_digits (- v))
      else map digit_char (int_digits v))"

lemma digit_val_digit_char [simp]: "0 \<le> d \<Longrightarrow> d < 10 \<Longrightarrow> digit_val (digit_char d) = Some d"
  by (simp add: digit_val_def digit_char_def)

lemma parse_digits_append:
  "parse_digits acc (xs @ ys) =
     (case parse_digits acc xs of None \<Rightarrow> None | Some a \<Rightarrow> parse_digits a ys)"
  by (induction xs arbitrary: acc) (auto split: option.splits)

lemma int_digits_bound: "0 \<le> n \<Longrightarrow> d \<in> set (int_digits n) \<Longrightarrow> 0 \<le> d \<and> d < 10"
proof (induction n arbitrary: d rule: int_digits.induct)
  case (1 n)
  show ?case
  proof (cases "n < 10")
    case True
    then have "int_digits n = [n]" by (simp add: int_digits.simps [of n])
    with True "1.prems" show ?thesis by simp
  next
    case False
    then have "int_digits n = int_digits (n div 10) @ [n mod 10]"
      by (simp add: int_digits.simps [of n])
    then consider "d \<in> set (int_digits (n div 10))" | "d = n mod 10"
      using "1.prems"(2) by auto
    then show ?thesis
    proof cases
      case 1
      have "0 \<le> n div 10" using "1.prems"(1) by simp
      from "1.IH" [OF False this 1] show ?thesis .
    qed simp
  qed
qed

lemma int_digits_not_Nil [simp]: "int_digits n \<noteq> []"
  by (simp add: int_digits.simps [of n])

lemma parse_int_digits: "0 \<le> n \<Longrightarrow> parse_digits 0 (map digit_char (int_digits n)) = Some n"
proof (induction n rule: int_digits.induct)
  case (1 n)
  then show ?case
    by (cases "n < 10") (simp_all add: int_digits.simps [of n] parse_digits_append)
qed

lemma parse_nat_int_digits:
  "0 \<le> n \<Longrightarrow> parse_nat (map digit_char (int_digits n)) = Some n"
  by (simp add: parse_nat_def parse_int_digits)

lemma int_digits_hd:
  assumes "map digit_char (int_digits n) = c # cs" and "0 \<le> n"
  shows "c \<noteq> CHR ''-'' \<and> c \<noteq> CHR ''+''"
proof -
  obtain d where "d \<in> set (int_digits n)" "c = digit_char d"
    using assms(1) by (cases "int_digits n") auto
  then have "digit_val c = Some d"
    using int_digits_bound assms(2) by simp
  then show ?thesis
    by (auto simp: digit_val_def)
qed

lemma SetString10_FormatInt [simp]: "SetString10 (FormatInt v) = Some v"
proof (cases "v < 0")
  case True
  then show ?thesis by (simp add: FormatInt_def SetString10_def parse_nat_int_digits)
next
  case False
  obtain c cs where eq: "map digit_char (int_digits v) = c # cs"
    by (cases "map digit_char (int_digits v)") auto
  then have p: "parse_nat (c # cs) = Some v"
    using False parse_nat_int_digits [of v] by simp
  from eq False int_digits_hd [OF eq] show ?thesis
    by (simp add: FormatInt_def SetString10_def p)
qed

lemma ParseInt64_FormatInt: "ParseInt64 (FormatInt v) = (if fits_int64 v then Some v else None)"
  by (simp add: ParseInt64_def)

lemma ParseInt64_fits: "ParseInt64 s = Some v \<Longrightarrow> fits_int64 v"
  by (auto simp: ParseInt64_def split: option.splits if_splits)

lemma FormatInt_inject [simp]: "FormatInt v = FormatInt w \<longleftrightarrow> v = w"
  by (metis SetString10_FormatInt option.inject)

subsection \<open>encoding/hex\<close>

definition hex_digit :: "int \<Rightarrow> char" where
  "hex_digit d = (if d < 10 then char_of (48 + d) else char_of (87 + d))"

fun EncodeToString :: "string \<Rightarrow> string" where
  "EncodeToString [] = []"
| "EncodeToString (b # bs) =
     (let n = of_char b :: int in hex_digit (n div 16) # hex_digit (n mod 16) # EncodeToString bs)"

lemma length_EncodeToString [simp]: "length (EncodeToString bs) = 2 * length bs"
  by (induction bs) (simp_all add: Let_def)

lemma hex_digit_inject:
  "0 \<le> d \<Longrightarrow> d < 16 \<Longrightarrow> 0 \<le> e \<Longrightarrow> e < 16 \<Longrightarrow> hex_digit d = hex_digit e \<longleftrightarrow> d = e"
  by (auto simp: hex_digit_def char_of_eq_iff take_bit_eq_mod split: if_splits)

lemma of_char_range: "0 \<le> (of_char c :: int)" "(of_char c :: int) < 256"
  using of_char_mod_256 [of c, where ?'a = int]
  by (metis pos_mod_sign zero_less_numeral, metis pos_mod_bound zero_less_numeral)

lemma EncodeToString_inject: "EncodeToString as = EncodeToString bs \<longleftrightarrow> as = bs"
proof (induction as arbitrary: bs)
  case Nil
  then show ?case by (cases bs) (simp_all add: Let_def)
next
  case (Cons a as)
  show ?case
  proof (cases bs)
    case Nil
    then show ?thesis by (simp add: Let_def)
  next
    case (Cons b bs')
    let ?a = "of_char a :: int" and ?b = "of_char b :: int"
    have "0 \<le> ?a div 16" "?a div 16 < 16" "0 \<le> ?b div 16" "?b div 16 < 16"
      using of_char_range [of a] of_char_range [of b] by simp_all
    then have "hex_digit (?a div 16) = hex_digit (?b div 16) \<and>
        hex_digit (?a mod 16) = hex_digit (?b mod 16) \<longleftrightarrow> ?a = ?b"
      by (simp add: hex_digit_inject) (metis div_mult_mod_eq of_char_eq_iff)
    then show ?thesis
      using Cons.IH [of bs'] Cons by (auto simp: Let_def)
  qed
qed

end
