(* ===== verification/Models.thy ===== *)
theory Models
  imports Prelude
begin

text \<open>
  The data model of \<open>internal/models\<close>: the chain constants, the embedded contract
  addresses, and one record per struct of \<open>models.go\<close>. Every record keeps the field names of
  its struct behind a two-letter prefix. A \<open>SERIAL\<close> id assigned by the database is left out
  (rows keep insertion order), a \<open>*int64\<close> is an \<open>int option\<close>, a \<open>float32\<close> ratio is the pair of
  its numerator and denominator, and a \<open>map[string]string\<close> is an association list with
  distinct keys.
\<close>

subsection \<open>Constants\<close>

definition PlasmaAddress :: string where
  "PlasmaAddress = ''z1qxemdeddedxplasmaxxxxxxxxxxxxxxxxsctrp''"

definition PillarAddress :: string where
  "PillarAddress = ''z1qxemdeddedxpyllarxxxxxxxxxxxxxxxsy3fmg''"

definition TokenAddress :: string where
  "TokenAddress = ''z1qxemdeddedxt0kenxxxxxxxxxxxxxxxxh9amk0''"

definition SentinelAddress :: string where
  "SentinelAddress = ''z1qxemdeddedxsentynelxxxxxxxxxxxxxwy0r2r''"

definition StakeAddress :: string where
  "StakeAddress = ''z1qxemdeddedxstakexxxxxxxxxxxxxxxxjv8v62''"

definition AcceleratorAddress :: string where
  "AcceleratorAddress = ''z1qxemdeddedxaccelerat0rxxxxxxxxxxp4tk22''"

definition SwapAddress :: string where
  "SwapAddress = ''z1qxemdeddedxswapxxxxxxxxxxxxxxxxxxl4yww''"

definition LiquidityAddress :: string where
  "LiquidityAddress = ''z1qxemdeddedxlyquydytyxxxxxxxxxxxxflaaae''"

definition BridgeAddress :: string where
  "BridgeAddress = ''z1qxemdeddedxdrydgexxxxxxxxxxxxxxxmqgr0d''"

definition HtlcAddress :: string where
  "HtlcAddress = ''z1qxemdeddedxhtlcxxxxxxxxxxxxxxxxxygecvw''"

definition SporkAddress :: string where
  "SporkAddress = ''z1qxemdeddedxsp0rkxxxxxxxxxxxxxxxx956u48''"

definition EmptyAddress :: string where
  "EmptyAddress = ''z1qqqqqqqqqqqqqqqqqqqqqqqqqqqqqqqqsggv2f''"

definition LiquidityTreasuryAddress :: string where
  "LiquidityTreasuryAddress = ''z1qqw8f3qxx9zg92xgckqdpfws3dw07d26afsj74''"

definition EmptyTokenStandard :: string where
  "EmptyTokenStandard = ''zts1qqqqqqqqqqqqqqqqtq587y''"

definition ZnnTokenStandard :: string where
  "ZnnTokenStandard = ''zts1znnxxxxxxxxxxxxx9z4ulx''"

definition QsrTokenStandard :: string where
  "QsrTokenStandard = ''zts1qsrxxxxxxxxxxxxxmrhjll''"

definition GenesisMomentumTime :: int where
  "GenesisMomentumTime = 1637755210"

definition FusionExpirationTime :: int where
  "FusionExpirationTime = 3600"

definition MomentumBlockTimeSec :: int where
  "MomentumBlockTimeSec = 10"

definition FusionExpirationBlocks :: int where
  "FusionExpirationBlocks = FusionExpirationTime div MomentumBlockTimeSec"

definition EmbeddedContractAddresses :: "string list" where
  "EmbeddedContractAddresses =
     [PlasmaAddress, PillarAddress, TokenAddress, SentinelAddress, StakeAddress,
      AcceleratorAddress, SwapAddress, LiquidityAddress, BridgeAddress, HtlcAddress, SporkAddress]"

definition IsEmbeddedContract :: "string \<Rightarrow> bool" where
  "IsEmbeddedContract address = list_ex (\<lambda>addr. addr = address) EmbeddedContractAddresses"

definition RewardContractAddresses :: "string list" where
  "RewardContractAddresses = [PillarAddress, SentinelAddress, StakeAddress, LiquidityAddress]"

lemmas address_defs = 
  PlasmaAddress_def PillarAddress_def TokenAddress_def SentinelAddress_def StakeAddress_def
  AcceleratorAddress_def SwapAddress_def LiquidityAddress_def BridgeAddress_def
  HtlcAddress_def SporkAddress_def EmptyAddress_def LiquidityTreasuryAddress_def

lemmas token_defs = 
  EmptyTokenStandard_def ZnnTokenStandard_def QsrTokenStandard_def

subsection \<open>Enumerations\<close>

datatype RewardType =
    RewardTypeUnknown
  | RewardTypeStake
  | RewardTypeDelegation
  | RewardTypeLiquidity
  | RewardTypeSentinel
  | RewardTypePillar

fun RewardType_String :: "RewardType \<Rightarrow> string" where
  "RewardType_String RewardTypeStake = ''Stake''"
| "RewardType_String RewardTypeDelegation = ''Delegation''"
| "RewardType_String RewardTypeLiquidity = ''Liquidity''"
| "RewardType_String RewardTypeSentinel = ''Sentinel''"
| "RewardType_String RewardTypePillar = ''Pillar''"
| "RewardType_String RewardTypeUnknown = ''Unknown''"

datatype HtlcStatus = HtlcStatusActive | HtlcStatusUnlocked | HtlcStatusReclaimed

fun HtlcStatus_code :: "HtlcStatus \<Rightarrow> int" where
  "HtlcStatus_code HtlcStatusActive = 0"
| "HtlcStatus_code HtlcStatusUnlocked = 1"
| "HtlcStatus_code HtlcStatusReclaimed = 2"

subsection \<open>Rows\<close>

record Momentum =
  mo_Height :: int
  mo_Hash :: string
  mo_Timestamp :: int
  mo_TxCount :: int
  mo_Producer :: string
  mo_ProducerOwner :: string
  mo_ProducerName :: string

record Account =
  ac_Address :: string
  ac_BlockCount :: int
  ac_PublicKey :: string
  ac_Delegate :: string
  ac_DelegationStartTimestamp :: int
  ac_GenesisZnnBalance :: int
  ac_GenesisQsrBalance :: int
  ac_ZnnSent :: int
  ac_ZnnReceived :: int
  ac_QsrSent :: int
  ac_QsrReceived :: int
  ac_FirstActiveAt :: "int option"
  ac_LastActiveAt :: "int option"
  ac_FirstSeen :: "int option"
  ac_LastSeen :: "int option"
  ac_TxCount :: int

record Balance =
  ba_Address :: string
  ba_TokenStandard :: string
  ba_Balance :: int
  ba_LastUpdatedTimestamp :: int

record AccountBlock =
  ab_Hash :: string
  ab_MomentumHash :: string
  ab_MomentumTimestamp :: int
  ab_MomentumHeight :: int
  ab_BlockType :: int
  ab_Height :: int
  ab_Address :: string
  ab_ToAddress :: string
  ab_Amount :: int
  ab_TokenStandard :: string
  ab_Data :: string
  ab_Method :: string
  ab_Input :: string
  ab_PairedAccountBlock :: string
  ab_DescendantOf :: string

record Token =
  tk_TokenStandard :: string
  tk_Name :: string
  tk_Symbol :: string
  tk_Domain :: string
  tk_Decimals :: int
  tk_Owner :: string
  tk_TotalSupply :: int
  tk_MaxSupply :: int
  tk_IsBurnable :: bool
  tk_IsMintable :: bool
  tk_IsUtility :: bool
  tk_TotalBurned :: int
  tk_LastUpdateTimestamp :: int
  tk_HolderCount :: int
  tk_TransactionCount :: int

record Pillar =
  pl_OwnerAddress :: string
  pl_ProducerAddress :: string
  pl_WithdrawAddress :: string
  pl_Name :: string
  pl_Rank :: int
  pl_GiveMomentumRewardPercentage :: int
  pl_GiveDelegateRewardPercentage :: int
  pl_IsRevocable :: bool
  pl_RevokeCooldown :: int
  pl_RevokeTimestamp :: int
  pl_Weight :: int
  pl_EpochProducedMomentums :: int
  pl_EpochExpectedMomentums :: int
  pl_SlotCostQsr :: int
  pl_SpawnTimestamp :: int
  pl_VotingActivity :: "int \<times> int"
  pl_ProducedMomentumCount :: int
  pl_IsRevoked :: bool

record PillarUpdate =
  pu_Name :: string
  pu_OwnerAddress :: string
  pu_ProducerAddress :: string
  pu_WithdrawAddress :: string
  pu_MomentumTimestamp :: int
  pu_MomentumHeight :: int
  pu_MomentumHash :: string
  pu_GiveMomentumRewardPercentage :: int
  pu_GiveDelegateRewardPercentage :: int

record Sentinel =
  se_Owner :: string
  se_RegistrationTimestamp :: int
  se_IsRevocable :: bool
  se_RevokeCooldown :: string
  se_Active :: bool

record Stake =
  st_ID :: string
  st_Address :: string
  st_StartTimestamp :: int
  st_ExpirationTimestamp :: int
  st_ZnnAmount :: int
  st_DurationInSec :: int
  st_IsActive :: bool
  st_CancelID :: string

record Project =
  pj_ID :: string
  pj_VotingID :: string
  pj_Owner :: string
  pj_Name :: string
  pj_Description :: string
  pj_URL :: string
  pj_ZnnFundsNeeded :: int
  pj_QsrFundsNeeded :: int
  pj_CreationTimestamp :: int
  pj_LastUpdateTimestamp :: int
  pj_Status :: int
  pj_YesVotes :: int
  pj_NoVotes :: int
  pj_TotalVotes :: int

record ProjectPhase =
  pp_ID :: string
  pp_ProjectID :: string
  pp_VotingID :: string
  pp_Name :: string
  pp_Description :: string
  pp_URL :: string
  pp_ZnnFundsNeeded :: int
  pp_QsrFundsNeeded :: int
  pp_CreationTimestamp :: int
  pp_AcceptedTimestamp :: int
  pp_Status :: int
  pp_YesVotes :: int
  pp_NoVotes :: int
  pp_TotalVotes :: int

record Vote =
  vo_MomentumHash :: string
  vo_MomentumTimestamp :: int
  vo_MomentumHeight :: int
  vo_VoterAddress :: string
  vo_ProjectID :: string
  vo_PhaseID :: string
  vo_VotingID :: string
  vo_Vote :: int

record Fusion =
  fu_ID :: string
  fu_Address :: string
  fu_Beneficiary :: string
  fu_MomentumHash :: string
  fu_MomentumTimestamp :: int
  fu_MomentumHeight :: int
  fu_QsrAmount :: int
  fu_ExpirationHeight :: int
  fu_IsActive :: bool
  fu_CancelID :: string

record CumulativeReward =
  cr_Address :: string
  cr_RewardType :: RewardType
  cr_Amount :: int
  cr_TokenStandard :: string

record RewardTransaction =
  rt_Hash :: string
  rt_Address :: string
  rt_RewardType :: RewardType
  rt_MomentumTimestamp :: int
  rt_MomentumHeight :: int
  rt_AccountHeight :: int
  rt_Amount :: int
  rt_TokenStandard :: string
  rt_SourceAddress :: string

record TxData =
  tx_Method :: string
  tx_Inputs :: "(string \<times> string) list"

record WrapTokenRequest =
  wr_ID :: string
  wr_NetworkClass :: int
  wr_ChainID :: int
  wr_ToAddress :: string
  wr_TokenStandard :: string
  wr_TokenAddress :: string
  wr_Amount :: int
  wr_Fee :: int
  wr_Signature :: string
  wr_CreationMomentumHeight :: int
  wr_ConfirmationsToFinality :: int

record UnwrapTokenRequest =
  ur_TransactionHash :: string
  ur_LogIndex :: int
  ur_NetworkClass :: int
  ur_ChainID :: int
  ur_ToAddress :: string
  ur_TokenStandard :: string
  ur_TokenAddress :: string
  ur_Amount :: int
  ur_Signature :: string
  ur_RegistrationMomentumHeight :: int
  ur_Redeemed :: bool
  ur_Revoked :: bool
  ur_RedeemableIn :: int

record TokenMint =
  tm_AccountBlockHash :: string
  tm_MomentumHeight :: int
  tm_MomentumTimestamp :: int
  tm_TokenStandard :: string
  tm_Issuer :: string
  tm_Receiver :: string
  tm_Amount :: int

record TokenBurn =
  tb_AccountBlockHash :: string
  tb_MomentumHeight :: int
  tb_MomentumTimestamp :: int
  tb_TokenStandard :: string
  tb_Burner :: string
  tb_Amount :: int

record BridgeNetwork =
  bn_NetworkClass :: int
  bn_ChainID :: int
  bn_Name :: string
  bn_ContractAddress :: string
  bn_Metadata :: string
  bn_LastUpdatedTimestamp :: int

record BridgeNetworkToken =
  bt_NetworkClass :: int
  bt_ChainID :: int
  bt_TokenStandard :: string
  bt_TokenAddress :: string
  bt_Bridgeable :: bool
  bt_Redeemable :: bool
  bt_Owned :: bool
  bt_MinAmount :: int
  bt_FeePercentage :: int
  bt_RedeemDelay :: int
  bt_Metadata :: string

record BridgeAdmin =
  bd_Administrator :: string
  bd_CompressedTssECDSAPubKey :: string
  bd_DecompressedTssECDSAPubKey :: string
  bd_AllowKeyGen :: bool
  bd_Halted :: bool
  bd_UnhaltedAt :: int
  bd_UnhaltDurationInMomentums :: int
  bd_TssNonce :: int
  bd_Metadata :: string
  bd_LastUpdatedTimestamp :: int

record BridgeGuardian =
  bg_Address :: string
  bg_Nominated :: bool
  bg_Accepted :: bool
  bg_LastUpdatedTimestamp :: int

record BridgeOrchestratorInfo =
  bo_WindowSize :: int
  bo_KeyGenThreshold :: int
  bo_ConfirmationsToFinality :: int
  bo_EstimatedMomentumTime :: int
  bo_AllowKeyGenHeight :: int
  bo_LastUpdatedTimestamp :: int

record BridgeSecurityInfo =
  bs_AdministratorDelay :: int
  bs_SoftDelay :: int
  bs_LastUpdatedTimestamp :: int

record NetworkStatHistory =
  ns_Date :: string
  ns_TotalTx :: int
  ns_DailyTx :: int
  ns_TotalAddresses :: int
  ns_DailyAddresses :: int
  ns_ActiveAddresses :: int
  ns_TotalTokens :: int
  ns_DailyTokens :: int
  ns_TotalStakes :: int
  ns_DailyStakes :: int
  ns_TotalFusions :: int
  ns_DailyFusions :: int
  ns_TotalPillars :: int
  ns_TotalSentinels :: int

record TokenStatHistory =
  ts_Date :: string
  ts_TokenStandard :: string
  ts_DailyMinted :: int
  ts_DailyBurned :: int
  ts_TotalSupply :: int
  ts_TotalHolders :: int
  ts_TotalTransactions :: int

record PillarStatHistory =
  ps_Date :: string
  ps_PillarOwnerAddress :: string
  ps_Rank :: int
  ps_Weight :: int
  ps_MomentumRewards :: int
  ps_DelegateRewards :: int
  ps_TotalDelegators :: int

record BridgeStatHistory =
  bh_Date :: string
  bh_NetworkClass :: int
  bh_ChainID :: int
  bh_TokenStandard :: string
  bh_WrapTxCount :: int
  bh_WrappedAmount :: int
  bh_UnwrapTxCount :: int
  bh_UnwrappedAmount :: int
  bh_TotalVolume :: int

record Delegation =
  de_DelegatorAddress :: string
  de_PillarOwnerAddress :: string
  de_StartedAt :: int
  de_EndedAt :: "int option"

record SyncStatus =
  ss_DBHeight :: int
  ss_ZnndFrontierHeight :: int
  ss_ZnndTargetHeight :: int
  ss_DriftMomentums :: int
  ss_NodeLagMomentums :: int
  ss_State :: string
  ss_ConsecutiveBadChecks :: int
  ss_ActiveNodeURL :: string
  ss_ActiveNodeLabel :: string
  ss_ChainIdentifier :: string
  ss_FailedOverAt :: "int option"
  ss_LastProgressAt :: int
  ss_CheckedAt :: int

record Htlc =
  ht_ID :: string
  ht_TimeLockedAddress :: string
  ht_HashLockedAddress :: string
  ht_TokenStandard :: string
  ht_Amount :: int
  ht_ExpirationTimestamp :: int
  ht_HashType :: int
  ht_KeyMaxSize :: int
  ht_HashLock :: string
  ht_Status :: int
  ht_Preimage :: string
  ht_CreationMomentumHeight :: int
  ht_CreationMomentumTimestamp :: int
  ht_SettleMomentumHeight :: int
  ht_SettleMomentumTimestamp :: int

record SwapRetrieval =
  sr_ID :: string
  sr_Address :: string
  sr_PublicKey :: string
  sr_ZnnAmount :: int
  sr_QsrAmount :: int
  sr_MomentumHeight :: int
  sr_MomentumTimestamp :: int

record SwapAsset =
  sa_KeyIDHash :: string
  sa_Znn :: int
  sa_Qsr :: int
  sa_LastUpdatedTimestamp :: int

record BridgeTimeChallenge =
  bc_MethodName :: string
  bc_ParamsHash :: string
  bc_ChallengeStartHeight :: int
  bc_Delay :: int
  bc_EndHeight :: int
  bc_LastUpdatedTimestamp :: int

subsection \<open>Decoded transaction data\<close>

definition NewTxData :: TxData where
  "NewTxData = \<lparr> tx_Method = [], tx_Inputs = [] \<rparr>"

text \<open>Reading a Go map at a missing key gives the zero value; writing replaces or adds.\<close>

definition input :: "TxData \<Rightarrow> string \<Rightarrow> string" where
  "input t k = (case map_of (tx_Inputs t) k of None \<Rightarrow> [] | Some v \<Rightarrow> v)"

fun alist_set :: "'k \<Rightarrow> 'v \<Rightarrow> ('k \<times> 'v) list \<Rightarrow> ('k \<times> 'v) list" where
  "alist_set k v [] = [(k, v)]"
| "alist_set k v ((k', v') # xs) = (if k = k' then (k, v) # xs else (k', v') # alist_set k v xs)"

definition set_input :: "string \<Rightarrow> string \<Rightarrow> TxData \<Rightarrow> TxData" where
  "set_input k v t = t\<lparr> tx_Inputs := alist_set k v (tx_Inputs t) \<rparr>"

lemma map_of_alist_set [simp]: "map_of (alist_set k v xs) = (map_of xs)(k \<mapsto> v)"
  by (induction k v xs rule: alist_set.induct) auto

lemma keys_alist_set: "fst ` set (alist_set k v xs) = insert k (fst ` set xs)"
  by (induction k v xs rule: alist_set.induct) auto

lemma distinct_alist_set: "distinct (map fst xs) \<Longrightarrow> distinct (map fst (alist_set k v xs))"
proof (induction k v xs rule: alist_set.induct)
  case (2 k v k' v' xs)
  have "fst ` set (alist_set k v xs) = insert k (fst ` set xs)"
    by (rule keys_alist_set)
  with 2 show ?case by auto
qed simp

lemma input_set_input [simp]: "input (set_input k v t) k' = (if k' = k then v else input t k')"
  by (simp add: input_def set_input_def)

lemma tx_Method_set_input [simp]: "tx_Method (set_input k v t) = tx_Method t"
  by (simp add: set_input_def)

lemma input_NewTxData [simp]: "input NewTxData k = []"
  by (simp add: input_def NewTxData_def)

lemma IsEmbeddedContract_iff: "IsEmbeddedContract a \<longleftrightarrow> a \<in> set EmbeddedContractAddresses"
  by (auto simp: IsEmbeddedContract_def list_ex_iff)

end
