(* ===== verification/Chain.thy ===== *)
theory Chain
  imports Models
begin

text \<open>
  What the indexer sees of the node and of the SDK: the fields it reads of the RPC structures,
  the answers of the ledger API, and the ABI tables of the embedded contracts. All of it is
  third-party code, so it enters the model as data and as functions that are arguments.
\<close>

subsection \<open>RPC structures\<close>

record header =
  h_Address :: address
  h_Hash :: hash

record momentum =
  m_Height :: int
  m_Hash :: hash
  m_TimestampUnix :: int
  m_Producer :: address
  m_Content :: "header list"

record token_info =
  ti_ZenonTokenStandard :: string
  ti_TokenName :: string
  ti_TokenSymbol :: string
  ti_TokenDomain :: string
  ti_Decimals :: int
  ti_Owner :: address
  ti_TotalSupply :: "int option"
  ti_MaxSupply :: "int option"
  ti_IsBurnable :: bool
  ti_IsMintable :: bool
  ti_IsUtility :: bool

record descendant =
  d_Hash :: hash
  d_ToAddress :: address
  d_Amount :: "int option"
  d_Data :: string

text \<open>An account block with its paired block; a nil \<open>*big.Int\<close> is \<open>None\<close>.\<close>

datatype block = Block
  (b_Hash: hash)
  (b_BlockType: int)
  (b_Height: int)
  (b_Address: address)
  (b_ToAddress: address)
  (b_Amount: "int option")
  (b_TokenStandard: string)
  (b_Data: string)
  (b_PublicKey: string)
  (b_PairedAccountBlock: "block option")
  (b_DescendantBlocks: "descendant list")
  (b_TokenInfo: "token_info option")

text \<open>The SDK's block types, with the values \<open>docs/reference/addresses.md\<close> lists.\<close>

definition BlockTypeGenesisReceive :: int where
  "BlockTypeGenesisReceive = 1"

definition BlockTypeUserSend :: int where
  "BlockTypeUserSend = 2"

definition BlockTypeUserReceive :: int where
  "BlockTypeUserReceive = 3"

definition BlockTypeContractSend :: int where
  "BlockTypeContractSend = 4"

definition BlockTypeContractReceive :: int where
  "BlockTypeContractReceive = 5"

lemmas block_type_defs = BlockTypeGenesisReceive_def BlockTypeUserSend_def BlockTypeUserReceive_def
  BlockTypeContractSend_def BlockTypeContractReceive_def

subsection \<open>ABI tables\<close>

text \<open>
  A decoded argument is a byte slice, a string, a hash, or a value of another type, which is
  given by what \<open>%v\<close> prints for it.
\<close>

datatype abi_arg = ABytes string | AString string | AHash hash | AOther string

record abi_entry =
  ae_IsFunction :: bool
  ae_Name :: string
  ae_Inputs :: "string list"
  ae_Signature :: string

record abi =
  abi_Entries :: "abi_entry list"
  abi_DecodeFunction :: "string \<Rightarrow> error + abi_arg list"
  abi_EncodeFunction :: "string \<Rightarrow> abi_arg list \<Rightarrow> error + string"

record sdk =
  sdk_Common :: "abi option"
  sdk_Plasma :: "abi option"
  sdk_Pillar :: "abi option"
  sdk_Token :: "abi option"
  sdk_Sentinel :: "abi option"
  sdk_Stake :: "abi option"
  sdk_Accelerator :: "abi option"
  sdk_Swap :: "abi option"
  sdk_Liquidity :: "abi option"
  sdk_Bridge :: "abi option"
  sdk_Htlc :: "abi option"
  sdk_HexToHash :: "string \<Rightarrow> error + hash"

subsection \<open>The ledger API\<close>

text \<open>
  The node's answers while one momentum is processed. \<open>BalanceInfoMap\<close> is \<open>None\<close> when nil, else
  its entries in the order the iteration meets them.
\<close>

record node =
  GetAccountBlockByHash :: "hash \<Rightarrow> error + block option"
  GetAccountInfoByAddress :: "address \<Rightarrow> error + (string \<times> int option) list option"

end
