(* ===== verification/Decoder.thy ===== *)
theory Decoder
  imports Chain
begin

text \<open>
  \<open>internal/indexer/decoder.go\<close>: finding the ABI entry of a call by its four-byte signature and
  formatting its arguments; and the derived ids of \<open>internal/indexer/indexer.go\<close> that encode and
  decode a call to compute a voting or cancel id.
\<close>

fun formatArg :: "abi_arg \<Rightarrow> string" where
  "formatArg (ABytes v) = v"
| "formatArg (AString v) = v"
| "formatArg (AHash v) = v"
| "formatArg (AOther v) = v"

definition matches_entry :: "string \<Rightarrow> abi_entry \<Rightarrow> bool" where
  "matches_entry data entry \<longleftrightarrow>
     ae_IsFunction entry \<and> 4 \<le> length (ae_Signature entry) \<and>
     take 4 data = take 4 (ae_Signature entry)"

definition decode_entry :: "string \<Rightarrow> abi \<Rightarrow> abi_entry \<Rightarrow> TxData" where
  "decode_entry data contractAbi entry =
     (let txData = NewTxData\<lparr> tx_Method := ae_Name entry \<rparr>
      in if ae_Inputs entry \<noteq> [] \<and> 4 < length data then
           (case abi_DecodeFunction contractAbi data of
              Inl err \<Rightarrow> txData
            | Inr args \<Rightarrow>
                fold (\<lambda>(name, arg) t. set_input name (formatArg arg) t)
                  (zip (ae_Inputs entry) args) txData)
         else txData)"

definition tryDecodeFromAbi :: "string \<Rightarrow> abi option \<Rightarrow> TxData option" where
  "tryDecodeFromAbi data contractAbi =
     (case contractAbi of
        None \<Rightarrow> None
      | Some a \<Rightarrow>
          if length data < 4 then None
          else map_option (decode_entry data a) (find (matches_entry data) (abi_Entries a)))"

text \<open>The contract-specific table, \<open>None\<close> for an address without one.\<close>

definition contract_abi :: "sdk \<Rightarrow> address \<Rightarrow> abi option" where
  "contract_abi sdk toAddress =
     (if toAddress = PlasmaAddress then sdk_Plasma sdk
      else if toAddress = PillarAddress then sdk_Pillar sdk
      else if toAddress = TokenAddress then sdk_Token sdk
      else if toAddress = SentinelAddress then sdk_Sentinel sdk
      else if toAddress = StakeAddress then sdk_Stake sdk
      else if toAddress = AcceleratorAddress then sdk_Accelerator sdk
      else if toAddress = SwapAddress then sdk_Swap sdk
      else if toAddress = LiquidityAddress then sdk_Liquidity sdk
      else if toAddress = BridgeAddress then sdk_Bridge sdk
      else if toAddress = HtlcAddress then sdk_Htlc sdk
      else None)"

definition named :: "TxData option \<Rightarrow> TxData option" where
  "named t = (case t of None \<Rightarrow> None | Some x \<Rightarrow> if tx_Method x = [] then None else Some x)"

definition tryDecodeTxData :: "sdk \<Rightarrow> block \<Rightarrow> TxData option" where
  "tryDecodeTxData sdk block =
     (if b_Data block = [] then None
      else if \<not> IsEmbeddedContract (b_ToAddress block) then None
      else
        (case named (tryDecodeFromAbi (b_Data block) (sdk_Common sdk)) of
           Some txData \<Rightarrow> Some txData
         | None \<Rightarrow> named (tryDecodeFromAbi (b_Data block) (contract_abi sdk (b_ToAddress block)))))"

subsection \<open>Voting and cancel ids\<close>

text \<open>
  The shared shape of \<open>getVotingID\<close>, \<open>getFusionCancelID\<close> and \<open>getStakeCancelID\<close>: encode the call,
  decode it again, take the first argument if it is a hash; fall back to the id at every error.
\<close>

definition roundtrip_id :: "sdk \<Rightarrow> abi option \<Rightarrow> string \<Rightarrow> (hash \<Rightarrow> abi_arg list) \<Rightarrow> string \<Rightarrow> string" where
  "roundtrip_id sdk contractAbi method args i =
     (case sdk_HexToHash sdk i of
        Inl err \<Rightarrow> i
      | Inr h \<Rightarrow>
          (case contractAbi of
             None \<Rightarrow> i
           | Some a \<Rightarrow>
               (case abi_EncodeFunction a method (args h) of
                  Inl err \<Rightarrow> i
                | Inr encoded \<Rightarrow>
                    (case abi_DecodeFunction a encoded of
                       Inl err \<Rightarrow> i
                     | Inr (AHash h' # _) \<Rightarrow> h'
                     | Inr _ \<Rightarrow> i))))"

definition getVotingID :: "sdk \<Rightarrow> string \<Rightarrow> string" where
  "getVotingID sdk i =
     roundtrip_id sdk (sdk_Accelerator sdk) ''VoteByName'' (\<lambda>h. [AHash h, AString [], AOther ''0'']) i"

definition getFusionCancelID :: "sdk \<Rightarrow> string \<Rightarrow> string" where
  "getFusionCancelID sdk i = roundtrip_id sdk (sdk_Plasma sdk) ''CancelFuse'' (\<lambda>h. [AHash h]) i"

definition getStakeCancelID :: "sdk \<Rightarrow> string \<Rightarrow> string" where
  "getStakeCancelID sdk i = roundtrip_id sdk (sdk_Stake sdk) ''Cancel'' (\<lambda>h. [AHash h]) i"

subsection \<open>What a successful decoding tells\<close>

lemma named_Some: "named t = Some x \<longleftrightarrow> t = Some x \<and> tx_Method x \<noteq> []"
  by (auto simp: named_def split: option.splits if_splits)

lemma tx_Method_fold [simp]:
  "tx_Method (fold (\<lambda>(name, arg) t. set_input name (formatArg arg) t) xs t) = tx_Method t"
  by (induction xs arbitrary: t) auto

lemma tx_Method_decode_entry [simp]: "tx_Method (decode_entry data a e) = ae_Name e"
  by (simp add: decode_entry_def Let_def split: sum.splits)

lemma keys_fold_inputs:
  "fst ` set (tx_Inputs (fold (\<lambda>(name, arg) t. set_input name (formatArg arg) t) xs t)) =
     fst ` set xs \<union> fst ` set (tx_Inputs t)"
proof (induction xs arbitrary: t)
  case (Cons x xs)
  then show ?case by (cases x) (simp add: set_input_def keys_alist_set)
qed simp

lemma distinct_fold_inputs:
  "distinct (map fst (tx_Inputs t)) \<Longrightarrow>
   distinct (map fst (tx_Inputs (fold (\<lambda>(name, arg) t. set_input name (formatArg arg) t) xs t)))"
  by (induction xs arbitrary: t) (auto simp: set_input_def distinct_alist_set)

lemma decode_entry_keys:
  "fst ` set (tx_Inputs (decode_entry data a e)) \<subseteq> set (ae_Inputs e)"
  "distinct (map fst (tx_Inputs (decode_entry data a e)))"
  by (auto simp: decode_entry_def Let_def keys_fold_inputs NewTxData_def dest: set_zip_leftD
      split: sum.splits intro!: distinct_fold_inputs)

lemma tryDecodeFromAbi_Some:
  assumes "tryDecodeFromAbi data (Some a) = Some t"
  obtains e where "e \<in> set (abi_Entries a)" "matches_entry data e" "t = decode_entry data a e"
proof -
  obtain e where "find (matches_entry data) (abi_Entries a) = Some e" "t = decode_entry data a e"
    using assms by (auto simp: tryDecodeFromAbi_def split: if_splits)
  then show thesis
    by (intro that [of e]) (auto simp: find_Some_iff)
qed

end
