(* ===== verification/Table.thy ===== *)
theory Table
  imports Prelude
begin

text \<open>
  The part of SQL the repositories use, on tables as lists of rows in insertion order:
  \<open>SELECT\<close> with \<open>WHERE\<close>, \<open>ORDER BY\<close>, \<open>LIMIT\<close> and \<open>OFFSET\<close>, \<open>COUNT\<close> and \<open>SUM\<close>, \<open>UPDATE .. WHERE\<close>,
  \<open>INSERT .. ON CONFLICT (key) DO NOTHING\<close> and \<open>INSERT .. ON CONFLICT (key) DO UPDATE\<close>. A statement
  that computes a \<open>BIGINT\<close> out of its range fails, as it does in Postgres, so updates return a
  result. A \<open>SERIAL\<close> column is the position of the row; ties of an \<open>ORDER BY\<close> are broken by
  insertion order.

  The locale \<open>upsert_table\<close> is the contract of one upserted table: a key and a merge of the
  stored row with the excluded one that keeps the key. Its lemmas (key set, uniqueness of
  keys, lookup after an upsert) are proved once and interpreted for every table of the schema.
\<close>

datatype sql_error =
    BigintOutOfRange
  | ParameterRejected
  | InvalidJson
  | NotifyTooLong
  | NegativeLimit
  | NegativeOffset
  | NoRows
  | Required string
  | ConnectionLost

subsection \<open>Reading\<close>

definition count_where :: "('r \<Rightarrow> bool) \<Rightarrow> 'r list \<Rightarrow> int" where
  "count_where P t = int (length (filter P t))"

definition sum_where :: "('r \<Rightarrow> bool) \<Rightarrow> ('r \<Rightarrow> int) \<Rightarrow> 'r list \<Rightarrow> int" where
  "sum_where P f t = sum_list (map f (filter P t))"

definition find_by :: "('r \<Rightarrow> 'k) \<Rightarrow> 'k \<Rightarrow> 'r list \<Rightarrow> 'r option" where
  "find_by key k t = find (\<lambda>r. key r = k) t"

text \<open>\<open>WHERE P ORDER BY id DESC LIMIT 1\<close>: the row inserted last among those that match.\<close>

definition last_where :: "('r \<Rightarrow> bool) \<Rightarrow> 'r list \<Rightarrow> 'r option" where
  "last_where P t = find P (rev t)"

definition order_asc :: "('r \<Rightarrow> 'k::linorder) \<Rightarrow> 'r list \<Rightarrow> 'r list" where
  "order_asc f t = sort_key f t"

definition order_desc :: "('r \<Rightarrow> int) \<Rightarrow> 'r list \<Rightarrow> 'r list" where
  "order_desc f t = sort_key (\<lambda>r. - f r) t"

text \<open>Postgres refuses a negative \<open>LIMIT\<close> or \<open>OFFSET\<close>.\<close>

definition limit_offset :: "int \<Rightarrow> int \<Rightarrow> 'r list \<Rightarrow> sql_error + 'r list" where
  "limit_offset lim off t =
     (if lim < 0 then Inl NegativeLimit
      else if off < 0 then Inl NegativeOffset
      else Inr (take (nat lim) (drop (nat off) t)))"

text \<open>\<open>QueryRow(..).Scan(..)\<close>: \<open>pgx.ErrNoRows\<close> when nothing matches.\<close>

definition row_or_none :: "'r option \<Rightarrow> sql_error + 'r" where
  "row_or_none r = (case r of None \<Rightarrow> Inl NoRows | Some x \<Rightarrow> Inr x)"

lemma row_or_none_simps [simp]:
  "row_or_none None = Inl NoRows"
  "row_or_none (Some x) = Inr x"
  "row_or_none r = Inr x \<longleftrightarrow> r = Some x"
  by (auto simp: row_or_none_def split: option.splits)

text \<open>\<open>SELECT MAX(f)\<close>: \<open>NULL\<close> on an empty table.\<close>

definition max_of :: "('r \<Rightarrow> int) \<Rightarrow> 'r list \<Rightarrow> int option" where
  "max_of f t = (if t = [] then None else Some (Max (set (map f t))))"

subsection \<open>Writing\<close>

definition update_where :: "('r \<Rightarrow> bool) \<Rightarrow> ('r \<Rightarrow> 'r) \<Rightarrow> 'r list \<Rightarrow> 'r list" where
  "update_where P f t = map (\<lambda>r. if P r then f r else r) t"

fun map_result :: "('r \<Rightarrow> sql_error + 's) \<Rightarrow> 'r list \<Rightarrow> sql_error + 's list" where
  "map_result f [] = Inr []"
| "map_result f (r # rs) =
     (case f r of
        Inl e \<Rightarrow> Inl e
      | Inr r' \<Rightarrow> (case map_result f rs of Inl e \<Rightarrow> Inl e | Inr rs' \<Rightarrow> Inr (r' # rs')))"

definition update_chk :: "('r \<Rightarrow> bool) \<Rightarrow> ('r \<Rightarrow> sql_error + 'r) \<Rightarrow> 'r list \<Rightarrow> sql_error + 'r list" where
  "update_chk P f t = map_result (\<lambda>r. if P r then f r else Inr r) t"

definition insert_ignore :: "('r \<Rightarrow> 'k) \<Rightarrow> 'r \<Rightarrow> 'r list \<Rightarrow> 'r list" where
  "insert_ignore key r t = (if \<exists>x\<in>set t. key x = key r then t else t @ [r])"

definition upsert :: "('r \<Rightarrow> 'k) \<Rightarrow> ('r \<Rightarrow> 'r \<Rightarrow> sql_error + 'r) \<Rightarrow> 'r \<Rightarrow> 'r list \<Rightarrow> sql_error + 'r list" where
  "upsert key merge r t =
     (if \<exists>x\<in>set t. key x = key r then update_chk (\<lambda>x. key x = key r) (\<lambda>x. merge x r) t
      else Inr (t @ [r]))"

definition add_bigint :: "int \<Rightarrow> int \<Rightarrow> sql_error + int" where
  "add_bigint a b = (if fits_int64 (a + b) then Inr (a + b) else Inl BigintOutOfRange)"

definition map_Inr :: "('a \<Rightarrow> 'b) \<Rightarrow> sql_error + 'a \<Rightarrow> sql_error + 'b" where
  "map_Inr f x = (case x of Inl e \<Rightarrow> Inl e | Inr v \<Rightarrow> Inr (f v))"

lemma map_Inr_Inr [simp]: "map_Inr f (Inr v) = Inr (f v)"
  and map_Inr_Inl [simp]: "map_Inr f (Inl e) = Inl e"
  and map_Inr_eq_Inr: "map_Inr f x = Inr y \<longleftrightarrow> (\<exists>v. x = Inr v \<and> y = f v)"
  by (auto simp: map_Inr_def split: sum.splits)

lemma add_bigint_Inr: "add_bigint a b = Inr c \<longleftrightarrow> c = a + b \<and> fits_int64 (a + b)"
  by (auto simp: add_bigint_def)

subsection \<open>Counting and summing\<close>

lemma count_where_simps [simp]:
  "count_where P [] = 0"
  "count_where P (xs @ ys) = count_where P xs + count_where P ys"
  "count_where P (x # xs) = (if P x then 1 else 0) + count_where P xs"
  by (simp_all add: count_where_def)

lemma sum_where_simps [simp]:
  "sum_where P f [] = 0"
  "sum_where P f (xs @ ys) = sum_where P f xs + sum_where P f ys"
  "sum_where P f (x # xs) = (if P x then f x else 0) + sum_where P f xs"
  by (simp_all add: sum_where_def)

lemma count_where_nonneg [simp]: "0 \<le> count_where P t"
  by (simp add: count_where_def)

lemma count_where_map:
  "(\<And>r. r \<in> set t \<Longrightarrow> P (f r) = P r) \<Longrightarrow> count_where P (map f t) = count_where P t"
  by (induction t) auto

lemma count_where_zero: "(\<And>r. r \<in> set t \<Longrightarrow> \<not> P r) \<Longrightarrow> count_where P t = 0"
  by (induction t) auto

subsection \<open>Rows behind a checked update\<close>

lemma map_result_Inr:
  "map_result f t = Inr t' \<longleftrightarrow> list_all2 (\<lambda>r r'. f r = Inr r') t t'"
proof (induction t arbitrary: t')
  case Nil
  then show ?case by auto
next
  case (Cons r t)
  show ?case
    by (cases t'; cases "f r"; cases "map_result f t") (auto simp: Cons.IH [symmetric])
qed

definition updated_row :: "('r \<Rightarrow> bool) \<Rightarrow> ('r \<Rightarrow> sql_error + 'r) \<Rightarrow> 'r \<Rightarrow> 'r \<Rightarrow> bool" where
  "updated_row P f r r' \<longleftrightarrow> (if P r then f r = Inr r' else r' = r)"

lemma update_chk_Inr: "update_chk P f t = Inr t' \<longleftrightarrow> list_all2 (updated_row P f) t t'"
proof -
  have "(\<lambda>r r'. (if P r then f r else Inr r) = Inr r') = updated_row P f"
    by (auto simp: updated_row_def fun_eq_iff)
  then show ?thesis by (simp add: update_chk_def map_result_Inr)
qed

lemma list_all2_map_eq:
  "list_all2 R t t' \<Longrightarrow> (\<And>r r'. r \<in> set t \<Longrightarrow> R r r' \<Longrightarrow> g r' = g r) \<Longrightarrow> map g t' = map g t"
  by (induction rule: list_all2_induct) auto

lemma find_by_simps [simp]:
  "find_by key k [] = None"
  "find_by key k (r # t) = (if key r = k then Some r else find_by key k t)"
  by (simp_all add: find_by_def)

lemma find_by_append:
  "find_by key k (xs @ ys) = (case find_by key k xs of None \<Rightarrow> find_by key k ys | Some r \<Rightarrow> Some r)"
  by (induction xs) auto

lemma find_by_None: "find_by key k t = None \<longleftrightarrow> (\<forall>x\<in>set t. key x \<noteq> k)"
  by (induction t) auto

lemma find_by_Some: "find_by key k t = Some r \<Longrightarrow> r \<in> set t \<and> key r = k"
  by (induction t) (auto split: if_splits)

lemma find_by_distinct:
  "distinct (map key t) \<Longrightarrow> r \<in> set t \<Longrightarrow> find_by key (key r) t = Some r"
  by (induction t) (auto simp: image_iff)

lemma find_by_list_all2:
  assumes "list_all2 R t t'"
    and "\<And>r r'. r \<in> set t \<Longrightarrow> R r r' \<Longrightarrow> key r' = key r"
  shows "rel_option R (find_by key k t) (find_by key k t')"
  using assms
proof (induction rule: list_all2_induct)
  case (Cons x xs y ys)
  have k: "key y = key x"
    using Cons.hyps(1) by (intro Cons.prems) simp_all
  have "rel_option R (find_by key k xs) (find_by key k ys)"
    by (rule Cons.IH) (rule Cons.prems, simp_all)
  with k Cons.hyps(1) show ?case by simp
qed simp

lemma list_all2_find_by:
  assumes "list_all2 R t t'"
    and "\<And>r r'. r \<in> set t \<Longrightarrow> R r r' \<Longrightarrow> key r' = key r"
    and "find_by key k t = Some r"
  shows "\<exists>r'. find_by key k t' = Some r' \<and> R r r'"
proof -
  have "rel_option R (find_by key k t) (find_by key k t')"
    using assms(1,2) by (rule find_by_list_all2)
  with assms(3) show ?thesis by (cases "find_by key k t'") auto
qed

lemma update_where_length [simp]: "length (update_where P f t) = length t"
  by (simp add: update_where_def)

lemma update_where_simps [simp]:
  "update_where P f [] = []"
  "update_where P f (r # t) = (if P r then f r else r) # update_where P f t"
  "update_where P f (s @ t) = update_where P f s @ update_where P f t"
  by (simp_all add: update_where_def)

lemma map_update_where:
  "(\<And>r. r \<in> set t \<Longrightarrow> P r \<Longrightarrow> g (f r) = g r) \<Longrightarrow> map g (update_where P f t) = map g t"
  by (simp add: update_where_def)

lemma update_where_none: "(\<And>r. r \<in> set t \<Longrightarrow> \<not> P r) \<Longrightarrow> update_where P f t = t"
  by (simp add: update_where_def map_idI)

lemma find_by_update_where:
  "(\<And>r. r \<in> set t \<Longrightarrow> key (f r) = key r) \<Longrightarrow>
   find_by key k (update_where P f t) =
     map_option (\<lambda>r. if P r then f r else r) (find_by key k t)"
  by (induction t) auto

subsection \<open>Inserts that ignore conflicts\<close>

lemma insert_ignore_fresh: "find_by key (key r) t = None \<Longrightarrow> insert_ignore key r t = t @ [r]"
  by (auto simp: insert_ignore_def find_by_None)

lemma insert_ignore_known: "find_by key (key r) t \<noteq> None \<Longrightarrow> insert_ignore key r t = t"
  by (auto simp: insert_ignore_def find_by_None)

lemma distinct_insert_ignore:
  "distinct (map key t) \<Longrightarrow> distinct (map key (insert_ignore key r t))"
  by (auto simp: insert_ignore_def)

lemma find_by_insert_ignore:
  "find_by key k (insert_ignore key r t) =
     (case find_by key k t of
        Some x \<Rightarrow> Some x
      | None \<Rightarrow> if key r = k then Some r else None)"
proof (cases "find_by key (key r) t")
  case None
  then show ?thesis
    by (auto simp: insert_ignore_fresh find_by_append split: option.splits)
next
  case (Some x)
  then show ?thesis
    by (auto simp: insert_ignore_known split: option.splits)
qed

lemma insert_ignore_idem: "insert_ignore key r (insert_ignore key r t) = insert_ignore key r t"
  by (auto simp: insert_ignore_def)

lemma set_insert_ignore: "set t \<subseteq> set (insert_ignore key r t)"
  by (auto simp: insert_ignore_def)

subsection \<open>The contract of an upserted table\<close>

locale upsert_table =
  fixes key :: "'r \<Rightarrow> 'k" and merge :: "'r \<Rightarrow> 'r \<Rightarrow> sql_error + 'r"
  assumes key_merge: "merge old new = Inr m \<Longrightarrow> key m = key old"
begin

lemma updated_key: "updated_row (\<lambda>x. key x = key r) (\<lambda>x. merge x r) x y \<Longrightarrow> key y = key x"
  by (auto simp: updated_row_def dest: key_merge split: if_splits)

lemma upsert_rows:
  assumes "upsert key merge r t = Inr t'"
  shows "(find_by key (key r) t = None \<and> t' = t @ [r]) \<or>
    (find_by key (key r) t \<noteq> None \<and>
     list_all2 (updated_row (\<lambda>x. key x = key r) (\<lambda>x. merge x r)) t t')"
  using assms by (auto simp: upsert_def update_chk_Inr find_by_None split: if_splits)

lemma keys_upsert:
  assumes "upsert key merge r t = Inr t'"
  shows "map key t' = (if find_by key (key r) t = None then map key t @ [key r] else map key t)"
  using upsert_rows [OF assms]
proof
  assume *: "find_by key (key r) t \<noteq> None \<and>
     list_all2 (updated_row (\<lambda>x. key x = key r) (\<lambda>x. merge x r)) t t'"
  then have "map key t' = map key t"
    by (blast intro: list_all2_map_eq updated_key)
  with * show ?thesis by simp
qed simp

lemma distinct_upsert:
  assumes "upsert key merge r t = Inr t'" and "distinct (map key t)"
  shows "distinct (map key t')"
  using keys_upsert [OF assms(1)] assms(2) by (auto simp: find_by_None)

lemma find_upsert_other:
  assumes u: "upsert key merge r t = Inr t'" and k: "k \<noteq> key r"
  shows "find_by key k t' = find_by key k t"
  using upsert_rows [OF u]
proof
  assume "find_by key (key r) t = None \<and> t' = t @ [r]"
  with k show ?thesis by (auto simp: find_by_append split: option.splits)
next
  assume "find_by key (key r) t \<noteq> None \<and>
     list_all2 (updated_row (\<lambda>x. key x = key r) (\<lambda>x. merge x r)) t t'"
  then have l: "list_all2 (updated_row (\<lambda>x. key x = key r) (\<lambda>x. merge x r)) t t'" by simp
  have "rel_option (updated_row (\<lambda>x. key x = key r) (\<lambda>x. merge x r))
      (find_by key k t) (find_by key k t')"
    using l updated_key by (rule find_by_list_all2)
  with k show ?thesis
    by (cases "find_by key k t"; cases "find_by key k t'")
       (auto simp: updated_row_def dest!: find_by_Some)
qed

lemma find_upsert_fresh:
  assumes "upsert key merge r t = Inr t'" and "find_by key (key r) t = None"
  shows "find_by key (key r) t' = Some r"
  using upsert_rows [OF assms(1)] assms(2) by (auto simp: find_by_append)

lemma find_upsert_known:
  assumes u: "upsert key merge r t = Inr t'" and s: "find_by key (key r) t = Some old"
  shows "\<exists>m. merge old r = Inr m \<and> find_by key (key r) t' = Some m"
proof -
  have l: "list_all2 (updated_row (\<lambda>x. key x = key r) (\<lambda>x. merge x r)) t t'"
    using upsert_rows [OF u] s by auto
  have "\<exists>m. find_by key (key r) t' = Some m \<and>
      updated_row (\<lambda>x. key x = key r) (\<lambda>x. merge x r) old m"
    using l updated_key s by (rule list_all2_find_by)
  then show ?thesis
    using find_by_Some [OF s] by (auto simp: updated_row_def)
qed

end

end
