(* ===== verification/Paging.thy ===== *)
theory Paging
  imports Table
begin

text \<open>
  Paginated listing, \<open>internal/repository/list.go\<close>. Every \<open>List*\<close> method of the repositories
  runs one \<open>SELECT .. COUNT(*) OVER () .. LIMIT .. OFFSET\<close> and falls back to a separate count
  when the page is empty past the first one. The locale \<open>listing\<close> is the contract the HTTP
  handlers rely on: which rows a listing ranges over, and that the method is \<open>paged\<close> of them.
\<close>

record ListOpts =
  lo_Limit :: int
  lo_Offset :: int
  lo_Sort :: string

definition orderClause :: "string \<Rightarrow> string" where
  "orderClause s = (if s = ''asc'' then ''ASC'' else ''DESC'')"

definition order_by :: "string \<Rightarrow> ('r \<Rightarrow> int) \<Rightarrow> 'r list \<Rightarrow> 'r list" where
  "order_by clause f t = (if clause = ''ASC'' then order_asc f t else order_desc f t)"

definition fallbackCount :: "'r list \<Rightarrow> int" where
  "fallbackCount t = int (length t)"

text \<open>
  The shared body of the \<open>List*\<close> methods over the matching rows in their order: each row of the
  page carries the window total, so an empty page leaves the total at its zero value unless the
  fallback query runs.
\<close>

definition paged :: "'r list \<Rightarrow> ListOpts \<Rightarrow> sql_error + 'r list \<times> int" where
  "paged t opts =
     (case limit_offset (lo_Limit opts) (lo_Offset opts) t of
        Inl e \<Rightarrow> Inl e
      | Inr out \<Rightarrow>
          let total = (if out = [] then 0 else int (length t))
          in if out = [] \<and> 0 < lo_Offset opts then Inr (out, fallbackCount t)
             else Inr (out, total))"

lemma set_order_asc [simp]: "set (order_asc f t) = set t"
  and set_order_desc [simp]: "set (order_desc g t) = set t"
  and length_order_asc [simp]: "length (order_asc f t) = length t"
  and length_order_desc [simp]: "length (order_desc g t) = length t"
  by (simp_all add: order_asc_def order_desc_def)

lemma set_order_by [simp]: "set (order_by c f t) = set t"
  and length_order_by [simp]: "length (order_by c f t) = length t"
  by (simp_all add: order_by_def)

lemma sorted_order_asc: "sorted (map f (order_asc f t))"
  by (simp add: order_asc_def)

lemma sorted_order_desc: "sorted (map (\<lambda>r. - f r) (order_desc f t))"
  by (simp add: order_desc_def)

lemma hd_order_desc: "order_desc f t = m # ms \<Longrightarrow> r \<in> set t \<Longrightarrow> f r \<le> f m"
  using sorted_order_desc [of f t] set_order_desc [of f t] by auto

lemma paged_rows:
  "0 \<le> lo_Limit opts \<Longrightarrow> 0 \<le> lo_Offset opts \<Longrightarrow>
   \<exists>total. paged t opts =
     Inr (take (nat (lo_Limit opts)) (drop (nat (lo_Offset opts)) t), total)"
  by (auto simp: paged_def limit_offset_def Let_def)

lemma paged_total:
  "0 < lo_Limit opts \<Longrightarrow> 0 \<le> lo_Offset opts \<Longrightarrow>
   paged t opts =
     Inr (take (nat (lo_Limit opts)) (drop (nat (lo_Offset opts)) t), int (length t))"
  by (cases "lo_Offset opts = 0")
     (auto simp: paged_def limit_offset_def Let_def fallbackCount_def)

lemma concat_pages:
  "0 < n \<Longrightarrow> length t \<le> k * n \<Longrightarrow>
   concat (map (\<lambda>p. take n (drop (p * n) t)) [0..<k]) = t"
proof (induction k arbitrary: t)
  case (Suc k)
  have "concat (map (\<lambda>p. take n (drop (p * n) (drop n t))) [0..<k]) = drop n t"
    using Suc.prems by (intro Suc.IH) auto
  moreover have "[0..<Suc k] = 0 # map Suc [0..<k]"
    by (simp add: upt_conv_Cons map_Suc_upt)
  ultimately show ?case
    by (simp add: comp_def add.commute)
qed simp

text \<open>The contract of a listing method: \<open>list args\<close> serves pages of \<open>rows args\<close>.\<close>

locale listing =
  fixes rows :: "'a \<Rightarrow> string \<Rightarrow> 'd \<Rightarrow> 'r list"
    and listf :: "'a \<Rightarrow> ListOpts \<Rightarrow> 'd \<Rightarrow> sql_error + 'r list \<times> int"
    and valid :: "'a \<Rightarrow> bool"
  assumes serves: "valid a \<Longrightarrow> listf a opts d = paged (rows a (lo_Sort opts) d) opts"
begin

lemma page_total:
  assumes "valid a" "0 < lo_Limit opts" "0 \<le> lo_Offset opts"
  shows "\<exists>out. listf a opts d = Inr (out, int (length (rows a (lo_Sort opts) d))) \<and>
    int (length out) \<le> lo_Limit opts \<and> set out \<subseteq> set (rows a (lo_Sort opts) d)"
  using assms
  by (auto simp: serves paged_total dest!: set_mp [OF set_take_subset] set_mp [OF set_drop_subset])

lemma pages_complete:
  assumes "valid a" and n: "0 < n" and k: "length (rows a s d) \<le> k * n"
  shows "concat (map (\<lambda>p. fst (projr (listf a
      \<lparr> lo_Limit = int n, lo_Offset = int (p * n), lo_Sort = s \<rparr> d))) [0..<k]) = rows a s d"
proof -
  have "fst (projr (listf a \<lparr> lo_Limit = int n, lo_Offset = int (p * n), lo_Sort = s \<rparr> d))
      = take n (drop (p * n) (rows a s d))" for p
    using assms(1) n by (simp add: serves paged_total nat_mult_distrib)
  then show ?thesis
    using concat_pages [OF n k] by simp
qed

end

end
