(* ===== verification/Store.thy ===== *)
theory Store
  imports Models Paging
begin

text \<open>
  The database the repositories share (\<open>migrations/*.up.sql\<close>): one table per migration as the
  list of its rows in insertion order, the singleton tables as optional rows, and the
  notifications delivered so far on the channels of \<open>pg_notify\<close>. A repository operation that
  writes is a function \<open>db \<Rightarrow> sql_error + db\<close>, a read a function of the \<open>db\<close>; failures of the
  connection are added by the callers. A \<open>SELECT\<close> with no \<open>ORDER BY\<close> returns table order.
\<close>

record db =
  momentums :: "Momentum list"
  accounts :: "Account list"
  balances :: "Balance list"
  account_blocks :: "AccountBlock list"
  tokens :: "Token list"
  token_mints :: "TokenMint list"
  token_burns :: "TokenBurn list"
  pillars :: "Pillar list"
  pillar_updates :: "PillarUpdate list"
  delegations :: "Delegation list"
  sentinels :: "Sentinel list"
  stakes :: "Stake list"
  fusions :: "Fusion list"
  htlcs :: "Htlc list"
  swap_retrievals :: "SwapRetrieval list"
  swap_assets :: "SwapAsset list"
  projects :: "Project list"
  project_phases :: "ProjectPhase list"
  votes :: "Vote list"
  cumulative_rewards :: "CumulativeReward list"
  reward_transactions :: "RewardTransaction list"
  wrap_token_requests :: "WrapTokenRequest list"
  unwrap_token_requests :: "UnwrapTokenRequest list"
  bridge_networks :: "BridgeNetwork list"
  bridge_network_tokens :: "BridgeNetworkToken list"
  bridge_guardians :: "BridgeGuardian list"
  bridge_time_challenges :: "BridgeTimeChallenge list"
  bridge_admin :: "BridgeAdmin option"
  bridge_orchestrator_info :: "BridgeOrchestratorInfo option"
  bridge_security_info :: "BridgeSecurityInfo option"
  network_stat_histories :: "NetworkStatHistory list"
  token_stat_histories :: "TokenStatHistory list"
  pillar_stat_histories :: "PillarStatHistory list"
  bridge_stat_histories :: "BridgeStatHistory list"
  indexer_sync_status :: "SyncStatus option"
  notifications :: "(string \<times> string) list"

definition empty_db :: db where
  "empty_db = \<lparr> momentums = [], accounts = [], balances = [], account_blocks = [], tokens = [],
     token_mints = [], token_burns = [], pillars = [], pillar_updates = [], delegations = [],
     sentinels = [], stakes = [], fusions = [], htlcs = [], swap_retrievals = [], swap_assets = [],
     projects = [], project_phases = [], votes = [], cumulative_rewards = [],
     reward_transactions = [], wrap_token_requests = [], unwrap_token_requests = [],
     bridge_networks = [], bridge_network_tokens = [], bridge_guardians = [],
     bridge_time_challenges = [], bridge_admin = None, bridge_orchestrator_info = None,
     bridge_security_info = None, network_stat_histories = [], token_stat_histories = [],
     pillar_stat_histories = [], bridge_stat_histories = [], indexer_sync_status = None,
     notifications = [] \<rparr>"

subsection \<open>Composite keys\<close>

definition balance_key :: "Balance \<Rightarrow> string \<times> string" where
  "balance_key b = (ba_Address b, ba_TokenStandard b)"

definition vote_key :: "Vote \<Rightarrow> string \<times> string" where
  "vote_key v = (vo_VoterAddress v, vo_VotingID v)"

definition reward_key :: "CumulativeReward \<Rightarrow> string \<times> RewardType \<times> string" where
  "reward_key c = (cr_Address c, cr_RewardType c, cr_TokenStandard c)"

definition unwrap_key :: "UnwrapTokenRequest \<Rightarrow> string \<times> int" where
  "unwrap_key u = (ur_TransactionHash u, ur_LogIndex u)"

definition network_key :: "BridgeNetwork \<Rightarrow> int \<times> int" where
  "network_key n = (bn_NetworkClass n, bn_ChainID n)"

definition network_token_key :: "BridgeNetworkToken \<Rightarrow> int \<times> int \<times> string" where
  "network_token_key t = (bt_NetworkClass t, bt_ChainID t, bt_TokenStandard t)"

definition token_stat_key :: "TokenStatHistory \<Rightarrow> string \<times> string" where
  "token_stat_key s = (ts_Date s, ts_TokenStandard s)"

definition pillar_stat_key :: "PillarStatHistory \<Rightarrow> string \<times> string" where
  "pillar_stat_key s = (ps_Date s, ps_PillarOwnerAddress s)"

definition bridge_stat_key :: "BridgeStatHistory \<Rightarrow> string \<times> int \<times> int \<times> string" where
  "bridge_stat_key s = (bh_Date s, bh_NetworkClass s, bh_ChainID s, bh_TokenStandard s)"

lemmas key_defs = balance_key_def vote_key_def reward_key_def unwrap_key_def network_key_def
  network_token_key_def token_stat_key_def pillar_stat_key_def bridge_stat_key_def

subsection \<open>The constraints of the schema\<close>

text \<open>Primary keys and unique indexes of the tables the per-momentum batch writes.\<close>

definition db_keys :: "db \<Rightarrow> bool" where
  "db_keys d \<longleftrightarrow>
     distinct (map mo_Height (momentums d)) \<and>
     distinct (map ac_Address (accounts d)) \<and>
     distinct (map balance_key (balances d)) \<and>
     distinct (map ab_Hash (account_blocks d)) \<and>
     distinct (map tk_TokenStandard (tokens d)) \<and>
     distinct (map tm_AccountBlockHash (token_mints d)) \<and>
     distinct (map tb_AccountBlockHash (token_burns d)) \<and>
     distinct (map pl_OwnerAddress (pillars d)) \<and>
     distinct (map se_Owner (sentinels d)) \<and>
     distinct (map st_ID (stakes d)) \<and>
     distinct (map fu_ID (fusions d)) \<and>
     distinct (map ht_ID (htlcs d)) \<and>
     distinct (map sr_ID (swap_retrievals d)) \<and>
     distinct (map vote_key (votes d)) \<and>
     distinct (map reward_key (cumulative_rewards d)) \<and>
     distinct (map rt_Hash (reward_transactions d))"

lemma db_keys_empty: "db_keys empty_db"
  by (simp add: db_keys_def empty_db_def)

text \<open>A counter column seen as a function of the key: 0 where there is no row.\<close>

definition counter :: "('r \<Rightarrow> 'k) \<Rightarrow> ('r \<Rightarrow> int) \<Rightarrow> 'k \<Rightarrow> 'r list \<Rightarrow> int" where
  "counter key obs k t = (case find_by key k t of None \<Rightarrow> 0 | Some r \<Rightarrow> obs r)"

context upsert_table
begin

lemma counter_upsert:
  assumes u: "upsert key merge r t = Inr t'"
    and m: "\<And>old m. merge old r = Inr m \<Longrightarrow> obs m = obs old + delta"
    and r: "obs r = delta"
  shows "counter key obs k t' = counter key obs k t + (if k = key r then delta else 0)"
proof (cases "k = key r")
  case False
  then show ?thesis by (simp add: counter_def find_upsert_other [OF u])
next
  case True
  show ?thesis
  proof (cases "find_by key (key r) t")
    case None
    then show ?thesis by (simp add: True counter_def find_upsert_fresh [OF u] r)
  next
    case (Some old)
    obtain x where "merge old r = Inr x" "find_by key (key r) t' = Some x"
      using find_upsert_known [OF u Some] by blast
    then show ?thesis by (simp add: True counter_def Some m)
  qed
qed

end

lemma counter_update_where:
  assumes "\<And>r. key (f r) = key r" and "\<And>r. obs (f r) = obs r"
  shows "counter key obs k (update_where P f t) = counter key obs k t"
  by (simp add: counter_def find_by_update_where assms split: option.splits)

end
