(* ===== verification/Repo_Account.thy ===== *)
theory Repo_Account
  imports Store
begin

text \<open>
  \<open>internal/repository/account.go\<close> and \<open>balance.go\<close>: the account rows with their flow, activity
  and transaction counters, and the balance snapshots. Every write has a direct form and a form
  that queues the same SQL on a batch; both run the operation defined here.
\<close>

subsection \<open>Accounts\<close>

text \<open>A row with the column defaults of the schema.\<close>

definition new_account :: "address \<Rightarrow> Account" where
  "new_account a = \<lparr> ac_Address = a, ac_BlockCount = 0, ac_PublicKey = [], ac_Delegate = [],
     ac_DelegationStartTimestamp = 0, ac_GenesisZnnBalance = 0, ac_GenesisQsrBalance = 0,
     ac_ZnnSent = 0, ac_ZnnReceived = 0, ac_QsrSent = 0, ac_QsrReceived = 0,
     ac_FirstActiveAt = None, ac_LastActiveAt = None, ac_FirstSeen = None, ac_LastSeen = None,
     ac_TxCount = 0 \<rparr>"

text \<open>\<open>LEAST(COALESCE(x, y), y)\<close> and \<open>GREATEST(COALESCE(x, y), y)\<close> on nullable columns.\<close>

definition least_ts :: "int option \<Rightarrow> int option \<Rightarrow> int option" where
  "least_ts x y =
     (case (x, y) of
        (None, _) \<Rightarrow> y | (Some a, None) \<Rightarrow> Some a | (Some a, Some b) \<Rightarrow> Some (min a b))"

definition greatest_ts :: "int option \<Rightarrow> int option \<Rightarrow> int option" where
  "greatest_ts x y =
     (case (x, y) of
        (None, _) \<Rightarrow> y | (Some a, None) \<Rightarrow> Some a | (Some a, Some b) \<Rightarrow> Some (max a b))"

definition merge_account :: "Account \<Rightarrow> Account \<Rightarrow> sql_error + Account" where
  "merge_account old new =
     Inr (old\<lparr> ac_BlockCount := ac_BlockCount new,
       ac_PublicKey := (if ac_PublicKey new = [] then ac_PublicKey old else ac_PublicKey new) \<rparr>)"

definition Account_Upsert :: "Account \<Rightarrow> db \<Rightarrow> sql_error + db" where
  "Account_Upsert a d =
     map_Inr (\<lambda>t. d\<lparr> accounts := t \<rparr>)
       (upsert ac_Address merge_account
          ((new_account (ac_Address a))
             \<lparr> ac_BlockCount := ac_BlockCount a, ac_PublicKey := ac_PublicKey a \<rparr>)
          (accounts d))"

definition flowColumn :: "string \<Rightarrow> string \<Rightarrow> string" where
  "flowColumn tokenStandard direction =
     (if tokenStandard = ZnnTokenStandard then
        (if direction = ''sent'' then ''znn_sent'' else ''znn_received'')
      else if tokenStandard = QsrTokenStandard then
        (if direction = ''sent'' then ''qsr_sent'' else ''qsr_received'')
      else [])"

text \<open>The column of \<open>accounts\<close> that a name of \<open>flowColumn\<close> denotes.\<close>

definition get_col :: "string \<Rightarrow> Account \<Rightarrow> int" where
  "get_col col a =
     (if col = ''znn_sent'' then ac_ZnnSent a
      else if col = ''znn_received'' then ac_ZnnReceived a
      else if col = ''qsr_sent'' then ac_QsrSent a
      else if col = ''qsr_received'' then ac_QsrReceived a else 0)"

definition set_col :: "string \<Rightarrow> int \<Rightarrow> Account \<Rightarrow> Account" where
  "set_col col v a =
     (if col = ''znn_sent'' then a\<lparr> ac_ZnnSent := v \<rparr>
      else if col = ''znn_received'' then a\<lparr> ac_ZnnReceived := v \<rparr>
      else if col = ''qsr_sent'' then a\<lparr> ac_QsrSent := v \<rparr>
      else if col = ''qsr_received'' then a\<lparr> ac_QsrReceived := v \<rparr> else a)"

definition merge_active :: "Account \<Rightarrow> Account \<Rightarrow> Account" where
  "merge_active old new =
     old\<lparr> ac_FirstActiveAt := least_ts (ac_FirstActiveAt old) (ac_FirstActiveAt new),
       ac_LastActiveAt := greatest_ts (ac_LastActiveAt old) (ac_LastActiveAt new) \<rparr>"

definition merge_flow :: "string \<Rightarrow> Account \<Rightarrow> Account \<Rightarrow> sql_error + Account" where
  "merge_flow col old new =
     (if col = [] then Inr (merge_active old new)
      else map_Inr (\<lambda>v. merge_active (set_col col v old) new)
             (add_bigint (get_col col old) (get_col col new)))"

definition add_flow :: "string \<Rightarrow> address \<Rightarrow> int \<Rightarrow> int \<Rightarrow> db \<Rightarrow> sql_error + db" where
  "add_flow col address amount timestamp d =
     map_Inr (\<lambda>t. d\<lparr> accounts := t \<rparr>)
       (upsert ac_Address (merge_flow col)
          (set_col col amount ((new_account address)
             \<lparr> ac_FirstActiveAt := Some timestamp, ac_LastActiveAt := Some timestamp \<rparr>))
          (accounts d))"

definition Account_AddSend :: "address \<Rightarrow> string \<Rightarrow> int \<Rightarrow> int \<Rightarrow> db \<Rightarrow> sql_error + db" where
  "Account_AddSend address tokenStandard amount timestamp d =
     add_flow (flowColumn tokenStandard ''sent'') address amount timestamp d"

definition Account_AddReceive :: "address \<Rightarrow> string \<Rightarrow> int \<Rightarrow> int \<Rightarrow> db \<Rightarrow> sql_error + db" where
  "Account_AddReceive address tokenStandard amount timestamp d =
     add_flow (flowColumn tokenStandard ''received'') address amount timestamp d"

definition merge_seen :: "Account \<Rightarrow> Account \<Rightarrow> sql_error + Account" where
  "merge_seen old new =
     map_Inr (\<lambda>n. old\<lparr> ac_FirstSeen := least_ts (ac_FirstSeen old) (ac_FirstSeen new),
                    ac_LastSeen := greatest_ts (ac_LastSeen old) (ac_LastSeen new),
                    ac_TxCount := n \<rparr>)
       (add_bigint (ac_TxCount old) 1)"

definition Account_BumpTxCount :: "address \<Rightarrow> int \<Rightarrow> db \<Rightarrow> sql_error + db" where
  "Account_BumpTxCount address timestamp d =
     map_Inr (\<lambda>t. d\<lparr> accounts := t \<rparr>)
       (upsert ac_Address merge_seen
          ((new_account address)\<lparr> ac_FirstSeen := Some timestamp, ac_LastSeen := Some timestamp,
             ac_TxCount := 1 \<rparr>)
          (accounts d))"

definition Account_UpdateDelegate :: "address \<Rightarrow> string \<Rightarrow> int \<Rightarrow> db \<Rightarrow> sql_error + db" where
  "Account_UpdateDelegate address delegate timestamp d =
     Inr (d\<lparr> accounts := update_where (\<lambda>a. ac_Address a = address)
       (\<lambda>a. a\<lparr> ac_Delegate := delegate, ac_DelegationStartTimestamp := timestamp \<rparr>)
       (accounts d) \<rparr>)"

definition Account_GetByAddress :: "address \<Rightarrow> db \<Rightarrow> sql_error + Account" where
  "Account_GetByAddress address d = row_or_none (find_by ac_Address address (accounts d))"

definition merge_genesis_znn :: "Account \<Rightarrow> Account \<Rightarrow> sql_error + Account" where
  "merge_genesis_znn old new = Inr (old\<lparr> ac_GenesisZnnBalance := ac_GenesisZnnBalance new \<rparr>)"

definition merge_genesis_qsr :: "Account \<Rightarrow> Account \<Rightarrow> sql_error + Account" where
  "merge_genesis_qsr old new = Inr (old\<lparr> ac_GenesisQsrBalance := ac_GenesisQsrBalance new \<rparr>)"

definition Account_SetGenesisBalance :: "address \<Rightarrow> string \<Rightarrow> int \<Rightarrow> db \<Rightarrow> sql_error + db" where
  "Account_SetGenesisBalance address tokenStandard balance d =
     (if tokenStandard = ZnnTokenStandard then
        map_Inr (\<lambda>t. d\<lparr> accounts := t \<rparr>)
          (upsert ac_Address merge_genesis_znn
             ((new_account address)\<lparr> ac_GenesisZnnBalance := balance \<rparr>) (accounts d))
      else if tokenStandard = QsrTokenStandard then
        map_Inr (\<lambda>t. d\<lparr> accounts := t \<rparr>)
          (upsert ac_Address merge_genesis_qsr
             ((new_account address)\<lparr> ac_GenesisQsrBalance := balance \<rparr>) (accounts d))
      else Inr d)"

subsection \<open>Balances\<close>

definition merge_balance :: "Balance \<Rightarrow> Balance \<Rightarrow> sql_error + Balance" where
  "merge_balance old new =
     Inr (old\<lparr> ba_Balance := ba_Balance new, ba_LastUpdatedTimestamp := ba_LastUpdatedTimestamp new \<rparr>)"

definition Balance_Upsert :: "Balance \<Rightarrow> db \<Rightarrow> sql_error + db" where
  "Balance_Upsert b d =
     map_Inr (\<lambda>t. d\<lparr> balances := t \<rparr>) (upsert balance_key merge_balance b (balances d))"

text \<open>The query selects three columns; the timestamp keeps its zero value.\<close>

definition Balance_GetByAddressAndToken :: "address \<Rightarrow> string \<Rightarrow> db \<Rightarrow> sql_error + Balance" where
  "Balance_GetByAddressAndToken address tokenStandard d =
     map_Inr (\<lambda>b. b\<lparr> ba_LastUpdatedTimestamp := 0 \<rparr>)
       (row_or_none (find_by balance_key (address, tokenStandard) (balances d)))"

definition Balance_GetHolderCount :: "string \<Rightarrow> db \<Rightarrow> int" where
  "Balance_GetHolderCount tokenStandard d =
     count_where (\<lambda>b. ba_TokenStandard b = tokenStandard \<and> 0 < ba_Balance b) (balances d)"

definition Balance_ListByAddress :: "address \<Rightarrow> db \<Rightarrow> sql_error + Balance list" where
  "Balance_ListByAddress address d =
     (if address = [] then Inl (Required ''address is required'')
      else Inr (order_desc ba_Balance (filter (\<lambda>b. ba_Address b = address) (balances d))))"

definition holder_rows :: "string \<Rightarrow> string \<Rightarrow> db \<Rightarrow> Balance list" where
  "holder_rows tokenStandard s d =
     order_desc ba_Balance
       (filter (\<lambda>b. ba_TokenStandard b = tokenStandard \<and> 0 < ba_Balance b) (balances d))"

definition Balance_ListByToken :: "string \<Rightarrow> ListOpts \<Rightarrow> db \<Rightarrow> sql_error + Balance list \<times> int" where
  "Balance_ListByToken tokenStandard opts d =
     (if tokenStandard = [] then Inl (Required ''token_standard is required'')
      else paged (holder_rows tokenStandard (lo_Sort opts) d) opts)"

subsection \<open>The contracts hold\<close>

lemma ac_Address_set_col [simp]: "ac_Address (set_col col v a) = ac_Address a"
  and ac_TxCount_set_col [simp]: "ac_TxCount (set_col col v a) = ac_TxCount a"
  and ac_Address_merge_active [simp]: "ac_Address (merge_active a b) = ac_Address a"
  and ac_TxCount_merge_active [simp]: "ac_TxCount (merge_active a b) = ac_TxCount a"
  by (simp_all add: set_col_def merge_active_def)

lemma new_account_simps [simp]:
  "ac_Address (new_account a) = a" "ac_TxCount (new_account a) = 0"
  by (simp_all add: new_account_def)

interpretation account_table: upsert_table ac_Address merge_account
  by unfold_locales (auto simp: merge_account_def)

interpretation flow_table: upsert_table ac_Address "merge_flow col" for col
  by unfold_locales (auto simp: merge_flow_def map_Inr_eq_Inr split: if_splits)

interpretation seen_table: upsert_table ac_Address merge_seen
  by unfold_locales (auto simp: merge_seen_def map_Inr_eq_Inr)

interpretation genesis_znn_table: upsert_table ac_Address merge_genesis_znn
  by unfold_locales (auto simp: merge_genesis_znn_def)

interpretation genesis_qsr_table: upsert_table ac_Address merge_genesis_qsr
  by unfold_locales (auto simp: merge_genesis_qsr_def)

interpretation balance_table: upsert_table balance_key merge_balance
  by unfold_locales (auto simp: merge_balance_def balance_key_def)

interpretation holder_listing: listing holder_rows Balance_ListByToken "\<lambda>tok. tok \<noteq> []"
  by unfold_locales (simp add: Balance_ListByToken_def)

lemmas account_op_defs = Account_Upsert_def Account_AddSend_def Account_AddReceive_def add_flow_def
  Account_BumpTxCount_def Account_UpdateDelegate_def Account_SetGenesisBalance_def

subsection \<open>The transaction counter\<close>

definition tx_count_of :: "address \<Rightarrow> db \<Rightarrow> int" where
  "tx_count_of a d = counter ac_Address ac_TxCount a (accounts d)"

lemma tx_count_Upsert:
  "Account_Upsert x d = Inr d' \<Longrightarrow> tx_count_of a d' = tx_count_of a d"
  by (auto simp: Account_Upsert_def tx_count_of_def map_Inr_eq_Inr merge_account_def
      dest!: account_table.counter_upsert [where obs = ac_TxCount and delta = 0 and k = a])

lemma tx_count_add_flow:
  "add_flow col x amt ts d = Inr d' \<Longrightarrow> tx_count_of a d' = tx_count_of a d"
  by (auto simp: add_flow_def tx_count_of_def map_Inr_eq_Inr merge_flow_def split: if_splits
      dest!: flow_table.counter_upsert [where obs = ac_TxCount and delta = 0 and k = a])

lemma tx_count_SetGenesisBalance:
  "Account_SetGenesisBalance x tok b d = Inr d' \<Longrightarrow> tx_count_of a d' = tx_count_of a d"
  by (auto simp: Account_SetGenesisBalance_def tx_count_of_def map_Inr_eq_Inr
      merge_genesis_znn_def merge_genesis_qsr_def split: if_splits
      dest!: genesis_znn_table.counter_upsert [where obs = ac_TxCount and delta = 0 and k = a]
        genesis_qsr_table.counter_upsert [where obs = ac_TxCount and delta = 0 and k = a])

lemma tx_count_UpdateDelegate:
  "Account_UpdateDelegate x p ts d = Inr d' \<Longrightarrow> tx_count_of a d' = tx_count_of a d"
  by (auto simp: Account_UpdateDelegate_def tx_count_of_def intro!: counter_update_where)

lemma tx_count_BumpTxCount:
  "Account_BumpTxCount x ts d = Inr d' \<Longrightarrow>
   tx_count_of a d' = tx_count_of a d + (if a = x then 1 else 0)"
  by (auto simp: Account_BumpTxCount_def tx_count_of_def map_Inr_eq_Inr merge_seen_def add_bigint_Inr
      dest!: seen_table.counter_upsert [where obs = ac_TxCount and delta = 1 and k = a])

lemma accounts_keys:
  assumes "distinct (map ac_Address (accounts d))"
  shows
    "Account_Upsert x d = Inr d' \<Longrightarrow> distinct (map ac_Address (accounts d'))"
    "add_flow col ad amt ts d = Inr d' \<Longrightarrow> distinct (map ac_Address (accounts d'))"
    "Account_BumpTxCount ad ts d = Inr d' \<Longrightarrow> distinct (map ac_Address (accounts d'))"
    "Account_UpdateDelegate ad p ts d = Inr d' \<Longrightarrow> distinct (map ac_Address (accounts d'))"
    "Account_SetGenesisBalance ad tok b d = Inr d' \<Longrightarrow> distinct (map ac_Address (accounts d'))"
  using assms
  by (auto simp: account_op_defs map_Inr_eq_Inr map_update_where split: if_splits
      intro: account_table.distinct_upsert flow_table.distinct_upsert seen_table.distinct_upsert
        genesis_znn_table.distinct_upsert genesis_qsr_table.distinct_upsert)

end
