(* ===== verification/Json.thy ===== *)
theory Json
  imports Prelude
begin

text \<open>
  The part of \<open>encoding/json\<close> the indexer uses to build NOTIFY payloads and the \<open>input\<close> column:
  \<open>json.Marshal\<close> of a map with string keys, on byte strings. Keys come out sorted; strings are
  escaped as Go does it (quotes, backslash, control characters, the HTML characters, the two
  line separators, and the replacement character for every byte that is not valid UTF-8).
  The other half is \<open>sanitizeJSONForPostgres\<close> of \<open>internal/repository/account_block.go\<close>.
\<close>

subsection \<open>strings.ReplaceAll\<close>

function ReplaceAll :: "string \<Rightarrow> string \<Rightarrow> string \<Rightarrow> string" where
  "ReplaceAll s old new =
     (if s = [] \<or> old = [] then s
      else if take (length old) s = old then new @ ReplaceAll (drop (length old) s) old new
      else hd s # ReplaceAll (tl s) old new)"
  by auto
termination
  by (relation "measure (\<lambda>(s, old, new). length s)") auto

declare ReplaceAll.simps [simp del]

subsection \<open>UTF-8\<close>

abbreviation byte :: "char \<Rightarrow> int" where
  "byte c \<equiv> of_char c"

definition cont :: "char \<Rightarrow> bool" where
  "cont c \<longleftrightarrow> 128 \<le> byte c \<and> byte c \<le> 191"

definition in_range :: "int \<Rightarrow> char \<Rightarrow> int \<Rightarrow> bool" where
  "in_range lo c hi \<longleftrightarrow> lo \<le> byte c \<and> byte c \<le> hi"

text \<open>The first two bytes of a valid sequence of two, three and four bytes.\<close>

definition starts2 :: "char \<Rightarrow> char \<Rightarrow> bool" where
  "starts2 a b \<longleftrightarrow> in_range 194 a 223 \<and> cont b"

definition starts3 :: "char \<Rightarrow> char \<Rightarrow> bool" where
  "starts3 a b \<longleftrightarrow> (byte a = 224 \<and> in_range 160 b 191) \<or> (in_range 225 a 236 \<and> cont b) \<or>
     (byte a = 237 \<and> in_range 128 b 159) \<or> (in_range 238 a 239 \<and> cont b)"

definition starts4 :: "char \<Rightarrow> char \<Rightarrow> bool" where
  "starts4 a b \<longleftrightarrow> (byte a = 240 \<and> in_range 144 b 191) \<or> (in_range 241 a 243 \<and> cont b) \<or>
     (byte a = 244 \<and> in_range 128 b 143)"

text \<open>
  \<open>utf8.DecodeRune\<close>: the width of the rune that starts the string when it takes more than one
  byte and is valid, and 0 when the first byte starts no valid sequence.
\<close>

definition rune_width :: "string \<Rightarrow> nat" where
  "rune_width s =
     (case s of
        a # b # c # d # _ \<Rightarrow>
          if starts2 a b then 2
          else if starts3 a b \<and> cont c then 3
          else if starts4 a b \<and> cont c \<and> cont d then 4 else 0
      | a # b # c # [] \<Rightarrow>
          if starts2 a b then 2 else if starts3 a b \<and> cont c then 3 else 0
      | a # b # [] \<Rightarrow> if starts2 a b then 2 else 0
      | _ \<Rightarrow> 0)"

subsection \<open>String escaping\<close>

abbreviation backslash :: char where
  "backslash \<equiv> CHR 0x5C"

abbreviation quote :: char where
  "quote \<equiv> CHR 0x22"

definition u00 :: "int \<Rightarrow> string" where
  "u00 n = [backslash, CHR ''u'', CHR ''0'', CHR ''0'', hex_digit (n div 16), hex_digit (n mod 16)]"

definition escape_ascii :: "char \<Rightarrow> string" where
  "escape_ascii c =
     (if c = backslash \<or> c = quote then [backslash, c]
      else if byte c = 8 then [backslash, CHR ''b'']
      else if byte c = 12 then [backslash, CHR ''f'']
      else if byte c = 10 then [backslash, CHR ''n'']
      else if byte c = 13 then [backslash, CHR ''r'']
      else if byte c = 9 then [backslash, CHR ''t'']
      else if byte c < 32 \<or> c = CHR ''<'' \<or> c = CHR ''>'' \<or> c = CHR 0x26 then u00 (byte c)
      else [c])"

definition escape_rune :: "string \<Rightarrow> string" where
  "escape_rune r =
     (if r = [CHR 0xE2, CHR 0x80, CHR 0xA8] then backslash # ''u2028''
      else if r = [CHR 0xE2, CHR 0x80, CHR 0xA9] then backslash # ''u2029''
      else r)"

definition replacement :: string where
  "replacement = backslash # ''ufffd''"

function escape :: "string \<Rightarrow> string" where
  "escape s =
     (case s of
        [] \<Rightarrow> []
      | c # cs \<Rightarrow>
          if byte c < 128 then escape_ascii c @ escape cs
          else if rune_width s = 0 then replacement @ escape cs
          else escape_rune (take (rune_width s) s) @ escape (drop (rune_width s) s))"
  by auto
termination
  by (relation "measure length") auto

declare escape.simps [simp del]

subsection \<open>json.Marshal of maps\<close>

text \<open>
  The values the indexer puts into a map: strings, integers, and a \<open>json.RawMessage\<close> that is
  itself the output of \<open>json.Marshal\<close>, which is copied.
\<close>

datatype json_val = JStr string | JInt int | JRaw string

definition marshal_string :: "string \<Rightarrow> string" where
  "marshal_string s = quote # escape s @ [quote]"

fun marshal_val :: "json_val \<Rightarrow> string" where
  "marshal_val (JStr s) = marshal_string s"
| "marshal_val (JInt n) = FormatInt n"
| "marshal_val (JRaw r) = r"

definition marshal_pair :: "string \<times> json_val \<Rightarrow> string" where
  "marshal_pair p = marshal_string (fst p) @ CHR '':'' # marshal_val (snd p)"

fun join :: "string list \<Rightarrow> string" where
  "join [] = []"
| "join [x] = x"
| "join (x # y # zs) = x @ CHR '','' # join (y # zs)"

definition marshal_map :: "(string \<times> json_val) list \<Rightarrow> string" where
  "marshal_map m = CHR ''{'' # join (map marshal_pair (sort_key fst m)) @ ''}''"

definition marshal_inputs :: "(string \<times> string) list \<Rightarrow> string" where
  "marshal_inputs m = marshal_map (map (\<lambda>(k, v). (k, JStr v)) m)"

subsection \<open>sanitizeJSONForPostgres\<close>

definition null_escape :: string where
  "null_escape = backslash # ''u0000''"

definition sanitizeJSONForPostgres :: "string \<Rightarrow> string" where
  "sanitizeJSONForPostgres s = ReplaceAll (ReplaceAll s null_escape []) [CHR 0x00] []"

end
