(* ===== verification/Repo_Ledger.thy ===== *)
theory Repo_Ledger
  imports Store Json
begin

text \<open>
  \<open>internal/repository/momentum.go\<close> and \<open>account_block.go\<close>: the momentum and account-block
  tables, with the lookups and range scans the stream handlers and the backfill use.
\<close>

subsection \<open>Momentums\<close>

text \<open>\<open>MAX(height)\<close>, 0 on an empty table; the column is a \<open>BIGINT\<close> read back as \<open>uint64\<close>.\<close>

definition GetLatestHeight :: "db \<Rightarrow> int" where
  "GetLatestHeight d =
     (case max_of mo_Height (momentums d) of None \<Rightarrow> 0 | Some h \<Rightarrow> uint64 h)"

definition Momentum_Insert :: "Momentum \<Rightarrow> db \<Rightarrow> sql_error + db" where
  "Momentum_Insert m d = Inr (d\<lparr> momentums := insert_ignore mo_Height m (momentums d) \<rparr>)"

text \<open>The driver refuses a \<open>uint64\<close> that does not fit the \<open>BIGINT\<close> parameter.\<close>

definition Momentum_GetByHeight :: "int \<Rightarrow> db \<Rightarrow> sql_error + Momentum" where
  "Momentum_GetByHeight height d =
     (if MaxInt64 < height then Inl ParameterRejected
      else row_or_none (find_by mo_Height height (momentums d)))"

definition Momentum_GetLatest :: "db \<Rightarrow> sql_error + Momentum" where
  "Momentum_GetLatest d =
     (case order_desc mo_Height (momentums d) of [] \<Rightarrow> Inl NoRows | m # _ \<Rightarrow> Inr m)"

text \<open>The page comes from the height index; the total is \<open>MAX(height)\<close>, not a count.\<close>

definition Momentum_List :: "ListOpts \<Rightarrow> db \<Rightarrow> sql_error + Momentum list \<times> int" where
  "Momentum_List opts d =
     map_Inr (\<lambda>out. (out, case max_of mo_Height (momentums d) of None \<Rightarrow> 0 | Some h \<Rightarrow> h))
       (limit_offset (lo_Limit opts) (lo_Offset opts)
          (order_by (orderClause (lo_Sort opts)) mo_Height (momentums d)))"

definition producer_rows :: "address \<Rightarrow> string \<Rightarrow> db \<Rightarrow> Momentum list" where
  "producer_rows producer s d =
     order_by (orderClause s) mo_Height (filter (\<lambda>m. mo_Producer m = producer) (momentums d))"

definition Momentum_ListByProducer ::
  "address \<Rightarrow> ListOpts \<Rightarrow> db \<Rightarrow> sql_error + Momentum list \<times> int" where
  "Momentum_ListByProducer producer opts d =
     (if producer = [] then Inl (Required ''producer is required'')
      else paged (producer_rows producer (lo_Sort opts) d) opts)"

definition Momentum_ListByHeightRange :: "int \<Rightarrow> int \<Rightarrow> int \<Rightarrow> db \<Rightarrow> Momentum list" where
  "Momentum_ListByHeightRange from_h to_h limit d =
     (if to_h < from_h then []
      else
        let out = order_asc mo_Height
              (filter (\<lambda>m. from_h \<le> mo_Height m \<and> mo_Height m \<le> to_h) (momentums d))
        in if 0 < limit then take (nat limit) out else out)"

interpretation producer_listing: listing producer_rows Momentum_ListByProducer "\<lambda>p. p \<noteq> []"
  by unfold_locales (simp add: Momentum_ListByProducer_def)

subsection \<open>Account blocks\<close>

text \<open>The \<open>method\<close> and \<open>input\<close> columns of a row, from the decoded call data.\<close>

definition block_method :: "TxData option \<Rightarrow> string" where
  "block_method txData = (case txData of None \<Rightarrow> [] | Some t \<Rightarrow> tx_Method t)"

definition block_input :: "TxData option \<Rightarrow> string" where
  "block_input txData =
     (case txData of
        None \<Rightarrow> ''{}''
      | Some t \<Rightarrow>
          if tx_Inputs t = [] then ''{}''
          else sanitizeJSONForPostgres (marshal_inputs (tx_Inputs t)))"

definition block_row :: "AccountBlock \<Rightarrow> TxData option \<Rightarrow> AccountBlock" where
  "block_row ab txData =
     ab\<lparr> ab_Method := block_method txData, ab_Input := block_input txData, ab_DescendantOf := [] \<rparr>"

definition merge_block :: "AccountBlock \<Rightarrow> AccountBlock \<Rightarrow> sql_error + AccountBlock" where
  "merge_block old new =
     Inr (old\<lparr> ab_Method := ab_Method new, ab_Input := ab_Input new,
       ab_PairedAccountBlock := ab_PairedAccountBlock new \<rparr>)"

definition AccountBlock_Insert :: "AccountBlock \<Rightarrow> TxData option \<Rightarrow> db \<Rightarrow> sql_error + db" where
  "AccountBlock_Insert ab txData d =
     map_Inr (\<lambda>t. d\<lparr> account_blocks := t \<rparr>)
       (upsert ab_Hash merge_block (block_row ab txData) (account_blocks d))"

definition AccountBlock_UpdatePairedBlock :: "hash \<Rightarrow> hash \<Rightarrow> db \<Rightarrow> sql_error + db" where
  "AccountBlock_UpdatePairedBlock h pairedHash d =
     Inr (d\<lparr> account_blocks := update_where (\<lambda>b. ab_Hash b = h)
       (\<lambda>b. b\<lparr> ab_PairedAccountBlock := pairedHash \<rparr>) (account_blocks d) \<rparr>)"

definition AccountBlock_UpdateDescendantOf :: "hash \<Rightarrow> hash \<Rightarrow> db \<Rightarrow> sql_error + db" where
  "AccountBlock_UpdateDescendantOf h parentHash d =
     Inr (d\<lparr> account_blocks := update_where (\<lambda>b. ab_Hash b = h)
       (\<lambda>b. b\<lparr> ab_DescendantOf := parentHash \<rparr>) (account_blocks d) \<rparr>)"

definition AccountBlock_GetByHash :: "hash \<Rightarrow> db \<Rightarrow> sql_error + AccountBlock" where
  "AccountBlock_GetByHash h d = row_or_none (find_by ab_Hash h (account_blocks d))"

text \<open>The triple self-join behind \<open>GetRewardDetails\<close>: amount, source contract and token.\<close>

definition GetRewardDetails :: "hash \<Rightarrow> string list \<Rightarrow> db \<Rightarrow> sql_error + int \<times> address \<times> string" where
  "GetRewardDetails receiveBlockHash rewardContracts d =
     (let t = account_blocks d;
          joined = [(b1, b2). b1 \<leftarrow> t, b2 \<leftarrow> t, b3 \<leftarrow> t,
            ab_DescendantOf b1 = ab_PairedAccountBlock b2 \<and> ab_Method b2 = ''Mint'' \<and>
            ab_DescendantOf b2 = ab_PairedAccountBlock b3 \<and> ab_Method b3 = ''CollectReward'' \<and>
            ab_Hash b1 = receiveBlockHash \<and>
            (ab_TokenStandard b1 = ZnnTokenStandard \<or> ab_TokenStandard b1 = QsrTokenStandard) \<and>
            ab_Address b2 \<in> set rewardContracts]
      in case order_desc (\<lambda>(b1, b2). ab_MomentumHeight b1) joined of
           [] \<Rightarrow> Inl NoRows
         | (b1, b2) # _ \<Rightarrow> Inr (ab_Amount b1, ab_Address b2, ab_TokenStandard b1))"

text \<open>\<open>reltuples\<close> is the planner's estimate of the table size, a parameter.\<close>

definition AccountBlock_List ::
  "int \<Rightarrow> ListOpts \<Rightarrow> db \<Rightarrow> sql_error + AccountBlock list \<times> int" where
  "AccountBlock_List reltuples opts d =
     map_Inr (\<lambda>out. (out, max reltuples 0))
       (limit_offset (lo_Limit opts) (lo_Offset opts)
          (order_by (orderClause (lo_Sort opts)) ab_MomentumHeight (account_blocks d)))"

definition involves :: "address \<Rightarrow> AccountBlock \<Rightarrow> bool" where
  "involves a b \<longleftrightarrow> ab_Address b = a \<or> ab_ToAddress b = a"

definition AccountBlock_ListByAddress ::
  "address \<Rightarrow> ListOpts \<Rightarrow> db \<Rightarrow> sql_error + AccountBlock list \<times> int" where
  "AccountBlock_ListByAddress address opts d =
     (if address = [] then Inl (Required ''address is required'')
      else
        map_Inr (\<lambda>out. (out, case find_by ac_Address address (accounts d) of
                                None \<Rightarrow> 0 | Some a \<Rightarrow> ac_TxCount a))
          (limit_offset (lo_Limit opts) (lo_Offset opts)
             (order_by (orderClause (lo_Sort opts)) ab_MomentumHeight
                (filter (involves address) (account_blocks d)))))"

text \<open>\<open>ORDER BY momentum_height ASC, hash ASC\<close>.\<close>

definition AccountBlock_ListByMomentumHeightRange ::
  "int \<Rightarrow> int \<Rightarrow> address \<Rightarrow> int \<Rightarrow> db \<Rightarrow> AccountBlock list" where
  "AccountBlock_ListByMomentumHeightRange from_h to_h addressFilter limit d =
     (if to_h < from_h then []
      else
        let out = sort_key ab_MomentumHeight (sort_key ab_Hash
              (filter (\<lambda>b. from_h \<le> ab_MomentumHeight b \<and> ab_MomentumHeight b \<le> to_h \<and>
                 (addressFilter = [] \<or> involves addressFilter b)) (account_blocks d)))
        in if 0 < limit then take (nat limit) out else out)"

interpretation block_table: upsert_table ab_Hash merge_block
  by unfold_locales (auto simp: merge_block_def)

subsection \<open>Facts about the tables\<close>

lemma block_row_simps [simp]:
  "ab_Hash (block_row ab t) = ab_Hash ab"
  "ab_Address (block_row ab t) = ab_Address ab"
  "ab_ToAddress (block_row ab t) = ab_ToAddress ab"
  "ab_MomentumHeight (block_row ab t) = ab_MomentumHeight ab"
  by (simp_all add: block_row_def)

lemma involves_block_row [simp]: "involves a (block_row ab t) = involves a ab"
  by (simp add: involves_def)

definition block_count_of :: "address \<Rightarrow> db \<Rightarrow> int" where
  "block_count_of a d = count_where (involves a) (account_blocks d)"

lemma count_update_blocks:
  "(\<And>b. involves a (f b) = involves a b) \<Longrightarrow>
   count_where (involves a) (update_where P f t) = count_where (involves a) t"
  by (induction t) auto

lemma count_list_all2:
  "list_all2 R t t' \<Longrightarrow> (\<And>x y. R x y \<Longrightarrow> P y = P x) \<Longrightarrow> count_where P t' = count_where P t"
  by (induction rule: list_all2_induct) auto

lemma block_count_Insert:
  assumes "AccountBlock_Insert ab tx d = Inr d'"
  shows "block_count_of a d' = block_count_of a d +
    (if find_by ab_Hash (ab_Hash ab) (account_blocks d) = None \<and> involves a ab then 1 else 0)"
proof -
  obtain t' where u: "upsert ab_Hash merge_block (block_row ab tx) (account_blocks d) = Inr t'"
    and d': "account_blocks d' = t'"
    using assms by (auto simp: AccountBlock_Insert_def map_Inr_eq_Inr)
  show ?thesis
    using block_table.upsert_rows [OF u]
  proof
    assume "find_by ab_Hash (ab_Hash (block_row ab tx)) (account_blocks d) = None \<and>
        t' = account_blocks d @ [block_row ab tx]"
    then show ?thesis by (simp add: block_count_of_def d')
  next
    assume l: "find_by ab_Hash (ab_Hash (block_row ab tx)) (account_blocks d) \<noteq> None \<and>
      list_all2 (updated_row (\<lambda>x. ab_Hash x = ab_Hash (block_row ab tx))
        (\<lambda>x. merge_block x (block_row ab tx))) (account_blocks d) t'"
    have "count_where (involves a) t' = count_where (involves a) (account_blocks d)"
      by (rule count_list_all2 [OF conjunct2 [OF l]])
         (auto simp: updated_row_def merge_block_def involves_def split: if_splits)
    with l show ?thesis by (simp add: block_count_of_def d')
  qed
qed

lemma block_count_updates:
  "AccountBlock_UpdatePairedBlock h p d = Inr d' \<Longrightarrow> block_count_of a d' = block_count_of a d"
  "AccountBlock_UpdateDescendantOf h p d = Inr d' \<Longrightarrow> block_count_of a d' = block_count_of a d"
  by (auto simp: AccountBlock_UpdatePairedBlock_def AccountBlock_UpdateDescendantOf_def
      block_count_of_def involves_def intro!: count_update_blocks)

lemma block_hashes:
  "AccountBlock_Insert ab tx d = Inr d' \<Longrightarrow>
   map ab_Hash (account_blocks d') =
     (if find_by ab_Hash (ab_Hash ab) (account_blocks d) = None
      then map ab_Hash (account_blocks d) @ [ab_Hash ab] else map ab_Hash (account_blocks d))"
  "AccountBlock_UpdatePairedBlock h p d = Inr d' \<Longrightarrow>
   map ab_Hash (account_blocks d') = map ab_Hash (account_blocks d)"
  "AccountBlock_UpdateDescendantOf h p d = Inr d' \<Longrightarrow>
   map ab_Hash (account_blocks d') = map ab_Hash (account_blocks d)"
  by (auto simp: AccountBlock_Insert_def AccountBlock_UpdatePairedBlock_def
      AccountBlock_UpdateDescendantOf_def map_Inr_eq_Inr map_update_where
      dest!: block_table.keys_upsert)

lemma find_by_map_key: "find_by key k t = None \<longleftrightarrow> k \<notin> set (map key t)"
  by (induction t) auto

lemma GetLatestHeight_Insert:
  assumes "\<And>r. r \<in> set (momentums d) \<Longrightarrow> mo_Height r < mo_Height m"
    and "0 \<le> mo_Height m" "fits_int64 (mo_Height m)"
    and "Momentum_Insert m d = Inr d'"
  shows "GetLatestHeight d' = mo_Height m"
proof -
  have "\<not> (\<exists>x\<in>set (momentums d). mo_Height x = mo_Height m)"
    using assms(1) by fastforce
  then have "momentums d' = momentums d @ [m]"
    using assms(4) by (auto simp: Momentum_Insert_def insert_ignore_def)
  moreover have "Max (set (map mo_Height (momentums d @ [m]))) = mo_Height m"
    using assms(1) by (intro Max_eqI) (auto simp: order.strict_implies_order)
  ultimately show ?thesis
    using assms(2,3)
    by (simp add: GetLatestHeight_def max_of_def uint64_id fits_int64_def MaxInt64_def)
qed

end
