(* ===== verification/Repo_Pillar.thy ===== *)
theory Repo_Pillar
  imports Store
begin

text \<open>
  \<open>internal/repository/pillar.go\<close>, \<open>pillar_update.go\<close> and \<open>delegation.go\<close>: the pillar rows, the
  log of pillar registrations, and the delegation intervals (an open interval has no end).
\<close>

subsection \<open>Pillars\<close>

definition merge_pillar :: "Pillar \<Rightarrow> Pillar \<Rightarrow> sql_error + Pillar" where
  "merge_pillar old new =
     Inr (old\<lparr> pl_ProducerAddress := pl_ProducerAddress new,
       pl_WithdrawAddress := pl_WithdrawAddress new, pl_Name := pl_Name new, pl_Rank := pl_Rank new,
       pl_GiveMomentumRewardPercentage := pl_GiveMomentumRewardPercentage new,
       pl_GiveDelegateRewardPercentage := pl_GiveDelegateRewardPercentage new,
       pl_IsRevocable := pl_IsRevocable new, pl_RevokeCooldown := pl_RevokeCooldown new,
       pl_RevokeTimestamp := pl_RevokeTimestamp new, pl_Weight := pl_Weight new,
       pl_EpochProducedMomentums := pl_EpochProducedMomentums new,
       pl_EpochExpectedMomentums := pl_EpochExpectedMomentums new \<rparr>)"

text \<open>The insert names thirteen columns; the others take their defaults.\<close>

definition Pillar_Upsert :: "Pillar \<Rightarrow> db \<Rightarrow> sql_error + db" where
  "Pillar_Upsert p d =
     map_Inr (\<lambda>t. d\<lparr> pillars := t \<rparr>)
       (upsert pl_OwnerAddress merge_pillar
          (p\<lparr> pl_SlotCostQsr := 0, pl_SpawnTimestamp := 0, pl_VotingActivity := (0, 1),
             pl_ProducedMomentumCount := 0, pl_IsRevoked := False \<rparr>)
          (pillars d))"

definition Pillar_UpdateSpawnInfo :: "address \<Rightarrow> int \<Rightarrow> int \<Rightarrow> db \<Rightarrow> sql_error + db" where
  "Pillar_UpdateSpawnInfo ownerAddress spawnTimestamp slotCostQsr d =
     Inr (d\<lparr> pillars := update_where (\<lambda>p. pl_OwnerAddress p = ownerAddress)
       (\<lambda>p. p\<lparr> pl_SpawnTimestamp := spawnTimestamp, pl_SlotCostQsr := slotCostQsr \<rparr>)
       (pillars d) \<rparr>)"

definition revoked_pillar :: "address \<Rightarrow> string \<Rightarrow> int \<Rightarrow> Pillar" where
  "revoked_pillar ownerAddress name revokeTimestamp =
     \<lparr> pl_OwnerAddress = ownerAddress, pl_ProducerAddress = [], pl_WithdrawAddress = [],
       pl_Name = name, pl_Rank = 0, pl_GiveMomentumRewardPercentage = 0,
       pl_GiveDelegateRewardPercentage = 0, pl_IsRevocable = False, pl_RevokeCooldown = 0,
       pl_RevokeTimestamp = revokeTimestamp, pl_Weight = 0, pl_EpochProducedMomentums = 0,
       pl_EpochExpectedMomentums = 0, pl_SlotCostQsr = 0, pl_SpawnTimestamp = 0,
       pl_VotingActivity = (0, 1), pl_ProducedMomentumCount = 0, pl_IsRevoked = True \<rparr>"

definition merge_revoked :: "Pillar \<Rightarrow> Pillar \<Rightarrow> sql_error + Pillar" where
  "merge_revoked old new =
     Inr (old\<lparr> pl_RevokeTimestamp := pl_RevokeTimestamp new, pl_IsRevoked := True \<rparr>)"

definition Pillar_SetAsRevoked :: "address \<Rightarrow> string \<Rightarrow> int \<Rightarrow> db \<Rightarrow> sql_error + db" where
  "Pillar_SetAsRevoked ownerAddress name revokeTimestamp d =
     map_Inr (\<lambda>t. d\<lparr> pillars := t \<rparr>)
       (upsert pl_OwnerAddress merge_revoked (revoked_pillar ownerAddress name revokeTimestamp)
          (pillars d))"

definition Pillar_IncrementMomentumCount :: "address \<Rightarrow> db \<Rightarrow> sql_error + db" where
  "Pillar_IncrementMomentumCount ownerAddress d =
     map_Inr (\<lambda>t. d\<lparr> pillars := t \<rparr>)
       (update_chk (\<lambda>p. pl_OwnerAddress p = ownerAddress)
          (\<lambda>p. map_Inr (\<lambda>n. p\<lparr> pl_ProducedMomentumCount := n \<rparr>)
             (add_bigint (pl_ProducedMomentumCount p) 1))
          (pillars d))"

definition Pillar_UpdateVotingActivity :: "address \<Rightarrow> int \<times> int \<Rightarrow> db \<Rightarrow> sql_error + db" where
  "Pillar_UpdateVotingActivity ownerAddress votingActivity d =
     Inr (d\<lparr> pillars := update_where (\<lambda>p. pl_OwnerAddress p = ownerAddress)
       (\<lambda>p. p\<lparr> pl_VotingActivity := votingActivity \<rparr>) (pillars d) \<rparr>)"

definition Pillar_GetByName :: "string \<Rightarrow> db \<Rightarrow> sql_error + Pillar" where
  "Pillar_GetByName name d = row_or_none (find_by pl_Name name (pillars d))"

definition Pillar_GetByProducer :: "address \<Rightarrow> db \<Rightarrow> sql_error + Pillar" where
  "Pillar_GetByProducer producerAddress d =
     row_or_none (find_by pl_ProducerAddress producerAddress (pillars d))"

text \<open>These return -1 (respectively 0) beside the error.\<close>

definition Pillar_GetSpawnTimestamp :: "address \<Rightarrow> db \<Rightarrow> int \<times> sql_error option" where
  "Pillar_GetSpawnTimestamp withdrawAddress d =
     (case find_by pl_WithdrawAddress withdrawAddress (pillars d) of
        None \<Rightarrow> (- 1, Some NoRows) | Some p \<Rightarrow> (pl_SpawnTimestamp p, None))"

definition Pillar_GetSpawnTimestampByOwner :: "address \<Rightarrow> db \<Rightarrow> int \<times> sql_error option" where
  "Pillar_GetSpawnTimestampByOwner ownerAddress d =
     (case find_by pl_OwnerAddress ownerAddress (pillars d) of
        None \<Rightarrow> (- 1, Some NoRows) | Some p \<Rightarrow> (pl_SpawnTimestamp p, None))"

definition IsWithdrawAddress :: "address \<Rightarrow> db \<Rightarrow> bool" where
  "IsWithdrawAddress address d \<longleftrightarrow>
     list_ex (\<lambda>p. pl_WithdrawAddress p = address) (pillars d) \<or>
     list_ex (\<lambda>u. pu_WithdrawAddress u = address) (pillar_updates d)"

definition Pillar_GetRevokeTimestamp :: "address \<Rightarrow> db \<Rightarrow> int \<times> sql_error option" where
  "Pillar_GetRevokeTimestamp ownerAddress d =
     (case find_by pl_OwnerAddress ownerAddress (pillars d) of
        None \<Rightarrow> (0, Some NoRows) | Some p \<Rightarrow> (pl_RevokeTimestamp p, None))"

definition pillar_rows :: "bool \<Rightarrow> string \<Rightarrow> db \<Rightarrow> Pillar list" where
  "pillar_rows includeRevoked s d =
     order_asc pl_Rank (filter (\<lambda>p. includeRevoked \<or> \<not> pl_IsRevoked p) (pillars d))"

definition Pillar_List :: "bool \<Rightarrow> ListOpts \<Rightarrow> db \<Rightarrow> sql_error + Pillar list \<times> int" where
  "Pillar_List includeRevoked opts d = paged (pillar_rows includeRevoked (lo_Sort opts) d) opts"

record PillarDelegator =
  pd_Address :: address
  pd_DelegationStartTimestamp :: int

definition delegator_rows :: "address \<Rightarrow> string \<Rightarrow> db \<Rightarrow> PillarDelegator list" where
  "delegator_rows pillarOwner s d =
     map (\<lambda>a. \<lparr> pd_Address = ac_Address a,
                pd_DelegationStartTimestamp = ac_DelegationStartTimestamp a \<rparr>)
       (order_asc ac_DelegationStartTimestamp
          (filter (\<lambda>a. ac_Delegate a = pillarOwner) (accounts d)))"

definition Pillar_ListDelegators ::
  "address \<Rightarrow> ListOpts \<Rightarrow> db \<Rightarrow> sql_error + PillarDelegator list \<times> int" where
  "Pillar_ListDelegators pillarOwner opts d =
     (if pillarOwner = [] then Inl (Required ''pillar owner is required'')
      else paged (delegator_rows pillarOwner (lo_Sort opts) d) opts)"

definition Pillar_GetAll :: "db \<Rightarrow> Pillar list" where
  "Pillar_GetAll d = filter (\<lambda>p. \<not> pl_IsRevoked p) (pillars d)"

subsection \<open>The registration log\<close>

definition PillarUpdate_Insert :: "PillarUpdate \<Rightarrow> db \<Rightarrow> sql_error + db" where
  "PillarUpdate_Insert u d = Inr (d\<lparr> pillar_updates := pillar_updates d @ [u] \<rparr>)"

definition GetOwnerAddressAtHeight :: "address \<Rightarrow> int \<Rightarrow> db \<Rightarrow> sql_error + address" where
  "GetOwnerAddressAtHeight withdrawAddress height d =
     map_Inr pu_OwnerAddress (row_or_none
       (last_where (\<lambda>u. pu_WithdrawAddress u = withdrawAddress \<and> pu_MomentumHeight u \<le> height)
          (pillar_updates d)))"

definition GetInfoAtHeightByProducer :: "address \<Rightarrow> int \<Rightarrow> db \<Rightarrow> sql_error + address \<times> string" where
  "GetInfoAtHeightByProducer producerAddress height d =
     map_Inr (\<lambda>u. (pu_OwnerAddress u, pu_Name u)) (row_or_none
       (last_where (\<lambda>u. pu_ProducerAddress u = producerAddress \<and> pu_MomentumHeight u \<le> height)
          (pillar_updates d)))"

subsection \<open>Delegation intervals\<close>

definition is_open :: "address \<Rightarrow> Delegation \<Rightarrow> bool" where
  "is_open delegator x \<longleftrightarrow> de_DelegatorAddress x = delegator \<and> de_EndedAt x = None"

definition Delegation_CloseActive :: "address \<Rightarrow> int \<Rightarrow> db \<Rightarrow> sql_error + db" where
  "Delegation_CloseActive delegator endedAt d =
     Inr (d\<lparr> delegations := update_where (is_open delegator)
       (\<lambda>x. x\<lparr> de_EndedAt := Some endedAt \<rparr>) (delegations d) \<rparr>)"

text \<open>The direct form also returns the pillar of the closed interval, if any.\<close>

definition Delegation_CloseActive_returning :: "address \<Rightarrow> int \<Rightarrow> db \<Rightarrow> sql_error + address \<times> db" where
  "Delegation_CloseActive_returning delegator endedAt d =
     map_Inr (\<lambda>d'. (case find (is_open delegator) (delegations d) of
                      None \<Rightarrow> [] | Some x \<Rightarrow> de_PillarOwnerAddress x, d'))
       (Delegation_CloseActive delegator endedAt d)"

definition Delegation_Open :: "address \<Rightarrow> address \<Rightarrow> int \<Rightarrow> db \<Rightarrow> sql_error + db" where
  "Delegation_Open delegator pillarOwner startedAt d =
     Inr (d\<lparr> delegations := delegations d @
       [\<lparr> de_DelegatorAddress = delegator, de_PillarOwnerAddress = pillarOwner,
          de_StartedAt = startedAt, de_EndedAt = None \<rparr>] \<rparr>)"

definition CountActiveByPillar :: "address \<Rightarrow> db \<Rightarrow> int" where
  "CountActiveByPillar pillarOwner d =
     count_where (\<lambda>x. de_PillarOwnerAddress x = pillarOwner \<and> de_EndedAt x = None) (delegations d)"

definition GetActivePillarFor :: "address \<Rightarrow> db \<Rightarrow> address" where
  "GetActivePillarFor delegator d =
     (case find (is_open delegator) (delegations d) of
        None \<Rightarrow> [] | Some x \<Rightarrow> de_PillarOwnerAddress x)"

subsection \<open>The contracts hold\<close>

interpretation pillar_table: upsert_table pl_OwnerAddress merge_pillar
  by unfold_locales (auto simp: merge_pillar_def)

interpretation revoked_table: upsert_table pl_OwnerAddress merge_revoked
  by unfold_locales (auto simp: merge_revoked_def)

interpretation pillar_listing: listing pillar_rows Pillar_List "\<lambda>_. True"
  by unfold_locales (simp add: Pillar_List_def)

interpretation delegator_listing: listing delegator_rows Pillar_ListDelegators "\<lambda>p. p \<noteq> []"
  by unfold_locales (simp add: Pillar_ListDelegators_def)

lemma pillar_keys:
  assumes "distinct (map pl_OwnerAddress (pillars d))"
  shows
    "Pillar_Upsert p d = Inr d' \<Longrightarrow> distinct (map pl_OwnerAddress (pillars d'))"
    "Pillar_SetAsRevoked a n ts d = Inr d' \<Longrightarrow> distinct (map pl_OwnerAddress (pillars d'))"
    "Pillar_UpdateSpawnInfo a ts c d = Inr d' \<Longrightarrow> distinct (map pl_OwnerAddress (pillars d'))"
  using assms
  by (auto simp: Pillar_Upsert_def Pillar_SetAsRevoked_def Pillar_UpdateSpawnInfo_def
      map_Inr_eq_Inr map_update_where
      intro: pillar_table.distinct_upsert revoked_table.distinct_upsert)

lemma pillar_owners_Increment:
  assumes "Pillar_IncrementMomentumCount a d = Inr d'"
  shows "map pl_OwnerAddress (pillars d') = map pl_OwnerAddress (pillars d)"
  using assms
  by (auto simp: Pillar_IncrementMomentumCount_def map_Inr_eq_Inr update_chk_Inr updated_row_def
      split: if_splits elim!: list_all2_map_eq)

subsection \<open>At most one open interval per delegator\<close>

definition open_count :: "address \<Rightarrow> db \<Rightarrow> int" where
  "open_count a d = count_where (is_open a) (delegations d)"

lemma is_open_closed [simp]: "\<not> is_open a (x\<lparr> de_EndedAt := Some ts \<rparr>)"
  by (simp add: is_open_def)

lemma is_open_unique: "is_open a x \<Longrightarrow> is_open b x \<Longrightarrow> a = b"
  by (simp add: is_open_def)

lemma open_after_close:
  "count_where (is_open a) (update_where (is_open b) (\<lambda>x. x\<lparr> de_EndedAt := Some ts \<rparr>) t) =
     (if a = b then 0 else count_where (is_open a) t)"
  by (induction t) (auto dest: is_open_unique)

lemma open_count_Close:
  "Delegation_CloseActive b ts d = Inr d' \<Longrightarrow>
   open_count a d' = (if a = b then 0 else open_count a d)"
  by (auto simp: Delegation_CloseActive_def open_count_def open_after_close)

lemma open_count_Open:
  "Delegation_Open b p ts d = Inr d' \<Longrightarrow>
   open_count a d' = open_count a d + (if a = b then 1 else 0)"
  by (auto simp: Delegation_Open_def open_count_def is_open_def)

lemma find_count_where: "find P t = None \<longleftrightarrow> count_where P t = 0"
  by (induction t) (auto simp: add_nonneg_eq_0_iff)

end
