(* ===== verification/Repo_Token.thy ===== *)
theory Repo_Token
  imports Store
begin

text \<open>
  \<open>internal/repository/token.go\<close> and \<open>token_event.go\<close>: the token catalogue with its counters, and
  the mint and burn events.
\<close>

definition merge_token :: "Token \<Rightarrow> Token \<Rightarrow> sql_error + Token" where
  "merge_token old new =
     Inr (old\<lparr> tk_Domain := tk_Domain new, tk_TotalSupply := tk_TotalSupply new,
       tk_MaxSupply := tk_MaxSupply new \<rparr>)"

definition Token_Upsert :: "Token \<Rightarrow> db \<Rightarrow> sql_error + db" where
  "Token_Upsert t d =
     map_Inr (\<lambda>r. d\<lparr> tokens := r \<rparr>)
       (upsert tk_TokenStandard merge_token
          (t\<lparr> tk_TotalBurned := 0, tk_LastUpdateTimestamp := 0, tk_HolderCount := 0,
             tk_TransactionCount := 0 \<rparr>)
          (tokens d))"

definition burn_token :: "int \<Rightarrow> Token \<Rightarrow> sql_error + Token" where
  "burn_token amount t =
     map_Inr (\<lambda>n. t\<lparr> tk_TotalBurned := n \<rparr>) (add_bigint (tk_TotalBurned t) amount)"

definition Token_UpdateBurnAmount :: "string \<Rightarrow> int \<Rightarrow> db \<Rightarrow> sql_error + db" where
  "Token_UpdateBurnAmount tokenStandard burnAmount d =
     map_Inr (\<lambda>r. d\<lparr> tokens := r \<rparr>)
       (update_chk (\<lambda>t. tk_TokenStandard t = tokenStandard) (burn_token burnAmount) (tokens d))"

definition Token_UpdateLastUpdateTimestamp :: "string \<Rightarrow> int \<Rightarrow> db \<Rightarrow> sql_error + db" where
  "Token_UpdateLastUpdateTimestamp tokenStandard timestamp d =
     Inr (d\<lparr> tokens := update_where (\<lambda>t. tk_TokenStandard t = tokenStandard)
       (\<lambda>t. t\<lparr> tk_LastUpdateTimestamp := timestamp \<rparr>) (tokens d) \<rparr>)"

definition count_token :: "Token \<Rightarrow> sql_error + Token" where
  "count_token t =
     map_Inr (\<lambda>n. t\<lparr> tk_TransactionCount := n \<rparr>) (add_bigint (tk_TransactionCount t) 1)"

definition Token_IncrementTransactionCount :: "string \<Rightarrow> db \<Rightarrow> sql_error + db" where
  "Token_IncrementTransactionCount tokenStandard d =
     map_Inr (\<lambda>r. d\<lparr> tokens := r \<rparr>)
       (update_chk (\<lambda>t. tk_TokenStandard t = tokenStandard) count_token (tokens d))"

definition Token_UpdateHolderCount :: "string \<Rightarrow> int \<Rightarrow> db \<Rightarrow> sql_error + db" where
  "Token_UpdateHolderCount tokenStandard n d =
     Inr (d\<lparr> tokens := update_where (\<lambda>t. tk_TokenStandard t = tokenStandard)
       (\<lambda>t. t\<lparr> tk_HolderCount := n \<rparr>) (tokens d) \<rparr>)"

definition Token_GetByStandard :: "string \<Rightarrow> db \<Rightarrow> sql_error + Token" where
  "Token_GetByStandard tokenStandard d =
     (if tokenStandard = [] then Inl (Required ''token_standard is required'')
      else row_or_none (find_by tk_TokenStandard tokenStandard (tokens d)))"

text \<open>\<open>ORDER BY holder_count DESC, token_standard ASC\<close>.\<close>

definition token_rows :: "unit \<Rightarrow> string \<Rightarrow> db \<Rightarrow> Token list" where
  "token_rows u s d = order_desc tk_HolderCount (order_asc tk_TokenStandard (tokens d))"

definition Token_List :: "unit \<Rightarrow> ListOpts \<Rightarrow> db \<Rightarrow> sql_error + Token list \<times> int" where
  "Token_List u opts d = paged (token_rows u (lo_Sort opts) d) opts"

definition Token_GetAll :: "db \<Rightarrow> Token list" where
  "Token_GetAll d = tokens d"

subsection \<open>Mint and burn events\<close>

definition InsertMint :: "TokenMint \<Rightarrow> db \<Rightarrow> sql_error + db" where
  "InsertMint m d = Inr (d\<lparr> token_mints := insert_ignore tm_AccountBlockHash m (token_mints d) \<rparr>)"

definition InsertBurn :: "TokenBurn \<Rightarrow> db \<Rightarrow> sql_error + db" where
  "InsertBurn b d = Inr (d\<lparr> token_burns := insert_ignore tb_AccountBlockHash b (token_burns d) \<rparr>)"

text \<open>The day is given by the epoch second of its UTC midnight.\<close>

definition in_day :: "int \<Rightarrow> int \<Rightarrow> bool" where
  "in_day lo ts \<longleftrightarrow> lo \<le> ts \<and> ts < lo + 86400"

definition SumDailyMintsBurns :: "string \<Rightarrow> int \<Rightarrow> db \<Rightarrow> int \<times> int" where
  "SumDailyMintsBurns tokenStandard lo d =
     (sum_where (\<lambda>m. tm_TokenStandard m = tokenStandard \<and> in_day lo (tm_MomentumTimestamp m))
        tm_Amount (token_mints d),
      sum_where (\<lambda>b. tb_TokenStandard b = tokenStandard \<and> in_day lo (tb_MomentumTimestamp b))
        tb_Amount (token_burns d))"

subsection \<open>The contracts hold\<close>

interpretation token_table: upsert_table tk_TokenStandard merge_token
  by unfold_locales (auto simp: merge_token_def)

interpretation token_listing: listing token_rows Token_List "\<lambda>_. True"
  by unfold_locales (simp add: Token_List_def)

lemma burn_token_keeps: "burn_token n t = Inr t' \<Longrightarrow> tk_TokenStandard t' = tk_TokenStandard t"
  and count_token_keeps: "count_token t = Inr t' \<Longrightarrow> tk_TokenStandard t' = tk_TokenStandard t"
  by (auto simp: burn_token_def count_token_def map_Inr_eq_Inr)

lemma token_standards:
  "Token_UpdateBurnAmount s n d = Inr d' \<Longrightarrow>
   map tk_TokenStandard (tokens d') = map tk_TokenStandard (tokens d)"
  "Token_IncrementTransactionCount s d = Inr d' \<Longrightarrow>
   map tk_TokenStandard (tokens d') = map tk_TokenStandard (tokens d)"
  "Token_UpdateLastUpdateTimestamp s ts d = Inr d' \<Longrightarrow>
   map tk_TokenStandard (tokens d') = map tk_TokenStandard (tokens d)"
  by (auto simp: Token_UpdateBurnAmount_def Token_IncrementTransactionCount_def
      Token_UpdateLastUpdateTimestamp_def map_Inr_eq_Inr update_chk_Inr updated_row_def
      map_update_where burn_token_def count_token_def
      elim!: list_all2_map_eq split: if_splits)

definition total_burned_of :: "string \<Rightarrow> db \<Rightarrow> int" where
  "total_burned_of s d = counter tk_TokenStandard tk_TotalBurned s (tokens d)"

definition burns_sum :: "string \<Rightarrow> db \<Rightarrow> int" where
  "burns_sum s d = sum_where (\<lambda>b. tb_TokenStandard b = s) tb_Amount (token_burns d)"

end
