(* ===== verification/Repo_Entries.thy ===== *)
theory Repo_Entries
  imports Store
begin

text \<open>
  The repositories of the contract entries: \<open>stake.go\<close>, \<open>fusion.go\<close>, \<open>sentinel.go\<close>, \<open>htlc.go\<close>,
  \<open>swap.go\<close> and \<open>reward.go\<close> under \<open>internal/repository\<close>.
\<close>

subsection \<open>Stakes\<close>

definition Stake_Insert :: "Stake \<Rightarrow> db \<Rightarrow> sql_error + db" where
  "Stake_Insert s d = Inr (d\<lparr> stakes := insert_ignore st_ID s (stakes d) \<rparr>)"

definition Stake_SetInactive :: "string \<Rightarrow> address \<Rightarrow> db \<Rightarrow> sql_error + db" where
  "Stake_SetInactive cancelID address d =
     Inr (d\<lparr> stakes := update_where (\<lambda>s. st_CancelID s = cancelID \<and> st_Address s = address)
       (\<lambda>s. s\<lparr> st_IsActive := False \<rparr>) (stakes d) \<rparr>)"

definition stake_rows :: "bool \<Rightarrow> string \<Rightarrow> db \<Rightarrow> Stake list" where
  "stake_rows activeOnly s d =
     order_desc st_StartTimestamp (filter (\<lambda>x. activeOnly \<longrightarrow> st_IsActive x) (stakes d))"

definition Stake_List :: "bool \<Rightarrow> ListOpts \<Rightarrow> db \<Rightarrow> sql_error + Stake list \<times> int" where
  "Stake_List activeOnly opts d = paged (stake_rows activeOnly (lo_Sort opts) d) opts"

definition stake_address_rows :: "address \<times> bool \<Rightarrow> string \<Rightarrow> db \<Rightarrow> Stake list" where
  "stake_address_rows = (\<lambda>(address, activeOnly) s d.
     order_desc st_StartTimestamp
       (filter (\<lambda>x. st_Address x = address \<and> (activeOnly \<longrightarrow> st_IsActive x)) (stakes d)))"

definition Stake_ListByAddress ::
  "address \<times> bool \<Rightarrow> ListOpts \<Rightarrow> db \<Rightarrow> sql_error + Stake list \<times> int" where
  "Stake_ListByAddress a opts d =
     (if fst a = [] then Inl (Required ''address is required'')
      else paged (stake_address_rows a (lo_Sort opts) d) opts)"

definition Stake_GetByID :: "string \<Rightarrow> db \<Rightarrow> sql_error + Stake" where
  "Stake_GetByID i d = row_or_none (find_by st_ID i (stakes d))"

subsection \<open>Fusions\<close>

definition Fusion_Insert :: "Fusion \<Rightarrow> db \<Rightarrow> sql_error + db" where
  "Fusion_Insert f d = Inr (d\<lparr> fusions := insert_ignore fu_ID f (fusions d) \<rparr>)"

definition Fusion_SetInactive :: "string \<Rightarrow> address \<Rightarrow> db \<Rightarrow> sql_error + db" where
  "Fusion_SetInactive cancelID address d =
     Inr (d\<lparr> fusions := update_where (\<lambda>f. fu_CancelID f = cancelID \<and> fu_Address f = address)
       (\<lambda>f. f\<lparr> fu_IsActive := False \<rparr>) (fusions d) \<rparr>)"

definition fusion_rows :: "bool \<Rightarrow> string \<Rightarrow> db \<Rightarrow> Fusion list" where
  "fusion_rows activeOnly s d =
     order_desc fu_MomentumHeight (filter (\<lambda>x. activeOnly \<longrightarrow> fu_IsActive x) (fusions d))"

definition Fusion_List :: "bool \<Rightarrow> ListOpts \<Rightarrow> db \<Rightarrow> sql_error + Fusion list \<times> int" where
  "Fusion_List activeOnly opts d = paged (fusion_rows activeOnly (lo_Sort opts) d) opts"

definition fusion_address_rows :: "address \<times> bool \<Rightarrow> string \<Rightarrow> db \<Rightarrow> Fusion list" where
  "fusion_address_rows = (\<lambda>(address, activeOnly) s d.
     order_desc fu_MomentumHeight
       (filter (\<lambda>x. (fu_Address x = address \<or> fu_Beneficiary x = address) \<and>
          (activeOnly \<longrightarrow> fu_IsActive x)) (fusions d)))"

definition Fusion_ListByAddress ::
  "address \<times> bool \<Rightarrow> ListOpts \<Rightarrow> db \<Rightarrow> sql_error + Fusion list \<times> int" where
  "Fusion_ListByAddress a opts d =
     (if fst a = [] then Inl (Required ''address is required'')
      else paged (fusion_address_rows a (lo_Sort opts) d) opts)"

definition Fusion_GetByID :: "string \<Rightarrow> db \<Rightarrow> sql_error + Fusion" where
  "Fusion_GetByID i d = row_or_none (find_by fu_ID i (fusions d))"

subsection \<open>Sentinels\<close>

definition merge_sentinel :: "Sentinel \<Rightarrow> Sentinel \<Rightarrow> sql_error + Sentinel" where
  "merge_sentinel old new =
     Inr (old\<lparr> se_IsRevocable := se_IsRevocable new, se_RevokeCooldown := se_RevokeCooldown new \<rparr>)"

definition Sentinel_Upsert :: "Sentinel \<Rightarrow> db \<Rightarrow> sql_error + db" where
  "Sentinel_Upsert s d =
     map_Inr (\<lambda>t. d\<lparr> sentinels := t \<rparr>) (upsert se_Owner merge_sentinel s (sentinels d))"

definition Sentinel_SetInactive :: "address \<Rightarrow> db \<Rightarrow> sql_error + db" where
  "Sentinel_SetInactive owner d =
     Inr (d\<lparr> sentinels := update_where (\<lambda>s. se_Owner s = owner)
       (\<lambda>s. s\<lparr> se_Active := False \<rparr>) (sentinels d) \<rparr>)"

definition sentinel_rows :: "bool \<Rightarrow> string \<Rightarrow> db \<Rightarrow> Sentinel list" where
  "sentinel_rows activeOnly s d =
     order_desc se_RegistrationTimestamp (filter (\<lambda>x. activeOnly \<longrightarrow> se_Active x) (sentinels d))"

definition Sentinel_List :: "bool \<Rightarrow> ListOpts \<Rightarrow> db \<Rightarrow> sql_error + Sentinel list \<times> int" where
  "Sentinel_List activeOnly opts d = paged (sentinel_rows activeOnly (lo_Sort opts) d) opts"

definition Sentinel_GetByOwner :: "address \<Rightarrow> db \<Rightarrow> sql_error + Sentinel" where
  "Sentinel_GetByOwner owner d = row_or_none (find_by se_Owner owner (sentinels d))"

subsection \<open>Hash-time-locked contracts\<close>

definition Htlc_Insert :: "Htlc \<Rightarrow> db \<Rightarrow> sql_error + db" where
  "Htlc_Insert h d = Inr (d\<lparr> htlcs := insert_ignore ht_ID h (htlcs d) \<rparr>)"

definition Htlc_Settle :: "string \<Rightarrow> int \<Rightarrow> string \<Rightarrow> int \<Rightarrow> int \<Rightarrow> db \<Rightarrow> sql_error + db" where
  "Htlc_Settle i status preimage height ts d =
     Inr (d\<lparr> htlcs := update_where (\<lambda>h. ht_ID h = i)
       (\<lambda>h. h\<lparr> ht_Status := status, ht_Preimage := preimage, ht_SettleMomentumHeight := height,
          ht_SettleMomentumTimestamp := ts \<rparr>) (htlcs d) \<rparr>)"

definition Htlc_GetByID :: "string \<Rightarrow> db \<Rightarrow> sql_error + Htlc" where
  "Htlc_GetByID i d = row_or_none (find_by ht_ID i (htlcs d))"

definition htlc_rows :: "unit \<Rightarrow> string \<Rightarrow> db \<Rightarrow> Htlc list" where
  "htlc_rows u s d = order_desc ht_CreationMomentumHeight (htlcs d)"

definition Htlc_List :: "unit \<Rightarrow> ListOpts \<Rightarrow> db \<Rightarrow> sql_error + Htlc list \<times> int" where
  "Htlc_List u opts d = paged (htlc_rows u (lo_Sort opts) d) opts"

subsection \<open>Genesis swap\<close>

definition Swap_InsertRetrieval :: "SwapRetrieval \<Rightarrow> db \<Rightarrow> sql_error + db" where
  "Swap_InsertRetrieval s d =
     Inr (d\<lparr> swap_retrievals := insert_ignore sr_ID s (swap_retrievals d) \<rparr>)"

definition merge_asset :: "SwapAsset \<Rightarrow> SwapAsset \<Rightarrow> sql_error + SwapAsset" where
  "merge_asset old new =
     Inr (old\<lparr> sa_Znn := sa_Znn new, sa_Qsr := sa_Qsr new,
       sa_LastUpdatedTimestamp := sa_LastUpdatedTimestamp new \<rparr>)"

definition Swap_UpsertAsset :: "SwapAsset \<Rightarrow> db \<Rightarrow> sql_error + db" where
  "Swap_UpsertAsset a d =
     map_Inr (\<lambda>t. d\<lparr> swap_assets := t \<rparr>) (upsert sa_KeyIDHash merge_asset a (swap_assets d))"

definition Swap_GetAsset :: "string \<Rightarrow> db \<Rightarrow> sql_error + SwapAsset" where
  "Swap_GetAsset keyIDHash d = row_or_none (find_by sa_KeyIDHash keyIDHash (swap_assets d))"

definition retrieval_rows :: "unit \<Rightarrow> string \<Rightarrow> db \<Rightarrow> SwapRetrieval list" where
  "retrieval_rows u s d = order_desc sr_MomentumHeight (swap_retrievals d)"

definition Swap_ListRetrievals :: "unit \<Rightarrow> ListOpts \<Rightarrow> db \<Rightarrow> sql_error + SwapRetrieval list \<times> int" where
  "Swap_ListRetrievals u opts d = paged (retrieval_rows u (lo_Sort opts) d) opts"

subsection \<open>Rewards\<close>

definition merge_reward :: "CumulativeReward \<Rightarrow> CumulativeReward \<Rightarrow> sql_error + CumulativeReward" where
  "merge_reward old new =
     map_Inr (\<lambda>n. old\<lparr> cr_Amount := n \<rparr>) (add_bigint (cr_Amount old) (cr_Amount new))"

definition Reward_UpdateCumulative ::
  "address \<Rightarrow> RewardType \<Rightarrow> int \<Rightarrow> string \<Rightarrow> db \<Rightarrow> sql_error + db" where
  "Reward_UpdateCumulative address rewardType amount tokenStandard d =
     map_Inr (\<lambda>t. d\<lparr> cumulative_rewards := t \<rparr>)
       (upsert reward_key merge_reward
          \<lparr> cr_Address = address, cr_RewardType = rewardType, cr_Amount = amount,
            cr_TokenStandard = tokenStandard \<rparr>
          (cumulative_rewards d))"

definition Reward_InsertTransaction :: "RewardTransaction \<Rightarrow> db \<Rightarrow> sql_error + db" where
  "Reward_InsertTransaction rt d =
     Inr (d\<lparr> reward_transactions := insert_ignore rt_Hash rt (reward_transactions d) \<rparr>)"

text \<open>The stored code of a reward type, \<open>int(rewardType)\<close>, orders the listing.\<close>

fun RewardType_code :: "RewardType \<Rightarrow> int" where
  "RewardType_code RewardTypeUnknown = 0"
| "RewardType_code RewardTypeStake = 1"
| "RewardType_code RewardTypeDelegation = 2"
| "RewardType_code RewardTypeLiquidity = 3"
| "RewardType_code RewardTypeSentinel = 4"
| "RewardType_code RewardTypePillar = 5"

definition Reward_CumulativeByAddress :: "address \<Rightarrow> db \<Rightarrow> sql_error + CumulativeReward list" where
  "Reward_CumulativeByAddress address d =
     (if address = [] then Inl (Required ''address is required'')
      else Inr (order_asc (\<lambda>c. RewardType_code (cr_RewardType c)) (order_asc cr_TokenStandard
             (filter (\<lambda>c. cr_Address c = address) (cumulative_rewards d)))))"

definition reward_rows :: "address \<Rightarrow> string \<Rightarrow> db \<Rightarrow> RewardTransaction list" where
  "reward_rows address s d =
     order_desc rt_MomentumHeight (filter (\<lambda>r. rt_Address r = address) (reward_transactions d))"

definition Reward_HistoryByAddress ::
  "address \<Rightarrow> ListOpts \<Rightarrow> db \<Rightarrow> sql_error + RewardTransaction list \<times> int" where
  "Reward_HistoryByAddress address opts d =
     (if address = [] then Inl (Required ''address is required'')
      else paged (reward_rows address (lo_Sort opts) d) opts)"

definition Reward_GetByAddress :: "address \<Rightarrow> db \<Rightarrow> RewardTransaction list" where
  "Reward_GetByAddress address d = reward_rows address [] d"

subsection \<open>The contracts hold\<close>

interpretation sentinel_table: upsert_table se_Owner merge_sentinel
  by unfold_locales (auto simp: merge_sentinel_def)

interpretation asset_table: upsert_table sa_KeyIDHash merge_asset
  by unfold_locales (auto simp: merge_asset_def)

interpretation reward_table: upsert_table reward_key merge_reward
  by unfold_locales (auto simp: merge_reward_def map_Inr_eq_Inr reward_key_def)

interpretation stake_listing: listing stake_rows Stake_List "\<lambda>_. True"
  by unfold_locales (simp add: Stake_List_def)

interpretation stake_address_listing: listing stake_address_rows Stake_ListByAddress "\<lambda>a. fst a \<noteq> []"
  by unfold_locales (simp add: Stake_ListByAddress_def)

interpretation fusion_listing: listing fusion_rows Fusion_List "\<lambda>_. True"
  by unfold_locales (simp add: Fusion_List_def)

interpretation fusion_address_listing:
  listing fusion_address_rows Fusion_ListByAddress "\<lambda>a. fst a \<noteq> []"
  by unfold_locales (simp add: Fusion_ListByAddress_def)

interpretation sentinel_listing: listing sentinel_rows Sentinel_List "\<lambda>_. True"
  by unfold_locales (simp add: Sentinel_List_def)

interpretation htlc_listing: listing htlc_rows Htlc_List "\<lambda>_. True"
  by unfold_locales (simp add: Htlc_List_def)

interpretation retrieval_listing: listing retrieval_rows Swap_ListRetrievals "\<lambda>_. True"
  by unfold_locales (simp add: Swap_ListRetrievals_def)

interpretation reward_listing: listing reward_rows Reward_HistoryByAddress "\<lambda>a. a \<noteq> []"
  by unfold_locales (simp add: Reward_HistoryByAddress_def)

subsection \<open>Cumulative rewards\<close>

definition cumulative_of :: "address \<times> RewardType \<times> string \<Rightarrow> db \<Rightarrow> int" where
  "cumulative_of k d = counter reward_key cr_Amount k (cumulative_rewards d)"

definition rt_key :: "RewardTransaction \<Rightarrow> address \<times> RewardType \<times> string" where
  "rt_key r = (rt_Address r, rt_RewardType r, rt_TokenStandard r)"

definition reward_sum :: "address \<times> RewardType \<times> string \<Rightarrow> db \<Rightarrow> int" where
  "reward_sum k d = sum_where (\<lambda>r. rt_key r = k) rt_Amount (reward_transactions d)"

lemma cumulative_Update:
  "Reward_UpdateCumulative a ty n tok d = Inr d' \<Longrightarrow>
   cumulative_of k d' = cumulative_of k d + (if k = (a, ty, tok) then n else 0)"
  by (auto simp: Reward_UpdateCumulative_def cumulative_of_def map_Inr_eq_Inr merge_reward_def
      add_bigint_Inr reward_key_def
      dest!: reward_table.counter_upsert [where obs = cr_Amount and delta = n and k = k])

lemma reward_sum_Insert:
  "Reward_InsertTransaction rt d = Inr d' \<Longrightarrow>
   reward_sum k d' = reward_sum k d +
     (if find_by rt_Hash (rt_Hash rt) (reward_transactions d) = None \<and> rt_key rt = k
      then rt_Amount rt else 0)"
  by (auto simp: Reward_InsertTransaction_def reward_sum_def insert_ignore_def find_by_None)

end
