(* ===== verification/Repo_Accelerator.thy ===== *)
theory Repo_Accelerator
  imports Store
begin

text \<open>
  \<open>internal/repository/project.go\<close>, \<open>project_phase.go\<close> and \<open>vote.go\<close>: the Accelerator-Z proposals,
  the votes on them, the aggregated voting report of a project and the voting history of a
  pillar.
\<close>

subsection \<open>Projects and phases\<close>

definition merge_project :: "Project \<Rightarrow> Project \<Rightarrow> sql_error + Project" where
  "merge_project old new =
     Inr (old\<lparr> pj_LastUpdateTimestamp := pj_LastUpdateTimestamp new, pj_Status := pj_Status new,
       pj_YesVotes := pj_YesVotes new, pj_NoVotes := pj_NoVotes new,
       pj_TotalVotes := pj_TotalVotes new \<rparr>)"

definition Project_Upsert :: "Project \<Rightarrow> db \<Rightarrow> sql_error + db" where
  "Project_Upsert p d =
     map_Inr (\<lambda>t. d\<lparr> projects := t \<rparr>) (upsert pj_ID merge_project p (projects d))"

definition Project_GetIDsCreatedAtOrAfter :: "int \<Rightarrow> db \<Rightarrow> string list" where
  "Project_GetIDsCreatedAtOrAfter timestamp d =
     map pj_ID (filter (\<lambda>p. timestamp \<le> pj_CreationTimestamp p) (projects d))"

definition GetIDFromVotingID :: "string \<Rightarrow> db \<Rightarrow> sql_error + string" where
  "GetIDFromVotingID votingID d =
     map_Inr pj_ID (row_or_none (find_by pj_VotingID votingID (projects d)))"

definition Project_GetByID :: "string \<Rightarrow> db \<Rightarrow> sql_error + Project" where
  "Project_GetByID i d =
     (if i = [] then Inl (Required ''id is required'') else row_or_none (find_by pj_ID i (projects d)))"

definition project_rows :: "unit \<Rightarrow> string \<Rightarrow> db \<Rightarrow> Project list" where
  "project_rows u s d = order_desc pj_CreationTimestamp (projects d)"

definition Project_List :: "unit \<Rightarrow> ListOpts \<Rightarrow> db \<Rightarrow> sql_error + Project list \<times> int" where
  "Project_List u opts d = paged (project_rows u (lo_Sort opts) d) opts"

definition Project_GetAll :: "db \<Rightarrow> Project list" where
  "Project_GetAll d = projects d"

definition merge_phase :: "ProjectPhase \<Rightarrow> ProjectPhase \<Rightarrow> sql_error + ProjectPhase" where
  "merge_phase old new =
     Inr (old\<lparr> pp_AcceptedTimestamp := pp_AcceptedTimestamp new, pp_Status := pp_Status new,
       pp_YesVotes := pp_YesVotes new, pp_NoVotes := pp_NoVotes new,
       pp_TotalVotes := pp_TotalVotes new \<rparr>)"

definition Phase_Upsert :: "ProjectPhase \<Rightarrow> db \<Rightarrow> sql_error + db" where
  "Phase_Upsert p d =
     map_Inr (\<lambda>t. d\<lparr> project_phases := t \<rparr>) (upsert pp_ID merge_phase p (project_phases d))"

definition Phase_GetIDsCreatedAtOrAfter :: "int \<Rightarrow> db \<Rightarrow> string list" where
  "Phase_GetIDsCreatedAtOrAfter timestamp d =
     map pp_ID (filter (\<lambda>p. timestamp \<le> pp_CreationTimestamp p) (project_phases d))"

definition Phase_ListByProject :: "string \<Rightarrow> db \<Rightarrow> sql_error + ProjectPhase list" where
  "Phase_ListByProject projectID d =
     (if projectID = [] then Inl (Required ''project_id is required'')
      else Inr (order_asc pp_CreationTimestamp
             (filter (\<lambda>p. pp_ProjectID p = projectID) (project_phases d))))"

definition GetProjectAndPhaseIDFromVotingID :: "string \<Rightarrow> db \<Rightarrow> sql_error + string \<times> string" where
  "GetProjectAndPhaseIDFromVotingID votingID d =
     map_Inr (\<lambda>p. (pp_ProjectID p, pp_ID p))
       (row_or_none (find_by pp_VotingID votingID (project_phases d)))"

subsection \<open>Votes\<close>

definition merge_vote :: "Vote \<Rightarrow> Vote \<Rightarrow> sql_error + Vote" where
  "merge_vote old new =
     Inr (old\<lparr> vo_MomentumHash := vo_MomentumHash new, vo_MomentumTimestamp := vo_MomentumTimestamp new,
       vo_MomentumHeight := vo_MomentumHeight new, vo_Vote := vo_Vote new \<rparr>)"

definition Vote_Insert :: "Vote \<Rightarrow> db \<Rightarrow> sql_error + db" where
  "Vote_Insert v d = map_Inr (\<lambda>t. d\<lparr> votes := t \<rparr>) (upsert vote_key merge_vote v (votes d))"

definition GetVoteCountForProjects :: "address \<Rightarrow> string list \<Rightarrow> db \<Rightarrow> int" where
  "GetVoteCountForProjects voterAddress projectIDs d =
     int (length (remdups (map vo_ProjectID (filter (\<lambda>v. vo_VoterAddress v = voterAddress \<and>
        vo_ProjectID v \<in> set projectIDs \<and> vo_PhaseID v = []) (votes d)))))"

definition GetVoteCountForPhases :: "address \<Rightarrow> string list \<Rightarrow> db \<Rightarrow> int" where
  "GetVoteCountForPhases voterAddress phaseIDs d =
     int (length (remdups (map vo_PhaseID (filter (\<lambda>v. vo_VoterAddress v = voterAddress \<and>
        vo_PhaseID v \<in> set phaseIDs) (votes d)))))"

definition vote_rows :: "string \<Rightarrow> string \<Rightarrow> db \<Rightarrow> Vote list" where
  "vote_rows projectID s d =
     order_desc vo_MomentumHeight (filter (\<lambda>v. vo_ProjectID v = projectID) (votes d))"

definition Vote_ListByProject :: "string \<Rightarrow> ListOpts \<Rightarrow> db \<Rightarrow> sql_error + Vote list \<times> int" where
  "Vote_ListByProject projectID opts d =
     (if projectID = [] then Inl (Required ''project_id is required'')
      else paged (vote_rows projectID (lo_Sort opts) d) opts)"

subsection \<open>The voting report of a project\<close>

record ProposalTallyRow =
  pt_VotingID :: string
  pt_ByPillar :: "(string \<times> int) list"
  pt_NoVotePillars :: "string list"

record PhaseTallyRow =
  ph_PhaseID :: string
  ph_PhaseName :: string
  ph_Tally :: ProposalTallyRow

record ProjectVotingReportRow =
  pr_ProjectID :: string
  pr_ProjectName :: string
  pr_ActivePillarCount :: int
  pr_Project :: ProposalTallyRow
  pr_Phases :: "PhaseTallyRow list"

definition SetNoVote :: "string list \<Rightarrow> ProposalTallyRow \<Rightarrow> ProposalTallyRow" where
  "SetNoVote activePillars t =
     t\<lparr> pt_NoVotePillars := pt_NoVotePillars t @
       filter (\<lambda>name. map_of (pt_ByPillar t) name = None) activePillars \<rparr>"

definition loadProjectIdentity :: "string \<Rightarrow> db \<Rightarrow> sql_error + string \<times> string" where
  "loadProjectIdentity projectID d =
     map_Inr (\<lambda>p. (pj_Name p, pj_VotingID p)) (row_or_none (find_by pj_ID projectID (projects d)))"

record phaseMeta =
  pm_id :: string
  pm_votingID :: string
  pm_name :: string

definition loadPhaseMetas :: "string \<Rightarrow> db \<Rightarrow> phaseMeta list" where
  "loadPhaseMetas projectID d =
     map (\<lambda>p. \<lparr> pm_id = pp_ID p, pm_votingID = pp_VotingID p, pm_name = pp_Name p \<rparr>)
       (order_asc pp_CreationTimestamp (filter (\<lambda>p. pp_ProjectID p = projectID) (project_phases d)))"

definition loadActivePillarNames :: "db \<Rightarrow> string list" where
  "loadActivePillarNames d = sort (map pl_Name (filter (\<lambda>p. \<not> pl_IsRevoked p) (pillars d)))"

text \<open>
  The three joins of \<open>loadVotesByVotingID\<close>: the active pillar that owns the voting address; else,
  through the last registration at or below the vote's height whose producer is the voting
  address; else, when there is no such registration, the best ranked active pillar that produces
  with that address now.
\<close>

definition active_owner :: "address \<Rightarrow> db \<Rightarrow> Pillar option" where
  "active_owner a d = find (\<lambda>p. pl_OwnerAddress p = a \<and> \<not> pl_IsRevoked p) (pillars d)"

definition registered_at :: "Vote \<Rightarrow> db \<Rightarrow> PillarUpdate option" where
  "registered_at v d =
     last_where (\<lambda>u. pu_ProducerAddress u = vo_VoterAddress v \<and>
       pu_MomentumHeight u \<le> vo_MomentumHeight v) (pillar_updates d)"

definition current_producer :: "address \<Rightarrow> db \<Rightarrow> Pillar option" where
  "current_producer a d =
     (case order_asc pl_Rank (filter (\<lambda>p. pl_ProducerAddress p = a \<and> \<not> pl_IsRevoked p) (pillars d)) of
        [] \<Rightarrow> None | p # _ \<Rightarrow> Some p)"

definition voter_name :: "Vote \<Rightarrow> db \<Rightarrow> string option" where
  "voter_name v d =
     (case active_owner (vo_VoterAddress v) d of
        Some p \<Rightarrow> Some (pl_Name p)
      | None \<Rightarrow>
          (case registered_at v d of
             Some u \<Rightarrow> map_option pl_Name (active_owner (pu_OwnerAddress u) d)
           | None \<Rightarrow> map_option pl_Name (current_producer (vo_VoterAddress v) d)))"

text \<open>\<open>map[votingID]map[pillar]vote\<close>, filled row by row.\<close>

definition put_vote :: "string \<Rightarrow> string \<Rightarrow> int \<Rightarrow> (string \<times> (string \<times> int) list) list \<Rightarrow>
    (string \<times> (string \<times> int) list) list" where
  "put_vote votingID name vote out =
     (case map_of out votingID of
        None \<Rightarrow> out
      | Some m \<Rightarrow> alist_set votingID (alist_set name vote m) out)"

definition vote_step :: "db \<Rightarrow> Vote \<Rightarrow> (string \<times> (string \<times> int) list) list \<Rightarrow>
    (string \<times> (string \<times> int) list) list" where
  "vote_step d v out =
     (case voter_name v d of None \<Rightarrow> out | Some name \<Rightarrow> put_vote (vo_VotingID v) name (vo_Vote v) out)"

definition loadVotesByVotingID :: "string list \<Rightarrow> db \<Rightarrow> (string \<times> (string \<times> int) list) list" where
  "loadVotesByVotingID votingIDs d =
     fold (vote_step d) (filter (\<lambda>v. vo_VotingID v \<in> set votingIDs) (votes d))
       (fold (\<lambda>vid. alist_set vid []) votingIDs [])"

definition tally_for :: "string list \<Rightarrow> (string \<times> (string \<times> int) list) list \<Rightarrow> string \<Rightarrow>
    ProposalTallyRow" where
  "tally_for pillarNames votesByID votingID =
     SetNoVote pillarNames
       \<lparr> pt_VotingID = votingID,
         pt_ByPillar = (case map_of votesByID votingID of None \<Rightarrow> [] | Some m \<Rightarrow> m),
         pt_NoVotePillars = [] \<rparr>"

definition ProjectVotingReport :: "string \<Rightarrow> db \<Rightarrow> sql_error + ProjectVotingReportRow" where
  "ProjectVotingReport projectID d =
     (if projectID = [] then Inl (Required ''project_id is required'')
      else
        (case loadProjectIdentity projectID d of
           Inl e \<Rightarrow> Inl e
         | Inr (projectName, projectVotingID) \<Rightarrow>
             let phases = loadPhaseMetas projectID d;
                 pillarNames = loadActivePillarNames d;
                 votingIDs = projectVotingID # map pm_votingID phases;
                 votesByID = loadVotesByVotingID votingIDs d
             in Inr \<lparr> pr_ProjectID = projectID, pr_ProjectName = projectName,
                  pr_ActivePillarCount = int (length pillarNames),
                  pr_Project = tally_for pillarNames votesByID projectVotingID,
                  pr_Phases = map (\<lambda>p. \<lparr> ph_PhaseID = pm_id p, ph_PhaseName = pm_name p,
                      ph_Tally = tally_for pillarNames votesByID (pm_votingID p) \<rparr>) phases \<rparr>))"

subsection \<open>The voting history of a pillar\<close>

record PillarVoteRow =
  pv_VotingID :: string
  pv_Vote :: int
  pv_MomentumHeight :: int
  pv_MomentumTimestamp :: int
  pv_ProjectID :: string
  pv_PhaseID :: string
  pv_ProjectName :: string
  pv_PhaseName :: string

record PillarVotingHistoryRow =
  pvh_PillarName :: string
  pvh_PillarOwner :: string
  pvh_Votes :: "PillarVoteRow list"

definition cast_by :: "address \<Rightarrow> address \<Rightarrow> db \<Rightarrow> Vote \<Rightarrow> bool" where
  "cast_by owner currentProducer d v \<longleftrightarrow>
     vo_VoterAddress v = owner \<or>
     (case registered_at v d of
        Some u \<Rightarrow> pu_OwnerAddress u = owner
      | None \<Rightarrow> vo_VoterAddress v = currentProducer)"

definition PillarVotingHistory :: "string \<Rightarrow> db \<Rightarrow> sql_error + PillarVotingHistoryRow" where
  "PillarVotingHistory pillarName d =
     (if pillarName = [] then Inl (Required ''pillar name is required'')
      else
        map_Inr (\<lambda>p.
            \<lparr> pvh_PillarName = pillarName, pvh_PillarOwner = pl_OwnerAddress p,
              pvh_Votes = map (\<lambda>v.
                \<lparr> pv_VotingID = vo_VotingID v, pv_Vote = vo_Vote v,
                  pv_MomentumHeight = vo_MomentumHeight v,
                  pv_MomentumTimestamp = vo_MomentumTimestamp v,
                  pv_ProjectID = vo_ProjectID v, pv_PhaseID = vo_PhaseID v,
                  pv_ProjectName = (case find_by pj_ID (vo_ProjectID v) (projects d) of
                      None \<Rightarrow> [] | Some x \<Rightarrow> pj_Name x),
                  pv_PhaseName = (case find_by pp_ID (vo_PhaseID v) (project_phases d) of
                      None \<Rightarrow> [] | Some x \<Rightarrow> pp_Name x) \<rparr>)
                (order_desc vo_MomentumTimestamp
                  (filter (cast_by (pl_OwnerAddress p) (pl_ProducerAddress p) d) (votes d))) \<rparr>)
          (row_or_none (find_by pl_Name pillarName (pillars d))))"

subsection \<open>The contracts hold\<close>

interpretation project_table: upsert_table pj_ID merge_project
  by unfold_locales (auto simp: merge_project_def)

interpretation phase_table: upsert_table pp_ID merge_phase
  by unfold_locales (auto simp: merge_phase_def)

interpretation vote_table: upsert_table vote_key merge_vote
  by unfold_locales (auto simp: merge_vote_def vote_key_def)

interpretation project_listing: listing project_rows Project_List "\<lambda>_. True"
  by unfold_locales (simp add: Project_List_def)

interpretation vote_listing: listing vote_rows Vote_ListByProject "\<lambda>p. p \<noteq> []"
  by unfold_locales (simp add: Vote_ListByProject_def)

text \<open>Every pillar name under which a vote is tallied is the name of an active pillar.\<close>

lemma voter_name_active:
  "voter_name v d = Some n \<Longrightarrow> \<exists>p\<in>set (pillars d). \<not> pl_IsRevoked p \<and> pl_Name p = n"
proof -
  have owner: "active_owner a d = Some p \<Longrightarrow> p \<in> set (pillars d) \<and> \<not> pl_IsRevoked p" for a p
    by (auto simp: active_owner_def find_Some_iff)
  have prod: "current_producer a d = Some p \<Longrightarrow> p \<in> set (pillars d) \<and> \<not> pl_IsRevoked p" for a p
  proof -
    assume "current_producer a d = Some p"
    then have "p \<in> set (order_asc pl_Rank
        (filter (\<lambda>p. pl_ProducerAddress p = a \<and> \<not> pl_IsRevoked p) (pillars d)))"
      by (auto simp: current_producer_def simp del: set_order_asc split: list.splits)
    then show ?thesis by simp
  qed
  assume "voter_name v d = Some n"
  then show ?thesis
    by (auto simp: voter_name_def split: option.splits dest!: owner prod)
qed

text \<open>Every inner map has distinct keys, all of them active pillar names.\<close>

definition tally_ok :: "db \<Rightarrow> (string \<times> int) list \<Rightarrow> bool" where
  "tally_ok d m \<longleftrightarrow> distinct (map fst m) \<and> fst ` set m \<subseteq> set (loadActivePillarNames d)"

lemma set_loadActivePillarNames:
  "set (loadActivePillarNames d) = pl_Name ` {p \<in> set (pillars d). \<not> pl_IsRevoked p}"
  by (auto simp: loadActivePillarNames_def)

lemma tally_ok_set:
  "tally_ok d m \<Longrightarrow> n \<in> set (loadActivePillarNames d) \<Longrightarrow> tally_ok d (alist_set n x m)"
  by (auto simp: tally_ok_def distinct_alist_set keys_alist_set)

definition tallies_ok :: "db \<Rightarrow> (string \<times> (string \<times> int) list) list \<Rightarrow> bool" where
  "tallies_ok d out \<longleftrightarrow> (\<forall>vid m. map_of out vid = Some m \<longrightarrow> tally_ok d m)"

lemma tallies_ok_set: "tallies_ok d out \<Longrightarrow> tally_ok d m \<Longrightarrow> tallies_ok d (alist_set vid m out)"
  by (simp add: tallies_ok_def)

lemma tallies_ok_step:
  assumes "tallies_ok d out"
  shows "tallies_ok d (vote_step d v out)"
proof (cases "voter_name v d")
  case None
  with assms show ?thesis by (simp add: vote_step_def)
next
  case (Some n)
  then have n: "n \<in> set (loadActivePillarNames d)"
    using voter_name_active [OF Some] by (auto simp: set_loadActivePillarNames)
  show ?thesis
  proof (cases "map_of out (vo_VotingID v)")
    case None
    with assms Some show ?thesis by (simp add: vote_step_def put_vote_def)
  next
    case (Some m)
    then have "tally_ok d (alist_set n (vo_Vote v) m)"
      using assms n by (auto simp: tallies_ok_def intro: tally_ok_set)
    then show ?thesis
      using Some \<open>voter_name v d = Some n\<close> tallies_ok_set [OF assms]
      by (simp add: vote_step_def put_vote_def)
  qed
qed

lemma loadVotes_ok: "tallies_ok d (loadVotesByVotingID ids d)"
proof -
  have init: "tallies_ok d out \<Longrightarrow> tallies_ok d (fold (\<lambda>vid. alist_set vid []) xs out)" for xs out
    by (induction xs arbitrary: out) (simp_all add: tallies_ok_set tally_ok_def)
  have steps: "tallies_ok d out \<Longrightarrow> tallies_ok d (fold (vote_step d) vs out)" for vs out
    by (induction vs arbitrary: out) (simp_all add: tallies_ok_step)
  show ?thesis
    unfolding loadVotesByVotingID_def by (intro steps init) (simp add: tallies_ok_def)
qed

end
