(* ===== verification/Batch.thy ===== *)
theory Batch
  imports Repo_Account Repo_Ledger Repo_Pillar Repo_Token Repo_Entries Repo_Accelerator
begin

text \<open>
  The per-momentum batch: a \<open>pgx.Batch\<close> is the list of statements queued so far, one constructor
  per \<open>*Batch\<close> method of the repositories plus \<open>pg_notify\<close>. \<open>run_stmt\<close> is what the server does
  with a statement; \<open>reject\<close> stands for the driver's and the server's input checks (an integer
  that does not fit its column, a text with a NUL byte, malformed JSON), which are not part of
  this program. The last part shows how the batch moves the counters the API reads.
\<close>

subsection \<open>Statements\<close>

datatype stmt =
    QAccount Account
  | QAddSend address string int int
  | QAddReceive address string int int
  | QBumpTxCount address int
  | QUpdateDelegate address address int
  | QSetGenesisBalance address string int
  | QBalance Balance
  | QMomentum Momentum
  | QBlock AccountBlock "TxData option"
  | QPaired hash hash
  | QDescendantOf hash hash
  | QToken Token
  | QBurnAmount string int
  | QTokenTimestamp string int
  | QTokenCount string
  | QMint TokenMint
  | QBurn TokenBurn
  | QSpawnInfo address int int
  | QRevoked address string int
  | QMomentumCount address
  | QPillarUpdate PillarUpdate
  | QCloseActive address int
  | QOpen address address int
  | QStake Stake
  | QStakeInactive string address
  | QFusion Fusion
  | QFusionInactive string address
  | QSentinelInactive address
  | QHtlc Htlc
  | QSettle string int string int int
  | QRetrieval SwapRetrieval
  | QVote Vote
  | QCumulative address RewardType int string
  | QRewardTx RewardTransaction
  | QNotify string string

subsection \<open>Queueing\<close>

text \<open>What each batch method appends to the batch.\<close>

definition Account_UpsertBatch :: "Account \<Rightarrow> stmt list" where
  "Account_UpsertBatch a = [QAccount a]"

definition AddSendBatch :: "address \<Rightarrow> string \<Rightarrow> int \<Rightarrow> int \<Rightarrow> stmt list" where
  "AddSendBatch address tok amount ts = [QAddSend address tok amount ts]"

definition AddReceiveBatch :: "address \<Rightarrow> string \<Rightarrow> int \<Rightarrow> int \<Rightarrow> stmt list" where
  "AddReceiveBatch address tok amount ts = [QAddReceive address tok amount ts]"

definition BumpTxCountBatch :: "address \<Rightarrow> int \<Rightarrow> stmt list" where
  "BumpTxCountBatch address ts = [QBumpTxCount address ts]"

definition UpdateDelegateBatch :: "address \<Rightarrow> address \<Rightarrow> int \<Rightarrow> stmt list" where
  "UpdateDelegateBatch address delegate ts = [QUpdateDelegate address delegate ts]"

definition Balance_UpsertBatch :: "Balance \<Rightarrow> stmt list" where
  "Balance_UpsertBatch b = [QBalance b]"

definition Momentum_InsertBatch :: "Momentum \<Rightarrow> stmt list" where
  "Momentum_InsertBatch m = [QMomentum m]"

definition AccountBlock_InsertBatch :: "AccountBlock \<Rightarrow> TxData option \<Rightarrow> stmt list" where
  "AccountBlock_InsertBatch ab txData = [QBlock ab txData]"

definition UpdatePairedBlockBatch :: "hash \<Rightarrow> hash \<Rightarrow> stmt list" where
  "UpdatePairedBlockBatch h paired = [QPaired h paired]"

definition UpdateDescendantOfBatch :: "hash \<Rightarrow> hash \<Rightarrow> stmt list" where
  "UpdateDescendantOfBatch h parent = [QDescendantOf h parent]"

definition Token_UpsertBatch :: "Token \<Rightarrow> stmt list" where
  "Token_UpsertBatch t = [QToken t]"

definition UpdateBurnAmountBatch :: "string \<Rightarrow> int \<Rightarrow> stmt list" where
  "UpdateBurnAmountBatch tok amount = [QBurnAmount tok amount]"

definition UpdateLastUpdateTimestampBatch :: "string \<Rightarrow> int \<Rightarrow> stmt list" where
  "UpdateLastUpdateTimestampBatch tok ts = [QTokenTimestamp tok ts]"

definition IncrementTransactionCountBatch :: "string \<Rightarrow> stmt list" where
  "IncrementTransactionCountBatch tok = [QTokenCount tok]"

definition InsertMintBatch :: "TokenMint \<Rightarrow> stmt list" where
  "InsertMintBatch mint = [QMint mint]"

definition InsertBurnBatch :: "TokenBurn \<Rightarrow> stmt list" where
  "InsertBurnBatch burn = [QBurn burn]"

definition UpdateSpawnInfoBatch :: "address \<Rightarrow> int \<Rightarrow> int \<Rightarrow> stmt list" where
  "UpdateSpawnInfoBatch owner ts cost = [QSpawnInfo owner ts cost]"

definition SetAsRevokedBatch :: "address \<Rightarrow> string \<Rightarrow> int \<Rightarrow> stmt list" where
  "SetAsRevokedBatch owner name ts = [QRevoked owner name ts]"

definition IncrementMomentumCountBatch :: "address \<Rightarrow> stmt list" where
  "IncrementMomentumCountBatch owner = [QMomentumCount owner]"

definition PillarUpdate_InsertBatch :: "PillarUpdate \<Rightarrow> stmt list" where
  "PillarUpdate_InsertBatch u = [QPillarUpdate u]"

definition CloseActiveBatch :: "address \<Rightarrow> int \<Rightarrow> stmt list" where
  "CloseActiveBatch delegator ts = [QCloseActive delegator ts]"

definition OpenBatch :: "address \<Rightarrow> address \<Rightarrow> int \<Rightarrow> stmt list" where
  "OpenBatch delegator owner ts = [QOpen delegator owner ts]"

definition Stake_InsertBatch :: "Stake \<Rightarrow> stmt list" where
  "Stake_InsertBatch s = [QStake s]"

definition Stake_SetInactiveBatch :: "string \<Rightarrow> address \<Rightarrow> stmt list" where
  "Stake_SetInactiveBatch cancelID address = [QStakeInactive cancelID address]"

definition Fusion_InsertBatch :: "Fusion \<Rightarrow> stmt list" where
  "Fusion_InsertBatch f = [QFusion f]"

definition Fusion_SetInactiveBatch :: "string \<Rightarrow> address \<Rightarrow> stmt list" where
  "Fusion_SetInactiveBatch cancelID address = [QFusionInactive cancelID address]"

definition Sentinel_SetInactiveBatch :: "address \<Rightarrow> stmt list" where
  "Sentinel_SetInactiveBatch owner = [QSentinelInactive owner]"

definition Htlc_InsertBatch :: "Htlc \<Rightarrow> stmt list" where
  "Htlc_InsertBatch h = [QHtlc h]"

definition SettleBatch :: "string \<Rightarrow> int \<Rightarrow> string \<Rightarrow> int \<Rightarrow> int \<Rightarrow> stmt list" where
  "SettleBatch i status preimage height ts = [QSettle i status preimage height ts]"

definition InsertRetrievalBatch :: "SwapRetrieval \<Rightarrow> stmt list" where
  "InsertRetrievalBatch s = [QRetrieval s]"

definition Vote_InsertBatch :: "Vote \<Rightarrow> stmt list" where
  "Vote_InsertBatch v = [QVote v]"

definition UpdateCumulativeRewardsBatch :: "address \<Rightarrow> RewardType \<Rightarrow> int \<Rightarrow> string \<Rightarrow> stmt list" where
  "UpdateCumulativeRewardsBatch address ty amount tok = [QCumulative address ty amount tok]"

definition InsertRewardTransactionBatch :: "RewardTransaction \<Rightarrow> stmt list" where
  "InsertRewardTransactionBatch rt = [QRewardTx rt]"

definition SetGenesisBalanceBatch :: "address \<Rightarrow> string \<Rightarrow> int \<Rightarrow> stmt list" where
  "SetGenesisBalanceBatch address tok balance =
     (if tok = ZnnTokenStandard \<or> tok = QsrTokenStandard
      then [QSetGenesisBalance address tok balance] else [])"

lemmas queue_defs =
  Account_UpsertBatch_def AddSendBatch_def AddReceiveBatch_def BumpTxCountBatch_def
  UpdateDelegateBatch_def Balance_UpsertBatch_def Momentum_InsertBatch_def
  AccountBlock_InsertBatch_def UpdatePairedBlockBatch_def UpdateDescendantOfBatch_def
  Token_UpsertBatch_def UpdateBurnAmountBatch_def UpdateLastUpdateTimestampBatch_def
  IncrementTransactionCountBatch_def InsertMintBatch_def InsertBurnBatch_def
  UpdateSpawnInfoBatch_def SetAsRevokedBatch_def IncrementMomentumCountBatch_def
  PillarUpdate_InsertBatch_def CloseActiveBatch_def OpenBatch_def Stake_InsertBatch_def
  Stake_SetInactiveBatch_def Fusion_InsertBatch_def Fusion_SetInactiveBatch_def
  Sentinel_SetInactiveBatch_def Htlc_InsertBatch_def SettleBatch_def InsertRetrievalBatch_def
  Vote_InsertBatch_def UpdateCumulativeRewardsBatch_def InsertRewardTransactionBatch_def
  SetGenesisBalanceBatch_def

subsection \<open>Running\<close>

text \<open>
  The server accepts a payload of fewer than 8000 bytes and delivers it at commit. (It folds
  identical payloads of one transaction; a payload names its block or momentum, so that only
  concerns a header listed twice.)
\<close>

definition pg_notify :: "string \<Rightarrow> string \<Rightarrow> db \<Rightarrow> sql_error + db" where
  "pg_notify channel payload d =
     (if 8000 \<le> int (length payload) then Inl NotifyTooLong
      else Inr (d\<lparr> notifications := notifications d @ [(channel, payload)] \<rparr>))"

fun run_stmt :: "stmt \<Rightarrow> db \<Rightarrow> sql_error + db" where
  "run_stmt (QAccount a) d = Account_Upsert a d"
| "run_stmt (QAddSend address tok amount ts) d = Account_AddSend address tok amount ts d"
| "run_stmt (QAddReceive address tok amount ts) d = Account_AddReceive address tok amount ts d"
| "run_stmt (QBumpTxCount address ts) d = Account_BumpTxCount address ts d"
| "run_stmt (QUpdateDelegate address delegate ts) d = Account_UpdateDelegate address delegate ts d"
| "run_stmt (QSetGenesisBalance address tok balance) d = Account_SetGenesisBalance address tok balance d"
| "run_stmt (QBalance b) d = Balance_Upsert b d"
| "run_stmt (QMomentum m) d = Momentum_Insert m d"
| "run_stmt (QBlock ab txData) d = AccountBlock_Insert ab txData d"
| "run_stmt (QPaired h paired) d = AccountBlock_UpdatePairedBlock h paired d"
| "run_stmt (QDescendantOf h parent) d = AccountBlock_UpdateDescendantOf h parent d"
| "run_stmt (QToken t) d = Token_Upsert t d"
| "run_stmt (QBurnAmount tok amount) d = Token_UpdateBurnAmount tok amount d"
| "run_stmt (QTokenTimestamp tok ts) d = Token_UpdateLastUpdateTimestamp tok ts d"
| "run_stmt (QTokenCount tok) d = Token_IncrementTransactionCount tok d"
| "run_stmt (QMint mint) d = InsertMint mint d"
| "run_stmt (QBurn burn) d = InsertBurn burn d"
| "run_stmt (QSpawnInfo owner ts cost) d = Pillar_UpdateSpawnInfo owner ts cost d"
| "run_stmt (QRevoked owner name ts) d = Pillar_SetAsRevoked owner name ts d"
| "run_stmt (QMomentumCount owner) d = Pillar_IncrementMomentumCount owner d"
| "run_stmt (QPillarUpdate u) d = PillarUpdate_Insert u d"
| "run_stmt (QCloseActive delegator ts) d = Delegation_CloseActive delegator ts d"
| "run_stmt (QOpen delegator owner ts) d = Delegation_Open delegator owner ts d"
| "run_stmt (QStake s) d = Stake_Insert s d"
| "run_stmt (QStakeInactive cancelID address) d = Stake_SetInactive cancelID address d"
| "run_stmt (QFusion f) d = Fusion_Insert f d"
| "run_stmt (QFusionInactive cancelID address) d = Fusion_SetInactive cancelID address d"
| "run_stmt (QSentinelInactive owner) d = Sentinel_SetInactive owner d"
| "run_stmt (QHtlc h) d = Htlc_Insert h d"
| "run_stmt (QSettle i status preimage height ts) d = Htlc_Settle i status preimage height ts d"
| "run_stmt (QRetrieval s) d = Swap_InsertRetrieval s d"
| "run_stmt (QVote v) d = Vote_Insert v d"
| "run_stmt (QCumulative address ty amount tok) d = Reward_UpdateCumulative address ty amount tok d"
| "run_stmt (QRewardTx rt) d = Reward_InsertTransaction rt d"
| "run_stmt (QNotify channel payload) d = pg_notify channel payload d"

definition exec_stmt :: "(stmt \<Rightarrow> sql_error option) \<Rightarrow> stmt \<Rightarrow> db \<Rightarrow> sql_error + db" where
  "exec_stmt reject s d = (case reject s of Some e \<Rightarrow> Inl e | None \<Rightarrow> run_stmt s d)"

text \<open>
  \<open>SendBatch\<close> and the loop over its results: the first failing operation with its index; the
  server skips the rest of the pipeline.
\<close>

fun exec_batch :: "(stmt \<Rightarrow> sql_error option) \<Rightarrow> nat \<Rightarrow> stmt list \<Rightarrow> db \<Rightarrow> (nat \<times> sql_error) + db" where
  "exec_batch reject j [] d = Inr d"
| "exec_batch reject j (s # ss) d =
     (case exec_stmt reject s d of
        Inl e \<Rightarrow> Inl (j, e)
      | Inr d' \<Rightarrow> exec_batch reject (Suc j) ss d')"

lemma exec_batch_append:
  "exec_batch reject j (xs @ ys) d =
     (case exec_batch reject j xs d of
        Inl e \<Rightarrow> Inl e | Inr d' \<Rightarrow> exec_batch reject (j + length xs) ys d')"
  by (induction xs arbitrary: j d) (auto split: sum.splits)

lemma exec_stmt_run: "exec_stmt reject s d = Inr d' \<Longrightarrow> run_stmt s d = Inr d'"
  by (auto simp: exec_stmt_def split: option.splits)

lemma exec_batch_induct:
  assumes "exec_batch reject j ss d = Inr d'" and "P d"
    and "\<And>s d d'. s \<in> set ss \<Longrightarrow> P d \<Longrightarrow> run_stmt s d = Inr d' \<Longrightarrow> P d'"
  shows "P d'"
  using assms
proof (induction ss arbitrary: j d)
  case (Cons s ss)
  obtain d1 where d1: "exec_stmt reject s d = Inr d1" "exec_batch reject (Suc j) ss d1 = Inr d'"
    using Cons.prems(1) by (auto split: sum.splits)
  have "P d1"
    by (rule Cons.prems(3) [OF _ Cons.prems(2) exec_stmt_run [OF d1(1)]]) simp
  then show ?case
    by (rule Cons.IH [OF d1(2)]) (rule Cons.prems(3), simp_all)
qed simp


subsection \<open>Keys stay unique\<close>

lemmas plain_op_defs = Momentum_Insert_def PillarUpdate_Insert_def Delegation_CloseActive_def
  Delegation_Open_def Stake_Insert_def Stake_SetInactive_def Fusion_Insert_def
  Fusion_SetInactive_def Sentinel_SetInactive_def Htlc_Insert_def Htlc_Settle_def
  Swap_InsertRetrieval_def InsertMint_def InsertBurn_def Reward_InsertTransaction_def

lemmas table_op_defs = account_op_defs Balance_Upsert_def AccountBlock_Insert_def
  AccountBlock_UpdatePairedBlock_def AccountBlock_UpdateDescendantOf_def Token_Upsert_def
  Token_UpdateBurnAmount_def Token_UpdateLastUpdateTimestamp_def
  Token_IncrementTransactionCount_def Pillar_UpdateSpawnInfo_def Pillar_SetAsRevoked_def
  Pillar_IncrementMomentumCount_def Vote_Insert_def Reward_UpdateCumulative_def pg_notify_def

text \<open>Which tables a statement may change.\<close>

lemma accounts_frame:
  assumes "run_stmt s d = Inr d'"
  shows "(\<exists>a. s = QAccount a) \<or> (\<exists>a t n ts. s = QAddSend a t n ts) \<or>
    (\<exists>a t n ts. s = QAddReceive a t n ts) \<or> (\<exists>a ts. s = QBumpTxCount a ts) \<or>
    (\<exists>a p ts. s = QUpdateDelegate a p ts) \<or> (\<exists>a t n. s = QSetGenesisBalance a t n) \<or>
    accounts d' = accounts d"
  using assms
  by (cases s) (auto simp: plain_op_defs table_op_defs map_Inr_eq_Inr split: if_splits)

lemma blocks_frame:
  assumes "run_stmt s d = Inr d'"
  shows "(\<exists>ab t. s = QBlock ab t) \<or> (\<exists>h p. s = QPaired h p) \<or> (\<exists>h p. s = QDescendantOf h p) \<or>
    account_blocks d' = account_blocks d"
  using assms
  by (cases s) (auto simp: plain_op_defs table_op_defs map_Inr_eq_Inr split: if_splits)


lemma distinct_update_chk:
  assumes "update_chk P f t = Inr t'" and "\<And>r r'. f r = Inr r' \<Longrightarrow> key r' = key r"
    and "distinct (map key t)"
  shows "distinct (map key t')"
proof -
  have "map key t' = map key t"
    using assms(1,2)
    by (auto simp: update_chk_Inr updated_row_def split: if_splits elim!: list_all2_map_eq)
  with assms(3) show ?thesis by simp
qed

lemma distinct_update_where:
  "(\<And>r. key (f r) = key r) \<Longrightarrow> distinct (map key t) \<Longrightarrow> distinct (map key (update_where P f t))"
  by (simp add: map_update_where)

lemmas distinct_intros = account_table.distinct_upsert flow_table.distinct_upsert
  seen_table.distinct_upsert genesis_znn_table.distinct_upsert genesis_qsr_table.distinct_upsert
  balance_table.distinct_upsert block_table.distinct_upsert token_table.distinct_upsert
  revoked_table.distinct_upsert vote_table.distinct_upsert reward_table.distinct_upsert
  distinct_insert_ignore

lemma db_keys_dest:
  assumes "db_keys d"
  shows
    "distinct (map mo_Height (momentums d))"
    "distinct (map ac_Address (accounts d))"
    "distinct (map balance_key (balances d))"
    "distinct (map ab_Hash (account_blocks d))"
    "distinct (map tk_TokenStandard (tokens d))"
    "distinct (map tm_AccountBlockHash (token_mints d))"
    "distinct (map tb_AccountBlockHash (token_burns d))"
    "distinct (map pl_OwnerAddress (pillars d))"
    "distinct (map se_Owner (sentinels d))"
    "distinct (map st_ID (stakes d))"
    "distinct (map fu_ID (fusions d))"
    "distinct (map ht_ID (htlcs d))"
    "distinct (map sr_ID (swap_retrievals d))"
    "distinct (map vote_key (votes d))"
    "distinct (map reward_key (cumulative_rewards d))"
    "distinct (map rt_Hash (reward_transactions d))"
  using assms by (simp_all add: db_keys_def)

lemma db_keys_update:
  assumes "db_keys d"
  shows
    "distinct (map mo_Height t1) \<Longrightarrow> db_keys (d\<lparr> momentums := t1 \<rparr>)"
    "distinct (map ac_Address t2) \<Longrightarrow> db_keys (d\<lparr> accounts := t2 \<rparr>)"
    "distinct (map balance_key t3) \<Longrightarrow> db_keys (d\<lparr> balances := t3 \<rparr>)"
    "distinct (map ab_Hash t4) \<Longrightarrow> db_keys (d\<lparr> account_blocks := t4 \<rparr>)"
    "distinct (map tk_TokenStandard t5) \<Longrightarrow> db_keys (d\<lparr> tokens := t5 \<rparr>)"
    "distinct (map tm_AccountBlockHash t6) \<Longrightarrow> db_keys (d\<lparr> token_mints := t6 \<rparr>)"
    "distinct (map tb_AccountBlockHash t7) \<Longrightarrow> db_keys (d\<lparr> token_burns := t7 \<rparr>)"
    "distinct (map pl_OwnerAddress t8) \<Longrightarrow> db_keys (d\<lparr> pillars := t8 \<rparr>)"
    "distinct (map se_Owner t9) \<Longrightarrow> db_keys (d\<lparr> sentinels := t9 \<rparr>)"
    "distinct (map st_ID t10) \<Longrightarrow> db_keys (d\<lparr> stakes := t10 \<rparr>)"
    "distinct (map fu_ID t11) \<Longrightarrow> db_keys (d\<lparr> fusions := t11 \<rparr>)"
    "distinct (map ht_ID t12) \<Longrightarrow> db_keys (d\<lparr> htlcs := t12 \<rparr>)"
    "distinct (map sr_ID t13) \<Longrightarrow> db_keys (d\<lparr> swap_retrievals := t13 \<rparr>)"
    "distinct (map vote_key t14) \<Longrightarrow> db_keys (d\<lparr> votes := t14 \<rparr>)"
    "distinct (map reward_key t15) \<Longrightarrow> db_keys (d\<lparr> cumulative_rewards := t15 \<rparr>)"
    "distinct (map rt_Hash t16) \<Longrightarrow> db_keys (d\<lparr> reward_transactions := t16 \<rparr>)"
  using assms by (simp_all add: db_keys_def)

lemma db_keys_plain [simp]:
  "db_keys (d\<lparr> delegations := t \<rparr>) = db_keys d"
  "db_keys (d\<lparr> pillar_updates := u \<rparr>) = db_keys d"
  "db_keys (d\<lparr> notifications := n \<rparr>) = db_keys d"
  by (simp_all add: db_keys_def)

lemma distinct_counted:
  "update_chk P (burn_token n) t = Inr t' \<Longrightarrow> distinct (map tk_TokenStandard t) \<Longrightarrow>
   distinct (map tk_TokenStandard t')"
  "update_chk P count_token t = Inr t' \<Longrightarrow> distinct (map tk_TokenStandard t) \<Longrightarrow>
   distinct (map tk_TokenStandard t')"
  "update_chk Q (\<lambda>p. map_Inr (\<lambda>n. p\<lparr> pl_ProducedMomentumCount := n \<rparr>) (g p)) u = Inr u' \<Longrightarrow>
   distinct (map pl_OwnerAddress u) \<Longrightarrow> distinct (map pl_OwnerAddress u')"
  by (erule distinct_update_chk,
      auto simp: burn_token_def count_token_def map_Inr_eq_Inr)+

lemma run_stmt_keys:
  assumes "run_stmt s d = Inr d'" and "db_keys d"
  shows "db_keys d'"
  using assms
  by (cases s)
     (auto simp: plain_op_defs table_op_defs map_Inr_eq_Inr 
       split: if_splits intro!: db_keys_update
       intro: distinct_intros distinct_counted distinct_update_where db_keys_dest)

end
