(* ===== verification/Counters.thy ===== *)
theory Counters
  imports Batch
begin

text \<open>
  What a committed batch does to the columns the API serves, computed from the statements alone:
  the transaction counter of an account, the blocks that mention an address, the cumulative
  rewards and the reward log, the notifications, the indexed heights and the open delegation
  intervals.
\<close>

subsection \<open>Reading a batch\<close>

fun bumps :: "address \<Rightarrow> stmt \<Rightarrow> int" where
  "bumps a (QBumpTxCount x ts) = (if a = x then 1 else 0)"
| "bumps a _ = 0"

fun stmt_blocks :: "stmt \<Rightarrow> AccountBlock list" where
  "stmt_blocks (QBlock ab t) = [ab]"
| "stmt_blocks _ = []"

fun stmt_notifies :: "stmt \<Rightarrow> (string \<times> string) list" where
  "stmt_notifies (QNotify c p) = [(c, p)]"
| "stmt_notifies _ = []"

fun stmt_rewards :: "stmt \<Rightarrow> RewardTransaction list" where
  "stmt_rewards (QRewardTx rt) = [rt]"
| "stmt_rewards _ = []"

fun credits :: "address \<times> RewardType \<times> string \<Rightarrow> stmt \<Rightarrow> int" where
  "credits k (QCumulative a ty n tok) = (if k = (a, ty, tok) then n else 0)"
| "credits k _ = 0"

fun stmt_momentums :: "stmt \<Rightarrow> Momentum list" where
  "stmt_momentums (QMomentum m) = [m]"
| "stmt_momentums _ = []"

definition bumps_in :: "address \<Rightarrow> stmt list \<Rightarrow> int" where
  "bumps_in a ss = sum_list (map (bumps a) ss)"

definition credits_in :: "address \<times> RewardType \<times> string \<Rightarrow> stmt list \<Rightarrow> int" where
  "credits_in k ss = sum_list (map (credits k) ss)"

definition blocks_in :: "stmt list \<Rightarrow> AccountBlock list" where
  "blocks_in ss = concat (map stmt_blocks ss)"

definition notifies_in :: "stmt list \<Rightarrow> (string \<times> string) list" where
  "notifies_in ss = concat (map stmt_notifies ss)"

definition rewards_in :: "stmt list \<Rightarrow> RewardTransaction list" where
  "rewards_in ss = concat (map stmt_rewards ss)"

definition momentums_in :: "stmt list \<Rightarrow> Momentum list" where
  "momentums_in ss = concat (map stmt_momentums ss)"

lemma bumps_in_simps [simp]:
  "bumps_in a [] = 0" "bumps_in a (s # ss) = bumps a s + bumps_in a ss"
  "bumps_in a (xs @ ys) = bumps_in a xs + bumps_in a ys"
  by (simp_all add: bumps_in_def)

lemma credits_in_simps [simp]:
  "credits_in k [] = 0" "credits_in k (s # ss) = credits k s + credits_in k ss"
  "credits_in k (xs @ ys) = credits_in k xs + credits_in k ys"
  by (simp_all add: credits_in_def)

lemma parts_in_simps [simp]:
  "blocks_in [] = []" "blocks_in (s # ss) = stmt_blocks s @ blocks_in ss"
  "blocks_in (xs @ ys) = blocks_in xs @ blocks_in ys"
  "notifies_in [] = []" "notifies_in (s # ss) = stmt_notifies s @ notifies_in ss"
  "notifies_in (xs @ ys) = notifies_in xs @ notifies_in ys"
  "rewards_in [] = []" "rewards_in (s # ss) = stmt_rewards s @ rewards_in ss"
  "rewards_in (xs @ ys) = rewards_in xs @ rewards_in ys"
  "momentums_in [] = []" "momentums_in (s # ss) = stmt_momentums s @ momentums_in ss"
  "momentums_in (xs @ ys) = momentums_in xs @ momentums_in ys"
  by (simp_all add: blocks_in_def notifies_in_def rewards_in_def momentums_in_def)

subsection \<open>One statement\<close>

lemma tx_count_run:
  assumes r: "run_stmt s d = Inr d'"
  shows "tx_count_of a d' = tx_count_of a d + bumps a s"
  using accounts_frame [OF r]
proof (elim disjE exE)
  assume "accounts d' = accounts d"
  moreover have "tx_count_of a d' = tx_count_of a d + bumps a s" if "s = QBumpTxCount x ts" for x ts
    using r that tx_count_BumpTxCount by simp
  ultimately show ?thesis
    by (cases s) (simp_all add: tx_count_of_def)
qed (use r in \<open>auto dest: tx_count_Upsert tx_count_add_flow tx_count_UpdateDelegate
      tx_count_SetGenesisBalance tx_count_BumpTxCount [of _ _ _ _ a]
      simp: Account_AddSend_def Account_AddReceive_def\<close>)

lemma block_run:
  assumes r: "run_stmt s d = Inr d'"
    and fresh: "\<And>ab. ab \<in> set (stmt_blocks s) \<Longrightarrow> ab_Hash ab \<notin> ab_Hash ` set (account_blocks d)"
  shows "block_count_of a d' = block_count_of a d + count_where (involves a) (stmt_blocks s)"
    and "ab_Hash ` set (account_blocks d') =
      ab_Hash ` set (account_blocks d) \<union> ab_Hash ` set (stmt_blocks s)"
proof -
  have "block_count_of a d' = block_count_of a d + count_where (involves a) (stmt_blocks s) \<and>
    set (map ab_Hash (account_blocks d')) =
      set (map ab_Hash (account_blocks d)) \<union> ab_Hash ` set (stmt_blocks s)"
    using blocks_frame [OF r]
  proof (elim disjE exE)
    fix ab t assume s: "s = QBlock ab t"
    then have "find_by ab_Hash (ab_Hash ab) (account_blocks d) = None"
      using fresh [of ab] by (auto simp: find_by_map_key)
    then show ?thesis
      using r s by (auto simp: block_count_Insert block_hashes)
  next
    fix h p assume "s = QPaired h p"
    then show ?thesis using r by (simp add: block_count_updates block_hashes)
  next
    fix h p assume "s = QDescendantOf h p"
    then show ?thesis using r by (simp add: block_count_updates block_hashes)
  next
    assume *: "account_blocks d' = account_blocks d"
    have "stmt_blocks s = []"
    proof (cases s)
      case (QBlock ab t)
      then have "find_by ab_Hash (ab_Hash ab) (account_blocks d) = None"
        using fresh [of ab] by (auto simp: find_by_map_key)
      then show ?thesis
        using block_hashes(1) [of ab t d d'] r QBlock * by simp
    qed simp_all
    then show ?thesis using * by (simp add: block_count_of_def)
  qed
  then show "block_count_of a d' = block_count_of a d + count_where (involves a) (stmt_blocks s)"
    and "ab_Hash ` set (account_blocks d') =
      ab_Hash ` set (account_blocks d) \<union> ab_Hash ` set (stmt_blocks s)"
    by simp_all
qed

lemma notify_run: "run_stmt s d = Inr d' \<Longrightarrow> notifications d' = notifications d @ stmt_notifies s"
  by (cases s) (auto simp: plain_op_defs table_op_defs map_Inr_eq_Inr split: if_splits)

lemma reward_frame:
  assumes "run_stmt s d = Inr d'"
  shows "(\<exists>a ty n tok. s = QCumulative a ty n tok) \<or> cumulative_rewards d' = cumulative_rewards d"
    and "(\<exists>rt. s = QRewardTx rt) \<or> reward_transactions d' = reward_transactions d"
  using assms
  by (cases s; auto simp: plain_op_defs table_op_defs map_Inr_eq_Inr split: if_splits)+

lemma cumulative_run:
  assumes r: "run_stmt s d = Inr d'"
  shows "cumulative_of k d' = cumulative_of k d + credits k s"
proof (cases "\<exists>a ty n tok. s = QCumulative a ty n tok")
  case True
  then show ?thesis using r by (auto simp: cumulative_Update)
next
  case False
  then show ?thesis
    using reward_frame(1) [OF r] by (cases s) (auto simp: cumulative_of_def)
qed

lemma reward_run:
  assumes r: "run_stmt s d = Inr d'"
    and fresh: "\<And>x. x \<in> set (stmt_rewards s) \<Longrightarrow> rt_Hash x \<notin> rt_Hash ` set (reward_transactions d)"
  shows "reward_sum k d' = reward_sum k d + sum_where (\<lambda>x. rt_key x = k) rt_Amount (stmt_rewards s)"
    and "rt_Hash ` set (reward_transactions d') =
      rt_Hash ` set (reward_transactions d) \<union> rt_Hash ` set (stmt_rewards s)"
proof -
  have "reward_sum k d' = reward_sum k d + sum_where (\<lambda>x. rt_key x = k) rt_Amount (stmt_rewards s) \<and>
    rt_Hash ` set (reward_transactions d') =
      rt_Hash ` set (reward_transactions d) \<union> rt_Hash ` set (stmt_rewards s)"
  proof (cases "\<exists>rt. s = QRewardTx rt")
    case True
    then obtain rt where s: "s = QRewardTx rt" by blast
    then have "find_by rt_Hash (rt_Hash rt) (reward_transactions d) = None"
      using fresh [of rt] by (auto simp: find_by_map_key)
    then show ?thesis
      using r s by (auto simp: Reward_InsertTransaction_def insert_ignore_fresh reward_sum_def)
  next
    case False
    then have "stmt_rewards s = []" by (cases s) auto
    then show ?thesis
      using False reward_frame(2) [OF r] by (auto simp: reward_sum_def)
  qed
  then show "reward_sum k d' = reward_sum k d +
      sum_where (\<lambda>x. rt_key x = k) rt_Amount (stmt_rewards s)"
    and "rt_Hash ` set (reward_transactions d') =
      rt_Hash ` set (reward_transactions d) \<union> rt_Hash ` set (stmt_rewards s)"
    by simp_all
qed

lemma momentum_run:
  "run_stmt s d = Inr d' \<Longrightarrow>
   momentums d' = fold (insert_ignore mo_Height) (stmt_momentums s) (momentums d)"
  by (cases s) (auto simp: plain_op_defs table_op_defs map_Inr_eq_Inr split: if_splits)


subsection \<open>A whole batch\<close>

lemma exec_batch_Cons:
  assumes "exec_batch reject j (s # ss) d = Inr d'"
  obtains d1 where "run_stmt s d = Inr d1" "exec_batch reject (Suc j) ss d1 = Inr d'"
  using assms by (auto split: sum.splits dest: exec_stmt_run)

lemma exec_batch_sum:
  assumes "exec_batch reject j ss d = Inr d'"
    and "\<And>s d d'. run_stmt s d = Inr d' \<Longrightarrow> (f d' :: int) = f d + g s"
  shows "f d' = f d + sum_list (map g ss)"
  using assms(1)
proof (induction ss arbitrary: j d)
  case (Cons s ss)
  obtain d1 where d1: "run_stmt s d = Inr d1" "exec_batch reject (Suc j) ss d1 = Inr d'"
    using Cons.prems by (rule exec_batch_Cons)
  show ?case using Cons.IH [OF d1(2)] assms(2) [OF d1(1)] by simp
qed simp

lemma tx_count_batch:
  "exec_batch reject j ss d = Inr d' \<Longrightarrow> tx_count_of a d' = tx_count_of a d + bumps_in a ss"
  unfolding bumps_in_def by (erule exec_batch_sum) (rule tx_count_run)

lemma cumulative_batch:
  "exec_batch reject j ss d = Inr d' \<Longrightarrow> cumulative_of k d' = cumulative_of k d + credits_in k ss"
  unfolding credits_in_def by (erule exec_batch_sum) (rule cumulative_run)

lemma notify_batch:
  "exec_batch reject j ss d = Inr d' \<Longrightarrow> notifications d' = notifications d @ notifies_in ss"
proof (induction ss arbitrary: j d)
  case (Cons s ss)
  obtain d1 where d1: "run_stmt s d = Inr d1" "exec_batch reject (Suc j) ss d1 = Inr d'"
    using Cons.prems by (rule exec_batch_Cons)
  show ?case using Cons.IH [OF d1(2)] notify_run [OF d1(1)] by simp
qed simp

lemma momentum_batch:
  "exec_batch reject j ss d = Inr d' \<Longrightarrow>
   momentums d' = fold (insert_ignore mo_Height) (momentums_in ss) (momentums d)"
proof (induction ss arbitrary: j d)
  case (Cons s ss)
  obtain d1 where d1: "run_stmt s d = Inr d1" "exec_batch reject (Suc j) ss d1 = Inr d'"
    using Cons.prems by (rule exec_batch_Cons)
  show ?case using Cons.IH [OF d1(2)] momentum_run [OF d1(1)] by simp
qed simp

lemma fresh_rest:
  assumes "distinct (map h (xs @ ys))" and "h ` set (xs @ ys) \<inter> C = {}"
  shows "\<And>x. x \<in> set xs \<Longrightarrow> h x \<notin> C" and "distinct (map h ys)"
    and "h ` set ys \<inter> (C \<union> h ` set xs) = {}"
  using assms by auto

lemma block_batch:
  assumes "exec_batch reject j ss d = Inr d'"
    and "distinct (map ab_Hash (blocks_in ss))"
    and "ab_Hash ` set (blocks_in ss) \<inter> ab_Hash ` set (account_blocks d) = {}"
  shows "block_count_of a d' = block_count_of a d + count_where (involves a) (blocks_in ss)"
  using assms
proof (induction ss arbitrary: j d)
  case (Cons s ss)
  obtain d1 where d1: "run_stmt s d = Inr d1" "exec_batch reject (Suc j) ss d1 = Inr d'"
    using Cons.prems(1) by (rule exec_batch_Cons)
  have split: "blocks_in (s # ss) = stmt_blocks s @ blocks_in ss" by simp
  note fresh = fresh_rest [OF Cons.prems(2,3) [unfolded split]]
  have "ab_Hash ` set (blocks_in ss) \<inter> ab_Hash ` set (account_blocks d1) = {}"
    by (subst block_run(2) [OF d1(1)], erule fresh(1), rule fresh(3))
  then show ?case
    using Cons.IH [OF d1(2) fresh(2)] block_run(1) [OF d1(1) fresh(1)] by simp
qed simp

text \<open>Blocks that are stored already: the rows stay, the counts with them.\<close>

lemma block_known:
  assumes r: "run_stmt s d = Inr d'"
    and known: "ab_Hash ` set (stmt_blocks s) \<subseteq> ab_Hash ` set (account_blocks d)"
  shows "block_count_of a d' = block_count_of a d \<and>
    map ab_Hash (account_blocks d') = map ab_Hash (account_blocks d)"
  using blocks_frame [OF r]
proof (elim disjE exE)
  fix ab t assume s: "s = QBlock ab t"
  then have "ab_Hash ab \<in> set (map ab_Hash (account_blocks d))"
    using known by (simp add: image_iff)
  then have "find_by ab_Hash (ab_Hash ab) (account_blocks d) \<noteq> None"
    by (simp add: find_by_map_key)
  then show ?thesis
    using r s by (auto simp: block_count_Insert block_hashes)
next
  assume "account_blocks d' = account_blocks d"
  then show ?thesis by (simp add: block_count_of_def)
qed (use r in \<open>simp_all add: block_count_updates block_hashes\<close>)

lemma block_batch_known:
  assumes "exec_batch reject j ss d = Inr d'"
    and "ab_Hash ` set (blocks_in ss) \<subseteq> ab_Hash ` set (account_blocks d)"
  shows "block_count_of a d' = block_count_of a d"
  using assms
proof (induction ss arbitrary: j d)
  case (Cons s ss)
  obtain d1 where d1: "run_stmt s d = Inr d1" "exec_batch reject (Suc j) ss d1 = Inr d'"
    using Cons.prems(1) by (rule exec_batch_Cons)
  have k: "ab_Hash ` set (stmt_blocks s) \<subseteq> ab_Hash ` set (account_blocks d)"
    and "ab_Hash ` set (blocks_in ss) \<subseteq> ab_Hash ` set (account_blocks d)"
    using Cons.prems(2) by (simp_all add: image_Un)
  moreover have "ab_Hash ` set (account_blocks d1) = ab_Hash ` set (account_blocks d)"
    using block_known [OF d1(1) k] by (metis set_map)
  ultimately show ?case
    using Cons.IH [OF d1(2)] block_known [OF d1(1) k] by simp
qed simp

lemma reward_batch:
  assumes "exec_batch reject j ss d = Inr d'"
    and "distinct (map rt_Hash (rewards_in ss))"
    and "rt_Hash ` set (rewards_in ss) \<inter> rt_Hash ` set (reward_transactions d) = {}"
  shows "reward_sum k d' =
    reward_sum k d + sum_where (\<lambda>x. rt_key x = k) rt_Amount (rewards_in ss)"
  using assms
proof (induction ss arbitrary: j d)
  case (Cons s ss)
  obtain d1 where d1: "run_stmt s d = Inr d1" "exec_batch reject (Suc j) ss d1 = Inr d'"
    using Cons.prems(1) by (rule exec_batch_Cons)
  have split: "rewards_in (s # ss) = stmt_rewards s @ rewards_in ss" by simp
  note fresh = fresh_rest [OF Cons.prems(2,3) [unfolded split]]
  have "rt_Hash ` set (rewards_in ss) \<inter> rt_Hash ` set (reward_transactions d1) = {}"
    by (subst reward_run(2) [OF d1(1)], erule fresh(1), rule fresh(3))
  then show ?case
    using Cons.IH [OF d1(2) fresh(2)] reward_run(1) [OF d1(1) fresh(1)] by simp
qed simp

lemma keys_batch: "exec_batch reject j ss d = Inr d' \<Longrightarrow> db_keys d \<Longrightarrow> db_keys d'"
  by (erule exec_batch_induct) (auto intro: run_stmt_keys)

subsection \<open>Open delegations\<close>

fun closes :: "stmt \<Rightarrow> address option" where
  "closes (QCloseActive a ts) = Some a"
| "closes _ = None"

fun opens :: "stmt \<Rightarrow> address option" where
  "opens (QOpen a p ts) = Some a"
| "opens _ = None"

text \<open>Every interval the batch opens is opened right after closing the delegator's old one.\<close>

primrec guarded :: "address option \<Rightarrow> stmt list \<Rightarrow> bool" where
  "guarded prev [] = True"
| "guarded prev (s # ss) =
     ((case opens s of None \<Rightarrow> True | Some b \<Rightarrow> prev = Some b) \<and> guarded (closes s) ss)"

lemma guarded_weaken: "guarded None ss \<Longrightarrow> guarded prev ss"
  by (cases ss) (auto split: option.splits)

lemma guarded_append: "guarded prev xs \<Longrightarrow> guarded None ys \<Longrightarrow> guarded prev (xs @ ys)"
  by (induction xs arbitrary: prev) (auto intro: guarded_weaken)

lemma guarded_no_opens: "(\<And>s. s \<in> set ss \<Longrightarrow> opens s = None) \<Longrightarrow> guarded prev ss"
  by (induction ss arbitrary: prev) auto

definition one_open :: "db \<Rightarrow> bool" where
  "one_open d \<longleftrightarrow> (\<forall>a. open_count a d \<le> 1)"

lemma open_run:
  assumes r: "run_stmt s d = Inr d'" and w: "one_open d"
    and g: "case opens s of None \<Rightarrow> True | Some b \<Rightarrow> open_count b d = 0"
  shows "one_open d' \<and> (\<forall>b. closes s = Some b \<longrightarrow> open_count b d' = 0)"
proof (cases "opens s = None \<and> closes s = None")
  case True
  then have "delegations d' = delegations d"
    using r by (cases s) (auto simp: plain_op_defs table_op_defs map_Inr_eq_Inr split: if_splits)
  with w True show ?thesis by (simp add: one_open_def open_count_def)
next
  case False
  then consider a ts where "s = QCloseActive a ts" | a p ts where "s = QOpen a p ts"
    by (cases s) auto
  then show ?thesis
  proof cases
    case 1
    then show ?thesis using r w by (auto simp: open_count_Close one_open_def)
  next
    case 2
    then show ?thesis using r w g by (auto simp: open_count_Open one_open_def)
  qed
qed

lemma open_batch:
  assumes "exec_batch reject j ss d = Inr d'" and "guarded prev ss" and "one_open d"
    and "\<forall>b. prev = Some b \<longrightarrow> open_count b d = 0"
  shows "one_open d'"
  using assms
proof (induction ss arbitrary: j d prev)
  case (Cons s ss)
  obtain d1 where d1: "run_stmt s d = Inr d1" "exec_batch reject (Suc j) ss d1 = Inr d'"
    using Cons.prems(1) by (rule exec_batch_Cons)
  have "one_open d1 \<and> (\<forall>b. closes s = Some b \<longrightarrow> open_count b d1 = 0)"
    using Cons.prems by (intro open_run [OF d1(1)]) (auto split: option.splits)
  then show ?case
    using Cons.IH [OF d1(2), of "closes s"] Cons.prems(2) by simp
qed simp

end
