(* ===== verification/Embedded.thy ===== *)
theory Embedded
  imports Decoder Counters
begin

text \<open>
  \<open>internal/indexer/embedded.go\<close> and \<open>rewards.go\<close>: what a contract-receive block of an embedded
  contract, or a reward received by a user, adds to the per-momentum batch. A handler returns
  the statements it queues, in order; log output is left out.
\<close>

subsection \<open>The indexer's environment\<close>

text \<open>Reads of the database that the handlers make, each of which can fail on its own.\<close>

datatype read_op =
    ReadProjectByVotingID string
  | ReadPhaseByVotingID string
  | ReadIsWithdrawAddress address
  | ReadInfoAtHeight address int
  | ReadPillarByProducer address

record indexer =
  ix_sdk :: sdk
  ix_node :: node
  ix_pillarNameToOwner :: "(string \<times> address) list"
  ix_webhooks :: bool
  ix_read_fails :: "read_op \<Rightarrow> bool"

definition read_db :: "indexer \<Rightarrow> read_op \<Rightarrow> sql_error + 'a \<Rightarrow> sql_error + 'a" where
  "read_db ix rd r = (if ix_read_fails ix rd then Inl ConnectionLost else r)"

definition getPillarOwnerAddress :: "indexer \<Rightarrow> string \<Rightarrow> address" where
  "getPillarOwnerAddress ix name =
     (case map_of (ix_pillarNameToOwner ix) name of None \<Rightarrow> [] | Some a \<Rightarrow> a)"

text \<open>Capped conversion of a \<open>*big.Int\<close>.\<close>

definition safeBigIntToInt64 :: "int option \<Rightarrow> int" where
  "safeBigIntToInt64 v =
     (case v of None \<Rightarrow> 0 | Some x \<Rightarrow> if fits_int64 x then x else MaxInt64)"

definition bytesToHex :: "string \<Rightarrow> string" where
  "bytesToHex b = (if b = [] then [] else EncodeToString b)"

subsection \<open>Pillar contract\<close>

definition pillar_update :: "momentum \<Rightarrow> address \<Rightarrow> TxData \<Rightarrow> PillarUpdate" where
  "pillar_update m owner txData =
     \<lparr> pu_Name = input txData ''name'', pu_OwnerAddress = owner,
       pu_ProducerAddress = input txData ''producerAddress'',
       pu_WithdrawAddress = input txData ''rewardAddress'',
       pu_MomentumTimestamp = int64 (m_TimestampUnix m), pu_MomentumHeight = int64 (m_Height m),
       pu_MomentumHash = m_Hash m, pu_GiveMomentumRewardPercentage = 0,
       pu_GiveDelegateRewardPercentage = 0 \<rparr>"

definition indexPillarContract :: "indexer \<Rightarrow> block \<Rightarrow> TxData \<Rightarrow> momentum \<Rightarrow> stmt list" where
  "indexPillarContract ix block txData m =
     (let method = tx_Method txData; ts = int64 (m_TimestampUnix m); name = input txData ''name''
      in if method = ''Register'' \<or> method = ''RegisterLegacy'' then
           (case b_PairedAccountBlock block of
              None \<Rightarrow> []
            | Some paired \<Rightarrow>
                if name = [] then []
                else
                  PillarUpdate_InsertBatch (pillar_update m (b_Address paired) txData) @
                  (case b_DescendantBlocks block of
                     [] \<Rightarrow> []
                   | dsc # _ \<Rightarrow>
                       if d_ToAddress dsc = TokenAddress
                       then UpdateSpawnInfoBatch (b_Address paired) ts
                              (safeBigIntToInt64 (d_Amount dsc))
                       else []))
         else if method = ''UpdatePillar'' then
           (let pillarOwner = input txData ''pillarOwner''
            in if name \<noteq> [] \<and> pillarOwner \<noteq> []
               then PillarUpdate_InsertBatch (pillar_update m pillarOwner txData) else [])
         else if method = ''Delegate'' then
           (case b_PairedAccountBlock block of
              None \<Rightarrow> []
            | Some paired \<Rightarrow>
                let pillarOwner = getPillarOwnerAddress ix name
                in if name \<noteq> [] \<and> pillarOwner \<noteq> []
                   then UpdateDelegateBatch (b_Address paired) pillarOwner ts @
                        CloseActiveBatch (b_Address paired) ts @
                        OpenBatch (b_Address paired) pillarOwner ts
                   else [])
         else if method = ''Undelegate'' then
           (case b_PairedAccountBlock block of
              None \<Rightarrow> []
            | Some paired \<Rightarrow>
                UpdateDelegateBatch (b_Address paired) [] 0 @ CloseActiveBatch (b_Address paired) ts)
         else if method = ''Revoke'' then
           (case b_PairedAccountBlock block of
              None \<Rightarrow> []
            | Some paired \<Rightarrow>
                if name = [] then [] else SetAsRevokedBatch (b_Address paired) name ts)
         else [])"

subsection \<open>Stake, sentinel and plasma contracts\<close>

definition indexStakeContract :: "indexer \<Rightarrow> block \<Rightarrow> TxData \<Rightarrow> momentum \<Rightarrow> stmt list" where
  "indexStakeContract ix block txData m =
     (let method = tx_Method txData; ts = int64 (m_TimestampUnix m)
      in case b_PairedAccountBlock block of
           None \<Rightarrow> []
         | Some paired \<Rightarrow>
             if method = ''Stake'' then
               (let duration = (case Atoi (input txData ''durationInSec'') of
                                  None \<Rightarrow> 0 | Some v \<Rightarrow> v);
                    stakeID = b_Hash paired
                in Stake_InsertBatch
                     \<lparr> st_ID = stakeID, st_Address = b_Address paired, st_StartTimestamp = ts,
                       st_ExpirationTimestamp = int64 (ts + duration),
                       st_ZnnAmount = safeBigIntToInt64 (b_Amount paired),
                       st_DurationInSec = duration, st_IsActive = True,
                       st_CancelID = getStakeCancelID (ix_sdk ix) stakeID \<rparr>)
             else if method = ''Cancel'' then
               (let stakeID = input txData ''id''
                in if stakeID = [] then []
                   else Stake_SetInactiveBatch (getStakeCancelID (ix_sdk ix) stakeID)
                          (b_Address paired))
             else [])"

definition indexSentinelContract :: "block \<Rightarrow> TxData \<Rightarrow> stmt list" where
  "indexSentinelContract block txData =
     (if tx_Method txData = ''Revoke'' then
        (case b_PairedAccountBlock block of
           None \<Rightarrow> [] | Some paired \<Rightarrow> Sentinel_SetInactiveBatch (b_Address paired))
      else [])"

definition indexPlasmaContract :: "indexer \<Rightarrow> block \<Rightarrow> TxData \<Rightarrow> momentum \<Rightarrow> stmt list" where
  "indexPlasmaContract ix block txData m =
     (let method = tx_Method txData
      in case b_PairedAccountBlock block of
           None \<Rightarrow> []
         | Some paired \<Rightarrow>
             if method = ''Fuse'' then
               (let beneficiary = (if input txData ''address'' = [] then b_Address paired
                                   else input txData ''address'');
                    fusionID = b_Hash paired
                in Fusion_InsertBatch
                     \<lparr> fu_ID = fusionID, fu_Address = b_Address paired, fu_Beneficiary = beneficiary,
                       fu_MomentumHash = m_Hash m,
                       fu_MomentumTimestamp = int64 (m_TimestampUnix m),
                       fu_MomentumHeight = int64 (m_Height m),
                       fu_QsrAmount = safeBigIntToInt64 (b_Amount paired),
                       fu_ExpirationHeight = int64 (int64 (m_Height m) + FusionExpirationBlocks),
                       fu_IsActive = True,
                       fu_CancelID = getFusionCancelID (ix_sdk ix) fusionID \<rparr>)
             else if method = ''CancelFuse'' then
               (let fusionID = input txData ''id''
                in if fusionID = [] then []
                   else Fusion_SetInactiveBatch (getFusionCancelID (ix_sdk ix) fusionID)
                          (b_Address paired))
             else [])"

subsection \<open>Accelerator contract\<close>

text \<open>Project and phase of a voting id: a project first, else a phase, else nothing.\<close>

definition resolve_voting_id :: "indexer \<Rightarrow> db \<Rightarrow> string \<Rightarrow> string \<times> string" where
  "resolve_voting_id ix d votingID =
     (case read_db ix (ReadProjectByVotingID votingID) (GetIDFromVotingID votingID d) of
        Inr (c # cs) \<Rightarrow> (c # cs, [])
      | _ \<Rightarrow>
          (case read_db ix (ReadPhaseByVotingID votingID)
                  (GetProjectAndPhaseIDFromVotingID votingID d) of
             Inl err \<Rightarrow> ([], []) | Inr ids \<Rightarrow> ids))"

definition voter_address :: "indexer \<Rightarrow> block \<Rightarrow> TxData \<Rightarrow> address" where
  "voter_address ix paired txData =
     (let name = input txData ''name''; owner = getPillarOwnerAddress ix name
      in if tx_Method txData = ''VoteByName'' \<and> name \<noteq> [] \<and> owner \<noteq> [] then owner
         else b_Address paired)"

definition indexAcceleratorContract ::
  "indexer \<Rightarrow> db \<Rightarrow> block \<Rightarrow> TxData \<Rightarrow> momentum \<Rightarrow> stmt list" where
  "indexAcceleratorContract ix d block txData m =
     (if tx_Method txData = ''VoteByName'' \<or> tx_Method txData = ''VoteByProdAddress'' then
        (let votingID = input txData ''id'';
             voteValue = (case Atoi (input txData ''vote'') of None \<Rightarrow> 0 | Some v \<Rightarrow> v)
         in case b_PairedAccountBlock block of
              None \<Rightarrow> []
            | Some paired \<Rightarrow>
                if votingID = [] then []
                else
                  let (projectID, phaseID) = resolve_voting_id ix d votingID
                  in Vote_InsertBatch
                       \<lparr> vo_MomentumHash = m_Hash m,
                         vo_MomentumTimestamp = int64 (m_TimestampUnix m),
                         vo_MomentumHeight = int64 (m_Height m),
                         vo_VoterAddress = voter_address ix paired txData,
                         vo_ProjectID = projectID, vo_PhaseID = phaseID, vo_VotingID = votingID,
                         vo_Vote = int16 voteValue \<rparr>)
      else [])"

subsection \<open>Token contract\<close>

definition indexTokenContract :: "block \<Rightarrow> TxData \<Rightarrow> momentum \<Rightarrow> stmt list" where
  "indexTokenContract block txData m =
     (let method = tx_Method txData; ts = int64 (m_TimestampUnix m); height = int64 (m_Height m)
      in if method = ''Mint'' then
           (case b_PairedAccountBlock block of
              None \<Rightarrow> []
            | Some paired \<Rightarrow>
                (case ParseInt64 (input txData ''amount'') of
                   None \<Rightarrow> []
                 | Some amount \<Rightarrow>
                     InsertMintBatch
                       \<lparr> tm_AccountBlockHash = b_Hash block, tm_MomentumHeight = height,
                         tm_MomentumTimestamp = ts,
                         tm_TokenStandard = input txData ''tokenStandard'',
                         tm_Issuer = b_Address paired,
                         tm_Receiver = input txData ''receiveAddress'', tm_Amount = amount \<rparr>))
         else if method = ''Burn'' then
           (case b_PairedAccountBlock block of
              None \<Rightarrow> []
            | Some paired \<Rightarrow>
                let tokenStandard = b_TokenStandard paired;
                    burnAmount = safeBigIntToInt64 (b_Amount paired)
                in InsertBurnBatch
                     \<lparr> tb_AccountBlockHash = b_Hash block, tb_MomentumHeight = height,
                       tb_MomentumTimestamp = ts, tb_TokenStandard = tokenStandard,
                       tb_Burner = b_Address paired, tb_Amount = burnAmount \<rparr> @
                   UpdateBurnAmountBatch tokenStandard burnAmount)
         else if method = ''UpdateToken'' then
           (if input txData ''tokenStandard'' = [] then []
            else UpdateLastUpdateTimestampBatch (input txData ''tokenStandard'') ts)
         else [])"

subsection \<open>Swap contract\<close>

text \<open>One descendant of a \<open>RetrieveAssets\<close> call: a Mint of ZNN or QSR adds to its bucket.\<close>

definition swap_add :: "sdk \<Rightarrow> descendant \<Rightarrow> int \<times> int \<Rightarrow> int \<times> int" where
  "swap_add sdk dsc acc =
     (case tryDecodeFromAbi (d_Data dsc) (sdk_Token sdk) of
        None \<Rightarrow> acc
      | Some dec \<Rightarrow>
          if tx_Method dec \<noteq> ''Mint'' then acc
          else
            (case SetString10 (input dec ''amount'') of
               None \<Rightarrow> acc
             | Some amt \<Rightarrow>
                 let v = safeBigIntToInt64 (Some amt)
                 in if input dec ''tokenStandard'' = ZnnTokenStandard
                    then (int64 (fst acc + v), snd acc)
                    else if input dec ''tokenStandard'' = QsrTokenStandard
                    then (fst acc, int64 (snd acc + v))
                    else acc))"

definition indexSwapContract :: "indexer \<Rightarrow> block \<Rightarrow> TxData \<Rightarrow> momentum \<Rightarrow> stmt list" where
  "indexSwapContract ix block txData m =
     (case b_PairedAccountBlock block of
        None \<Rightarrow> []
      | Some paired \<Rightarrow>
          if tx_Method txData \<noteq> ''RetrieveAssets'' then []
          else
            let (znn, qsr) = fold (swap_add (ix_sdk ix)) (b_DescendantBlocks block) (0, 0)
            in InsertRetrievalBatch
                 \<lparr> sr_ID = b_Hash paired, sr_Address = b_Address paired,
                   sr_PublicKey = input txData ''publicKey'', sr_ZnnAmount = znn,
                   sr_QsrAmount = qsr, sr_MomentumHeight = int64 (m_Height m),
                   sr_MomentumTimestamp = int64 (m_TimestampUnix m) \<rparr>)"

subsection \<open>HTLC contract\<close>

definition atoi_or_0 :: "string \<Rightarrow> int" where
  "atoi_or_0 s = (case Atoi s of None \<Rightarrow> 0 | Some v \<Rightarrow> v)"

definition indexHtlcContract :: "block \<Rightarrow> TxData \<Rightarrow> momentum \<Rightarrow> stmt list" where
  "indexHtlcContract block txData m =
     (case b_PairedAccountBlock block of
        None \<Rightarrow> []
      | Some paired \<Rightarrow>
          let method = tx_Method txData; height = int64 (m_Height m); ts = int64 (m_TimestampUnix m);
              i = input txData ''id''
          in if method = ''Create'' then
               Htlc_InsertBatch
                 \<lparr> ht_ID = b_Hash paired, ht_TimeLockedAddress = b_Address paired,
                   ht_HashLockedAddress = input txData ''hashLocked'',
                   ht_TokenStandard = b_TokenStandard paired,
                   ht_Amount = safeBigIntToInt64 (b_Amount paired),
                   ht_ExpirationTimestamp = atoi_or_0 (input txData ''expirationTime''),
                   ht_HashType = int16 (atoi_or_0 (input txData ''hashType'')),
                   ht_KeyMaxSize = int16 (atoi_or_0 (input txData ''keyMaxSize'')),
                   ht_HashLock = bytesToHex (input txData ''hashLock''),
                   ht_Status = HtlcStatus_code HtlcStatusActive, ht_Preimage = [],
                   ht_CreationMomentumHeight = height, ht_CreationMomentumTimestamp = ts,
                   ht_SettleMomentumHeight = 0, ht_SettleMomentumTimestamp = 0 \<rparr>
             else if method = ''Unlock'' then
               (if i = [] then []
                else SettleBatch i (HtlcStatus_code HtlcStatusUnlocked)
                       (bytesToHex (input txData ''preimage'')) height ts)
             else if method = ''Reclaim'' then
               (if i = [] then []
                else SettleBatch i (HtlcStatus_code HtlcStatusReclaimed) [] height ts)
             else [])"

subsection \<open>Dispatch\<close>

definition indexEmbeddedContracts ::
  "indexer \<Rightarrow> db \<Rightarrow> block \<Rightarrow> TxData \<Rightarrow> momentum \<Rightarrow> stmt list" where
  "indexEmbeddedContracts ix d block txData m =
     (let address = b_Address block
      in if address = PillarAddress then indexPillarContract ix block txData m
         else if address = StakeAddress then indexStakeContract ix block txData m
         else if address = SentinelAddress then indexSentinelContract block txData
         else if address = PlasmaAddress then indexPlasmaContract ix block txData m
         else if address = AcceleratorAddress then indexAcceleratorContract ix d block txData m
         else if address = TokenAddress then indexTokenContract block txData m
         else if address = HtlcAddress then indexHtlcContract block txData m
         else if address = SwapAddress then indexSwapContract ix block txData m
         else [])"

subsection \<open>Rewards\<close>

definition reward_stmts :: "RewardTransaction \<Rightarrow> stmt list" where
  "reward_stmts rt =
     InsertRewardTransactionBatch rt @
     UpdateCumulativeRewardsBatch (rt_Address rt) (rt_RewardType rt) (rt_Amount rt)
       (rt_TokenStandard rt)"

definition reward_tx :: "block \<Rightarrow> block \<Rightarrow> RewardType \<Rightarrow> momentum \<Rightarrow> RewardTransaction" where
  "reward_tx block paired ty m =
     \<lparr> rt_Hash = b_Hash block, rt_Address = b_Address block, rt_RewardType = ty,
       rt_MomentumTimestamp = int64 (m_TimestampUnix m), rt_MomentumHeight = int64 (m_Height m),
       rt_AccountHeight = int64 (b_Height block),
       rt_Amount = safeBigIntToInt64 (b_Amount paired),
       rt_TokenStandard = b_TokenStandard paired, rt_SourceAddress = b_Address paired \<rparr>"

definition indexLiquidityReward :: "block \<Rightarrow> momentum \<Rightarrow> stmt list" where
  "indexLiquidityReward block m =
     (case b_PairedAccountBlock block of
        None \<Rightarrow> []
      | Some paired \<Rightarrow> reward_stmts (reward_tx block paired RewardTypeLiquidity m))"

definition classifyReward :: "indexer \<Rightarrow> db \<Rightarrow> address \<Rightarrow> address \<Rightarrow> RewardType" where
  "classifyReward ix d sourceAddress receiverAddress =
     (if sourceAddress = SentinelAddress then RewardTypeSentinel
      else if sourceAddress = StakeAddress then RewardTypeStake
      else if sourceAddress = LiquidityAddress then RewardTypeLiquidity
      else if sourceAddress = PillarAddress then
        (case read_db ix (ReadIsWithdrawAddress receiverAddress)
                (Inr (IsWithdrawAddress receiverAddress d)) of
           Inl err \<Rightarrow> RewardTypePillar
         | Inr isPillar \<Rightarrow> if isPillar then RewardTypePillar else RewardTypeDelegation)
      else RewardTypeUnknown)"

definition determineRewardType :: "address \<Rightarrow> RewardType" where
  "determineRewardType sourceAddress =
     (if sourceAddress = PillarAddress then RewardTypePillar
      else if sourceAddress = SentinelAddress then RewardTypeSentinel
      else if sourceAddress = StakeAddress then RewardTypeStake
      else if sourceAddress = LiquidityAddress then RewardTypeLiquidity
      else RewardTypeUnknown)"

definition indexReceivedReward :: "indexer \<Rightarrow> db \<Rightarrow> block \<Rightarrow> momentum \<Rightarrow> stmt list" where
  "indexReceivedReward ix d block m =
     (case b_PairedAccountBlock block of
        None \<Rightarrow> []
      | Some paired \<Rightarrow>
          let rewardType = classifyReward ix d (b_Address paired) (b_Address block)
          in if rewardType = RewardTypeUnknown then []
             else reward_stmts (reward_tx block paired rewardType m))"

end
