(* ===== verification/Processor.thy ===== *)
theory Processor
  imports Embedded
begin

text \<open>
  \<open>internal/indexer/processor.go\<close>: one momentum is turned into one batch, the batch runs in one
  transaction, and the webhook events are emitted after the commit. The network side of the
  transaction (a failing \<open>Begin\<close>, a broken connection, a refused statement, a failing or lost
  \<open>Commit\<close>) is a parameter.
\<close>

subsection \<open>Notifications\<close>

definition genesisBalanceUpdateThreshold :: int where
  "genesisBalanceUpdateThreshold = 1000"

definition momentum_payload :: "Momentum \<Rightarrow> string" where
  "momentum_payload m =
     marshal_map
       [(''height'', JInt (mo_Height m)), (''hash'', JStr (mo_Hash m)),
        (''timestamp'', JInt (mo_Timestamp m)), (''tx_count'', JInt (mo_TxCount m)),
        (''producer'', JStr (mo_Producer m)), (''producer_owner'', JStr (mo_ProducerOwner m)),
        (''producer_name'', JStr (mo_ProducerName m))]"

definition queueMomentumNotify :: "Momentum \<Rightarrow> stmt list" where
  "queueMomentumNotify m = [QNotify ''momentum_new'' (momentum_payload m)]"

definition notify_fields :: "AccountBlock \<Rightarrow> TxData option \<Rightarrow> (string \<times> json_val) list" where
  "notify_fields ab txData =
     [(''hash'', JStr (ab_Hash ab)), (''momentum_hash'', JStr (ab_MomentumHash ab)),
      (''momentum_timestamp'', JInt (ab_MomentumTimestamp ab)),
      (''momentum_height'', JInt (ab_MomentumHeight ab)), (''block_type'', JInt (ab_BlockType ab)),
      (''height'', JInt (ab_Height ab)), (''address'', JStr (ab_Address ab)),
      (''to_address'', JStr (ab_ToAddress ab)), (''amount'', JStr (FormatInt (ab_Amount ab))),
      (''token_standard'', JStr (ab_TokenStandard ab)),
      (''paired_account_block'', JStr (ab_PairedAccountBlock ab))] @
     (if ab_Data ab \<noteq> [] then [(''data'', JStr (ab_Data ab))] else []) @
     (if block_method txData \<noteq> [] then [(''method'', JStr (block_method txData))] else []) @
     (case txData of
        None \<Rightarrow> []
      | Some t \<Rightarrow> if tx_Inputs t = [] then [] else [(''input'', JRaw (marshal_inputs (tx_Inputs t)))])"

definition delete_key :: "string \<Rightarrow> (string \<times> json_val) list \<Rightarrow> (string \<times> json_val) list" where
  "delete_key k m = filter (\<lambda>p. fst p \<noteq> k) m"

text \<open>The bulky fields are dropped one after the other until the payload fits.\<close>

definition queueAccountBlockNotify :: "AccountBlock \<Rightarrow> TxData option \<Rightarrow> error + stmt list" where
  "queueAccountBlockNotify ab txData =
     (let fields0 = notify_fields ab txData;
          payload0 = marshal_map fields0;
          fields1 = (if 7900 < int (length payload0) then delete_key ''input'' fields0 else fields0);
          payload1 = (if 7900 < int (length payload0) then marshal_map fields1 else payload0);
          fields2 = (if 7900 < int (length payload1) then delete_key ''data'' fields1 else fields1);
          payload2 = (if 7900 < int (length payload1) then marshal_map fields2 else payload1)
      in if 7900 < int (length payload2) then Inl ''account_block notify payload too large''
         else Inr [QNotify ''account_block_new'' payload2])"

subsection \<open>Balances\<close>

definition balance_stmts :: "address \<Rightarrow> int \<Rightarrow> string \<times> int option \<Rightarrow> stmt list" where
  "balance_stmts address ts entry =
     (case snd entry of
        None \<Rightarrow> []
      | Some v \<Rightarrow>
          if 0 \<le> v
          then Balance_UpsertBatch \<lparr> ba_Address = address, ba_TokenStandard = fst entry,
                 ba_Balance = safeBigIntToInt64 (Some v), ba_LastUpdatedTimestamp = ts \<rparr>
          else [])"

definition updateBalances :: "indexer \<Rightarrow> header list \<Rightarrow> int \<Rightarrow> stmt list" where
  "updateBalances ix headers ts =
     concat (map (\<lambda>header.
        case GetAccountInfoByAddress (ix_node ix) (h_Address header) of
          Inl err \<Rightarrow> []
        | Inr None \<Rightarrow> []
        | Inr (Some balanceInfoMap) \<Rightarrow>
            concat (map (balance_stmts (h_Address header) ts) balanceInfoMap)) headers)"

subsection \<open>Account blocks\<close>

record Event =
  ev_Type :: string
  ev_Payload :: "(string \<times> json_val) list"

definition with_pillar_owner :: "indexer \<Rightarrow> block \<Rightarrow> TxData option \<Rightarrow> TxData option" where
  "with_pillar_owner ix block txData =
     (case txData of
        None \<Rightarrow> None
      | Some t \<Rightarrow>
          if b_ToAddress block = PillarAddress \<and> input t ''name'' \<noteq> [] \<and>
             tx_Method t \<in> set [''Delegate'', ''Register'', ''RegisterLegacy'', ''Revoke'', ''UpdatePillar'']
          then Some (set_input ''pillarOwner'' (getPillarOwnerAddress ix (input t ''name'')) t)
          else Some t)"

definition account_block_row :: "momentum \<Rightarrow> block \<Rightarrow> AccountBlock" where
  "account_block_row m block =
     \<lparr> ab_Hash = b_Hash block, ab_MomentumHash = m_Hash m,
       ab_MomentumTimestamp = int64 (m_TimestampUnix m), ab_MomentumHeight = int64 (m_Height m),
       ab_BlockType = int16 (b_BlockType block), ab_Height = int64 (b_Height block),
       ab_Address = b_Address block, ab_ToAddress = b_ToAddress block,
       ab_Amount = safeBigIntToInt64 (b_Amount block), ab_TokenStandard = b_TokenStandard block,
       ab_Data = (if b_Data block = [] then [] else EncodeToString (b_Data block)),
       ab_Method = [], ab_Input = [],
       ab_PairedAccountBlock =
         (case b_PairedAccountBlock block of None \<Rightarrow> [] | Some p \<Rightarrow> b_Hash p),
       ab_DescendantOf = [] \<rparr>"

definition block_event :: "momentum \<Rightarrow> block \<Rightarrow> Event" where
  "block_event m block =
     \<lparr> ev_Type = ''account_block.inserted'',
       ev_Payload = [(''momentumHeight'', JInt (m_Height m)), (''hash'', JStr (b_Hash block)),
         (''address'', JStr (b_Address block)), (''toAddress'', JStr (b_ToAddress block)),
         (''blockType'', JInt (b_BlockType block))] \<rparr>"

definition flow_stmts :: "momentum \<Rightarrow> block \<Rightarrow> stmt list" where
  "flow_stmts m block =
     (let ts = int64 (m_TimestampUnix m); sender = b_Address block; tok = b_TokenStandard block;
          amount = safeBigIntToInt64 (b_Amount block); ty = b_BlockType block
      in if ty = BlockTypeUserSend \<or> ty = BlockTypeContractSend then AddSendBatch sender tok amount ts
         else if ty = BlockTypeUserReceive \<or> ty = BlockTypeContractReceive \<or>
                 ty = BlockTypeGenesisReceive then
           AddReceiveBatch sender tok amount ts @
           (if ty = BlockTypeGenesisReceive \<and> m_Height m = 1
            then SetGenesisBalanceBatch sender tok amount else [])
         else [])"

definition bump_stmts :: "momentum \<Rightarrow> block \<Rightarrow> stmt list" where
  "bump_stmts m block =
     (let ts = int64 (m_TimestampUnix m); sender = b_Address block; recipient = b_ToAddress block
      in BumpTxCountBatch sender ts @
         (if recipient \<noteq> [] \<and> recipient \<noteq> sender then BumpTxCountBatch recipient ts else []))"

definition link_stmts :: "block \<Rightarrow> stmt list" where
  "link_stmts block =
     (case b_PairedAccountBlock block of
        None \<Rightarrow> [] | Some p \<Rightarrow> UpdatePairedBlockBatch (b_Hash p) (b_Hash block)) @
     concat (map (\<lambda>dsc. UpdateDescendantOfBatch (d_Hash dsc) (b_Hash block)) (b_DescendantBlocks block))"

text \<open>The handlers are given the paired call decoded afresh.\<close>

definition contract_stmts :: "indexer \<Rightarrow> db \<Rightarrow> momentum \<Rightarrow> block \<Rightarrow> stmt list" where
  "contract_stmts ix d m block =
     (case b_PairedAccountBlock block of
        None \<Rightarrow> []
      | Some paired \<Rightarrow>
          if b_BlockType block = BlockTypeContractReceive \<and> IsEmbeddedContract (b_Address block) then
            (case tryDecodeTxData (ix_sdk ix) paired of
               None \<Rightarrow> []
             | Some pairedTxData \<Rightarrow> indexEmbeddedContracts ix d block pairedTxData m)
          else [])"

definition received_stmts :: "indexer \<Rightarrow> db \<Rightarrow> momentum \<Rightarrow> block \<Rightarrow> stmt list" where
  "received_stmts ix d m block =
     (case b_PairedAccountBlock block of
        None \<Rightarrow> []
      | Some paired \<Rightarrow>
          if b_BlockType block \<noteq> BlockTypeUserReceive then []
          else if b_Address paired = LiquidityTreasuryAddress then indexLiquidityReward block m
          else if b_BlockType paired = BlockTypeContractSend \<and> b_ToAddress block = EmptyAddress \<and>
                  b_TokenStandard block = EmptyTokenStandard
          then indexReceivedReward ix d block m
          else [])"

definition token_stmts :: "block \<Rightarrow> stmt list" where
  "token_stmts block =
     (case b_TokenInfo block of
        None \<Rightarrow> []
      | Some ti \<Rightarrow>
          Token_UpsertBatch
            \<lparr> tk_TokenStandard = ti_ZenonTokenStandard ti, tk_Name = ti_TokenName ti,
              tk_Symbol = ti_TokenSymbol ti, tk_Domain = ti_TokenDomain ti,
              tk_Decimals = ti_Decimals ti, tk_Owner = ti_Owner ti,
              tk_TotalSupply = safeBigIntToInt64 (ti_TotalSupply ti),
              tk_MaxSupply = safeBigIntToInt64 (ti_MaxSupply ti),
              tk_IsBurnable = ti_IsBurnable ti, tk_IsMintable = ti_IsMintable ti,
              tk_IsUtility = ti_IsUtility ti, tk_TotalBurned = 0, tk_LastUpdateTimestamp = 0,
              tk_HolderCount = 0, tk_TransactionCount = 0 \<rparr> @
          IncrementTransactionCountBatch (ti_ZenonTokenStandard ti))"

definition process_block ::
  "indexer \<Rightarrow> db \<Rightarrow> momentum \<Rightarrow> block \<Rightarrow> error + stmt list \<times> Event list" where
  "process_block ix d m block =
     (let txData = with_pillar_owner ix block (tryDecodeTxData (ix_sdk ix) block);
          row = account_block_row m block
      in case queueAccountBlockNotify row txData of
           Inl err \<Rightarrow> Inl (''queue account_block '' @ b_Hash block @ '' notify: '' @ err)
         | Inr notify \<Rightarrow>
             Inr (Account_UpsertBatch ((new_account (b_Address block))
                    \<lparr> ac_BlockCount := int64 (b_Height block),
                      ac_PublicKey := EncodeToString (b_PublicKey block) \<rparr>) @
                  AccountBlock_InsertBatch row txData @ notify @ flow_stmts m block @
                  bump_stmts m block @ link_stmts block @ contract_stmts ix d m block @
                  received_stmts ix d m block @ token_stmts block,
                  if ix_webhooks ix then [block_event m block] else []))"

text \<open>A header whose block cannot be fetched, or that the node does not know, is skipped.\<close>

definition fetched :: "indexer \<Rightarrow> header \<Rightarrow> block option" where
  "fetched ix header =
     (case GetAccountBlockByHash (ix_node ix) (h_Hash header) of Inl err \<Rightarrow> None | Inr b \<Rightarrow> b)"

fun processAccountBlocks ::
  "indexer \<Rightarrow> db \<Rightarrow> momentum \<Rightarrow> header list \<Rightarrow> error + stmt list \<times> Event list" where
  "processAccountBlocks ix d m [] = Inr ([], [])"
| "processAccountBlocks ix d m (header # headers) =
     (case fetched ix header of
        None \<Rightarrow> processAccountBlocks ix d m headers
      | Some block \<Rightarrow>
          (case process_block ix d m block of
             Inl err \<Rightarrow> Inl err
           | Inr (stmts, events) \<Rightarrow>
               (case processAccountBlocks ix d m headers of
                  Inl err \<Rightarrow> Inl err
                | Inr (stmts', events') \<Rightarrow> Inr (stmts @ stmts', events @ events'))))"

subsection \<open>The momentum\<close>

definition getPillarInfoForProducer :: "indexer \<Rightarrow> db \<Rightarrow> address \<Rightarrow> int \<Rightarrow> address \<times> string" where
  "getPillarInfoForProducer ix d producerAddress height =
     (case read_db ix (ReadInfoAtHeight producerAddress height)
             (GetInfoAtHeightByProducer producerAddress (int64 height) d) of
        Inr (c # cs, name) \<Rightarrow> (c # cs, name)
      | _ \<Rightarrow>
          (case read_db ix (ReadPillarByProducer producerAddress)
                  (Pillar_GetByProducer producerAddress d) of
             Inr p \<Rightarrow> (pl_OwnerAddress p, pl_Name p)
           | Inl err \<Rightarrow> ([], [])))"

definition momentum_row :: "indexer \<Rightarrow> db \<Rightarrow> momentum \<Rightarrow> Momentum" where
  "momentum_row ix d m =
     (let info = getPillarInfoForProducer ix d (m_Producer m) (m_Height m)
      in \<lparr> mo_Height = m_Height m, mo_Hash = m_Hash m, mo_Timestamp = int64 (m_TimestampUnix m),
           mo_TxCount = int (length (m_Content m)), mo_Producer = m_Producer m,
           mo_ProducerOwner = fst info, mo_ProducerName = snd info \<rparr>)"

text \<open>The batch of one momentum and the block events to emit once it is committed.\<close>

definition momentum_batch :: "indexer \<Rightarrow> db \<Rightarrow> momentum \<Rightarrow> error + stmt list \<times> Event list" where
  "momentum_batch ix d m =
     (case processAccountBlocks ix d m (m_Content m) of
        Inl err \<Rightarrow> Inl (''failed to process account blocks: '' @ err)
      | Inr (stmts, events) \<Rightarrow>
          let row = momentum_row ix d m
          in Inr (stmts @
               (if m_Content m \<noteq> [] \<and> 1 < m_Height m \<and>
                   int (length (m_Content m)) < genesisBalanceUpdateThreshold
                then updateBalances ix (m_Content m) (int64 (m_TimestampUnix m)) else []) @
               (if mo_ProducerOwner row \<noteq> []
                then IncrementMomentumCountBatch (mo_ProducerOwner row) else []) @
               Momentum_InsertBatch row @ queueMomentumNotify row, events))"

datatype commit_outcome = Committed | CommitRefused | CommitReplyLost

record transport =
  tr_begin_fails :: bool
  tr_reject :: "stmt \<Rightarrow> sql_error option"
  tr_close_fails :: bool
  tr_commit :: commit_outcome

definition momentum_event :: "momentum \<Rightarrow> Event" where
  "momentum_event m =
     \<lparr> ev_Type = ''momentum.inserted'',
       ev_Payload = [(''height'', JInt (m_Height m)), (''hash'', JStr (m_Hash m)),
         (''timestamp'', JInt (int64 (m_TimestampUnix m)))] \<rparr>"

record outcome =
  out_err :: "error option"
  out_db :: db
  out_events :: "Event list"

definition failed :: "error \<Rightarrow> db \<Rightarrow> outcome" where
  "failed err d = \<lparr> out_err = Some err, out_db = d, out_events = [] \<rparr>"

definition processMomentum :: "indexer \<Rightarrow> transport \<Rightarrow> db \<Rightarrow> momentum \<Rightarrow> outcome" where
  "processMomentum ix tr d m =
     (case momentum_batch ix d m of
        Inl err \<Rightarrow> failed err d
      | Inr (batch, blockEvents) \<Rightarrow>
          if tr_begin_fails tr then failed ''begin tx'' d
          else
            (case exec_batch (tr_reject tr) 0 batch d of
               Inl (j, e) \<Rightarrow> failed ''batch failed'' d
             | Inr d' \<Rightarrow>
                 if tr_close_fails tr then failed ''close batch results'' d
                 else
                   (case tr_commit tr of
                      CommitRefused \<Rightarrow> failed ''commit'' d
                    | CommitReplyLost \<Rightarrow> failed ''commit'' d'
                    | Committed \<Rightarrow>
                        \<lparr> out_err = None, out_db = d',
                          out_events = (if ix_webhooks ix then momentum_event m # blockEvents
                                        else []) \<rparr>)))"

end
