(* ===== verification/Processor_Facts.thy ===== *)
theory Processor_Facts
  imports Processor
begin

text \<open>
  The shape of the batch of a momentum: per fetched block one account-block row, one
  notification, one counter bump per role, at most one reward with its cumulative credit, and
  delegations opened only right after closing; the contract handlers contribute nothing else
  to those tables. The component theorems about a momentum rest on these facts.
\<close>

subsection \<open>What the contract handlers queue\<close>

fun contract_stmt :: "stmt \<Rightarrow> bool" where
  "contract_stmt (QUpdateDelegate a p ts) = True"
| "contract_stmt (QTokenTimestamp t ts) = True"
| "contract_stmt (QBurnAmount t n) = True"
| "contract_stmt (QMint x) = True"
| "contract_stmt (QBurn x) = True"
| "contract_stmt (QSpawnInfo a ts c) = True"
| "contract_stmt (QRevoked a n ts) = True"
| "contract_stmt (QPillarUpdate u) = True"
| "contract_stmt (QCloseActive a ts) = True"
| "contract_stmt (QOpen a p ts) = True"
| "contract_stmt (QStake x) = True"
| "contract_stmt (QStakeInactive c a) = True"
| "contract_stmt (QFusion x) = True"
| "contract_stmt (QFusionInactive c a) = True"
| "contract_stmt (QSentinelInactive a) = True"
| "contract_stmt (QHtlc x) = True"
| "contract_stmt (QSettle i s p h ts) = True"
| "contract_stmt (QRetrieval x) = True"
| "contract_stmt (QVote x) = True"
| "contract_stmt _ = False"

lemma contract_stmt_quiet:
  "contract_stmt s \<Longrightarrow> bumps a s = 0 \<and> stmt_blocks s = [] \<and> stmt_notifies s = [] \<and>
     stmt_rewards s = [] \<and> credits k s = 0 \<and> stmt_momentums s = []"
  by (cases s) auto

lemma contract_stmts_quiet:
  assumes "list_all contract_stmt ss"
  shows "bumps_in a ss = 0" "blocks_in ss = []" "notifies_in ss = []" "rewards_in ss = []"
    "credits_in k ss = 0" "momentums_in ss = []"
  using assms by (induction ss) (auto simp: contract_stmt_quiet)

lemma kind_Pillar: "list_all contract_stmt (indexPillarContract ix b t m)"
  by (cases "b_PairedAccountBlock b"; cases "b_DescendantBlocks b")
     (simp_all add: indexPillarContract_def Let_def queue_defs)

lemma kind_Stake: "list_all contract_stmt (indexStakeContract ix b t m)"
  by (cases "b_PairedAccountBlock b") (simp_all add: indexStakeContract_def Let_def queue_defs split: prod.splits)

lemma kind_Sentinel: "list_all contract_stmt (indexSentinelContract b t)"
  by (cases "b_PairedAccountBlock b") (simp_all add: indexSentinelContract_def queue_defs split: prod.splits)

lemma kind_Plasma: "list_all contract_stmt (indexPlasmaContract ix b t m)"
  by (cases "b_PairedAccountBlock b") (simp_all add: indexPlasmaContract_def Let_def queue_defs split: prod.splits)

lemma kind_Accelerator: "list_all contract_stmt (indexAcceleratorContract ix d b t m)"
  by (cases "b_PairedAccountBlock b") (simp_all add: indexAcceleratorContract_def Let_def queue_defs split: prod.splits)

lemma kind_Token: "list_all contract_stmt (indexTokenContract b t m)"
  by (cases "b_PairedAccountBlock b") (simp_all add: indexTokenContract_def Let_def queue_defs split: option.splits)

lemma kind_Swap: "list_all contract_stmt (indexSwapContract ix b t m)"
  by (cases "b_PairedAccountBlock b") (simp_all add: indexSwapContract_def Let_def queue_defs split: prod.splits)

lemma kind_Htlc: "list_all contract_stmt (indexHtlcContract b t m)"
  by (cases "b_PairedAccountBlock b") (simp_all add: indexHtlcContract_def Let_def queue_defs split: prod.splits)

lemmas kinds = kind_Pillar kind_Stake kind_Sentinel kind_Plasma kind_Accelerator kind_Token
  kind_Swap kind_Htlc

lemma kind_Embedded: "list_all contract_stmt (indexEmbeddedContracts ix d b t m)"
  by (simp add: indexEmbeddedContracts_def Let_def kinds)

lemma kind_contract: "list_all contract_stmt (contract_stmts ix d m b)"
  by (cases "b_PairedAccountBlock b"; cases "tryDecodeTxData (ix_sdk ix) (the (b_PairedAccountBlock b))")
     (simp_all add: contract_stmts_def kind_Embedded)

lemmas contract_quiet = contract_stmts_quiet [OF kind_contract]

subsection \<open>Delegations are opened after closing\<close>

lemma guarded_Pillar: "guarded prev (indexPillarContract ix b t m)"
  by (cases "b_PairedAccountBlock b"; cases "b_DescendantBlocks b")
     (simp_all add: indexPillarContract_def Let_def queue_defs)

lemma guarded_others:
  "guarded prev (indexStakeContract ix b t m)"
  "guarded prev (indexSentinelContract b t)"
  "guarded prev (indexPlasmaContract ix b t m)"
  "guarded prev (indexAcceleratorContract ix d b t m)"
  "guarded prev (indexTokenContract b t m)"
  "guarded prev (indexSwapContract ix b t m)"
  "guarded prev (indexHtlcContract b t m)"
  by (cases "b_PairedAccountBlock b"; simp add: indexStakeContract_def indexSentinelContract_def
      indexPlasmaContract_def indexAcceleratorContract_def indexTokenContract_def
      indexSwapContract_def indexHtlcContract_def Let_def queue_defs split: prod.splits option.split)+

lemma guarded_contract: "guarded prev (contract_stmts ix d m b)"
  by (cases "b_PairedAccountBlock b"; cases "tryDecodeTxData (ix_sdk ix) (the (b_PairedAccountBlock b))")
     (simp_all add: contract_stmts_def indexEmbeddedContracts_def Let_def guarded_Pillar guarded_others)


subsection \<open>One block\<close>

lemma notify_Inr:
  "queueAccountBlockNotify ab t = Inr ss \<Longrightarrow>
   \<exists>p. ss = [QNotify ''account_block_new'' p] \<and> int (length p) \<le> 7900"
  by (auto simp: queueAccountBlockNotify_def Let_def split: if_splits)

lemma process_block_Inr:
  assumes "process_block ix d m b = Inr (ss, es)"
  obtains p where "int (length p) \<le> 7900"
    "ss = QAccount ((new_account (b_Address b))
             \<lparr> ac_BlockCount := int64 (b_Height b), ac_PublicKey := EncodeToString (b_PublicKey b) \<rparr>) #
          QBlock (account_block_row m b)
            (with_pillar_owner ix b (tryDecodeTxData (ix_sdk ix) b)) #
          QNotify ''account_block_new'' p #
          flow_stmts m b @ bump_stmts m b @ link_stmts b @ contract_stmts ix d m b @
          received_stmts ix d m b @ token_stmts b"
    "es = (if ix_webhooks ix then [block_event m b] else [])"
  using assms
  by (auto simp: process_block_def Let_def Account_UpsertBatch_def AccountBlock_InsertBatch_def
      split: sum.splits dest!: notify_Inr)

lemma flow_quiet:
  "bumps_in a (flow_stmts m b) = 0" "blocks_in (flow_stmts m b) = []"
  "notifies_in (flow_stmts m b) = []" "rewards_in (flow_stmts m b) = []"
  "credits_in k (flow_stmts m b) = 0" "momentums_in (flow_stmts m b) = []"
  "guarded prev (flow_stmts m b)"
  by (auto simp: flow_stmts_def Let_def queue_defs)

lemma bump_quiet:
  "blocks_in (bump_stmts m b) = []" "notifies_in (bump_stmts m b) = []"
  "rewards_in (bump_stmts m b) = []" "credits_in k (bump_stmts m b) = 0"
  "momentums_in (bump_stmts m b) = []" "guarded prev (bump_stmts m b)"
  by (simp_all add: bump_stmts_def Let_def queue_defs)

lemma bumps_bump_stmts:
  "a \<noteq> [] \<Longrightarrow> bumps_in a (bump_stmts m b) = (if involves a (account_block_row m b) then 1 else 0)"
  by (auto simp: bump_stmts_def Let_def queue_defs involves_def account_block_row_def)

lemma quiet_links:
  "bumps_in a (concat (map (\<lambda>dsc. UpdateDescendantOfBatch (d_Hash dsc) h) ds)) = 0"
  "blocks_in (concat (map (\<lambda>dsc. UpdateDescendantOfBatch (d_Hash dsc) h) ds)) = []"
  "notifies_in (concat (map (\<lambda>dsc. UpdateDescendantOfBatch (d_Hash dsc) h) ds)) = []"
  "rewards_in (concat (map (\<lambda>dsc. UpdateDescendantOfBatch (d_Hash dsc) h) ds)) = []"
  "credits_in k (concat (map (\<lambda>dsc. UpdateDescendantOfBatch (d_Hash dsc) h) ds)) = 0"
  "momentums_in (concat (map (\<lambda>dsc. UpdateDescendantOfBatch (d_Hash dsc) h) ds)) = []"
  "guarded prev (concat (map (\<lambda>dsc. UpdateDescendantOfBatch (d_Hash dsc) h) ds))"
  by (induction ds arbitrary: prev) (simp_all add: queue_defs)

lemma link_quiet:
  "bumps_in a (link_stmts b) = 0" "blocks_in (link_stmts b) = []"
  "notifies_in (link_stmts b) = []" "rewards_in (link_stmts b) = []"
  "credits_in k (link_stmts b) = 0" "momentums_in (link_stmts b) = []"
  "guarded prev (link_stmts b)"
  by (cases "b_PairedAccountBlock b"; simp add: link_stmts_def UpdatePairedBlockBatch_def quiet_links)+

lemma token_quiet:
  "bumps_in a (token_stmts b) = 0" "blocks_in (token_stmts b) = []"
  "notifies_in (token_stmts b) = []" "rewards_in (token_stmts b) = []"
  "credits_in k (token_stmts b) = 0" "momentums_in (token_stmts b) = []"
  "guarded prev (token_stmts b)"
  by (cases "b_TokenInfo b"; simp add: token_stmts_def queue_defs)+

text \<open>A received reward queues nothing, or one log row with the matching credit.\<close>

lemma received_cases:
  "received_stmts ix d m b = [] \<or>
   (\<exists>p ty. received_stmts ix d m b = reward_stmts (reward_tx b p ty m))"
  by (cases "b_PairedAccountBlock b")
     (auto simp: received_stmts_def indexLiquidityReward_def indexReceivedReward_def Let_def)

lemma rt_Hash_reward_tx [simp]: "rt_Hash (reward_tx b p ty m) = b_Hash b"
  by (simp add: reward_tx_def)

lemma reward_stmts_quiet:
  "bumps_in a (reward_stmts rt) = 0" "blocks_in (reward_stmts rt) = []"
  "notifies_in (reward_stmts rt) = []" "rewards_in (reward_stmts rt) = [rt]"
  "credits_in k (reward_stmts rt) = (if k = rt_key rt then rt_Amount rt else 0)"
  "momentums_in (reward_stmts rt) = []" "guarded prev (reward_stmts rt)"
  by (simp_all add: reward_stmts_def queue_defs rt_key_def)

lemma received_quiet:
  "bumps_in a (received_stmts ix d m b) = 0" "blocks_in (received_stmts ix d m b) = []"
  "notifies_in (received_stmts ix d m b) = []" "momentums_in (received_stmts ix d m b) = []"
  "guarded prev (received_stmts ix d m b)"
  "credits_in k (received_stmts ix d m b) =
     sum_where (\<lambda>x. rt_key x = k) rt_Amount (rewards_in (received_stmts ix d m b))"
  using received_cases [of ix d m b] by (auto simp: reward_stmts_quiet)

lemmas block_parts = flow_quiet bump_quiet bumps_bump_stmts link_quiet token_quiet received_quiet
  contract_quiet

lemma block_facts:
  assumes "process_block ix d m b = Inr (ss, es)"
  shows "blocks_in ss = [account_block_row m b]"
    and "a \<noteq> [] \<Longrightarrow> bumps_in a ss = count_where (involves a) (blocks_in ss)"
    and "\<exists>p. notifies_in ss = [(''account_block_new'', p)] \<and> int (length p) \<le> 7900"
    and "credits_in k ss = sum_where (\<lambda>x. rt_key x = k) rt_Amount (rewards_in ss)"
    and "momentums_in ss = []"
    and "es = (if ix_webhooks ix then [block_event m b] else [])"
  using assms
  by (auto elim!: process_block_Inr simp: block_parts)

lemma block_rewards:
  assumes "process_block ix d m b = Inr (ss, es)"
  shows "rewards_in ss = [] \<or> (\<exists>rt. rewards_in ss = [rt] \<and> rt_Hash rt = b_Hash b)"
proof -
  have "rewards_in ss = rewards_in (received_stmts ix d m b)"
    using assms by (auto elim!: process_block_Inr simp: block_parts)
  then show ?thesis
    using received_cases [of ix d m b] by (auto simp: reward_stmts_quiet)
qed

lemma block_guarded:
  assumes "process_block ix d m b = Inr (ss, es)"
  shows "guarded prev ss"
proof -
  obtain p where ss: "ss = QAccount ((new_account (b_Address b))
             \<lparr> ac_BlockCount := int64 (b_Height b), ac_PublicKey := EncodeToString (b_PublicKey b) \<rparr>) #
          QBlock (account_block_row m b)
            (with_pillar_owner ix b (tryDecodeTxData (ix_sdk ix) b)) #
          QNotify ''account_block_new'' p #
          flow_stmts m b @ bump_stmts m b @ link_stmts b @ contract_stmts ix d m b @
          received_stmts ix d m b @ token_stmts b"
    using assms by (rule process_block_Inr)
  show ?thesis
    unfolding ss by (simp add: guarded_append block_parts guarded_contract)
qed


subsection \<open>All blocks of a momentum\<close>

definition fetched_blocks :: "indexer \<Rightarrow> header list \<Rightarrow> block list" where
  "fetched_blocks ix hs = List.map_filter (fetched ix) hs"

lemma fetched_blocks_simps [simp]:
  "fetched_blocks ix [] = []"
  "fetched_blocks ix (h # hs) =
     (case fetched ix h of None \<Rightarrow> fetched_blocks ix hs | Some b \<Rightarrow> b # fetched_blocks ix hs)"
  by (simp_all add: fetched_blocks_def map_filter_simps split: option.splits)

lemma processAccountBlocks_Cons:
  assumes "processAccountBlocks ix d m (h # hs) = Inr (ss, es)"
  obtains (skip) "fetched ix h = None" "processAccountBlocks ix d m hs = Inr (ss, es)"
  | (block) b s1 e1 s2 e2 where "fetched ix h = Some b" "process_block ix d m b = Inr (s1, e1)"
      "processAccountBlocks ix d m hs = Inr (s2, e2)" "ss = s1 @ s2" "es = e1 @ e2"
  using assms by (auto split: option.splits sum.splits)

lemma blocks_facts:
  assumes "processAccountBlocks ix d m hs = Inr (ss, es)"
  shows "blocks_in ss = map (account_block_row m) (fetched_blocks ix hs) \<and>
    (a \<noteq> [] \<longrightarrow> bumps_in a ss = count_where (involves a) (blocks_in ss)) \<and>
    credits_in k ss = sum_where (\<lambda>x. rt_key x = k) rt_Amount (rewards_in ss) \<and>
    momentums_in ss = [] \<and> guarded prev ss \<and>
    es = (if ix_webhooks ix then map (block_event m) (fetched_blocks ix hs) else [])"
  using assms
proof (induction hs arbitrary: ss es prev)
  case (Cons h hs)
  from Cons.prems show ?case
  proof (cases rule: processAccountBlocks_Cons)
    case skip
    then show ?thesis using Cons.IH by simp
  next
    case (block b s1 e1 s2 e2)
    show ?thesis
      using Cons.IH [OF block(3)] block block_facts [OF block(2)] block_guarded [OF block(2)]
      by (auto intro: guarded_append)
  qed
qed simp

lemma blocks_notifies:
  assumes "processAccountBlocks ix d m hs = Inr (ss, es)"
  shows "length (notifies_in ss) = length (fetched_blocks ix hs) \<and>
    list_all (\<lambda>(c, p). c = ''account_block_new'' \<and> int (length p) \<le> 7900) (notifies_in ss)"
  using assms
proof (induction hs arbitrary: ss es)
  case (Cons h hs)
  from Cons.prems show ?case
  proof (cases rule: processAccountBlocks_Cons)
    case skip
    then show ?thesis using Cons.IH by simp
  next
    case (block b s1 e1 s2 e2)
    show ?thesis
      using Cons.IH [OF block(3)] block block_facts(3) [OF block(2)] by auto
  qed
qed simp

lemma blocks_rewards:
  assumes "processAccountBlocks ix d m hs = Inr (ss, es)"
  shows "rt_Hash ` set (rewards_in ss) \<subseteq> b_Hash ` set (fetched_blocks ix hs) \<and>
    (distinct (map b_Hash (fetched_blocks ix hs)) \<longrightarrow> distinct (map rt_Hash (rewards_in ss)))"
  using assms
proof (induction hs arbitrary: ss es)
  case (Cons h hs)
  from Cons.prems show ?case
  proof (cases rule: processAccountBlocks_Cons)
    case skip
    then show ?thesis using Cons.IH by simp
  next
    case (block b s1 e1 s2 e2)
    show ?thesis
      using Cons.IH [OF block(3)] block block_rewards [OF block(2)] by auto
  qed
qed simp

subsection \<open>The batch of a momentum\<close>

lemma balances_quiet:
  "bumps_in a (updateBalances ix hs ts) = 0" "blocks_in (updateBalances ix hs ts) = []"
  "notifies_in (updateBalances ix hs ts) = []" "rewards_in (updateBalances ix hs ts) = []"
  "credits_in k (updateBalances ix hs ts) = 0" "momentums_in (updateBalances ix hs ts) = []"
  "guarded prev (updateBalances ix hs ts)"
proof -
  have one: "\<exists>b. s = QBalance b" if "s \<in> set (updateBalances ix hs ts)" for s
    using that
    by (fastforce simp: updateBalances_def balance_stmts_def Balance_UpsertBatch_def
        split: sum.splits option.splits if_splits)
  have "(\<forall>s\<in>set ss. \<exists>b. s = QBalance b) \<Longrightarrow>
    bumps_in a ss = 0 \<and> blocks_in ss = [] \<and> notifies_in ss = [] \<and> rewards_in ss = [] \<and>
    credits_in k ss = 0 \<and> momentums_in ss = [] \<and> guarded p ss" for ss p
    by (induction ss arbitrary: p) auto
  with one show "bumps_in a (updateBalances ix hs ts) = 0" "blocks_in (updateBalances ix hs ts) = []"
    "notifies_in (updateBalances ix hs ts) = []" "rewards_in (updateBalances ix hs ts) = []"
    "credits_in k (updateBalances ix hs ts) = 0" "momentums_in (updateBalances ix hs ts) = []"
    "guarded prev (updateBalances ix hs ts)"
    by blast+
qed

definition tail_stmts :: "indexer \<Rightarrow> db \<Rightarrow> momentum \<Rightarrow> stmt list" where
  "tail_stmts ix d m =
     (let row = momentum_row ix d m
      in (if m_Content m \<noteq> [] \<and> 1 < m_Height m \<and>
             int (length (m_Content m)) < genesisBalanceUpdateThreshold
          then updateBalances ix (m_Content m) (int64 (m_TimestampUnix m)) else []) @
         (if mo_ProducerOwner row \<noteq> []
          then IncrementMomentumCountBatch (mo_ProducerOwner row) else []) @
         Momentum_InsertBatch row @ queueMomentumNotify row)"

lemma momentum_batch_Inr:
  assumes "momentum_batch ix d m = Inr (batch, es)"
  obtains ss where "processAccountBlocks ix d m (m_Content m) = Inr (ss, es)"
    "batch = ss @ tail_stmts ix d m"
  using assms by (auto simp: momentum_batch_def tail_stmts_def Let_def split: sum.splits)

lemma tail_quiet:
  "bumps_in a (tail_stmts ix d m) = 0" "blocks_in (tail_stmts ix d m) = []"
  "rewards_in (tail_stmts ix d m) = []" "credits_in k (tail_stmts ix d m) = 0"
  "momentums_in (tail_stmts ix d m) = [momentum_row ix d m]"
  "notifies_in (tail_stmts ix d m) = [(''momentum_new'', momentum_payload (momentum_row ix d m))]"
  "guarded prev (tail_stmts ix d m)"
  by (simp_all add: tail_stmts_def Let_def queue_defs queueMomentumNotify_def balances_quiet
      guarded_append)

lemma batch_facts:
  assumes "momentum_batch ix d m = Inr (batch, es)"
  shows "blocks_in batch = map (account_block_row m) (fetched_blocks ix (m_Content m))"
    and "a \<noteq> [] \<Longrightarrow> bumps_in a batch = count_where (involves a) (blocks_in batch)"
    and "credits_in k batch = sum_where (\<lambda>x. rt_key x = k) rt_Amount (rewards_in batch)"
    and "momentums_in batch = [momentum_row ix d m]"
    and "guarded None batch"
    and "es = (if ix_webhooks ix then map (block_event m) (fetched_blocks ix (m_Content m)) else [])"
    and "rt_Hash ` set (rewards_in batch) \<subseteq> b_Hash ` set (fetched_blocks ix (m_Content m))"
    and "distinct (map b_Hash (fetched_blocks ix (m_Content m))) \<Longrightarrow>
      distinct (map rt_Hash (rewards_in batch))"
proof -
  obtain ss where ss: "processAccountBlocks ix d m (m_Content m) = Inr (ss, es)"
    and batch: "batch = ss @ tail_stmts ix d m"
    using assms by (rule momentum_batch_Inr)
  note facts = blocks_facts [OF ss, of a k None] blocks_rewards [OF ss]
  show "blocks_in batch = map (account_block_row m) (fetched_blocks ix (m_Content m))"
    and "a \<noteq> [] \<Longrightarrow> bumps_in a batch = count_where (involves a) (blocks_in batch)"
    and "credits_in k batch = sum_where (\<lambda>x. rt_key x = k) rt_Amount (rewards_in batch)"
    and "momentums_in batch = [momentum_row ix d m]"
    and "guarded None batch"
    and "es = (if ix_webhooks ix then map (block_event m) (fetched_blocks ix (m_Content m)) else [])"
    and "rt_Hash ` set (rewards_in batch) \<subseteq> b_Hash ` set (fetched_blocks ix (m_Content m))"
    and "distinct (map b_Hash (fetched_blocks ix (m_Content m))) \<Longrightarrow>
      distinct (map rt_Hash (rewards_in batch))"
    using facts by (simp_all add: batch tail_quiet guarded_append)
qed

lemma ab_Hash_row [simp]: "ab_Hash (account_block_row m b) = b_Hash b"
  by (simp add: account_block_row_def)

lemma map_ab_Hash_rows: "map ab_Hash (map (account_block_row m) bs) = map b_Hash bs"
  by simp

subsection \<open>The transaction\<close>

lemma processMomentum_ok:
  assumes "out_err (processMomentum ix tr d m) = None"
  obtains batch es where "momentum_batch ix d m = Inr (batch, es)"
    "exec_batch (tr_reject tr) 0 batch d = Inr (out_db (processMomentum ix tr d m))"
    "out_events (processMomentum ix tr d m) =
       (if ix_webhooks ix then momentum_event m # es else [])"
  using assms
  by (auto simp: processMomentum_def failed_def split: sum.splits if_splits commit_outcome.splits)

lemma processMomentum_db:
  "out_db (processMomentum ix tr d m) = d \<or>
   (\<exists>batch es. momentum_batch ix d m = Inr (batch, es) \<and>
      exec_batch (tr_reject tr) 0 batch d = Inr (out_db (processMomentum ix tr d m)))"
  by (auto simp: processMomentum_def failed_def split: sum.splits if_splits commit_outcome.splits)

end
