(* ===== verification/Momentum_Props.thy ===== *)
theory Momentum_Props
  imports Processor_Facts
begin

text \<open>
  The theorems about indexing one momentum: what a failure leaves behind, what a success
  stores, announces and emits, and the invariants of the database that every momentum keeps.
  The example at the end of the first part is a two-block momentum used by the witnesses.
\<close>

subsection \<open>An example\<close>

definition ex_sdk :: sdk where
  "ex_sdk = \<lparr> sdk_Common = None, sdk_Plasma = None, sdk_Pillar = None, sdk_Token = None,
     sdk_Sentinel = None, sdk_Stake = None, sdk_Accelerator = None, sdk_Swap = None,
     sdk_Liquidity = None, sdk_Bridge = None, sdk_Htlc = None, sdk_HexToHash = (\<lambda>s. Inr s) \<rparr>"

definition ex_send :: block where
  "ex_send = Block ''h1'' BlockTypeUserSend 7 ''alice'' ''bob'' (Some 5) ZnnTokenStandard [] ''k'' None [] None"

definition ex_reward_send :: block where
  "ex_reward_send = Block ''h0'' BlockTypeContractSend 9 StakeAddress ''carol'' (Some 3)
     QsrTokenStandard [] [] None [] None"

definition ex_reward :: block where
  "ex_reward = Block ''h2'' BlockTypeUserReceive 8 ''carol'' EmptyAddress (Some 0)
     EmptyTokenStandard [] ''k'' (Some ex_reward_send) [] None"

definition ex_node :: node where
  "ex_node = \<lparr> GetAccountBlockByHash =
       (\<lambda>h. if h = ''h1'' then Inr (Some ex_send) else if h = ''h2'' then Inr (Some ex_reward)
            else Inr None),
     GetAccountInfoByAddress = (\<lambda>a. Inr (Some [(ZnnTokenStandard, Some 40)])) \<rparr>"

definition ex_ix :: indexer where
  "ex_ix = \<lparr> ix_sdk = ex_sdk, ix_node = ex_node, ix_pillarNameToOwner = [], ix_webhooks = True,
     ix_read_fails = (\<lambda>_. False) \<rparr>"

definition ex_tr :: transport where
  "ex_tr = \<lparr> tr_begin_fails = False, tr_reject = (\<lambda>_. None), tr_close_fails = False,
     tr_commit = Committed \<rparr>"

definition ex_m :: momentum where
  "ex_m = \<lparr> m_Height = 2, m_Hash = ''mh'', m_TimestampUnix = 1700000000, m_Producer = ''prod'',
     m_Content = [\<lparr> h_Address = ''alice'', h_Hash = ''h1'' \<rparr>, \<lparr> h_Address = ''carol'', h_Hash = ''h2'' \<rparr>,
       \<lparr> h_Address = ''dave'', h_Hash = ''h3'' \<rparr>] \<rparr>"



lemma ex_fetched: "fetched_blocks ex_ix (m_Content ex_m) = [ex_send, ex_reward]"
  by code_simp

subsection \<open>Failure and success\<close>

text \<open>
  C1. A momentum that is not indexed leaves no trace: when \<open>processMomentum\<close> returns an error, no
  webhook event is emitted and the database, notifications included, is exactly the one before
  the call. The only exception is a commit whose reply was lost on the way: then the whole batch
  is in the database, never a part of it.
\<close>

theorem processMomentum_atomic:
  assumes "out_err (processMomentum ix tr d m) \<noteq> None"
  shows "out_events (processMomentum ix tr d m) = [] \<and>
    (out_db (processMomentum ix tr d m) = d \<or>
     tr_commit tr = CommitReplyLost \<and>
     (\<exists>batch es. momentum_batch ix d m = Inr (batch, es) \<and>
        exec_batch (tr_reject tr) 0 batch d = Inr (out_db (processMomentum ix tr d m))))"
  using assms
  by (auto simp: processMomentum_def failed_def split: sum.splits if_splits commit_outcome.splits)

theorem processMomentum_atomic_witness:
  "out_db (processMomentum ex_ix (ex_tr\<lparr> tr_commit := CommitRefused \<rparr>) empty_db ex_m) = empty_db"
proof -
  have "out_err (processMomentum ex_ix (ex_tr\<lparr> tr_commit := CommitRefused \<rparr>) empty_db ex_m) \<noteq> None"
    by code_simp
  from processMomentum_atomic [OF this] show ?thesis
    by (simp add: ex_tr_def)
qed




subsection \<open>Invariants\<close>

text \<open>
  C3. The cached transaction counter is exact. If for every address the column \<open>tx_count\<close> equals
  the number of stored account blocks that mention it as sender or recipient, and the momentum
  brings blocks with new and distinct hashes, then the equality holds after \<open>processMomentum\<close>
  too, whether it fails or commits. This is the total \<open>ListByAddress\<close> serves.
\<close>

theorem tx_count_exact:
  assumes "\<forall>a. a \<noteq> [] \<longrightarrow> tx_count_of a d = block_count_of a d"
    and "distinct (map b_Hash (fetched_blocks ix (m_Content m)))"
    and "b_Hash ` set (fetched_blocks ix (m_Content m)) \<inter> ab_Hash ` set (account_blocks d) = {}"
  shows "\<forall>a. a \<noteq> [] \<longrightarrow> tx_count_of a (out_db (processMomentum ix tr d m)) =
    block_count_of a (out_db (processMomentum ix tr d m))"
  using processMomentum_db [of ix tr d m]
proof (elim disjE exE conjE)
  fix batch es
  assume b: "momentum_batch ix d m = Inr (batch, es)"
    and x: "exec_batch (tr_reject tr) 0 batch d = Inr (out_db (processMomentum ix tr d m))"
  have "distinct (map ab_Hash (blocks_in batch))"
    and "ab_Hash ` set (blocks_in batch) \<inter> ab_Hash ` set (account_blocks d) = {}"
    using assms(2,3) by (simp_all add: batch_facts(1) [OF b] comp_def image_image)
  with x show ?thesis
    using assms(1) by (simp add: tx_count_batch block_batch batch_facts(2) [OF b])
qed (use assms(1) in simp)

theorem tx_count_exact_witness:
  "tx_count_of ''bob'' (out_db (processMomentum ex_ix ex_tr empty_db ex_m)) = 1"
proof -
  have "\<forall>a. a \<noteq> [] \<longrightarrow> tx_count_of a (out_db (processMomentum ex_ix ex_tr empty_db ex_m)) =
      block_count_of a (out_db (processMomentum ex_ix ex_tr empty_db ex_m))"
    by (rule tx_count_exact)
       (simp_all add: ex_fetched ex_send_def ex_reward_def empty_db_def tx_count_of_def counter_def
         block_count_of_def)
  moreover have "block_count_of ''bob'' (out_db (processMomentum ex_ix ex_tr empty_db ex_m)) = 1"
    by code_simp
  ultimately show ?thesis by simp
qed

text \<open>
  C4. The cumulative rewards are the sums of the reward log: for every address, reward type and
  token, \<open>cumulative_rewards.amount\<close> equals the sum over \<open>reward_transactions\<close>, and a momentum
  with new and distinct block hashes keeps it so.
\<close>

theorem cumulative_rewards_exact:
  assumes "\<forall>k. cumulative_of k d = reward_sum k d"
    and "distinct (map b_Hash (fetched_blocks ix (m_Content m)))"
    and "b_Hash ` set (fetched_blocks ix (m_Content m)) \<inter> rt_Hash ` set (reward_transactions d) = {}"
  shows "\<forall>k. cumulative_of k (out_db (processMomentum ix tr d m)) =
    reward_sum k (out_db (processMomentum ix tr d m))"
  using processMomentum_db [of ix tr d m]
proof (elim disjE exE conjE)
  fix batch es
  assume b: "momentum_batch ix d m = Inr (batch, es)"
    and x: "exec_batch (tr_reject tr) 0 batch d = Inr (out_db (processMomentum ix tr d m))"
  have "distinct (map rt_Hash (rewards_in batch))"
    and "rt_Hash ` set (rewards_in batch) \<inter> rt_Hash ` set (reward_transactions d) = {}"
    using assms(2,3) batch_facts(7,8) [OF b] by blast+
  with x show ?thesis
    using assms(1) by (simp add: cumulative_batch reward_batch batch_facts(3) [OF b])
qed (use assms(1) in simp)

theorem cumulative_rewards_exact_witness:
  "cumulative_of (''carol'', RewardTypeStake, QsrTokenStandard)
     (out_db (processMomentum ex_ix ex_tr empty_db ex_m)) = 3"
proof -
  have "\<forall>k. cumulative_of k (out_db (processMomentum ex_ix ex_tr empty_db ex_m)) =
      reward_sum k (out_db (processMomentum ex_ix ex_tr empty_db ex_m))"
    by (rule cumulative_rewards_exact)
       (simp_all add: ex_fetched ex_send_def ex_reward_def empty_db_def cumulative_of_def counter_def
         reward_sum_def)
  moreover have "reward_sum (''carol'', RewardTypeStake, QsrTokenStandard)
      (out_db (processMomentum ex_ix ex_tr empty_db ex_m)) = 3"
    by code_simp
  ultimately show ?thesis by simp
qed



text \<open>
  C6. A delegator has at most one open delegation interval: a Delegate call closes the old
  interval in the same batch before it opens the new one.
\<close>

theorem one_open_delegation:
  assumes "one_open d"
  shows "one_open (out_db (processMomentum ix tr d m))"
  using processMomentum_db [of ix tr d m]
proof (elim disjE exE conjE)
  fix batch es
  assume b: "momentum_batch ix d m = Inr (batch, es)"
    and x: "exec_batch (tr_reject tr) 0 batch d = Inr (out_db (processMomentum ix tr d m))"
  show ?thesis
    using open_batch [OF x batch_facts(5) [OF b] assms] by simp
qed (use assms in simp)

theorem one_open_delegation_witness:
  "one_open (out_db (processMomentum ex_ix ex_tr empty_db ex_m))"
  by (rule one_open_delegation) (simp add: one_open_def open_count_def empty_db_def)

text \<open>
  C7. Indexing a momentum a second time counts its transactions twice: when the blocks are all
  stored already, a second commit leaves the number of stored blocks of an address alone but
  adds the number of the momentum's blocks that mention it to \<open>tx_count\<close>.
\<close>

theorem reprocessing_counts_twice:
  assumes "out_err (processMomentum ix tr d m) = None"
    and "b_Hash ` set (fetched_blocks ix (m_Content m)) \<subseteq> ab_Hash ` set (account_blocks d)"
    and "a \<noteq> []"
  shows "block_count_of a (out_db (processMomentum ix tr d m)) = block_count_of a d \<and>
    tx_count_of a (out_db (processMomentum ix tr d m)) = tx_count_of a d +
      count_where (involves a) (map (account_block_row m) (fetched_blocks ix (m_Content m)))"
proof -
  let ?d' = "out_db (processMomentum ix tr d m)"
  obtain batch es where b: "momentum_batch ix d m = Inr (batch, es)"
    and x: "exec_batch (tr_reject tr) 0 batch d = Inr ?d'"
    using assms(1) by (rule processMomentum_ok)
  have "ab_Hash ` set (blocks_in batch) \<subseteq> ab_Hash ` set (account_blocks d)"
    using assms(2) by (simp add: batch_facts(1) [OF b] image_image)
  then show ?thesis
    using block_batch_known [OF x] tx_count_batch [OF x] assms(3)
    by (simp add: batch_facts(1,2) [OF b])
qed

definition ex_once :: db where
  "ex_once = out_db (processMomentum ex_ix ex_tr empty_db ex_m)"

theorem reprocessing_counts_twice_witness:
  "block_count_of ''bob'' (out_db (processMomentum ex_ix ex_tr ex_once ex_m)) =
     block_count_of ''bob'' ex_once \<and>
   tx_count_of ''bob'' (out_db (processMomentum ex_ix ex_tr ex_once ex_m)) =
     tx_count_of ''bob'' ex_once + 1"
proof -
  have "out_err (processMomentum ex_ix ex_tr ex_once ex_m) = None"
    by code_simp
  moreover have "map ab_Hash (account_blocks ex_once) = [''h1'', ''h2'']"
    by code_simp
  then have "ab_Hash ` set (account_blocks ex_once) = {''h1'', ''h2''}"
    by (metis list.simps(15) empty_set set_map)
  then have "b_Hash ` set (fetched_blocks ex_ix (m_Content ex_m)) \<subseteq>
      ab_Hash ` set (account_blocks ex_once)"
    by (simp add: ex_fetched ex_send_def ex_reward_def)
  ultimately show ?thesis
    using reprocessing_counts_twice [of ex_ix ex_tr ex_once ex_m "''bob''"]
    by (simp add: ex_fetched involves_def account_block_row_def ex_send_def ex_reward_def
        EmptyAddress_def)
qed

end
