(* ===== verification/Contract_Props.thy ===== *)
theory Contract_Props
  imports Momentum_Props
begin

text \<open>
  What indexing does with the calls to the embedded contracts: which calls become pillar updates,
  and how the entries of the stake, plasma and HTLC contracts live in their tables.
\<close>

subsection \<open>Where the contract statements of a batch come from\<close>

lemma not_contract_parts:
  "s \<in> set (flow_stmts m b) \<Longrightarrow> \<not> contract_stmt s"
  "s \<in> set (bump_stmts m b) \<Longrightarrow> \<not> contract_stmt s"
  "s \<in> set (link_stmts b) \<Longrightarrow> \<not> contract_stmt s"
  "s \<in> set (received_stmts ix d m b) \<Longrightarrow> \<not> contract_stmt s"
  "s \<in> set (token_stmts b) \<Longrightarrow> \<not> contract_stmt s"
  "s \<in> set (tail_stmts ix d m) \<Longrightarrow> \<not> contract_stmt s"
proof -
  show "s \<in> set (flow_stmts m b) \<Longrightarrow> \<not> contract_stmt s"
    by (auto simp: flow_stmts_def Let_def queue_defs split: if_splits)
  show "s \<in> set (bump_stmts m b) \<Longrightarrow> \<not> contract_stmt s"
    by (auto simp: bump_stmts_def Let_def queue_defs split: if_splits)
  show "s \<in> set (link_stmts b) \<Longrightarrow> \<not> contract_stmt s"
    by (cases "b_PairedAccountBlock b") (auto simp: link_stmts_def queue_defs)
  show "s \<in> set (token_stmts b) \<Longrightarrow> \<not> contract_stmt s"
    by (cases "b_TokenInfo b") (auto simp: token_stmts_def queue_defs)
  show "s \<in> set (received_stmts ix d m b) \<Longrightarrow> \<not> contract_stmt s"
    by (cases "b_PairedAccountBlock b")
      (auto simp: received_stmts_def indexLiquidityReward_def indexReceivedReward_def reward_stmts_def
        Let_def queue_defs split: if_splits)
  show "s \<in> set (tail_stmts ix d m) \<Longrightarrow> \<not> contract_stmt s"
    by (auto simp: tail_stmts_def Let_def queue_defs queueMomentumNotify_def updateBalances_def
        balance_stmts_def split: if_splits sum.splits option.splits)
qed

lemma blocks_origin:
  assumes "processAccountBlocks ix d m hs = Inr (ss, es)" "s \<in> set ss" "contract_stmt s"
  shows "\<exists>b \<in> set (fetched_blocks ix hs). s \<in> set (contract_stmts ix d m b)"
  using assms(1,2)
proof (induction hs arbitrary: ss es)
  case (Cons h hs)
  from Cons.prems(1) show ?case
  proof (cases rule: processAccountBlocks_Cons)
    case skip
    then show ?thesis using Cons.IH [OF skip(2) Cons.prems(2)] by simp
  next
    case (block b s1 e1 s2 e2)
    show ?thesis
    proof (cases "s \<in> set s1")
      case True
      obtain p where "s1 = QAccount ((new_account (b_Address b))
             \<lparr> ac_BlockCount := int64 (b_Height b), ac_PublicKey := EncodeToString (b_PublicKey b) \<rparr>) #
          QBlock (account_block_row m b) (with_pillar_owner ix b (tryDecodeTxData (ix_sdk ix) b)) #
          QNotify ''account_block_new'' p #
          flow_stmts m b @ bump_stmts m b @ link_stmts b @ contract_stmts ix d m b @
          received_stmts ix d m b @ token_stmts b"
        using process_block_Inr [OF block(2)] by metis
      with True assms(3) have "s \<in> set (contract_stmts ix d m b)"
        by (auto dest: not_contract_parts)
      then show ?thesis using block(1) by auto
    next
      case False
      then have "s \<in> set s2" using Cons.prems(2) block(4) by simp
      from Cons.IH [OF block(3) this] block(1) show ?thesis by auto
    qed
  qed
qed simp

lemma contract_stmts_cases:
  obtains "contract_stmts ix d m b = []"
  | p t where "b_PairedAccountBlock b = Some p" "b_BlockType b = BlockTypeContractReceive"
      "tryDecodeTxData (ix_sdk ix) p = Some t"
      "contract_stmts ix d m b = indexEmbeddedContracts ix d b t m"
  by (cases "b_PairedAccountBlock b"; cases "tryDecodeTxData (ix_sdk ix) (the (b_PairedAccountBlock b))";
      cases "b_BlockType b = BlockTypeContractReceive \<and> IsEmbeddedContract (b_Address b)")
    (simp_all add: contract_stmts_def)

lemma contract_origin:
  assumes "momentum_batch ix d m = Inr (batch, es)" "s \<in> set batch" "contract_stmt s"
  obtains b p t where "b \<in> set (fetched_blocks ix (m_Content m))" "b_PairedAccountBlock b = Some p"
    "b_BlockType b = BlockTypeContractReceive" "tryDecodeTxData (ix_sdk ix) p = Some t"
    "s \<in> set (indexEmbeddedContracts ix d b t m)"
proof -
  obtain ss where ss: "processAccountBlocks ix d m (m_Content m) = Inr (ss, es)"
    and batch: "batch = ss @ tail_stmts ix d m"
    using assms(1) by (rule momentum_batch_Inr)
  then have "s \<in> set ss"
    using assms(2,3) not_contract_parts(6) [of s ix d m] by auto
  from blocks_origin [OF ss this assms(3)] obtain b where
    b: "b \<in> set (fetched_blocks ix (m_Content m))" and s: "s \<in> set (contract_stmts ix d m b)" by blast
  from contract_stmts_cases [of ix d m b] show thesis
  proof cases
    case 1
    with s show thesis by simp
  next
    case (2 p t)
    with b s show thesis using that by simp
  qed
qed

subsection \<open>Pillar updates\<close>

fun stmt_updates :: "stmt \<Rightarrow> PillarUpdate list" where
  "stmt_updates (QPillarUpdate u) = [u]"
| "stmt_updates _ = []"

lemma updates_run:
  "run_stmt s d = Inr d' \<Longrightarrow> pillar_updates d' = pillar_updates d @ stmt_updates s"
  by (cases s) (auto simp: plain_op_defs table_op_defs map_Inr_eq_Inr split: if_splits)

lemma updates_batch:
  "exec_batch reject j ss d = Inr d' \<Longrightarrow>
   pillar_updates d' = pillar_updates d @ concat (map stmt_updates ss)"
proof (induction ss arbitrary: j d)
  case (Cons s ss)
  obtain d1 where d1: "run_stmt s d = Inr d1" "exec_batch reject (Suc j) ss d1 = Inr d'"
    using Cons.prems by (rule exec_batch_Cons)
  show ?case using Cons.IH [OF d1(2)] updates_run [OF d1(1)] by simp
qed simp

definition abi_tables :: "sdk \<Rightarrow> abi list" where
  "abi_tables sdk = List.map_filter id [sdk_Common sdk, sdk_Plasma sdk, sdk_Pillar sdk, sdk_Token sdk,
     sdk_Sentinel sdk, sdk_Stake sdk, sdk_Accelerator sdk, sdk_Swap sdk, sdk_Liquidity sdk,
     sdk_Bridge sdk, sdk_Htlc sdk]"

definition lacks_input :: "string \<Rightarrow> sdk \<Rightarrow> bool" where
  "lacks_input name sdk =
     list_all (\<lambda>a. list_all (\<lambda>e. name \<notin> set (ae_Inputs e)) (abi_Entries a)) (abi_tables sdk)"

lemma set_abi_tables:
  "a \<in> set (abi_tables sdk) \<longleftrightarrow> Some a \<in> set [sdk_Common sdk, sdk_Plasma sdk, sdk_Pillar sdk,
     sdk_Token sdk, sdk_Sentinel sdk, sdk_Stake sdk, sdk_Accelerator sdk, sdk_Swap sdk,
     sdk_Liquidity sdk, sdk_Bridge sdk, sdk_Htlc sdk]"
proof -
  have "a \<in> set (List.map_filter id os) \<longleftrightarrow> Some a \<in> set os" for os :: "abi option list"
    by (induction os) (auto simp: map_filter_simps split: option.splits)
  then show ?thesis unfolding abi_tables_def .
qed

lemma contract_abi_table: "contract_abi sdk x = Some a \<Longrightarrow> a \<in> set (abi_tables sdk)"
  unfolding set_abi_tables contract_abi_def by (simp split: if_splits)

lemma decoded_entry:
  assumes "tryDecodeTxData sdk b = Some t"
  obtains a e where "a \<in> set (abi_tables sdk)" "e \<in> set (abi_Entries a)" "t = decode_entry (b_Data b) a e"
proof -
  obtain oa where "oa = sdk_Common sdk \<or> oa = contract_abi sdk (b_ToAddress b)"
    and t: "tryDecodeFromAbi (b_Data b) oa = Some t"
    using assms by (auto simp: tryDecodeTxData_def named_Some split: if_splits option.splits)
  then obtain a where a: "oa = Some a" by (cases oa) (auto simp: tryDecodeFromAbi_def)
  have "a \<in> set (abi_tables sdk)"
    using \<open>oa = _ \<or> _\<close>
  proof
    assume "oa = sdk_Common sdk"
    with a show ?thesis by (simp add: set_abi_tables)
  next
    assume "oa = contract_abi sdk (b_ToAddress b)"
    with a show ?thesis by (intro contract_abi_table) simp
  qed
  moreover obtain e where "e \<in> set (abi_Entries a)" "t = decode_entry (b_Data b) a e"
    using t unfolding a by (rule tryDecodeFromAbi_Some)
  ultimately show thesis by (rule that)
qed

lemma lacks_input_empty:
  assumes "lacks_input k sdk" "tryDecodeTxData sdk b = Some t"
  shows "input t k = []"
proof -
  obtain a e where ae: "a \<in> set (abi_tables sdk)" "e \<in> set (abi_Entries a)"
    "t = decode_entry (b_Data b) a e"
    using assms(2) by (rule decoded_entry)
  then have "k \<notin> set (ae_Inputs e)"
    using assms(1) by (auto simp: lacks_input_def list_all_iff)
  then have "k \<notin> fst ` set (tx_Inputs t)"
    using decode_entry_keys(1) [of "b_Data b" a e] ae(3) by auto
  then have "map_of (tx_Inputs t) k = None"
    by (simp add: map_of_eq_None_iff)
  then show ?thesis
    by (simp add: input_def)
qed

definition updates_in :: "stmt list \<Rightarrow> PillarUpdate list" where
  "updates_in ss = concat (map stmt_updates ss)"

lemma updates_in_simps [simp]:
  "updates_in [] = []" "updates_in (s # ss) = stmt_updates s @ updates_in ss"
  "updates_in (xs @ ys) = updates_in xs @ updates_in ys"
  by (simp_all add: updates_in_def)

lemma updates_others:
  "updates_in (indexStakeContract ix b t m) = []"
  "updates_in (indexSentinelContract b t) = []"
  "updates_in (indexPlasmaContract ix b t m) = []"
  "updates_in (indexAcceleratorContract ix d b t m) = []"
  "updates_in (indexTokenContract b t m) = []"
  "updates_in (indexSwapContract ix b t m) = []"
  "updates_in (indexHtlcContract b t m) = []"
  by (cases "b_PairedAccountBlock b"; simp add: indexStakeContract_def indexSentinelContract_def
      indexPlasmaContract_def indexAcceleratorContract_def indexTokenContract_def
      indexSwapContract_def indexHtlcContract_def Let_def queue_defs split: prod.splits option.split)+

lemma updates_Pillar:
  assumes "input t ''pillarOwner'' = []" "b_PairedAccountBlock b = Some p"
  shows "updates_in (indexPillarContract ix b t m) =
    (if tx_Method t \<in> {''Register'', ''RegisterLegacy''} \<and> input t ''name'' \<noteq> []
     then [pillar_update m (b_Address p) t] else [])"
  using assms by (cases "b_DescendantBlocks b") (simp_all add: indexPillarContract_def Let_def queue_defs)

lemma updates_in_member: "u \<in> set (updates_in ss) \<longleftrightarrow> QPillarUpdate u \<in> set ss"
proof (induction ss)
  case (Cons s ss)
  then show ?case by (cases s) auto
qed simp

text \<open>
  C8. Which calls reach \<open>pillar_updates\<close>. The input \<open>pillarOwner\<close> is not part of any ABI entry; the
  processor adds it to the decoded call of a send block only, while the handlers get the paired
  call decoded afresh. Hence every row a momentum adds to \<open>pillar_updates\<close> comes from a \<open>Register\<close>
  or \<open>RegisterLegacy\<close> call and is owned by the caller: an \<open>UpdatePillar\<close> call is never recorded.
\<close>

theorem pillar_updates_only_register:
  assumes "lacks_input ''pillarOwner'' (ix_sdk ix)"
  shows "\<exists>us. pillar_updates (out_db (processMomentum ix tr d m)) = pillar_updates d @ us \<and>
    (\<forall>u \<in> set us. \<exists>b \<in> set (fetched_blocks ix (m_Content m)). \<exists>p t.
       b_PairedAccountBlock b = Some p \<and> tryDecodeTxData (ix_sdk ix) p = Some t \<and>
       tx_Method t \<in> {''Register'', ''RegisterLegacy''} \<and> u = pillar_update m (b_Address p) t)"
  using processMomentum_db [of ix tr d m]
proof (elim disjE exE conjE)
  assume "out_db (processMomentum ix tr d m) = d"
  then show ?thesis by simp
next
  fix batch es
  assume batch: "momentum_batch ix d m = Inr (batch, es)"
    and x: "exec_batch (tr_reject tr) 0 batch d = Inr (out_db (processMomentum ix tr d m))"
  have "\<exists>b \<in> set (fetched_blocks ix (m_Content m)). \<exists>p t. b_PairedAccountBlock b = Some p \<and>
      tryDecodeTxData (ix_sdk ix) p = Some t \<and> tx_Method t \<in> {''Register'', ''RegisterLegacy''} \<and>
      u = pillar_update m (b_Address p) t" if "u \<in> set (updates_in batch)" for u
  proof -
    have "QPillarUpdate u \<in> set batch" using that by (simp add: updates_in_member)
    then obtain b p t where b: "b \<in> set (fetched_blocks ix (m_Content m))"
      "b_PairedAccountBlock b = Some p" "tryDecodeTxData (ix_sdk ix) p = Some t"
      and u: "u \<in> set (updates_in (indexEmbeddedContracts ix d b t m))"
      using contract_origin [OF batch] by (metis contract_stmt.simps(8) updates_in_member)
    have "input t ''pillarOwner'' = []"
      using lacks_input_empty [OF assms b(3)] .
    then have "tx_Method t \<in> {''Register'', ''RegisterLegacy''} \<and> u = pillar_update m (b_Address p) t"
      using u updates_Pillar [OF _ b(2), of t ix m]
      by (simp add: indexEmbeddedContracts_def Let_def updates_others split: if_splits)
    with b show ?thesis by blast
  qed
  then show ?thesis
    using updates_batch [OF x] unfolding updates_in_def by blast
qed

definition ex_pillar_abi :: abi where
  "ex_pillar_abi = \<lparr> abi_Entries = [\<lparr> ae_IsFunction = True, ae_Name = ''UpdatePillar'',
       ae_Inputs = [''name'', ''producerAddress'', ''rewardAddress''], ae_Signature = ''sig1'' \<rparr>],
     abi_DecodeFunction = (\<lambda>_. Inr [AString ''pil'', AString ''prod'', AString ''rew'']),
     abi_EncodeFunction = (\<lambda>_ _. Inl ''unused'') \<rparr>"

definition ex_update_send :: block where
  "ex_update_send = Block ''u1'' BlockTypeUserSend 3 ''owner'' PillarAddress (Some 0) ZnnTokenStandard
     ''sig1args'' ''k'' None [] None"

definition ex_update_receive :: block where
  "ex_update_receive = Block ''u2'' BlockTypeContractReceive 4 PillarAddress EmptyAddress (Some 0)
     EmptyTokenStandard [] [] (Some ex_update_send) [] None"

definition ex_pillar_ix :: indexer where
  "ex_pillar_ix = ex_ix\<lparr> ix_sdk := ex_sdk\<lparr> sdk_Pillar := Some ex_pillar_abi \<rparr>,
     ix_pillarNameToOwner := [(''pil'', ''owner'')],
     ix_node := ex_node\<lparr> GetAccountBlockByHash := (\<lambda>h. Inr (Some ex_update_receive)) \<rparr> \<rparr>"

definition ex_update_m :: momentum where
  "ex_update_m = ex_m\<lparr> m_Content := [\<lparr> h_Address = PillarAddress, h_Hash = ''u2'' \<rparr>] \<rparr>"

text \<open>An \<open>UpdatePillar\<close> call of a known pillar is indexed and leaves no row.\<close>

theorem pillar_updates_only_register_witness:
  "map_option tx_Method (tryDecodeTxData (ix_sdk ex_pillar_ix) ex_update_send) = Some ''UpdatePillar'' \<and>
   out_err (processMomentum ex_pillar_ix ex_tr empty_db ex_update_m) = None \<and>
   pillar_updates (out_db (processMomentum ex_pillar_ix ex_tr empty_db ex_update_m)) = []"
proof -
  have 1: "lacks_input ''pillarOwner'' (ix_sdk ex_pillar_ix)" by code_simp
  have 2: "fetched_blocks ex_pillar_ix (m_Content ex_update_m) = [ex_update_receive]" by code_simp
  have 3: "b_PairedAccountBlock ex_update_receive = Some ex_update_send"
    by (simp add: ex_update_receive_def)
  have 4: "map_option tx_Method (tryDecodeTxData (ix_sdk ex_pillar_ix) ex_update_send) =
    Some ''UpdatePillar''" by code_simp
  have 5: "out_err (processMomentum ex_pillar_ix ex_tr empty_db ex_update_m) = None" by code_simp
  obtain us where "pillar_updates (out_db (processMomentum ex_pillar_ix ex_tr empty_db ex_update_m)) = us"
    and "\<And>u. u \<in> set us \<Longrightarrow> \<exists>t. tryDecodeTxData (ix_sdk ex_pillar_ix) ex_update_send = Some t \<and>
      tx_Method t \<in> {''Register'', ''RegisterLegacy''}"
    using pillar_updates_only_register [OF 1, of ex_tr empty_db ex_update_m] 2 3
    by (auto simp: empty_db_def)
  moreover have "us = []"
  proof (rule ccontr)
    assume "us \<noteq> []"
    then obtain u where "u \<in> set us" by (cases us) auto
    from calculation(2) [OF this] 4 show False by auto
  qed
  ultimately show ?thesis using 4 5 by simp
qed

subsection \<open>Entries that only move forward\<close>

text \<open>Every old row is still there, changed at most as \<open>R\<close> allows; new rows come after.\<close>

definition grows :: "('r \<Rightarrow> 'r \<Rightarrow> bool) \<Rightarrow> 'r list \<Rightarrow> 'r list \<Rightarrow> bool" where
  "grows R t t' \<longleftrightarrow> length t \<le> length t' \<and> list_all2 R t (take (length t) t')"

text \<open>A kind of change that an entry may go through any number of times.\<close>

locale forward =
  fixes R :: "'r \<Rightarrow> 'r \<Rightarrow> bool"
  assumes R_refl: "R r r"
    and R_trans: "R a b \<Longrightarrow> R b c \<Longrightarrow> R a c"
begin

lemma grows_refl: "grows R t t"
  by (simp add: grows_def list_all2_refl R_refl)

lemma grows_trans:
  assumes "grows R t u" "grows R u v"
  shows "grows R t v"
proof -
  have len: "length t \<le> length u" "length u \<le> length v" and tu: "list_all2 R t (take (length t) u)"
    using assms by (simp_all add: grows_def)
  have "list_all2 R (take (length t) u) (take (length t) (take (length u) v))"
    using assms(2) list_all2_takeI unfolding grows_def by blast
  then have uv: "list_all2 R (take (length t) u) (take (length t) v)"
    using len(1) by (simp add: min_absorb1)
  have "list_all2 R t (take (length t) v)"
    by (rule list_all2_trans [OF _ tu uv]) (rule R_trans)
  with len show ?thesis by (simp add: grows_def)
qed

lemma grows_insert_ignore: "grows R t (insert_ignore key r t)"
  by (simp add: grows_def insert_ignore_def list_all2_refl R_refl)

lemma grows_update_where: "(\<And>r. R r (f r)) \<Longrightarrow> grows R t (update_where P f t)"
  by (simp add: grows_def update_where_def list_all2_conv_all_nth R_refl)

lemma grows_batch:
  assumes "exec_batch reject j ss d = Inr d'"
    and "\<And>s d d'. s \<in> set ss \<Longrightarrow> run_stmt s d = Inr d' \<Longrightarrow> grows R (tbl d) (tbl d')"
  shows "grows R (tbl d) (tbl d')"
  by (rule exec_batch_induct [where P = "\<lambda>x. grows R (tbl d) (tbl x)", OF assms(1)])
    (auto intro: grows_refl assms(2) grows_trans)

end

lemma grows_member:
  assumes "grows R t t'" "x \<in> set t"
  shows "\<exists>y \<in> set t'. R x y"
proof -
  obtain i where i: "i < length t" "x = t ! i" using assms(2) by (auto simp: in_set_conv_nth)
  with assms(1) have "R x (t' ! i)" "i < length t'"
    by (auto simp: grows_def list_all2_conv_all_nth)
  then show ?thesis by auto
qed

subsection \<open>HTLCs\<close>

definition htlc_ok :: "Htlc \<Rightarrow> bool" where
  "htlc_ok h \<longleftrightarrow>
     ht_Status h = HtlcStatus_code HtlcStatusActive \<and> ht_Preimage h = [] \<and>
       ht_SettleMomentumHeight h = 0 \<and> ht_SettleMomentumTimestamp h = 0 \<or>
     ht_Status h = HtlcStatus_code HtlcStatusUnlocked \<or>
     ht_Status h = HtlcStatus_code HtlcStatusReclaimed \<and> ht_Preimage h = []"

definition htlc_step :: "Htlc \<Rightarrow> Htlc \<Rightarrow> bool" where
  "htlc_step h h' \<longleftrightarrow>
     h' = h\<lparr> ht_Status := ht_Status h', ht_Preimage := ht_Preimage h',
            ht_SettleMomentumHeight := ht_SettleMomentumHeight h',
            ht_SettleMomentumTimestamp := ht_SettleMomentumTimestamp h' \<rparr> \<and>
     (ht_Status h \<noteq> HtlcStatus_code HtlcStatusActive \<longrightarrow>
        ht_Status h' \<noteq> HtlcStatus_code HtlcStatusActive)"

fun htlc_stmt :: "stmt \<Rightarrow> bool" where
  "htlc_stmt (QHtlc h) = (htlc_ok h \<and> ht_Status h = HtlcStatus_code HtlcStatusActive)"
| "htlc_stmt (QSettle i status preimage height ts) =
     (status = HtlcStatus_code HtlcStatusUnlocked \<or>
      status = HtlcStatus_code HtlcStatusReclaimed \<and> preimage = [])"
| "htlc_stmt _ = True"

lemma htlc_stmts:
  "list_all htlc_stmt (indexPillarContract ix b t m)"
  "list_all htlc_stmt (indexStakeContract ix b t m)"
  "list_all htlc_stmt (indexSentinelContract b t)"
  "list_all htlc_stmt (indexPlasmaContract ix b t m)"
  "list_all htlc_stmt (indexAcceleratorContract ix d b t m)"
  "list_all htlc_stmt (indexTokenContract b t m)"
  "list_all htlc_stmt (indexSwapContract ix b t m)"
  "list_all htlc_stmt (indexHtlcContract b t m)"
  by (cases "b_PairedAccountBlock b"; cases "b_DescendantBlocks b";
      simp add: indexPillarContract_def indexStakeContract_def indexSentinelContract_def
      indexPlasmaContract_def indexAcceleratorContract_def indexTokenContract_def
      indexSwapContract_def indexHtlcContract_def htlc_ok_def Let_def queue_defs
      split: prod.splits option.split)+

lemma htlc_batch:
  assumes "momentum_batch ix d m = Inr (batch, es)" "s \<in> set batch"
  shows "htlc_stmt s"
proof (cases "contract_stmt s")
  case True
  obtain b t where "s \<in> set (indexEmbeddedContracts ix d b t m)"
    using contract_origin [OF assms True] by metis
  moreover have "list_all htlc_stmt (indexEmbeddedContracts ix d b t m)"
    by (simp add: indexEmbeddedContracts_def Let_def htlc_stmts)
  ultimately show ?thesis by (simp add: list_all_iff)
next
  case False
  then show ?thesis by (cases s) simp_all
qed

interpretation htlc: forward htlc_step
proof
  show "htlc_step h h" for h by (simp add: htlc_step_def)
  show "htlc_step a b \<Longrightarrow> htlc_step b c \<Longrightarrow> htlc_step a c" for a b c
    unfolding htlc_step_def by (cases a; cases b; cases c) simp
qed

lemma htlcs_frame:
  assumes "run_stmt s d = Inr d'"
  shows "(\<exists>h. s = QHtlc h) \<or> (\<exists>i st p h ts. s = QSettle i st p h ts) \<or> htlcs d' = htlcs d"
  using assms
  by (cases s) (auto simp: plain_op_defs table_op_defs map_Inr_eq_Inr split: if_splits)

lemma htlc_run:
  assumes "run_stmt s d = Inr d'" "htlc_stmt s"
  shows "list_all htlc_ok (htlcs d) \<Longrightarrow> list_all htlc_ok (htlcs d')"
    and "grows htlc_step (htlcs d) (htlcs d')"
proof -
  have "(list_all htlc_ok (htlcs d) \<longrightarrow> list_all htlc_ok (htlcs d')) \<and>
    grows htlc_step (htlcs d) (htlcs d')"
    using htlcs_frame [OF assms(1)]
  proof (elim disjE exE)
    fix h
    assume s: "s = QHtlc h"
    then have "htlcs d' = insert_ignore ht_ID h (htlcs d)"
      using assms(1) by (auto simp: Htlc_Insert_def)
    then show ?thesis
      using assms(2) s htlc.grows_insert_ignore [of "htlcs d" ht_ID h]
      by (auto simp: insert_ignore_def)
  next
    fix i st p h ts
    assume s: "s = QSettle i st p h ts"
    let ?f = "\<lambda>r. r\<lparr> ht_Status := st, ht_Preimage := p, ht_SettleMomentumHeight := h,
      ht_SettleMomentumTimestamp := ts \<rparr>"
    have "htlcs d' = update_where (\<lambda>h. ht_ID h = i) ?f (htlcs d)"
      using assms(1) s by (auto simp: Htlc_Settle_def)
    moreover have "htlc_step r (?f r)" "htlc_ok (?f r)" for r
      using assms(2) s by (auto simp: htlc_step_def htlc_ok_def)
    ultimately show ?thesis
      using htlc.grows_update_where [of ?f] by (auto simp: update_where_def list_all_iff)
  qed (simp add: htlc.grows_refl)
  then show "list_all htlc_ok (htlcs d) \<Longrightarrow> list_all htlc_ok (htlcs d')"
    and "grows htlc_step (htlcs d) (htlcs d')" by simp_all
qed

text \<open>
  C9. The life of an HTLC. Every momentum keeps the stored HTLCs well formed (active without
  preimage and settlement, unlocked, or reclaimed without preimage), never removes one, never
  changes the fields it was created with, and never makes a settled one active again, even when
  the same creation is indexed a second time.
\<close>

theorem htlc_lifecycle:
  assumes "list_all htlc_ok (htlcs d)"
  shows "list_all htlc_ok (htlcs (out_db (processMomentum ix tr d m))) \<and>
    grows htlc_step (htlcs d) (htlcs (out_db (processMomentum ix tr d m)))"
  using processMomentum_db [of ix tr d m]
proof (elim disjE exE conjE)
  assume "out_db (processMomentum ix tr d m) = d"
  then show ?thesis using assms htlc.grows_refl by simp
next
  fix batch es
  assume batch: "momentum_batch ix d m = Inr (batch, es)"
    and x: "exec_batch (tr_reject tr) 0 batch d = Inr (out_db (processMomentum ix tr d m))"
  have "list_all htlc_ok (htlcs (out_db (processMomentum ix tr d m)))"
    by (rule exec_batch_induct [where P = "\<lambda>d. list_all htlc_ok (htlcs d)", OF x assms])
      (rule htlc_run(1) [OF _ htlc_batch [OF batch]])
  moreover have "grows htlc_step (htlcs d) (htlcs (out_db (processMomentum ix tr d m)))"
    by (rule htlc.grows_batch [where tbl = htlcs, OF x]) (rule htlc_run(2) [OF _ htlc_batch [OF batch]])
  ultimately show ?thesis ..
qed

definition ex_htlc :: Htlc where
  "ex_htlc = \<lparr> ht_ID = ''x'', ht_TimeLockedAddress = ''alice'', ht_HashLockedAddress = ''bob'',
     ht_TokenStandard = ZnnTokenStandard, ht_Amount = 5, ht_ExpirationTimestamp = 1700000100,
     ht_HashType = 0, ht_KeyMaxSize = 32, ht_HashLock = ''ab'', ht_Status = 1, ht_Preimage = ''cd'',
     ht_CreationMomentumHeight = 1, ht_CreationMomentumTimestamp = 1690000000,
     ht_SettleMomentumHeight = 1, ht_SettleMomentumTimestamp = 1690000000 \<rparr>"

theorem htlc_lifecycle_witness:
  "list_all htlc_ok (htlcs (out_db (processMomentum ex_ix ex_tr (empty_db\<lparr> htlcs := [ex_htlc] \<rparr>) ex_m))) \<and>
   out_err (processMomentum ex_ix ex_tr (empty_db\<lparr> htlcs := [ex_htlc] \<rparr>) ex_m) = None"
proof -
  have 1: "list_all htlc_ok (htlcs (empty_db\<lparr> htlcs := [ex_htlc] \<rparr>))" by code_simp
  have 2: "out_err (processMomentum ex_ix ex_tr (empty_db\<lparr> htlcs := [ex_htlc] \<rparr>) ex_m) = None" by code_simp
  show ?thesis using htlc_lifecycle [OF 1, of ex_ix ex_tr ex_m] 2 by simp
qed

subsection \<open>Stakes and fusions\<close>

definition stake_step :: "Stake \<Rightarrow> Stake \<Rightarrow> bool" where
  "stake_step s s' \<longleftrightarrow> s' = s \<or> s' = s\<lparr> st_IsActive := False \<rparr>"

definition fusion_step :: "Fusion \<Rightarrow> Fusion \<Rightarrow> bool" where
  "fusion_step f f' \<longleftrightarrow> f' = f \<or> f' = f\<lparr> fu_IsActive := False \<rparr>"

interpretation stake: forward stake_step
  by unfold_locales (auto simp: stake_step_def)

interpretation fusion: forward fusion_step
  by unfold_locales (auto simp: fusion_step_def)

lemma stake_run:
  assumes "run_stmt s d = Inr d'"
  shows "grows stake_step (stakes d) (stakes d')"
proof -
  have "(\<exists>x. s = QStake x) \<or> (\<exists>c a. s = QStakeInactive c a) \<or> stakes d' = stakes d"
    using assms by (cases s) (auto simp: plain_op_defs table_op_defs map_Inr_eq_Inr split: if_splits)
  then show ?thesis
    using assms
    by (auto simp: Stake_Insert_def Stake_SetInactive_def stake_step_def
        intro!: stake.grows_insert_ignore stake.grows_update_where stake.grows_refl)
qed

lemma fusion_run:
  assumes "run_stmt s d = Inr d'"
  shows "grows fusion_step (fusions d) (fusions d')"
proof -
  have "(\<exists>x. s = QFusion x) \<or> (\<exists>c a. s = QFusionInactive c a) \<or> fusions d' = fusions d"
    using assms by (cases s) (auto simp: plain_op_defs table_op_defs map_Inr_eq_Inr split: if_splits)
  then show ?thesis
    using assms
    by (auto simp: Fusion_Insert_def Fusion_SetInactive_def fusion_step_def
        intro!: fusion.grows_insert_ignore fusion.grows_update_where fusion.grows_refl)
qed

lemma stake_batch: "exec_batch reject j ss d = Inr d' \<Longrightarrow> grows stake_step (stakes d) (stakes d')"
  by (erule stake.grows_batch [where tbl = stakes]) (rule stake_run)

text \<open>
  No momentum removes a stake or a fusion or changes anything of it except switching it off:
  a canceled entry is never active again, even when its creation is indexed a second time.
\<close>

theorem entries_only_deactivate:
  "grows stake_step (stakes d) (stakes (out_db (processMomentum ix tr d m))) \<and>
   grows fusion_step (fusions d) (fusions (out_db (processMomentum ix tr d m)))"
  using processMomentum_db [of ix tr d m]
proof (elim disjE exE conjE)
  assume "out_db (processMomentum ix tr d m) = d"
  then show ?thesis by (simp add: stake.grows_refl fusion.grows_refl)
next
  fix batch es
  assume "exec_batch (tr_reject tr) 0 batch d = Inr (out_db (processMomentum ix tr d m))"
  then show ?thesis
    using stake_batch fusion.grows_batch [where tbl = fusions] fusion_run by blast
qed

text \<open>
  C10. A stake that is canceled becomes inactive. Let a \<open>Stake\<close> call with a new id be indexed, then
  any statements, then a \<open>Cancel\<close> call of the same sender that names the stake's id. Then the
  stored stake still has the sender, amount and times it was created with and is inactive, and
  every other stake of the table is at most deactivated, never changed otherwise or removed.
\<close>

theorem stake_cancel_roundtrip:
  assumes "b_PairedAccountBlock b = Some p" "tx_Method t = ''Stake''"
    and "b_PairedAccountBlock b' = Some p'" "tx_Method t' = ''Cancel''"
    and "input t' ''id'' = b_Hash p" "b_Hash p \<noteq> []" "b_Address p' = b_Address p"
    and "b_Hash p \<notin> st_ID ` set (stakes d)" "db_keys d"
    and "exec_batch reject 0 (indexStakeContract ix b t m @ ss @ indexStakeContract ix b' t' m') d = Inr d'"
  shows "grows stake_step (stakes d) (stakes d') \<and>
    (\<exists>s. find_by st_ID (b_Hash p) (stakes d') = Some s \<and> \<not> st_IsActive s \<and>
       st_Address s = b_Address p \<and> st_ZnnAmount s = safeBigIntToInt64 (b_Amount p) \<and>
       st_StartTimestamp s = int64 (m_TimestampUnix m))"
proof -
  let ?cid = "getStakeCancelID (ix_sdk ix) (b_Hash p)"
  obtain new where new: "indexStakeContract ix b t m = [QStake new]" "st_ID new = b_Hash p"
    "st_Address new = b_Address p" "st_ZnnAmount new = safeBigIntToInt64 (b_Amount p)"
    "st_StartTimestamp new = int64 (m_TimestampUnix m)" "st_CancelID new = ?cid"
    using assms(1,2) by (simp add: indexStakeContract_def Let_def queue_defs)
  have cancel: "indexStakeContract ix b' t' m' = [QStakeInactive ?cid (b_Address p)]"
    using assms(3-7) by (simp add: indexStakeContract_def Let_def queue_defs)
  obtain d1 where d1: "run_stmt (QStake new) d = Inr d1"
      "exec_batch reject (Suc 0) (ss @ [QStakeInactive ?cid (b_Address p)]) d1 = Inr d'"
    using assms(10) unfolding new(1) cancel by (auto elim!: exec_batch_Cons split: sum.splits dest: exec_stmt_run)
  obtain d2 where d2: "exec_batch reject (Suc 0) ss d1 = Inr d2"
      "run_stmt (QStakeInactive ?cid (b_Address p)) d2 = Inr d'"
    using d1(2) by (auto simp: exec_batch_append split: sum.splits dest: exec_stmt_run)
  have "new \<in> set (stakes d1)"
    using d1(1) assms(8) new(2) by (force simp: Stake_Insert_def insert_ignore_def)
  then obtain s where s: "s \<in> set (stakes d2)" "stake_step new s"
    using grows_member [OF stake_batch [OF d2(1)]] by blast
  have d': "stakes d' = update_where (\<lambda>s. st_CancelID s = ?cid \<and> st_Address s = b_Address p)
      (\<lambda>s. s\<lparr> st_IsActive := False \<rparr>) (stakes d2)"
    using d2(2) by (auto simp: Stake_SetInactive_def)
  have hit: "s\<lparr> st_IsActive := False \<rparr> \<in> set (stakes d')"
    using s new unfolding d' update_where_def by (fastforce simp: stake_step_def)
  have "distinct (map st_ID (stakes d'))"
    using keys_batch [OF assms(10,9)] db_keys_dest(10) by blast
  then have "find_by st_ID (b_Hash p) (stakes d') = Some (s\<lparr> st_IsActive := False \<rparr>)"
    using hit s(2) new(2) find_by_distinct [of st_ID "stakes d'" "s\<lparr> st_IsActive := False \<rparr>"]
    by (auto simp: stake_step_def)
  moreover have "grows stake_step (stakes d) (stakes d')"
    using assms(10) by (rule stake_batch)
  ultimately show ?thesis
    using s(2) new by (auto simp: stake_step_def)
qed

definition ex_stake_send :: block where
  "ex_stake_send = Block ''s1'' BlockTypeUserSend 3 ''alice'' StakeAddress (Some 50) ZnnTokenStandard
     [] ''k'' None [] None"

definition ex_stake_block :: block where
  "ex_stake_block = Block ''s2'' BlockTypeContractReceive 4 StakeAddress EmptyAddress (Some 0)
     EmptyTokenStandard [] [] (Some ex_stake_send) [] None"

definition ex_stake_tx :: TxData where
  "ex_stake_tx = \<lparr> tx_Method = ''Stake'', tx_Inputs = [(''durationInSec'', ''2592000'')] \<rparr>"

definition ex_cancel_tx :: TxData where
  "ex_cancel_tx = \<lparr> tx_Method = ''Cancel'', tx_Inputs = [(''id'', ''s1'')] \<rparr>"

definition ex_stake_run :: "(nat \<times> sql_error) + db" where
  "ex_stake_run = exec_batch (\<lambda>_. None) 0
     (indexStakeContract ex_ix ex_stake_block ex_stake_tx ex_m @ [] @
      indexStakeContract ex_ix ex_stake_block ex_cancel_tx ex_m) empty_db"

theorem stake_cancel_roundtrip_witness:
  "\<exists>s. find_by st_ID ''s1'' (stakes (projr ex_stake_run)) = Some s \<and> \<not> st_IsActive s \<and>
     st_ZnnAmount s = 50"
proof -
  have 1: "b_PairedAccountBlock ex_stake_block = Some ex_stake_send" "b_Hash ex_stake_send = ''s1''"
    by (simp_all add: ex_stake_block_def ex_stake_send_def)
  have 2: "tx_Method ex_stake_tx = ''Stake''" "tx_Method ex_cancel_tx = ''Cancel''"
    "input ex_cancel_tx ''id'' = b_Hash ex_stake_send" "b_Hash ex_stake_send \<noteq> []"
    by (simp_all add: ex_stake_tx_def ex_cancel_tx_def ex_stake_send_def input_def)
  have 3: "b_Hash ex_stake_send \<notin> st_ID ` set (stakes empty_db)" "db_keys empty_db"
    by code_simp+
  have "isl ex_stake_run = False" by code_simp
  then have 4: "exec_batch (\<lambda>_. None) 0
     (indexStakeContract ex_ix ex_stake_block ex_stake_tx ex_m @ [] @
      indexStakeContract ex_ix ex_stake_block ex_cancel_tx ex_m) empty_db = Inr (projr ex_stake_run)"
    by (cases ex_stake_run) (simp_all add: ex_stake_run_def)
  have 5: "safeBigIntToInt64 (b_Amount ex_stake_send) = 50" by code_simp
  show ?thesis
    using stake_cancel_roundtrip [OF 1(1) 2(1) 1(1) 2(2,3,4) refl 3 4] 1(2) 5 by auto
qed

end
