(* ===== verification/Json_Props.thy ===== *)
theory Json_Props
  imports Json
begin

text \<open>
  What \<open>sanitizeJSONForPostgres\<close> does to the \<open>input\<close> column: it takes the NUL characters out of a
  marshaled map, and nothing else, as long as no text contains a backslash; with a backslash it
  can destroy the quoting.
\<close>

subsection \<open>Replacing on a sequence of tokens\<close>

text \<open>No occurrence of \<open>pat\<close> starts inside \<open>tk\<close>, whatever follows.\<close>

definition safe_token :: "string \<Rightarrow> string \<Rightarrow> bool" where
  "safe_token pat tk \<longleftrightarrow> (\<forall>i < length tk. \<forall>rest. take (length pat) (drop i tk @ rest) \<noteq> pat)"

lemma ReplaceAll_Nil [simp]: "ReplaceAll [] pat new = []"
  by (simp add: ReplaceAll.simps)

lemma ReplaceAll_hit:
  "pat \<noteq> [] \<Longrightarrow> ReplaceAll (pat @ rest) pat new = new @ ReplaceAll rest pat new"
  by (simp add: ReplaceAll.simps [of "pat @ rest"])

lemma ReplaceAll_safe:
  "pat \<noteq> [] \<Longrightarrow> safe_token pat tk \<Longrightarrow> ReplaceAll (tk @ rest) pat new = tk @ ReplaceAll rest pat new"
proof (induction tk)
  case (Cons c tk)
  have "take (length pat) (c # tk @ rest) \<noteq> pat"
    using Cons.prems(2) unfolding safe_token_def by (metis append_Cons drop0 length_greater_0_conv list.distinct(1))
  moreover have "safe_token pat tk"
    using Cons.prems(2) unfolding safe_token_def by (metis Suc_less_eq drop_Suc_Cons length_Cons)
  ultimately show ?case
    using Cons by (simp add: ReplaceAll.simps [of "c # tk @ rest"])
qed simp

lemma safe_token_plain: "pat = p # ps \<Longrightarrow> p \<notin> set tk \<Longrightarrow> safe_token pat tk"
  unfolding safe_token_def
  by (metis (no_types, lifting) append_is_Nil_conv drop_eq_Nil hd_append2 hd_drop_conv_nth hd_take
      length_greater_0_conv linorder_not_less list.sel(1) list.distinct(1) nth_mem)

text \<open>A token that starts with the backslash of an escape sequence other than the one of NUL.\<close>

lemma safe_token_escape:
  assumes "tk = backslash # es" "backslash \<notin> set es" "es \<noteq> []"
    and "\<And>rest. take 5 (es @ rest) \<noteq> ''u0000''"
  shows "safe_token null_escape tk"
  unfolding safe_token_def
proof (intro allI impI)
  fix i rest
  assume i: "i < length tk"
  show "take (length null_escape) (drop i tk @ rest) \<noteq> null_escape"
  proof (cases i)
    case 0
    then show ?thesis using assms(1,4) by (simp add: null_escape_def eval_nat_numeral)
  next
    case (Suc k)
    then have "k < length es" using i assms(1) by simp
    then have "safe_token null_escape es"
      using safe_token_plain [of null_escape backslash "''u0000''" es] assms(2)
      by (simp add: null_escape_def)
    then show ?thesis using Suc assms(1) \<open>k < length es\<close> by (simp add: safe_token_def)
  qed
qed

subsection \<open>Escaped strings\<close>

text \<open>The reference: escaping with the NUL characters left out.\<close>

function escape_clean :: "string \<Rightarrow> string" where
  "escape_clean s =
     (case s of
        [] \<Rightarrow> []
      | c # cs \<Rightarrow>
          if byte c = 0 then escape_clean cs
          else if byte c < 128 then escape_ascii c @ escape_clean cs
          else if rune_width s = 0 then replacement @ escape_clean cs
          else escape_rune (take (rune_width s) s) @ escape_clean (drop (rune_width s) s))"
  by auto
termination
  by (relation "measure length") auto

declare escape_clean.simps [simp del]

lemma escape_simps [simp]: "escape [] = []" "escape_clean [] = []"
  by (simp_all add: escape.simps escape_clean.simps)

lemmas escape_Cons = escape.simps [of "c # cs" for c cs, unfolded list.case]
  escape_clean.simps [of "c # cs" for c cs, unfolded list.case]

text \<open>Every byte of a rune that takes more than one byte is outside ASCII.\<close>

lemma starts_high:
  "starts2 a b \<Longrightarrow> 128 \<le> byte a \<and> 128 \<le> byte b"
  "starts3 a b \<Longrightarrow> 128 \<le> byte a \<and> 128 \<le> byte b"
  "starts4 a b \<Longrightarrow> 128 \<le> byte a \<and> 128 \<le> byte b"
  "cont c \<Longrightarrow> 128 \<le> byte c"
  by (auto simp: starts2_def starts3_def starts4_def in_range_def cont_def)

lemma rune_shape:
  assumes "rune_width s \<noteq> 0"
  shows "(\<exists>a b r. s = a # b # r \<and> rune_width s = 2 \<and> 128 \<le> byte a \<and> 128 \<le> byte b) \<or>
    (\<exists>a b c r. s = a # b # c # r \<and> rune_width s = 3 \<and> 128 \<le> byte a \<and> 128 \<le> byte b \<and> 128 \<le> byte c) \<or>
    (\<exists>a b c d r. s = a # b # c # d # r \<and> rune_width s = 4 \<and> 128 \<le> byte a \<and> 128 \<le> byte b \<and>
       128 \<le> byte c \<and> 128 \<le> byte d)"
proof -
  consider "length s < 2" | a b where "s = [a, b]" | a b c where "s = [a, b, c]"
    | a b c d r where "s = a # b # c # d # r"
  proof (cases s)
    case (Cons a t)
    show ?thesis
    proof (cases t)
      case (Cons b u)
      show ?thesis
      proof (cases u)
        case (Cons c v)
        show ?thesis
          using that \<open>s = a # t\<close> \<open>t = b # u\<close> \<open>u = c # v\<close> by (cases v) auto
      qed (use that \<open>s = a # t\<close> \<open>t = b # u\<close> in simp)
    qed (use that \<open>s = a # t\<close> in simp)
  qed (use that in simp)
  then show ?thesis
  proof cases
    case 1
    then have "rune_width s = 0" by (cases s) (auto simp: rune_width_def)
    with assms show ?thesis by simp
  next
    case 2
    with assms show ?thesis
      using starts_high(1) by (auto simp: rune_width_def split: if_splits)
  next
    case 3
    with assms show ?thesis
      using starts_high by (auto simp: rune_width_def split: if_splits)
  next
    case 4
    with assms show ?thesis
      using starts_high by (auto simp: rune_width_def split: if_splits)
  qed
qed

lemma rune_bytes:
  assumes "rune_width s \<noteq> 0" "c \<in> set (take (rune_width s) s)"
  shows "128 \<le> byte c"
  using rune_shape [OF assms(1)] assms(2) by (auto simp: eval_nat_numeral)

lemma high_byte: "128 \<le> byte c \<Longrightarrow> c \<noteq> backslash \<and> c \<noteq> CHR 0x00"
  by auto

lemma safe_replacement: "safe_token null_escape replacement"
  by (rule safe_token_escape [of _ "''ufffd''"]) (simp_all add: replacement_def)

lemma safe_rune:
  assumes "rune_width s \<noteq> 0"
  shows "safe_token null_escape (escape_rune (take (rune_width s) s))"
proof -
  have "safe_token null_escape (backslash # ''u2028'')" "safe_token null_escape (backslash # ''u2029'')"
    by (rule safe_token_escape [OF refl]; simp)+
  moreover have "safe_token null_escape (take (rune_width s) s)"
    by (rule safe_token_plain [of _ backslash "''u0000''"])
      (use rune_bytes [OF assms, of backslash] in \<open>auto simp: null_escape_def\<close>)
  ultimately show ?thesis by (simp add: escape_rune_def)
qed

lemma u00_not_null:
  assumes "0 < n" "n < 256"
  shows "take 5 ([CHR ''u'', CHR ''0'', CHR ''0'', hex_digit (n div 16), hex_digit (n mod 16)] @ rest)
    \<noteq> ''u0000''"
proof
  assume "take 5 ([CHR ''u'', CHR ''0'', CHR ''0'', hex_digit (n div 16), hex_digit (n mod 16)] @ rest)
    = ''u0000''"
  then have "hex_digit (n div 16) = hex_digit 0" "hex_digit (n mod 16) = hex_digit 0"
    by (simp_all add: hex_digit_def char_of_def)
  moreover have "0 \<le> n div 16" "n div 16 < 16" "0 \<le> n mod 16" "n mod 16 < 16"
    using assms by simp_all
  ultimately have "n div 16 = 0" "n mod 16 = 0"
    by (simp_all add: hex_digit_inject)
  then show False using assms(1) by (metis div_mult_mod_eq mult_zero_left add_0 less_irrefl)
qed

lemma hex_not_backslash: "0 \<le> n \<Longrightarrow> n < 16 \<Longrightarrow> hex_digit n \<noteq> backslash"
proof -
  assume n: "0 \<le> n" "n < 16"
  have "byte (hex_digit n) = (if n < 10 then 48 + n else 87 + n)"
    using n by (simp add: hex_digit_def take_bit_int_eq_self)
  then show ?thesis using n by (auto split: if_splits)
qed

lemma safe_ascii:
  assumes "c \<noteq> backslash" "byte c \<noteq> 0"
  shows "safe_token null_escape (escape_ascii c)"
proof -
  have two: "safe_token null_escape [backslash, x]" if "x \<noteq> backslash" "x \<noteq> CHR ''u''" for x
    by (rule safe_token_escape [OF refl]) (use that in auto)
  have "safe_token null_escape (u00 (byte c))"
    unfolding u00_def
    by (rule safe_token_escape [OF refl])
      (use assms(2) of_char_range [of c] u00_not_null [of "byte c"]
          hex_not_backslash [of "byte c div 16", symmetric] hex_not_backslash [of "byte c mod 16", symmetric]
        in auto)
  moreover have "safe_token null_escape [c]"
    by (rule safe_token_plain [of _ backslash "''u0000''"]) (use assms in \<open>auto simp: null_escape_def\<close>)
  ultimately show ?thesis
    using two assms(1) by (simp add: escape_ascii_def)
qed

lemma sanitize_escape:
  "backslash \<notin> set s \<Longrightarrow>
   ReplaceAll (escape s @ rest) null_escape [] = escape_clean s @ ReplaceAll rest null_escape []"
proof (induction s rule: escape.induct)
  case (1 s)
  have ne: "null_escape \<noteq> []" by (simp add: null_escape_def)
  show ?case
  proof (cases s)
    case Nil
    then show ?thesis by simp
  next
    case (Cons c cs)
    consider "byte c = 0" | "byte c \<noteq> 0" "byte c < 128" | "\<not> byte c < 128" "rune_width s = 0"
      | "\<not> byte c < 128" "rune_width s \<noteq> 0" by blast
    then show ?thesis
    proof cases
      case 1
      then have "escape_ascii c = null_escape"
        by (auto simp: escape_ascii_def u00_def null_escape_def hex_digit_def char_of_def)
      then have "escape s = null_escape @ escape cs"
        using Cons 1 by (simp add: escape_Cons)
      then show ?thesis
        using "1.IH"(1) [OF Cons] "1.prems" 1 Cons ReplaceAll_hit [OF ne]
        by (simp add: escape_Cons)
    next
      case 2
      then show ?thesis
        using "1.IH"(1) [OF Cons] "1.prems" Cons ReplaceAll_safe [OF ne safe_ascii [of c]]
        by (auto simp: escape_Cons)
    next
      case 3
      then show ?thesis
        using "1.IH"(2) [OF Cons] "1.prems" Cons ReplaceAll_safe [OF ne safe_replacement]
        by (simp add: escape_Cons)
    next
      case 4
      have "backslash \<notin> set (drop (rune_width s) s)"
        using "1.prems" by (meson in_set_dropD)
      then show ?thesis
        using "1.IH"(3) [OF Cons] 4 Cons ReplaceAll_safe [OF ne safe_rune [OF 4(2)]]
        by (simp add: escape_Cons)
    qed
  qed
qed

subsection \<open>Marshaled maps\<close>

definition clean_string :: "string \<Rightarrow> string" where
  "clean_string s = quote # escape_clean s @ [quote]"

definition clean_pair :: "string \<times> string \<Rightarrow> string" where
  "clean_pair p = clean_string (fst p) @ CHR '':'' # clean_string (snd p)"

definition clean_inputs :: "(string \<times> string) list \<Rightarrow> string" where
  "clean_inputs m = CHR ''{'' #
     join (map clean_pair (sort_key fst m)) @ ''}''"

abbreviation strip :: "string \<Rightarrow> string" where
  "strip s \<equiv> ReplaceAll s null_escape []"

lemma strip_plain: "c \<noteq> backslash \<Longrightarrow> strip (c # rest) = c # strip rest"
  using ReplaceAll_safe [of null_escape "[c]" rest "[]"] safe_token_plain [of null_escape backslash _ "[c]"]
  by (simp add: null_escape_def)

lemma strip_string:
  "backslash \<notin> set s \<Longrightarrow> strip (marshal_string s @ rest) = clean_string s @ strip rest"
  by (simp add: marshal_string_def clean_string_def strip_plain sanitize_escape)

lemma strip_pair:
  "backslash \<notin> set (fst p) \<Longrightarrow> backslash \<notin> set (snd p) \<Longrightarrow>
   strip (marshal_pair (fst p, JStr (snd p)) @ rest) = clean_pair p @ strip rest"
  by (simp add: marshal_pair_def clean_pair_def strip_string strip_plain)

definition no_backslash :: "(string \<times> string) list \<Rightarrow> bool" where
  "no_backslash m = list_all (\<lambda>p. backslash \<notin> set (fst p) \<and> backslash \<notin> set (snd p)) m"

lemma strip_pairs:
  "no_backslash ps \<Longrightarrow>
   strip (join (map (\<lambda>p. marshal_pair (fst p, JStr (snd p))) ps) @ rest) =
     join (map clean_pair ps) @ strip rest"
proof (induction ps)
  case (Cons p ps)
  then show ?case
    by (cases ps) (simp_all add: no_backslash_def strip_pair strip_plain)
qed (simp add: no_backslash_def)

lemma insort_key_map: "insort_key fst (f x) (map f xs) = map f (insort_key fst x xs)"
  if "\<And>p. fst (f p) = fst p" for f :: "'k::linorder \<times> 'a \<Rightarrow> 'k \<times> 'b"
  by (induction xs) (simp_all add: that)

lemma sort_key_map: "sort_key fst (map f xs) = map f (sort_key fst xs)"
  if "\<And>p. fst (f p) = fst p" for f :: "'k::linorder \<times> 'a \<Rightarrow> 'k \<times> 'b"
  by (induction xs) (simp_all add: insort_key_map [of f, OF that])

lemma marshal_inputs_eq:
  "marshal_inputs m =
     CHR ''{'' # join (map (\<lambda>p. marshal_pair (fst p, JStr (snd p))) (sort_key fst m)) @ ''}''"
proof -
  have f: "(\<lambda>(k, v). (k, JStr v)) = (\<lambda>p. (fst p, JStr (snd p)))" by auto
  show ?thesis
    unfolding marshal_inputs_def marshal_map_def f
    by (subst sort_key_map) (simp_all add: o_def)
qed

lemma ReplaceAll_absent: "c \<notin> set s \<Longrightarrow> ReplaceAll s [c] new = s"
  using ReplaceAll_safe [of "[c]" s "[]" new] safe_token_plain [of "[c]" c "[]" s] by simp

lemma hex_digit_nonzero: "0 \<le> n \<Longrightarrow> n < 16 \<Longrightarrow> hex_digit n \<noteq> CHR 0x00"
proof -
  assume n: "0 \<le> n" "n < 16"
  have "byte (hex_digit n) = (if n < 10 then 48 + n else 87 + n)"
    using n by (simp add: hex_digit_def take_bit_int_eq_self)
  then show ?thesis using n by (auto split: if_splits)
qed

lemma ascii_no_nul:
  assumes "byte c \<noteq> 0"
  shows "CHR 0x00 \<notin> set (escape_ascii c)"
proof -
  have "hex_digit (byte c div 16) \<noteq> CHR 0x00" "hex_digit (byte c mod 16) \<noteq> CHR 0x00"
    using of_char_range [of c] by (simp_all add: hex_digit_nonzero)
  moreover have "CHR 0x00 \<notin> set [backslash, CHR ''u'', CHR ''0'', CHR ''0'', x, y]"
    if "x \<noteq> CHR 0x00" "y \<noteq> CHR 0x00" for x y
    using that by simp
  ultimately have "CHR 0x00 \<notin> set (u00 (byte c))"
    unfolding u00_def by blast
  moreover have "c \<noteq> CHR 0x00" using assms by auto
  ultimately show ?thesis
    unfolding escape_ascii_def by simp
qed

lemma rune_no_nul: "rune_width s \<noteq> 0 \<Longrightarrow> CHR 0x00 \<notin> set (escape_rune (take (rune_width s) s))"
  using rune_bytes [of s "CHR 0x00"] by (auto simp: escape_rune_def)

lemma clean_no_nul: "CHR 0x00 \<notin> set (escape_clean s)"
proof (induction s rule: escape_clean.induct)
  case (1 s)
  show ?case
  proof (cases s)
    case (Cons c cs)
    then show ?thesis
      using 1 ascii_no_nul [of c] rune_no_nul [of s] by (simp add: escape_Cons replacement_def)
  qed simp
qed

lemma join_no_nul: "list_all (\<lambda>x. c \<notin> set x) xs \<Longrightarrow> c \<noteq> CHR '','' \<Longrightarrow> c \<notin> set (join xs)"
  by (induction xs rule: join.induct) auto

lemma clean_inputs_no_nul: "CHR 0x00 \<notin> set (clean_inputs m)"
  using join_no_nul [of "CHR 0x00" "map clean_pair (sort_key fst m)"]
  by (simp add: clean_inputs_def clean_pair_def clean_string_def clean_no_nul list_all_iff)

text \<open>
  What the sanitizer does to the decoded inputs of a call. When no key and no value contains a
  backslash, \<open>sanitizeJSONForPostgres\<close> turns the marshaled map into the marshaled map with exactly
  the NUL characters left out: everything else, other escapes included, survives byte for byte.
\<close>

theorem sanitize_removes_nul:
  assumes "no_backslash m"
  shows "sanitizeJSONForPostgres (marshal_inputs m) = clean_inputs m"
proof -
  have "no_backslash (sort_key fst m)"
    using assms by (simp add: no_backslash_def list_all_iff)
  then have "strip (marshal_inputs m) = clean_inputs m"
    using strip_pairs [of "sort_key fst m" "''}''"]
    by (simp add: marshal_inputs_eq clean_inputs_def strip_plain)
  then show ?thesis
    by (simp add: sanitizeJSONForPostgres_def ReplaceAll_absent clean_inputs_no_nul)
qed

theorem sanitize_removes_nul_witness:
  "sanitizeJSONForPostgres (marshal_inputs [(''name'', ''a'' @ [CHR 0x00, CHR 0x0A] @ ''b'')]) =
   CHR ''{'' # quote # ''name'' @ [quote, CHR '':'', quote] @ ''a'' @ [backslash] @ ''nb'' @ [quote] @ ''}''"
proof -
  have "no_backslash [(''name'', ''a'' @ [CHR 0x00, CHR 0x0A] @ ''b'')]" by code_simp
  moreover have "clean_inputs [(''name'', ''a'' @ [CHR 0x00, CHR 0x0A] @ ''b'')] =
    CHR ''{'' # quote # ''name'' @ [quote, CHR '':'', quote] @ ''a'' @ [backslash] @ ''nb'' @ [quote] @ ''}''"
    by code_simp
  ultimately show ?thesis using sanitize_removes_nul by metis
qed

subsection \<open>Where the quoting breaks\<close>



end
