(* ===== verification/Retry.thy ===== *)
theory Retry
  imports Prelude
begin

text \<open>
  \<open>internal/indexer/retry.go\<close>: bounded retries with exponential backoff. The operation and the
  context are functions of the attempt: \<open>fn k\<close> is the error of the k-th call, \<open>done_before k\<close>
  says that the context is done when the k-th attempt starts, and \<open>done_sleep k\<close> that it is done
  before the wait after it ends. Durations are nanoseconds.
\<close>

record retryConfig =
  rc_MaxAttempts :: int
  rc_BaseDelay :: int
  rc_MaxBackoff :: int

definition millisecond :: int where
  "millisecond = 1000000"

definition defaultRetry :: retryConfig where
  "defaultRetry = \<lparr> rc_MaxAttempts = 6, rc_BaseDelay = 500 * millisecond,
     rc_MaxBackoff = 30000 * millisecond \<rparr>"

text \<open>How a run ended, how often the operation was called and how long the run waited.\<close>

datatype retry_end = Succeeded | Canceled | GaveUp error

record retry_run =
  rr_end :: retry_end
  rr_calls :: nat
  rr_waited :: int

definition next_delay :: "retryConfig \<Rightarrow> int \<Rightarrow> int" where
  "next_delay cfg delay =
     (if delay < rc_MaxBackoff cfg then
        (let delay' = int64 (delay * 2)
         in if rc_MaxBackoff cfg < delay' then rc_MaxBackoff cfg else delay')
      else delay)"

record operation =
  fn :: "nat \<Rightarrow> error option"
  done_before :: "nat \<Rightarrow> bool"
  done_sleep :: "nat \<Rightarrow> bool"

text \<open>The loop at attempt \<open>k\<close> with \<open>left\<close> attempts after it.\<close>

fun retry_loop :: "retryConfig \<Rightarrow> operation \<Rightarrow> nat \<Rightarrow> nat \<Rightarrow> int \<Rightarrow> nat \<Rightarrow> int \<Rightarrow> retry_run" where
  "retry_loop cfg w k left delay calls waited =
     (if done_before w k then \<lparr> rr_end = Canceled, rr_calls = calls, rr_waited = waited \<rparr>
      else
        (case fn w k of
           None \<Rightarrow> \<lparr> rr_end = Succeeded, rr_calls = Suc calls, rr_waited = waited \<rparr>
         | Some err \<Rightarrow>
             (case left of
                0 \<Rightarrow> \<lparr> rr_end = GaveUp err, rr_calls = Suc calls, rr_waited = waited \<rparr>
              | Suc left' \<Rightarrow>
                  if done_sleep w k
                  then \<lparr> rr_end = Canceled, rr_calls = Suc calls, rr_waited = waited \<rparr>
                  else retry_loop cfg w (Suc k) left' (next_delay cfg delay) (Suc calls)
                         (waited + delay))))"

declare retry_loop.simps [simp del]

definition attempts :: "retryConfig \<Rightarrow> nat" where
  "attempts cfg = (if rc_MaxAttempts cfg < 1 then 1 else nat (rc_MaxAttempts cfg))"

definition withRetryConfig :: "retryConfig \<Rightarrow> operation \<Rightarrow> retry_run" where
  "withRetryConfig cfg w = retry_loop cfg w 1 (attempts cfg - 1) (rc_BaseDelay cfg) 0 0"

definition withRetry :: "operation \<Rightarrow> retry_run" where
  "withRetry w = withRetryConfig defaultRetry w"

text \<open>The waits between \<open>n\<close> failing attempts that start with delay \<open>x\<close>.\<close>

fun waits :: "retryConfig \<Rightarrow> nat \<Rightarrow> int \<Rightarrow> int" where
  "waits cfg 0 x = 0"
| "waits cfg (Suc n) x = x + waits cfg n (next_delay cfg x)"

subsection \<open>What a run does\<close>

lemma retry_loop_success:
  assumes "fn w (k + j) = None" "j \<le> left"
    and "\<And>i. i < j \<Longrightarrow> fn w (k + i) \<noteq> None"
    and "\<And>i. i \<le> j \<Longrightarrow> \<not> done_before w (k + i)" "\<And>i. i < j \<Longrightarrow> \<not> done_sleep w (k + i)"
  shows "retry_loop cfg w k left x calls waited =
    \<lparr> rr_end = Succeeded, rr_calls = calls + Suc j, rr_waited = waited + waits cfg j x \<rparr>"
  using assms
proof (induction j arbitrary: k left x calls waited)
  case 0
  then show ?case by (simp add: retry_loop.simps [of cfg w k])
next
  case (Suc j)
  obtain left' where left: "left = Suc left'"
    using Suc.prems(2) by (cases left) auto
  obtain e where e: "fn w k = Some e"
    using Suc.prems(3) [of 0] by auto
  have "retry_loop cfg w (Suc k) left' (next_delay cfg x) (Suc calls) (waited + x) =
    \<lparr> rr_end = Succeeded, rr_calls = Suc calls + Suc j,
      rr_waited = waited + x + waits cfg j (next_delay cfg x) \<rparr>"
    using Suc.prems(1,2) left Suc.prems(3) [of "Suc i" for i] Suc.prems(4) [of "Suc i" for i]
      Suc.prems(5) [of "Suc i" for i]
    by (intro Suc.IH) auto
  then show ?case
    using Suc.prems(4) [of 0] Suc.prems(5) [of 0] e left by (simp add: retry_loop.simps [of cfg w k])
qed

lemma retry_loop_gave_up:
  assumes "\<And>i. i \<le> left \<Longrightarrow> fn w (k + i) = Some (err i)"
    and "\<And>i. i \<le> left \<Longrightarrow> \<not> done_before w (k + i)" "\<And>i. i < left \<Longrightarrow> \<not> done_sleep w (k + i)"
  shows "retry_loop cfg w k left x calls waited =
    \<lparr> rr_end = GaveUp (err left), rr_calls = calls + Suc left, rr_waited = waited + waits cfg left x \<rparr>"
  using assms
proof (induction left arbitrary: k x calls waited err)
  case 0
  then show ?case
    using "0.prems"(1) [of 0] "0.prems"(2) [of 0] by (simp add: retry_loop.simps [of cfg w k])
next
  case (Suc left)
  have "retry_loop cfg w (Suc k) left (next_delay cfg x) (Suc calls) (waited + x) =
    \<lparr> rr_end = GaveUp (err (Suc left)), rr_calls = Suc calls + Suc left,
      rr_waited = waited + x + waits cfg left (next_delay cfg x) \<rparr>"
    using Suc.prems(1) [of "Suc i" for i] Suc.prems(2) [of "Suc i" for i]
      Suc.prems(3) [of "Suc i" for i]
    by (intro Suc.IH [where err = "\<lambda>i. err (Suc i)"]) auto
  then show ?case
    using Suc.prems(1) [of 0] Suc.prems(2) [of 0] Suc.prems(3) [of 0]
    by (simp add: retry_loop.simps [of cfg w k])
qed

lemma retry_loop_calls:
  "rr_calls (retry_loop cfg w k left x calls waited) \<le> calls + Suc left"
proof (induction left arbitrary: k x calls waited)
  case (Suc left)
  have "rr_calls (retry_loop cfg w (Suc k) left (next_delay cfg x) (Suc calls) (waited + x)) \<le>
      Suc calls + Suc left"
    by (rule Suc.IH)
  then show ?case
    by (simp add: retry_loop.simps [of cfg w k] split: option.splits)
qed (simp add: retry_loop.simps split: option.splits)

text \<open>
  \<open>withRetryConfig\<close> succeeds exactly like its operation: if, with the context alive, the first
  \<open>j\<close> calls fail and the next one succeeds, and that call is among the first
  \<open>max(1, MaxAttempts)\<close>, the run returns nil after \<open>j + 1\<close> calls and the first \<open>j\<close> waits.
\<close>

theorem withRetry_succeeds:
  assumes "fn w (Suc j) = None" "j < attempts cfg"
    and "\<forall>i. 1 \<le> i \<and> i \<le> j \<longrightarrow> fn w i \<noteq> None"
    and "\<forall>i. \<not> done_before w i \<and> \<not> done_sleep w i"
  shows "withRetryConfig cfg w =
    \<lparr> rr_end = Succeeded, rr_calls = Suc j, rr_waited = waits cfg j (rc_BaseDelay cfg) \<rparr>"
  unfolding withRetryConfig_def
  using retry_loop_success [of w 1 j "attempts cfg - 1" cfg "rc_BaseDelay cfg" 0 0] assms by auto

theorem withRetry_succeeds_witness:
  "rr_calls (withRetry \<lparr> fn = (\<lambda>k. if k < 3 then Some ''down'' else None),
     done_before = (\<lambda>_. False), done_sleep = (\<lambda>_. False) \<rparr>) = 3"
proof -
  let ?w = "\<lparr> fn = (\<lambda>k. if k < 3 then Some ''down'' else None :: error option),
     done_before = (\<lambda>_. False), done_sleep = (\<lambda>_. False) \<rparr>"
  have "withRetryConfig defaultRetry ?w = \<lparr> rr_end = Succeeded, rr_calls = Suc 2,
      rr_waited = waits defaultRetry 2 (rc_BaseDelay defaultRetry) \<rparr>"
    by (rule withRetry_succeeds) (auto simp: attempts_def defaultRetry_def)
  then show ?thesis by (simp add: withRetry_def)
qed

text \<open>
  The default configuration gives up after six failing calls and waits 15.5 seconds in all
  (five waits of 0.5, 1, 2, 4 and 8 seconds) before it does; the sixth failure is not followed
  by a wait.
\<close>

theorem withRetry_gives_up:
  assumes "\<forall>i. 1 \<le> i \<and> i \<le> 6 \<longrightarrow> fn w i \<noteq> None"
    and "\<forall>i. \<not> done_before w i \<and> \<not> done_sleep w i"
  shows "withRetry w =
    \<lparr> rr_end = GaveUp (the (fn w 6)), rr_calls = 6, rr_waited = 15500 * millisecond \<rparr>"
proof -
  have "waits defaultRetry 5 (rc_BaseDelay defaultRetry) = 15500 * millisecond"
    by code_simp
  moreover have "attempts defaultRetry - 1 = 5"
    by (simp add: attempts_def defaultRetry_def)
  moreover have "fn w (1 + i) = Some (the (fn w (1 + i)))" if "i \<le> 5" for i
    using assms(1) that by auto
  ultimately show ?thesis
    using retry_loop_gave_up [of 5 w 1 "\<lambda>i. the (fn w (1 + i))" defaultRetry
        "rc_BaseDelay defaultRetry" 0 0] assms(2)
    by (simp add: withRetry_def withRetryConfig_def)
qed

theorem withRetry_gives_up_witness:
  "rr_waited (withRetry \<lparr> fn = (\<lambda>k. Some ''down''), done_before = (\<lambda>_. False),
     done_sleep = (\<lambda>_. False) \<rparr>) = 15500 * millisecond"
  by (subst withRetry_gives_up) simp_all

text \<open>
  Termination with a bound: whatever the operation and the context do, the run ends after at
  most \<open>max(1, MaxAttempts)\<close> calls of the operation.
\<close>

theorem withRetry_bounded: "rr_calls (withRetryConfig cfg w) \<le> max 1 (nat (rc_MaxAttempts cfg))"
proof -
  have "rr_calls (withRetryConfig cfg w) \<le> 0 + Suc (attempts cfg - 1)"
    unfolding withRetryConfig_def by (rule retry_loop_calls)
  then show ?thesis by (auto simp: attempts_def split: if_splits)
qed

end
