(* ===== verification/Node_Pool.thy ===== *)
theory Node_Pool
  imports Retry Models
begin

text \<open>
  \<open>internal/indexer/nodepool.go\<close> and \<open>syncinfo.go\<close>: the configured nodes, the JSON path lookup
  on RPC answers, and the health probe of a node with its cached genesis hash. The HTTP round
  trip and the JSON decoding are parameters: \<open>post\<close> is the decoded envelope of a call.
\<close>

subsection \<open>Endpoints\<close>

record NodeEntry =
  ne_URL :: string
  ne_Label :: string
  ne_ProbeURL :: string

text \<open>\<open>strings.Replace(s, old, new, 1)\<close>.\<close>

fun replace_first :: "string \<Rightarrow> string \<Rightarrow> string \<Rightarrow> string" where
  "replace_first old new [] = (if old = [] then new else [])"
| "replace_first old new (c # cs) =
     (if take (length old) (c # cs) = old then new @ drop (length old) (c # cs)
      else c # replace_first old new cs)"

definition rpcURL :: "string \<Rightarrow> string" where
  "rpcURL u = replace_first ''ws://'' ''http://'' (replace_first ''wss://'' ''https://'' u)"

definition probeEndpoint :: "NodeEntry \<Rightarrow> string" where
  "probeEndpoint e = (if ne_ProbeURL e \<noteq> [] then ne_ProbeURL e else rpcURL (ne_URL e))"

subsection \<open>Decoded JSON\<close>

text \<open>
  What \<open>encoding/json\<close> decodes into \<open>any\<close>. A number is a \<open>float64\<close>; the ones read here are
  heights, which are integral and far below the precision limit.
\<close>

datatype json =
    JNull
  | JBool bool
  | JNumber int
  | JString string
  | JArray "json list"
  | JObject "(string \<times> json) list"

record SyncInfo =
  si_State :: int
  si_CurrentHeight :: int
  si_TargetHeight :: int

definition IsSynced :: "SyncInfo \<Rightarrow> bool" where
  "IsSynced s \<longleftrightarrow> si_State s = 2"

record 'r envelope =
  en_Result :: "'r option"
  en_Error :: "(int \<times> string) option"

record network =
  net_syncInfo :: "string \<Rightarrow> error + SyncInfo envelope"
  net_post :: "string \<Rightarrow> string \<Rightarrow> json list \<Rightarrow> error + json envelope"

definition fetchSyncInfo :: "network \<Rightarrow> string \<Rightarrow> error + SyncInfo" where
  "fetchSyncInfo net url =
     (case net_syncInfo net (rpcURL url) of
        Inl err \<Rightarrow> Inl err
      | Inr envelope \<Rightarrow>
          (case en_Error envelope of
             Some (code, msg) \<Rightarrow> Inl (''syncInfo rpc error '' @ FormatInt code @ '': '' @ msg)
           | None \<Rightarrow>
               (case en_Result envelope of
                  None \<Rightarrow> Inl ''syncInfo empty result'' | Some info \<Rightarrow> Inr info)))"

definition rpcCall :: "network \<Rightarrow> string \<Rightarrow> string \<Rightarrow> json list \<Rightarrow> error + json" where
  "rpcCall net url method params =
     (case net_post net (rpcURL url) method params of
        Inl err \<Rightarrow> Inl err
      | Inr envelope \<Rightarrow>
          (case en_Error envelope of
             Some (code, msg) \<Rightarrow>
               Inl (''rpc '' @ method @ '': code='' @ FormatInt code @ '' msg='' @ msg)
           | None \<Rightarrow> Inr (case en_Result envelope of None \<Rightarrow> JNull | Some v \<Rightarrow> v)))"

text \<open>\<open>strings.Split(s, ".")\<close>.\<close>

fun split_dots :: "string \<Rightarrow> string list" where
  "split_dots [] = [[]]"
| "split_dots (c # cs) =
     (if c = CHR ''.'' then [] # split_dots cs
      else (case split_dots cs of [] \<Rightarrow> [[c]] | p # ps \<Rightarrow> (c # p) # ps))"

definition descend :: "json \<Rightarrow> string \<Rightarrow> error + json" where
  "descend v p =
     (case v of
        JObject kvs \<Rightarrow> Inr (case map_of kvs p of None \<Rightarrow> JNull | Some x \<Rightarrow> x)
      | JArray items \<Rightarrow>
          (case Atoi p of
             None \<Rightarrow> Inl ''non-numeric slice segment''
           | Some idx \<Rightarrow>
               if idx < 0 \<or> int (length items) \<le> idx then Inl ''index out of range''
               else Inr (items ! nat idx))
      | _ \<Rightarrow> Inl ''cannot descend'')"

fun walk :: "json \<Rightarrow> string list \<Rightarrow> error + json" where
  "walk v [] = Inr v"
| "walk v (p # ps) = (case descend v p of Inl err \<Rightarrow> Inl err | Inr v' \<Rightarrow> walk v' ps)"

definition navigate :: "json \<Rightarrow> string \<Rightarrow> error + json" where
  "navigate v path = (if path = [] then Inr v else walk v (split_dots path))"

definition callForUint64 ::
  "network \<Rightarrow> string \<Rightarrow> string \<Rightarrow> json list \<Rightarrow> string \<Rightarrow> error + int" where
  "callForUint64 net url method params path =
     (case rpcCall net url method params of
        Inl err \<Rightarrow> Inl err
      | Inr res \<Rightarrow>
          (case navigate res path of
             Inl err \<Rightarrow> Inl err
           | Inr (JNumber n) \<Rightarrow> Inr (uint64 n)
           | Inr _ \<Rightarrow> Inl (''expected number at '' @ path)))"

definition callForString ::
  "network \<Rightarrow> string \<Rightarrow> string \<Rightarrow> json list \<Rightarrow> string \<Rightarrow> error + string" where
  "callForString net url method params path =
     (case rpcCall net url method params of
        Inl err \<Rightarrow> Inl err
      | Inr res \<Rightarrow>
          (case navigate res path of
             Inl err \<Rightarrow> Inl err
           | Inr (JString s) \<Rightarrow> Inr s
           | Inr _ \<Rightarrow> Inl (''expected string at '' @ path)))"

subsection \<open>The pool\<close>

record NodePool =
  np_entries :: "NodeEntry list"
  np_genesisHash :: "(nat \<times> string) list"

definition NewNodePool :: "NodeEntry list \<Rightarrow> NodePool" where
  "NewNodePool entries = \<lparr> np_entries = entries, np_genesisHash = [] \<rparr>"

definition Len :: "NodePool \<Rightarrow> nat" where
  "Len p = length (np_entries p)"

text \<open>An index past the end panics in the program; here it is \<open>None\<close>.\<close>

definition Entry :: "NodePool \<Rightarrow> nat \<Rightarrow> NodeEntry option" where
  "Entry p idx = (if idx < Len p then Some (np_entries p ! idx) else None)"

record ProbeResult =
  pr_Frontier :: int
  pr_Target :: int
  pr_State :: int
  pr_GenesisHash :: string

definition zero_probe :: ProbeResult where
  "zero_probe = \<lparr> pr_Frontier = 0, pr_Target = 0, pr_State = 0, pr_GenesisHash = [] \<rparr>"

definition genesisFor :: "network \<Rightarrow> NodePool \<Rightarrow> nat \<Rightarrow> string \<Rightarrow> (error + string) \<times> NodePool" where
  "genesisFor net p idx url =
     (case map_of (np_genesisHash p) idx of
        Some h \<Rightarrow> (Inr h, p)
      | None \<Rightarrow>
          (case callForString net url ''ledger.getMomentumsByHeight'' [JNumber 1, JNumber 1]
                  ''list.0.hash'' of
             Inl err \<Rightarrow> (Inl err, p)
           | Inr h \<Rightarrow> (Inr h, p\<lparr> np_genesisHash := alist_set idx h (np_genesisHash p) \<rparr>)))"

definition Probe :: "network \<Rightarrow> NodePool \<Rightarrow> nat \<Rightarrow> (error + ProbeResult) \<times> NodePool" where
  "Probe net p idx =
     (case Entry p idx of
        None \<Rightarrow> (Inl ''probe: idx out of range'', p)
      | Some entry \<Rightarrow>
          let probeURL = probeEndpoint entry
          in case fetchSyncInfo net probeURL of
               Inl err \<Rightarrow> (Inl (''syncInfo: '' @ err), p)
             | Inr info \<Rightarrow>
                 (case callForUint64 net probeURL ''ledger.getFrontierMomentum'' [] ''height'' of
                    Inl err \<Rightarrow> (Inl (''frontier: '' @ err), p)
                  | Inr frontier \<Rightarrow>
                      (case genesisFor net p idx probeURL of
                         (Inl err, p') \<Rightarrow> (Inl (''genesis: '' @ err), p')
                       | (Inr genesis, p') \<Rightarrow>
                           (Inr \<lparr> pr_Frontier = frontier, pr_Target = si_TargetHeight info,
                              pr_State = si_State info, pr_GenesisHash = genesis \<rparr>, p'))))"

text \<open>
  The startup probe: up to \<open>attempts\<close> probes, \<open>nets k\<close> being the network at the k-th one. The
  retry loop is \<open>withRetryConfig\<close>; its operation is the probe, whose pool it threads.
\<close>

fun pool_after :: "(nat \<Rightarrow> network) \<Rightarrow> NodePool \<Rightarrow> nat \<Rightarrow> nat \<Rightarrow> NodePool" where
  "pool_after nets p idx 0 = p"
| "pool_after nets p idx (Suc k) = snd (Probe (nets (Suc k)) (pool_after nets p idx k) idx)"

definition probe_at :: "(nat \<Rightarrow> network) \<Rightarrow> NodePool \<Rightarrow> nat \<Rightarrow> nat \<Rightarrow> error + ProbeResult" where
  "probe_at nets p idx k = fst (Probe (nets k) (pool_after nets p idx (k - 1)) idx)"

definition ProbeWithRetry ::
  "(nat \<Rightarrow> network) \<Rightarrow> (nat \<Rightarrow> bool) \<Rightarrow> (nat \<Rightarrow> bool) \<Rightarrow> NodePool \<Rightarrow> nat \<Rightarrow> int \<Rightarrow> int \<Rightarrow>
    retry_run \<times> ProbeResult" where
  "ProbeWithRetry nets before sleep p idx n baseDelay =
     (let run = withRetryConfig
            \<lparr> rc_MaxAttempts = n, rc_BaseDelay = baseDelay, rc_MaxBackoff = 10000 * millisecond \<rparr>
            \<lparr> fn = (\<lambda>k. case probe_at nets p idx k of Inl err \<Rightarrow> Some err | Inr _ \<Rightarrow> None),
              done_before = before, done_sleep = sleep \<rparr>
      in (run,
          case rr_end run of
            Succeeded \<Rightarrow>
              (case probe_at nets p idx (rr_calls run) of Inl _ \<Rightarrow> zero_probe | Inr r \<Rightarrow> r)
          | _ \<Rightarrow> zero_probe))"

subsection \<open>The cached genesis hash\<close>

lemma np_entries_Probe [simp]: "np_entries (snd (Probe net p idx)) = np_entries p"
  by (auto simp: Probe_def genesisFor_def Let_def split: option.splits sum.splits prod.splits)

lemma Len_Probe [simp]: "Len (snd (Probe net p idx)) = Len p"
  by (simp add: Len_def)

lemma genesis_cache_stable:
  "map_of (np_genesisHash p) k = Some h \<Longrightarrow>
   map_of (np_genesisHash (snd (Probe net p idx))) k = Some h"
  by (auto simp: Probe_def genesisFor_def Let_def split: option.splits sum.splits prod.splits)

lemma Probe_genesis:
  assumes "Probe net p idx = (Inr r, p')"
  shows "map_of (np_genesisHash p') idx = Some (pr_GenesisHash r)"
  using assms
  by (auto simp: Probe_def genesisFor_def Let_def split: option.splits sum.splits prod.splits)

text \<open>
  The chain identity of a node is fixed by its first successful probe: once a probe of node
  \<open>idx\<close> succeeded, every later successful probe of that node through the same pool reports the
  same genesis hash, whatever the network answers then and whatever other nodes were probed in
  between.
\<close>

theorem genesis_sticky:
  assumes "Probe net p idx = (Inr r, p')"
    and "p'' = fold (\<lambda>(n, i) q. snd (Probe n q i)) probes p'"
    and "Probe net' p'' idx = (Inr r', q)"
  shows "pr_GenesisHash r' = pr_GenesisHash r"
proof -
  have keep: "map_of (np_genesisHash p1) idx = Some h \<Longrightarrow>
    map_of (np_genesisHash (fold (\<lambda>(n, i) q. snd (Probe n q i)) probes p1)) idx = Some h" for p1 h
    by (induction probes arbitrary: p1) (auto simp: genesis_cache_stable)
  have "map_of (np_genesisHash p'') idx = Some (pr_GenesisHash r)"
    using keep [OF Probe_genesis [OF assms(1)]] assms(2) by simp
  then have "map_of (np_genesisHash q) idx = Some (pr_GenesisHash r)"
    using genesis_cache_stable [of p'' idx _ net' idx] assms(3) by simp
  with Probe_genesis [OF assms(3)] show ?thesis by simp
qed

definition ex_net :: "string \<Rightarrow> int \<Rightarrow> int \<Rightarrow> network" where
  "ex_net g frontier target = \<lparr>
     net_syncInfo = (\<lambda>u. Inr \<lparr> en_Result = Some \<lparr> si_State = 2, si_CurrentHeight = frontier,
        si_TargetHeight = target \<rparr>, en_Error = None \<rparr>),
     net_post = (\<lambda>u meth ps. Inr \<lparr> en_Result = Some
        (if ps = [] then JObject [(''height'', JNumber frontier)]
         else JObject [(''list'', JArray [JObject [(''hash'', JString g)]])]), en_Error = None \<rparr>) \<rparr>"

definition ex_pool :: NodePool where
  "ex_pool = NewNodePool
     [\<lparr> ne_URL = ''ws://a:35998'', ne_Label = ''a'', ne_ProbeURL = [] \<rparr>,
      \<lparr> ne_URL = ''wss://b:1'', ne_Label = ''b'', ne_ProbeURL = [] \<rparr>]"

definition ex_again :: "(error + ProbeResult) \<times> NodePool" where
  "ex_again = Probe (ex_net ''other'' 11 11) (snd (Probe (ex_net ''g'' 10 10) ex_pool 0)) 0"

theorem genesis_sticky_witness: "pr_GenesisHash (projr (fst ex_again)) = ''g''"
proof -
  have 1: "Probe (ex_net ''g'' 10 10) ex_pool 0 =
      (Inr \<lparr> pr_Frontier = 10, pr_Target = 10, pr_State = 2, pr_GenesisHash = ''g'' \<rparr>,
       snd (Probe (ex_net ''g'' 10 10) ex_pool 0))"
    by code_simp
  have "ex_again = (Inr (projr (fst ex_again)), snd ex_again)"
    by code_simp
  then have 2: "Probe (ex_net ''other'' 11 11) (snd (Probe (ex_net ''g'' 10 10) ex_pool 0)) 0 =
      (Inr (projr (fst ex_again)), snd ex_again)"
    by (simp add: ex_again_def)
  show ?thesis
    using genesis_sticky [OF 1 _ 2, of "[]"] by simp
qed

end
