(* ===== verification/Repo_Bridge.thy ===== *)
theory Repo_Bridge
  imports Store
begin

text \<open>
  \<open>internal/repository/bridge.go\<close> and \<open>bridge_config.go\<close>: wrap and unwrap requests with the
  heights down to which a sync has to walk, and the cached bridge configuration. Also
  \<open>stat_history.go\<close> and \<open>sync_status.go\<close>, the other tables refreshed on a schedule.
\<close>

subsection \<open>Wrap and unwrap requests\<close>

definition merge_wrap :: "WrapTokenRequest \<Rightarrow> WrapTokenRequest \<Rightarrow> sql_error + WrapTokenRequest" where
  "merge_wrap old new =
     Inr (old\<lparr> wr_Signature := wr_Signature new,
       wr_ConfirmationsToFinality := wr_ConfirmationsToFinality new \<rparr>)"

definition UpsertWrapRequest :: "WrapTokenRequest \<Rightarrow> db \<Rightarrow> sql_error + db" where
  "UpsertWrapRequest w d =
     map_Inr (\<lambda>t. d\<lparr> wrap_token_requests := t \<rparr>) (upsert wr_ID merge_wrap w (wrap_token_requests d))"

definition merge_unwrap ::
  "UnwrapTokenRequest \<Rightarrow> UnwrapTokenRequest \<Rightarrow> sql_error + UnwrapTokenRequest" where
  "merge_unwrap old new =
     Inr (old\<lparr> ur_Signature := ur_Signature new, ur_Redeemed := ur_Redeemed new,
       ur_Revoked := ur_Revoked new, ur_RedeemableIn := ur_RedeemableIn new \<rparr>)"

definition UpsertUnwrapRequest :: "UnwrapTokenRequest \<Rightarrow> db \<Rightarrow> sql_error + db" where
  "UpsertUnwrapRequest u d =
     map_Inr (\<lambda>t. d\<lparr> unwrap_token_requests := t \<rparr>)
       (upsert unwrap_key merge_unwrap u (unwrap_token_requests d))"

definition GetWrapRequestByID :: "string \<Rightarrow> db \<Rightarrow> sql_error + WrapTokenRequest" where
  "GetWrapRequestByID i d = row_or_none (find_by wr_ID i (wrap_token_requests d))"

definition GetUnwrapRequestByTxHash :: "hash \<Rightarrow> int \<Rightarrow> db \<Rightarrow> sql_error + UnwrapTokenRequest" where
  "GetUnwrapRequestByTxHash txHash logIndex d =
     row_or_none (find_by unwrap_key (txHash, logIndex) (unwrap_token_requests d))"

text \<open>Exists, finalized.\<close>

definition IsWrapRequestFinalized :: "string \<Rightarrow> db \<Rightarrow> bool \<times> bool" where
  "IsWrapRequestFinalized i d =
     (case find_by wr_ID i (wrap_token_requests d) of
        None \<Rightarrow> (False, False) | Some w \<Rightarrow> (True, wr_ConfirmationsToFinality w = 0))"

definition IsUnwrapRequestFinalized :: "hash \<Rightarrow> int \<Rightarrow> db \<Rightarrow> bool \<times> bool" where
  "IsUnwrapRequestFinalized txHash logIndex d =
     (case find_by unwrap_key (txHash, logIndex) (unwrap_token_requests d) of
        None \<Rightarrow> (False, False) | Some u \<Rightarrow> (True, ur_Redeemed u \<or> ur_Revoked u))"

definition wrap_rows :: "unit \<Rightarrow> string \<Rightarrow> db \<Rightarrow> WrapTokenRequest list" where
  "wrap_rows u s d = order_desc wr_CreationMomentumHeight (wrap_token_requests d)"

definition ListWraps :: "unit \<Rightarrow> ListOpts \<Rightarrow> db \<Rightarrow> sql_error + WrapTokenRequest list \<times> int" where
  "ListWraps u opts d = paged (wrap_rows u (lo_Sort opts) d) opts"

definition wrap_address_rows :: "address \<Rightarrow> string \<Rightarrow> db \<Rightarrow> WrapTokenRequest list" where
  "wrap_address_rows address s d =
     order_desc wr_CreationMomentumHeight
       (filter (\<lambda>w. wr_ToAddress w = address) (wrap_token_requests d))"

definition ListWrapsByAddress ::
  "address \<Rightarrow> ListOpts \<Rightarrow> db \<Rightarrow> sql_error + WrapTokenRequest list \<times> int" where
  "ListWrapsByAddress address opts d =
     (if address = [] then Inl (Required ''address is required'')
      else paged (wrap_address_rows address (lo_Sort opts) d) opts)"

definition unwrap_rows :: "unit \<Rightarrow> string \<Rightarrow> db \<Rightarrow> UnwrapTokenRequest list" where
  "unwrap_rows u s d = order_desc ur_RegistrationMomentumHeight (unwrap_token_requests d)"

definition ListUnwraps :: "unit \<Rightarrow> ListOpts \<Rightarrow> db \<Rightarrow> sql_error + UnwrapTokenRequest list \<times> int" where
  "ListUnwraps u opts d = paged (unwrap_rows u (lo_Sort opts) d) opts"

definition unwrap_address_rows :: "address \<Rightarrow> string \<Rightarrow> db \<Rightarrow> UnwrapTokenRequest list" where
  "unwrap_address_rows address s d =
     order_desc ur_RegistrationMomentumHeight
       (filter (\<lambda>u. ur_ToAddress u = address) (unwrap_token_requests d))"

definition ListUnwrapsByAddress ::
  "address \<Rightarrow> ListOpts \<Rightarrow> db \<Rightarrow> sql_error + UnwrapTokenRequest list \<times> int" where
  "ListUnwrapsByAddress address opts d =
     (if address = [] then Inl (Required ''address is required'')
      else paged (unwrap_address_rows address (lo_Sort opts) d) opts)"

definition GetWrapSyncStopHeight :: "db \<Rightarrow> int" where
  "GetWrapSyncStopHeight d =
     (case order_asc wr_CreationMomentumHeight
             (filter (\<lambda>w. 0 < wr_ConfirmationsToFinality w) (wrap_token_requests d)) of
        w # _ \<Rightarrow> wr_CreationMomentumHeight w
      | [] \<Rightarrow>
          (case order_desc wr_CreationMomentumHeight (wrap_token_requests d) of
             [] \<Rightarrow> 0 | w # _ \<Rightarrow> wr_CreationMomentumHeight w))"

definition GetUnwrapSyncStopHeight :: "db \<Rightarrow> int" where
  "GetUnwrapSyncStopHeight d =
     (case order_asc ur_RegistrationMomentumHeight
             (filter (\<lambda>u. \<not> ur_Redeemed u \<and> \<not> ur_Revoked u) (unwrap_token_requests d)) of
        u # _ \<Rightarrow> ur_RegistrationMomentumHeight u
      | [] \<Rightarrow>
          (case order_desc ur_RegistrationMomentumHeight (unwrap_token_requests d) of
             [] \<Rightarrow> 0 | u # _ \<Rightarrow> ur_RegistrationMomentumHeight u))"

subsection \<open>Bridge configuration\<close>

definition merge_network :: "BridgeNetwork \<Rightarrow> BridgeNetwork \<Rightarrow> sql_error + BridgeNetwork" where
  "merge_network old new =
     Inr (old\<lparr> bn_Name := bn_Name new, bn_ContractAddress := bn_ContractAddress new,
       bn_Metadata := bn_Metadata new, bn_LastUpdatedTimestamp := bn_LastUpdatedTimestamp new \<rparr>)"

definition UpsertNetwork :: "BridgeNetwork \<Rightarrow> db \<Rightarrow> sql_error + db" where
  "UpsertNetwork n d =
     map_Inr (\<lambda>t. d\<lparr> bridge_networks := t \<rparr>) (upsert network_key merge_network n (bridge_networks d))"

definition merge_network_token ::
  "BridgeNetworkToken \<Rightarrow> BridgeNetworkToken \<Rightarrow> sql_error + BridgeNetworkToken" where
  "merge_network_token old new =
     Inr (old\<lparr> bt_TokenAddress := bt_TokenAddress new, bt_Bridgeable := bt_Bridgeable new,
       bt_Redeemable := bt_Redeemable new, bt_Owned := bt_Owned new, bt_MinAmount := bt_MinAmount new,
       bt_FeePercentage := bt_FeePercentage new, bt_RedeemDelay := bt_RedeemDelay new,
       bt_Metadata := bt_Metadata new \<rparr>)"

definition UpsertNetworkToken :: "BridgeNetworkToken \<Rightarrow> db \<Rightarrow> sql_error + db" where
  "UpsertNetworkToken t d =
     map_Inr (\<lambda>r. d\<lparr> bridge_network_tokens := r \<rparr>)
       (upsert network_token_key merge_network_token t (bridge_network_tokens d))"

definition UpsertAdmin :: "BridgeAdmin \<Rightarrow> db \<Rightarrow> sql_error + db" where
  "UpsertAdmin a d = Inr (d\<lparr> bridge_admin := Some a \<rparr>)"

definition merge_guardian :: "BridgeGuardian \<Rightarrow> BridgeGuardian \<Rightarrow> sql_error + BridgeGuardian" where
  "merge_guardian old new =
     Inr (old\<lparr> bg_Nominated := bg_Nominated new, bg_Accepted := bg_Accepted new,
       bg_LastUpdatedTimestamp := bg_LastUpdatedTimestamp new \<rparr>)"

definition UpsertGuardian :: "BridgeGuardian \<Rightarrow> db \<Rightarrow> sql_error + db" where
  "UpsertGuardian g d =
     map_Inr (\<lambda>t. d\<lparr> bridge_guardians := t \<rparr>) (upsert bg_Address merge_guardian g (bridge_guardians d))"

definition MarkGuardiansAbsent :: "int \<Rightarrow> db \<Rightarrow> sql_error + db" where
  "MarkGuardiansAbsent since d =
     Inr (d\<lparr> bridge_guardians := update_where (\<lambda>g. bg_LastUpdatedTimestamp g < since)
       (\<lambda>g. g\<lparr> bg_Nominated := False, bg_Accepted := False \<rparr>) (bridge_guardians d) \<rparr>)"

definition UpsertOrchestratorInfo :: "BridgeOrchestratorInfo \<Rightarrow> db \<Rightarrow> sql_error + db" where
  "UpsertOrchestratorInfo x d = Inr (d\<lparr> bridge_orchestrator_info := Some x \<rparr>)"

definition UpsertSecurityInfo :: "BridgeSecurityInfo \<Rightarrow> db \<Rightarrow> sql_error + db" where
  "UpsertSecurityInfo x d = Inr (d\<lparr> bridge_security_info := Some x \<rparr>)"

definition merge_challenge ::
  "BridgeTimeChallenge \<Rightarrow> BridgeTimeChallenge \<Rightarrow> sql_error + BridgeTimeChallenge" where
  "merge_challenge old new =
     Inr (old\<lparr> bc_ParamsHash := bc_ParamsHash new,
       bc_ChallengeStartHeight := bc_ChallengeStartHeight new, bc_Delay := bc_Delay new,
       bc_EndHeight := bc_EndHeight new, bc_LastUpdatedTimestamp := bc_LastUpdatedTimestamp new \<rparr>)"

definition UpsertTimeChallenge :: "BridgeTimeChallenge \<Rightarrow> db \<Rightarrow> sql_error + db" where
  "UpsertTimeChallenge c d =
     map_Inr (\<lambda>t. d\<lparr> bridge_time_challenges := t \<rparr>)
       (upsert bc_MethodName merge_challenge c (bridge_time_challenges d))"

definition DeleteTimeChallengesNotIn :: "string list \<Rightarrow> db \<Rightarrow> sql_error + db" where
  "DeleteTimeChallengesNotIn keep d =
     (if keep = [] then Inr (d\<lparr> bridge_time_challenges := [] \<rparr>)
      else Inr (d\<lparr> bridge_time_challenges :=
             filter (\<lambda>c. bc_MethodName c \<in> set keep) (bridge_time_challenges d) \<rparr>))"

definition ListTimeChallenges :: "db \<Rightarrow> BridgeTimeChallenge list" where
  "ListTimeChallenges d = order_asc bc_EndHeight (bridge_time_challenges d)"

definition GetAdmin :: "db \<Rightarrow> BridgeAdmin option" where
  "GetAdmin d = bridge_admin d"

subsection \<open>Daily statistics and the sync status row\<close>

definition UpsertNetworkStat :: "NetworkStatHistory \<Rightarrow> db \<Rightarrow> sql_error + db" where
  "UpsertNetworkStat s d =
     map_Inr (\<lambda>t. d\<lparr> network_stat_histories := t \<rparr>)
       (upsert ns_Date (\<lambda>old new. Inr (new\<lparr> ns_Date := ns_Date old \<rparr>)) s (network_stat_histories d))"

definition UpsertTokenStat :: "TokenStatHistory \<Rightarrow> db \<Rightarrow> sql_error + db" where
  "UpsertTokenStat s d =
     map_Inr (\<lambda>t. d\<lparr> token_stat_histories := t \<rparr>)
       (upsert token_stat_key
          (\<lambda>old new. Inr (new\<lparr> ts_Date := ts_Date old, ts_TokenStandard := ts_TokenStandard old \<rparr>))
          s (token_stat_histories d))"

definition UpsertPillarStat :: "PillarStatHistory \<Rightarrow> db \<Rightarrow> sql_error + db" where
  "UpsertPillarStat s d =
     map_Inr (\<lambda>t. d\<lparr> pillar_stat_histories := t \<rparr>)
       (upsert pillar_stat_key
          (\<lambda>old new. Inr (new\<lparr> ps_Date := ps_Date old,
             ps_PillarOwnerAddress := ps_PillarOwnerAddress old \<rparr>))
          s (pillar_stat_histories d))"

definition UpsertBridgeStat :: "BridgeStatHistory \<Rightarrow> db \<Rightarrow> sql_error + db" where
  "UpsertBridgeStat s d =
     map_Inr (\<lambda>t. d\<lparr> bridge_stat_histories := t \<rparr>)
       (upsert bridge_stat_key
          (\<lambda>old new. Inr (new\<lparr> bh_Date := bh_Date old, bh_NetworkClass := bh_NetworkClass old,
             bh_ChainID := bh_ChainID old, bh_TokenStandard := bh_TokenStandard old \<rparr>))
          s (bridge_stat_histories d))"

definition SyncStatus_Upsert :: "SyncStatus \<Rightarrow> db \<Rightarrow> sql_error + db" where
  "SyncStatus_Upsert s d = Inr (d\<lparr> indexer_sync_status := Some s \<rparr>)"

definition SyncStatus_Get :: "db \<Rightarrow> sql_error + SyncStatus" where
  "SyncStatus_Get d = row_or_none (indexer_sync_status d)"

subsection \<open>The contracts hold\<close>

interpretation wrap_table: upsert_table wr_ID merge_wrap
  by unfold_locales (auto simp: merge_wrap_def)

interpretation unwrap_table: upsert_table unwrap_key merge_unwrap
  by unfold_locales (auto simp: merge_unwrap_def unwrap_key_def)

interpretation network_table: upsert_table network_key merge_network
  by unfold_locales (auto simp: merge_network_def network_key_def)

interpretation network_token_table: upsert_table network_token_key merge_network_token
  by unfold_locales (auto simp: merge_network_token_def network_token_key_def)

interpretation guardian_table: upsert_table bg_Address merge_guardian
  by unfold_locales (auto simp: merge_guardian_def)

interpretation challenge_table: upsert_table bc_MethodName merge_challenge
  by unfold_locales (auto simp: merge_challenge_def)

interpretation network_stat_table:
  upsert_table ns_Date "\<lambda>old new. Inr (new\<lparr> ns_Date := ns_Date old \<rparr>)"
  by unfold_locales auto

interpretation wrap_listing: listing wrap_rows ListWraps "\<lambda>_. True"
  by unfold_locales (simp add: ListWraps_def)

interpretation wrap_address_listing: listing wrap_address_rows ListWrapsByAddress "\<lambda>a. a \<noteq> []"
  by unfold_locales (simp add: ListWrapsByAddress_def)

interpretation unwrap_listing: listing unwrap_rows ListUnwraps "\<lambda>_. True"
  by unfold_locales (simp add: ListUnwraps_def)

interpretation unwrap_address_listing: listing unwrap_address_rows ListUnwrapsByAddress "\<lambda>a. a \<noteq> []"
  by unfold_locales (simp add: ListUnwrapsByAddress_def)

subsection \<open>The stop height covers every unfinalized request\<close>

lemma hd_order_asc: "order_asc f t = m # ms \<Longrightarrow> r \<in> set t \<Longrightarrow> (f m :: int) \<le> f r"
  using sorted_order_asc [of f t] set_order_asc [of f t] by auto

lemma GetWrapSyncStopHeight_unfinalized:
  assumes "w \<in> set (wrap_token_requests d)" "0 < wr_ConfirmationsToFinality w"
  shows "GetWrapSyncStopHeight d \<le> wr_CreationMomentumHeight w"
proof -
  let ?t = "filter (\<lambda>w. 0 < wr_ConfirmationsToFinality w) (wrap_token_requests d)"
  have w: "w \<in> set ?t" using assms by simp
  then obtain m ms where "order_asc wr_CreationMomentumHeight ?t = m # ms"
    by (metis list.set_cases set_order_asc)
  with hd_order_asc [OF this w] show ?thesis
    by (simp add: GetWrapSyncStopHeight_def)
qed

lemma GetUnwrapSyncStopHeight_unfinalized:
  assumes "u \<in> set (unwrap_token_requests d)" "\<not> ur_Redeemed u" "\<not> ur_Revoked u"
  shows "GetUnwrapSyncStopHeight d \<le> ur_RegistrationMomentumHeight u"
proof -
  let ?t = "filter (\<lambda>u. \<not> ur_Redeemed u \<and> \<not> ur_Revoked u) (unwrap_token_requests d)"
  have u: "u \<in> set ?t" using assms by simp
  then obtain m ms where "order_asc ur_RegistrationMomentumHeight ?t = m # ms"
    by (metis list.set_cases set_order_asc)
  with hd_order_asc [OF this u] show ?thesis
    by (simp add: GetUnwrapSyncStopHeight_def)
qed

lemma GetWrapSyncStopHeight_finalized:
  assumes "\<forall>w\<in>set (wrap_token_requests d). wr_ConfirmationsToFinality w \<le> 0"
    and "w \<in> set (wrap_token_requests d)"
  shows "wr_CreationMomentumHeight w \<le> GetWrapSyncStopHeight d"
proof -
  obtain m ms where m: "order_desc wr_CreationMomentumHeight (wrap_token_requests d) = m # ms"
    using assms(2) by (metis list.set_cases set_order_desc)
  have "filter (\<lambda>w. 0 < wr_ConfirmationsToFinality w) (wrap_token_requests d) = []"
    using assms(1) by (auto simp: filter_empty_conv)
  then show ?thesis
    using hd_order_desc [OF m assms(2)] by (simp add: GetWrapSyncStopHeight_def m order_asc_def)
qed

end
