(* ===== verification/Watchdog.thy ===== *)
theory Watchdog
  imports Node_Pool Repo_Ledger Repo_Bridge
begin

text \<open>
  \<open>internal/indexer/watchdog.go\<close> with the client swap of \<open>indexer.go\<close> and the startup probe of
  \<open>cmd/indexer/main.go\<close>: the classification of a tick, the streaks, failover, failback and the
  published status row. The watchdog goroutine is the only writer of this state, so one tick is
  one function on it. What a tick observes is its argument \<open>tick_env\<close>. A tick probes a node at
  most once, so the network is given per node: \<open>te_net idx\<close> answers the probe of node \<open>idx\<close>.
  Times are nanoseconds of the wall clock unless the source stores seconds; the streak counters
  move by one per tick and are plain integers.
\<close>

subsection \<open>Classification\<close>

record WatchdogConfigForIndexer =
  wc_Enabled :: bool
  wc_Interval :: int
  wc_StallThreshold :: int
  wc_IndexerDriftThreshold :: int
  wc_NodeDriftThreshold :: int
  wc_UnhealthyStreak :: int
  wc_FailbackStreak :: int

datatype syncClass =
    classSynced
  | classIndexerLagging
  | classNodeLagging
  | classStalled
  | classProbeFailed

fun class_String :: "syncClass \<Rightarrow> string" where
  "class_String classSynced = ''synced''"
| "class_String classIndexerLagging = ''indexer_lagging''"
| "class_String classNodeLagging = ''node_lagging''"
| "class_String classStalled = ''stalled''"
| "class_String classProbeFailed = ''probe_failed''"

record classifyConfig =
  cc_StallThreshold :: int
  cc_IndexerDriftThreshold :: int
  cc_NodeDriftThreshold :: int

text \<open>\<open>t.Sub(u)\<close>: the difference, saturated to the range of a \<open>Duration\<close>.\<close>

definition time_Sub :: "int \<Rightarrow> int \<Rightarrow> int" where
  "time_Sub t u = max MinInt64 (min MaxInt64 (t - u))"

definition second :: int where
  "second = 1000000000"

definition node_lag :: "ProbeResult \<Rightarrow> int" where
  "node_lag probe = int64 (int64 (pr_Target probe) - int64 (pr_Frontier probe))"

definition indexer_drift :: "ProbeResult \<Rightarrow> int \<Rightarrow> int" where
  "indexer_drift probe dbHeight = int64 (int64 (pr_Frontier probe) - dbHeight)"

definition classify ::
  "ProbeResult \<Rightarrow> error option \<Rightarrow> int \<Rightarrow> int \<Rightarrow> int \<Rightarrow> classifyConfig \<Rightarrow> syncClass" where
  "classify probe probeErr dbHeight lastProgressAt now cfg =
     (if probeErr \<noteq> None then classProbeFailed
      else
        let nodeBehind = node_lag probe > cc_NodeDriftThreshold cfg;
            indexerBehind = indexer_drift probe dbHeight > cc_IndexerDriftThreshold cfg
        in if time_Sub now lastProgressAt > cc_StallThreshold cfg then
             (if indexerBehind \<and> \<not> nodeBehind then classIndexerLagging else classStalled)
           else if nodeBehind then classNodeLagging
           else if indexerBehind then classIndexerLagging
           else classSynced)"

subsection \<open>Streaks\<close>

record nodeStreaks =
  ns_healthy :: int
  ns_unhealthy :: int

definition no_streak :: nodeStreaks where
  "no_streak = \<lparr> ns_healthy = 0, ns_unhealthy = 0 \<rparr>"

record syncState =
  sy_activeIdx :: nat
  sy_streaks :: "(nat \<times> nodeStreaks) list"
  sy_chainIdentifier :: string
  sy_failedOverAt :: "int option"
  sy_lastClass :: string
  sy_lastDrift :: int

definition newSyncState :: "nat \<Rightarrow> syncState" where
  "newSyncState numNodes = \<lparr> sy_activeIdx = 0, sy_streaks = map (\<lambda>i. (i, no_streak)) [0..<numNodes],
     sy_chainIdentifier = [], sy_failedOverAt = None, sy_lastClass = [], sy_lastDrift = 0 \<rparr>"

text \<open>A key that is missing reads as the zero value.\<close>

definition streak :: "syncState \<Rightarrow> nat \<Rightarrow> nodeStreaks" where
  "streak s i = (case map_of (sy_streaks s) i of None \<Rightarrow> no_streak | Some st \<Rightarrow> st)"

definition set_streak :: "nat \<Rightarrow> nodeStreaks \<Rightarrow> syncState \<Rightarrow> syncState" where
  "set_streak i st s = s\<lparr> sy_streaks := alist_set i st (sy_streaks s) \<rparr>"

definition reset_streaks :: "syncState \<Rightarrow> syncState" where
  "reset_streaks s = s\<lparr> sy_streaks := map (\<lambda>(k, _). (k, no_streak)) (sy_streaks s) \<rparr>"

record watchdogReactConfig =
  rx_UnhealthyStreak :: int
  rx_FailbackStreak :: int

text \<open>An index of \<open>-1\<close> is \<open>None\<close>.\<close>

record reactIntent =
  ri_signalRestart :: bool
  ri_failoverIdx :: "nat option"
  ri_failbackIdx :: "nat option"

definition react ::
  "syncState \<Rightarrow> nat \<Rightarrow> syncClass \<Rightarrow> watchdogReactConfig \<Rightarrow> syncState \<times> reactIntent" where
  "react s activeIdx c cfg =
     (let st = streak s activeIdx;
          none = \<lparr> ri_signalRestart = False, ri_failoverIdx = None, ri_failbackIdx = None \<rparr>;
          bad = st\<lparr> ns_unhealthy := ns_unhealthy st + 1 \<rparr>;
          over = (if ns_unhealthy bad \<ge> rx_UnhealthyStreak cfg then Some activeIdx else None)
      in case c of
           classSynced \<Rightarrow>
             (set_streak activeIdx \<lparr> ns_healthy = ns_healthy st + 1, ns_unhealthy = 0 \<rparr> s, none)
         | classIndexerLagging \<Rightarrow> (s, none\<lparr> ri_signalRestart := True \<rparr>)
         | classNodeLagging \<Rightarrow>
             (set_streak activeIdx (bad\<lparr> ns_healthy := 0 \<rparr>) s, none\<lparr> ri_failoverIdx := over \<rparr>)
         | classStalled \<Rightarrow>
             (set_streak activeIdx bad s,
              none\<lparr> ri_signalRestart := True, ri_failoverIdx := over \<rparr>)
         | classProbeFailed \<Rightarrow> (set_streak activeIdx bad s, none\<lparr> ri_failoverIdx := over \<rparr>))"

definition selectFailback ::
  "syncState \<Rightarrow> nat \<Rightarrow> watchdogReactConfig \<Rightarrow> syncState \<times> nat option" where
  "selectFailback s candidateIdx cfg =
     (let st = (streak s candidateIdx)\<lparr> ns_healthy := ns_healthy (streak s candidateIdx) + 1 \<rparr>
      in (set_streak candidateIdx st s,
          if ns_healthy st \<ge> rx_FailbackStreak cfg then Some candidateIdx else None))"

definition canAttemptFailback :: "syncClass \<Rightarrow> nat \<Rightarrow> nat option \<Rightarrow> bool" where
  "canAttemptFailback class activeIdx failoverIdx =
     (if activeIdx = 0 \<or> failoverIdx \<noteq> None then False
      else class = classSynced \<or> class = classIndexerLagging)"

subsection \<open>The indexer's side: the active client and the restart signal\<close>

record tick_env =
  te_net :: "nat \<Rightarrow> network"
  te_now :: int
  te_read_fails :: bool
  te_dial_fails :: "string \<Rightarrow> bool"
  te_publish_fails :: bool

text \<open>
  \<open>w_client\<close> is the URL the active client was built from, \<open>w_restart\<close> whether the one-slot channel
  \<open>restartSubCh\<close> holds a signal, \<open>w_lastProgressAt\<close> the Unix time of the last progress.
\<close>

record watch =
  w_pool :: NodePool
  w_state :: syncState
  w_client :: string
  w_restart :: bool
  w_lastProgressAt :: int
  w_db :: db

definition NewIndexerWithNodes :: "NodePool \<Rightarrow> string \<Rightarrow> int \<Rightarrow> db \<Rightarrow> watch" where
  "NewIndexerWithNodes pool url t d = \<lparr> w_pool = pool, w_state = newSyncState (Len pool),
     w_client = url, w_restart = False, w_lastProgressAt = t, w_db = d \<rparr>"

definition signalSubscriptionRestart :: "watch \<Rightarrow> watch" where
  "signalSubscriptionRestart w = w\<lparr> w_restart := True \<rparr>"

definition swapActiveClient :: "(string \<Rightarrow> bool) \<Rightarrow> string \<Rightarrow> watch \<Rightarrow> watch option" where
  "swapActiveClient dial_fails url w =
     (if dial_fails url then None else Some (signalSubscriptionRestart (w\<lparr> w_client := url \<rparr>)))"

definition map_state :: "(syncState \<Rightarrow> syncState) \<Rightarrow> watch \<Rightarrow> watch" where
  "map_state f w = w\<lparr> w_state := f (w_state w) \<rparr>"

text \<open>
  \<open>Entry\<close> panics on an index past the end: the outer \<open>None\<close> of the functions below. The inner
  failure is the error of the swap.
\<close>

definition StartupSwap :: "(string \<Rightarrow> bool) \<Rightarrow> int \<Rightarrow> nat \<Rightarrow> watch \<Rightarrow> watch option option" where
  "StartupSwap dial_fails now idx w =
     (case Entry (w_pool w) idx of
        None \<Rightarrow> None
      | Some entry \<Rightarrow> Some
          (case swapActiveClient dial_fails (ne_URL entry) w of
             None \<Rightarrow> None
           | Some w' \<Rightarrow> Some (map_state (\<lambda>s. s\<lparr> sy_activeIdx := idx,
                 sy_failedOverAt := Some (now div second) \<rparr>) w')))"

definition HealthSnapshot_Ready :: "WatchdogConfigForIndexer \<Rightarrow> watch \<Rightarrow> bool" where
  "HealthSnapshot_Ready cfg w =
     (let st = streak (w_state w) (sy_activeIdx (w_state w));
          threshold = (if wc_UnhealthyStreak cfg \<le> 0 then 2 else wc_UnhealthyStreak cfg)
      in ns_unhealthy st < threshold)"

subsection \<open>Failover and failback\<close>

definition probe_at_head :: "classifyConfig \<Rightarrow> ProbeResult \<Rightarrow> bool" where
  "probe_at_head cfg probe \<longleftrightarrow> \<not> node_lag probe > cc_NodeDriftThreshold cfg"

text \<open>The walk over the candidates; the pool is threaded for its genesis cache.\<close>

fun failover_walk ::
  "(nat \<Rightarrow> network) \<Rightarrow> string \<Rightarrow> classifyConfig \<Rightarrow> nat list \<Rightarrow> NodePool \<Rightarrow> nat option \<times> NodePool" where
  "failover_walk net storedGenesis cfg [] pool = (None, pool)"
| "failover_walk net storedGenesis cfg (idx # rest) pool =
     (case Probe (net idx) pool idx of
        (Inl err, pool') \<Rightarrow> failover_walk net storedGenesis cfg rest pool'
      | (Inr probe, pool') \<Rightarrow>
          if node_lag probe > cc_NodeDriftThreshold cfg
          then failover_walk net storedGenesis cfg rest pool'
          else if storedGenesis \<noteq> [] \<and> pr_GenesisHash probe \<noteq> storedGenesis
          then failover_walk net storedGenesis cfg rest pool'
          else (Some idx, pool'))"

definition selectFailoverTarget ::
  "(nat \<Rightarrow> network) \<Rightarrow> NodePool \<Rightarrow> nat \<Rightarrow> string \<Rightarrow> classifyConfig \<Rightarrow> nat option \<times> NodePool" where
  "selectFailoverTarget net pool currentIdx storedGenesis cfg =
     failover_walk net storedGenesis cfg [Suc currentIdx..<Len pool] pool"

definition switch_to :: "nat \<Rightarrow> int option \<Rightarrow> syncState \<Rightarrow> syncState" where
  "switch_to idx failedOverAt s =
     reset_streaks (s\<lparr> sy_activeIdx := idx, sy_failedOverAt := failedOverAt \<rparr>)"

definition fail_over ::
  "tick_env \<Rightarrow> classifyConfig \<Rightarrow> nat \<Rightarrow> string \<Rightarrow> watch \<Rightarrow> watch option" where
  "fail_over env cCfg activeIdx chainID w =
     (case selectFailoverTarget (te_net env) (w_pool w) activeIdx chainID cCfg of
        (target, pool') \<Rightarrow>
          let w = w\<lparr> w_pool := pool' \<rparr>
          in case target of
               None \<Rightarrow> Some w
             | Some idx \<Rightarrow>
                 (case Entry pool' idx of
                    None \<Rightarrow> None
                  | Some entry \<Rightarrow> Some
                      (case swapActiveClient (te_dial_fails env) (ne_URL entry) w of
                         None \<Rightarrow> w
                       | Some w' \<Rightarrow> map_state (switch_to idx (Some (te_now env div second))) w')))"

fun fail_back ::
  "tick_env \<Rightarrow> classifyConfig \<Rightarrow> watchdogReactConfig \<Rightarrow> string \<Rightarrow> nat list \<Rightarrow> watch \<Rightarrow> watch option" where
  "fail_back env cCfg rCfg chainID [] w = Some w"
| "fail_back env cCfg rCfg chainID (candidateIdx # rest) w =
     (case Probe (te_net env candidateIdx) (w_pool w) candidateIdx of
        (res, pool') \<Rightarrow>
          let w = w\<lparr> w_pool := pool' \<rparr>
          in if (case res of Inl _ \<Rightarrow> True
                 | Inr cProbe \<Rightarrow> pr_GenesisHash cProbe \<noteq> chainID \<or>
                     node_lag cProbe > cc_NodeDriftThreshold cCfg)
             then fail_back env cCfg rCfg chainID rest
                    (map_state (\<lambda>s. set_streak candidateIdx
                       ((streak s candidateIdx)\<lparr> ns_healthy := 0 \<rparr>) s) w)
             else
               (case selectFailback (w_state w) candidateIdx rCfg of
                  (s', None) \<Rightarrow>
                    fail_back env cCfg rCfg chainID rest (map_state (\<lambda>_. s') w)
                | (s', Some picked) \<Rightarrow>
                    let w = map_state (\<lambda>_. s') w
                    in case Entry (w_pool w) picked of
                         None \<Rightarrow> None
                       | Some entry \<Rightarrow> Some
                           (case swapActiveClient (te_dial_fails env) (ne_URL entry) w of
                              None \<Rightarrow> w
                            | Some w' \<Rightarrow> map_state (switch_to picked None) w')))"

subsection \<open>One tick\<close>

definition publishSyncStatus ::
  "tick_env \<Rightarrow> ProbeResult \<Rightarrow> int \<Rightarrow> syncClass \<Rightarrow> nat \<Rightarrow> watch \<Rightarrow> watch option" where
  "publishSyncStatus env probe dbHeight class activeIdx w =
     (case Entry (w_pool w) activeIdx of
        None \<Rightarrow> None
      | Some entry \<Rightarrow>
          let row = \<lparr> ss_DBHeight = dbHeight, ss_ZnndFrontierHeight = int64 (pr_Frontier probe),
                ss_ZnndTargetHeight = int64 (pr_Target probe),
                ss_DriftMomentums = indexer_drift probe dbHeight,
                ss_NodeLagMomentums = node_lag probe, ss_State = class_String class,
                ss_ConsecutiveBadChecks = ns_unhealthy (streak (w_state w) activeIdx),
                ss_ActiveNodeURL = ne_URL entry, ss_ActiveNodeLabel = ne_Label entry,
                ss_ChainIdentifier = sy_chainIdentifier (w_state w),
                ss_FailedOverAt = sy_failedOverAt (w_state w),
                ss_LastProgressAt = w_lastProgressAt w, ss_CheckedAt = te_now env div second \<rparr>
          in Some (if te_publish_fails env then w
                   else case SyncStatus_Upsert row (w_db w) of
                          Inl _ \<Rightarrow> w | Inr d' \<Rightarrow> w\<lparr> w_db := d' \<rparr>))"

text \<open>What the state keeps of the observation: the streak, the chain, the class and the drift.\<close>

definition observe ::
  "watchdogReactConfig \<Rightarrow> error + ProbeResult \<Rightarrow> int \<Rightarrow> syncClass \<Rightarrow> syncState \<Rightarrow>
     syncState \<times> reactIntent" where
  "observe rCfg res dbHeight class s =
     (let (s1, intent) = react s (sy_activeIdx s) class rCfg;
          probe = (case res of Inl _ \<Rightarrow> zero_probe | Inr p \<Rightarrow> p)
      in (s1\<lparr> sy_chainIdentifier :=
                (if \<not> isl res \<and> sy_chainIdentifier s1 = [] then pr_GenesisHash probe
                 else sy_chainIdentifier s1),
              sy_lastClass := class_String class,
              sy_lastDrift := indexer_drift probe dbHeight \<rparr>, intent))"

definition tick_class :: "tick_env \<Rightarrow> classifyConfig \<Rightarrow> watch \<Rightarrow> syncClass" where
  "tick_class env cCfg w =
     (let res = fst (Probe (te_net env (sy_activeIdx (w_state w))) (w_pool w) (sy_activeIdx (w_state w)))
      in classify (case res of Inl _ \<Rightarrow> zero_probe | Inr p \<Rightarrow> p)
           (case res of Inl err \<Rightarrow> Some err | Inr _ \<Rightarrow> None)
           (int64 (GetLatestHeight (w_db w))) (w_lastProgressAt w * second) (te_now env) cCfg)"

definition runWatchdogTick ::
  "classifyConfig \<Rightarrow> watchdogReactConfig \<Rightarrow> tick_env \<Rightarrow> watch \<Rightarrow> watch option" where
  "runWatchdogTick cCfg rCfg env w =
     (let activeIdx = sy_activeIdx (w_state w)
      in case Probe (te_net env activeIdx) (w_pool w) activeIdx of
           (res, pool') \<Rightarrow>
             if te_read_fails env then Some (w\<lparr> w_pool := pool' \<rparr>)
             else
               let dbHeight = int64 (GetLatestHeight (w_db w));
                   class = tick_class env cCfg w;
                   (s1, intent) = observe rCfg res dbHeight class (w_state w);
                   chainID = sy_chainIdentifier s1;
                   w1 = w\<lparr> w_pool := pool', w_state := s1 \<rparr>
               in case (if ri_failoverIdx intent \<noteq> None
                        then fail_over env cCfg activeIdx chainID w1 else Some w1) of
                    None \<Rightarrow> None
                  | Some w2 \<Rightarrow>
                      (case (if canAttemptFailback class activeIdx (ri_failoverIdx intent)
                             then fail_back env cCfg rCfg chainID [0..<activeIdx] w2 else Some w2) of
                         None \<Rightarrow> None
                       | Some w3 \<Rightarrow>
                           publishSyncStatus env (case res of Inl _ \<Rightarrow> zero_probe | Inr p \<Rightarrow> p)
                             dbHeight class activeIdx
                             (if ri_signalRestart intent then signalSubscriptionRestart w3 else w3)))"

definition classify_cfg :: "WatchdogConfigForIndexer \<Rightarrow> classifyConfig" where
  "classify_cfg cfg = \<lparr> cc_StallThreshold = wc_StallThreshold cfg,
     cc_IndexerDriftThreshold = wc_IndexerDriftThreshold cfg,
     cc_NodeDriftThreshold = wc_NodeDriftThreshold cfg \<rparr>"

definition react_cfg :: "WatchdogConfigForIndexer \<Rightarrow> watchdogReactConfig" where
  "react_cfg cfg = \<lparr> rx_UnhealthyStreak = wc_UnhealthyStreak cfg,
     rx_FailbackStreak = wc_FailbackStreak cfg \<rparr>"

text \<open>The loop, over the ticks that fire before the context is canceled.\<close>

fun runSyncWatchdogLoop :: "WatchdogConfigForIndexer \<Rightarrow> tick_env list \<Rightarrow> watch \<Rightarrow> watch option" where
  "runSyncWatchdogLoop cfg [] w = Some w"
| "runSyncWatchdogLoop cfg (env # envs) w =
     (case runWatchdogTick (classify_cfg cfg) (react_cfg cfg) env w of
        None \<Rightarrow> None | Some w' \<Rightarrow> runSyncWatchdogLoop cfg envs w')"

text \<open>
  The startup phase of \<open>main\<close> after the primary's probe failed: the first fallback that answers a
  probe and can be dialed. The outer \<open>None\<close> is a panic, the inner one the fatal exit.
\<close>

fun startup_fallback ::
  "(nat \<Rightarrow> network) \<Rightarrow> (string \<Rightarrow> bool) \<Rightarrow> int \<Rightarrow> nat list \<Rightarrow> watch \<Rightarrow> watch option option" where
  "startup_fallback net dial_fails now [] w = Some None"
| "startup_fallback net dial_fails now (i # rest) w =
     (case Probe (net i) (w_pool w) i of
        (Inl _, pool') \<Rightarrow> startup_fallback net dial_fails now rest (w\<lparr> w_pool := pool' \<rparr>)
      | (Inr _, pool') \<Rightarrow>
          (case StartupSwap dial_fails now i (w\<lparr> w_pool := pool' \<rparr>) of
             None \<Rightarrow> None
           | Some None \<Rightarrow> startup_fallback net dial_fails now rest (w\<lparr> w_pool := pool' \<rparr>)
           | Some (Some w') \<Rightarrow> Some (Some w')))"

end
