(* ===== verification/Watchdog_Facts.thy ===== *)
theory Watchdog_Facts
  imports Watchdog
begin

text \<open>
  How the pieces of a watchdog tick act on the state: the failover walk is a plain search, the
  failback walk either leaves the active node alone or picks a candidate whose streak is full,
  and no piece reads past the end of the node list.
\<close>

subsection \<open>Probing one node does not disturb the others\<close>

lemma Probe_other:
  "idx \<noteq> k \<Longrightarrow> map_of (np_genesisHash (snd (Probe net p idx))) k = map_of (np_genesisHash p) k"
  by (auto simp: Probe_def genesisFor_def Let_def split: option.splits sum.splits prod.splits)

lemma Probe_cong:
  assumes "np_entries p = np_entries q" "map_of (np_genesisHash p) k = map_of (np_genesisHash q) k"
  shows "fst (Probe net p k) = fst (Probe net q k)"
  using assms
  by (auto simp: Probe_def genesisFor_def Entry_def Len_def Let_def
      split: option.splits sum.splits prod.splits)

lemma Probe_fst_other: "idx \<noteq> k \<Longrightarrow> fst (Probe net (snd (Probe net' p idx)) k) = fst (Probe net p k)"
  by (rule Probe_cong) (simp_all add: Probe_other)

lemma Probe_in_range: "fst (Probe net p idx) = Inr r \<Longrightarrow> idx < Len p"
  by (auto simp: Probe_def Entry_def split: option.splits if_splits)

lemma Entry_Probe [simp]: "Entry (snd (Probe net p idx)) k = Entry p k"
  by (simp add: Entry_def Len_def)

subsection \<open>The failover walk is a search\<close>

definition fit :: "(nat \<Rightarrow> network) \<Rightarrow> string \<Rightarrow> classifyConfig \<Rightarrow> NodePool \<Rightarrow> nat \<Rightarrow> bool" where
  "fit net g cfg p k =
     (case fst (Probe (net k) p k) of
        Inl _ \<Rightarrow> False
      | Inr r \<Rightarrow> node_lag r \<le> cc_NodeDriftThreshold cfg \<and> (g = [] \<or> pr_GenesisHash r = g))"

lemma fit_other [simp]: "idx \<noteq> k \<Longrightarrow> fit net g cfg (snd (Probe n p idx)) k = fit net g cfg p k"
  by (simp add: fit_def Probe_fst_other)

lemma failover_walk_find:
  "distinct ks \<Longrightarrow> fst (failover_walk net g cfg ks p) = find (fit net g cfg p) ks"
proof (induction ks arbitrary: p)
  case Nil
  then show ?case by simp
next
  case (Cons k ks)
  obtain res p' where pr: "Probe (net k) p k = (res, p')" by fastforce
  have "fit net g cfg p' x = fit net g cfg p x" if "x \<in> set ks" for x
    using Cons.prems that fit_other [of k x net g cfg "net k" p] pr by (cases "k = x") simp_all
  then have "find (fit net g cfg p') ks = find (fit net g cfg p) ks"
    by (intro find_cong) simp_all
  then show ?case
    using Cons pr by (cases res) (auto simp: fit_def [of _ _ _ _ k] not_less)
qed

lemma failover_walk_step:
  assumes "Probe (net k) p k = (res, q)"
  shows "failover_walk net g cfg (k # ks) p = (Some k, q) \<or>
    failover_walk net g cfg (k # ks) p = failover_walk net g cfg ks q"
  using assms by (cases res) simp_all

lemma failover_walk_entries: "np_entries (snd (failover_walk net g cfg ks p)) = np_entries p"
proof (induction ks arbitrary: p)
  case (Cons k ks)
  obtain res q where pr: "Probe (net k) p k = (res, q)" by fastforce
  then have "np_entries q = np_entries p"
    using np_entries_Probe [of "net k" p k] by simp
  then show ?case
    using failover_walk_step [of net k p res q g cfg ks, OF pr] Cons.IH [of q] by auto
qed simp

lemma failover_walk_cache:
  "map_of (np_genesisHash p) j = Some h \<Longrightarrow>
   map_of (np_genesisHash (snd (failover_walk net g cfg ks p))) j = Some h"
proof (induction ks arbitrary: p)
  case (Cons k ks)
  obtain res q where pr: "Probe (net k) p k = (res, q)" by fastforce
  then have "map_of (np_genesisHash q) j = Some h"
    using genesis_cache_stable [OF Cons.prems, of "net k" k] by simp
  then show ?case
    using failover_walk_step [of net k p res q g cfg ks, OF pr] Cons.IH [of q] by auto
qed simp

lemma failover_walk_genesis:
  "failover_walk net g cfg ks p = (Some j, p') \<Longrightarrow>
   \<exists>h. map_of (np_genesisHash p') j = Some h \<and> (g = [] \<or> h = g)"
proof (induction ks arbitrary: p)
  case (Cons k ks)
  obtain res q where pr: "Probe (net k) p k = (res, q)" by fastforce
  show ?case
    using Cons pr Probe_genesis [of "net k" p k _ q]
    by (cases res) (auto split: if_splits)
qed simp

lemma selectFailoverTarget_find:
  "fst (selectFailoverTarget net p i g cfg) = find (fit net g cfg p) [Suc i..<Len p]"
  by (simp add: selectFailoverTarget_def failover_walk_find)

lemma find_upt_first:
  "find P [m..<n] = Some j \<Longrightarrow> m \<le> j \<and> j < n \<and> P j \<and> (\<forall>k. m \<le> k \<and> k < j \<longrightarrow> \<not> P k)"
proof -
  assume "find P [m..<n] = Some j"
  then obtain i where "i < n - m" "P (m + i)" "j = m + i" "\<forall>k<i. \<not> P (m + k)"
    by (auto simp: find_Some_iff)
  then show ?thesis
    by auto (metis le_add_diff_inverse less_diff_conv2 nat_add_left_cancel_less)
qed

subsection \<open>Streaks\<close>

lemma streak_set_streak [simp]: "streak (set_streak i st s) k = (if k = i then st else streak s k)"
  by (simp add: streak_def set_streak_def)

lemma streak_reset [simp]: "streak (reset_streaks s) k = no_streak"
proof -
  have "map_of (map (\<lambda>(k, _). (k, no_streak)) xs) k = Some st \<Longrightarrow> st = no_streak"
    for xs :: "(nat \<times> nodeStreaks) list" and st
    by (induction xs) (auto split: if_splits)
  from this [of "sy_streaks s"] show ?thesis
    by (auto simp: streak_def reset_streaks_def split: option.splits)
qed

lemma set_streak_fields [simp]:
  "sy_activeIdx (set_streak i st s) = sy_activeIdx s"
  "sy_chainIdentifier (set_streak i st s) = sy_chainIdentifier s"
  "sy_failedOverAt (set_streak i st s) = sy_failedOverAt s"
  by (simp_all add: set_streak_def)

lemma switch_to_fields [simp]:
  "sy_activeIdx (switch_to i t s) = i"
  "sy_chainIdentifier (switch_to i t s) = sy_chainIdentifier s"
  "sy_failedOverAt (switch_to i t s) = t"
  "streak (switch_to i t s) k = no_streak"
  by (simp_all add: switch_to_def) (simp_all add: reset_streaks_def)

lemma map_state_fields [simp]:
  "w_state (map_state f w) = f (w_state w)" "w_pool (map_state f w) = w_pool w"
  "w_client (map_state f w) = w_client w" "w_db (map_state f w) = w_db w"
  "w_lastProgressAt (map_state f w) = w_lastProgressAt w"
  by (simp_all add: map_state_def)

lemma signal_fields [simp]:
  "w_state (signalSubscriptionRestart w) = w_state w" "w_pool (signalSubscriptionRestart w) = w_pool w"
  "w_client (signalSubscriptionRestart w) = w_client w" "w_db (signalSubscriptionRestart w) = w_db w"
  by (simp_all add: signalSubscriptionRestart_def)

subsection \<open>The pool only learns\<close>

definition pool_ext :: "NodePool \<Rightarrow> NodePool \<Rightarrow> bool" where
  "pool_ext p q \<longleftrightarrow> np_entries q = np_entries p \<and>
     (\<forall>k h. map_of (np_genesisHash p) k = Some h \<longrightarrow> map_of (np_genesisHash q) k = Some h)"

lemma pool_ext_refl [simp]: "pool_ext p p"
  by (simp add: pool_ext_def)

lemma pool_ext_trans: "pool_ext p q \<Longrightarrow> pool_ext q r \<Longrightarrow> pool_ext p r"
  by (simp add: pool_ext_def)

lemma pool_ext_Probe: "Probe net p k = (res, q) \<Longrightarrow> pool_ext p q"
  using np_entries_Probe [of net p k] genesis_cache_stable [of p _ _ net k] by (simp add: pool_ext_def)

lemma pool_ext_failover_walk: "failover_walk net g cfg ks p = (res, q) \<Longrightarrow> pool_ext p q"
  using failover_walk_entries [of net g cfg ks p] failover_walk_cache [of p _ _ net g cfg ks]
  by (simp add: pool_ext_def)

lemma pool_ext_Entry: "pool_ext p q \<Longrightarrow> Entry q = Entry p"
  by (auto simp: pool_ext_def Entry_def Len_def)

lemma pool_ext_Len: "pool_ext p q \<Longrightarrow> Len q = Len p"
  by (simp add: pool_ext_def Len_def)

lemma Entry_lt: "idx < Len p \<longleftrightarrow> (\<exists>e. Entry p idx = Some e)"
  by (simp add: Entry_def)

definition watch_ok :: "watch \<Rightarrow> bool" where
  "watch_ok w \<longleftrightarrow>
     map_option ne_URL (Entry (w_pool w) (sy_activeIdx (w_state w))) = Some (w_client w)"

text \<open>The client was moved to node \<open>j\<close>, which the pool knows to be on chain \<open>g\<close>.\<close>

definition moved :: "watch \<Rightarrow> watch \<Rightarrow> nat \<Rightarrow> int option \<Rightarrow> (string \<Rightarrow> bool) \<Rightarrow> bool" where
  "moved w w' j t chain_ok \<longleftrightarrow>
     (\<exists>e h. Entry (w_pool w) j = Some e \<and> w_client w' = ne_URL e \<and>
        map_of (np_genesisHash (w_pool w')) j = Some h \<and> chain_ok h) \<and>
     sy_activeIdx (w_state w') = j \<and> sy_failedOverAt (w_state w') = t \<and>
     (\<forall>k. streak (w_state w') k = no_streak)"

text \<open>What the two walks may change besides the active node.\<close>

definition steady :: "watch \<Rightarrow> watch \<Rightarrow> bool" where
  "steady w w' \<longleftrightarrow> pool_ext (w_pool w) (w_pool w') \<and> w_db w' = w_db w \<and>
     sy_chainIdentifier (w_state w') = sy_chainIdentifier (w_state w)"

lemma steady_refl [simp]: "steady w w"
  by (simp add: steady_def)

lemma steady_trans: "steady w w' \<Longrightarrow> steady w' w'' \<Longrightarrow> steady w w''"
  using pool_ext_trans by (auto simp: steady_def)

lemma fail_over_cases:
  obtains (stays) w' where "fail_over env cCfg i g w = Some w'" "steady w w'"
      "w_state w' = w_state w" "w_client w' = w_client w"
      "case find (fit (te_net env) g cCfg (w_pool w)) [Suc i..<Len (w_pool w)] of
         None \<Rightarrow> True | Some j \<Rightarrow> (case Entry (w_pool w) j of None \<Rightarrow> False | Some e \<Rightarrow> te_dial_fails env (ne_URL e))"
  | (moves) w' j where "fail_over env cCfg i g w = Some w'" "steady w w'"
      "find (fit (te_net env) g cCfg (w_pool w)) [Suc i..<Len (w_pool w)] = Some j"
      "moved w w' j (Some (te_now env div second)) (\<lambda>h. g = [] \<or> h = g)"
proof -
  obtain target q where sel: "selectFailoverTarget (te_net env) (w_pool w) i g cCfg = (target, q)"
    by fastforce
  have ext: "pool_ext (w_pool w) q"
    using sel pool_ext_failover_walk by (simp add: selectFailoverTarget_def)
  have find: "find (fit (te_net env) g cCfg (w_pool w)) [Suc i..<Len (w_pool w)] = target"
    using selectFailoverTarget_find [of "te_net env" "w_pool w" i g cCfg] sel by simp
  show thesis
  proof (cases target)
    case None
    then have "fail_over env cCfg i g w = Some (w\<lparr> w_pool := q \<rparr>)"
      by (simp add: fail_over_def sel)
    then show thesis
      by (rule stays) (use None find ext in \<open>simp_all add: steady_def\<close>)
  next
    case (Some j)
    have "j < Len (w_pool w)"
      using find_upt_first [of _ _ _ j] find Some by auto
    then obtain e where e: "Entry (w_pool w) j = Some e"
      by (auto simp: Entry_lt)
    obtain h where h: "map_of (np_genesisHash q) j = Some h" "g = [] \<or> h = g"
      using failover_walk_genesis [of "te_net env" g cCfg _ "w_pool w" j q] sel Some
      by (auto simp: selectFailoverTarget_def)
    show thesis
    proof (cases "te_dial_fails env (ne_URL e)")
      case True
      then have "fail_over env cCfg i g w = Some (w\<lparr> w_pool := q \<rparr>)"
        using Some e by (simp add: fail_over_def sel pool_ext_Entry [OF ext] swapActiveClient_def)
      then show thesis
        by (rule stays) (use Some True e find ext in \<open>simp_all add: steady_def\<close>)
    next
      case False
      then have "fail_over env cCfg i g w = Some (map_state (switch_to j (Some (te_now env div second)))
          (signalSubscriptionRestart (w\<lparr> w_pool := q, w_client := ne_URL e \<rparr>)))"
        using Some e by (simp add: fail_over_def sel pool_ext_Entry [OF ext] swapActiveClient_def)
      then show thesis
        by (rule moves) (use Some e h find ext in \<open>auto simp: steady_def moved_def\<close>)
    qed
  qed
qed

subsection \<open>The failback walk\<close>

definition fit_back :: "tick_env \<Rightarrow> string \<Rightarrow> classifyConfig \<Rightarrow> NodePool \<Rightarrow> nat \<Rightarrow> bool" where
  "fit_back env g cfg p k =
     (case fst (Probe (te_net env k) p k) of
        Inl _ \<Rightarrow> False
      | Inr r \<Rightarrow> pr_GenesisHash r = g \<and> node_lag r \<le> cc_NodeDriftThreshold cfg)"

lemma fit_back_other: "idx \<noteq> k \<Longrightarrow> fit_back env g cfg (snd (Probe n p idx)) k = fit_back env g cfg p k"
  by (simp add: fit_back_def Probe_fst_other)

text \<open>The active node stays, and only the healthy counts of the candidates may change.\<close>

definition same_active :: "nat list \<Rightarrow> watch \<Rightarrow> watch \<Rightarrow> bool" where
  "same_active ks w w' \<longleftrightarrow> sy_activeIdx (w_state w') = sy_activeIdx (w_state w) \<and>
     w_client w' = w_client w \<and> sy_failedOverAt (w_state w') = sy_failedOverAt (w_state w) \<and>
     (\<forall>k. k \<notin> set ks \<longrightarrow> streak (w_state w') k = streak (w_state w) k) \<and>
     (\<forall>k. ns_unhealthy (streak (w_state w') k) = ns_unhealthy (streak (w_state w) k))"

lemma same_active_refl [simp]: "same_active ks w w"
  by (simp add: same_active_def)

lemma same_active_trans: "same_active [k] w w' \<Longrightarrow> same_active ks w' w'' \<Longrightarrow> same_active (k # ks) w w''"
  by (auto simp: same_active_def)

text \<open>One candidate: skipped, counted, or picked.\<close>

lemma fail_back_step:
  obtains (skip) w1 where "fail_back env cCfg rCfg g (k # ks) w = fail_back env cCfg rCfg g ks w1"
      "steady w w1" "same_active [k] w w1" "w_pool w1 = snd (Probe (te_net env k) (w_pool w) k)"
  | (stop) w1 where "fail_back env cCfg rCfg g (k # ks) w = Some w1" "steady w w1" "same_active [k] w w1"
  | (pick) w1 where "fail_back env cCfg rCfg g (k # ks) w = Some w1" "steady w w1"
      "fit_back env g cCfg (w_pool w) k"
      "rx_FailbackStreak rCfg \<le> ns_healthy (streak (w_state w) k) + 1"
      "moved w w1 k None (\<lambda>h. h = g)"
proof -
  obtain res q where pr: "Probe (te_net env k) (w_pool w) k = (res, q)" by fastforce
  have ext: "pool_ext (w_pool w) q" using pr by (rule pool_ext_Probe)
  let ?st = "streak (w_state w) k"
  show thesis
  proof (cases "fit_back env g cCfg (w_pool w) k")
    case False
    let ?w1 = "map_state (\<lambda>s. set_streak k ((streak s k)\<lparr> ns_healthy := 0 \<rparr>) s) (w\<lparr> w_pool := q \<rparr>)"
    have "fail_back env cCfg rCfg g (k # ks) w = fail_back env cCfg rCfg g ks ?w1"
      using False pr by (cases res) (auto simp: fit_back_def not_less)
    then show thesis
      by (rule skip) (use ext pr in \<open>auto simp: steady_def same_active_def\<close>)
  next
    case True
    then obtain r where r: "res = Inr r" "pr_GenesisHash r = g"
        "\<not> node_lag r > cc_NodeDriftThreshold cCfg"
      using pr by (cases res) (auto simp: fit_back_def)
    let ?s = "set_streak k (?st\<lparr> ns_healthy := ns_healthy ?st + 1 \<rparr>) (w_state w)"
    let ?w1 = "map_state (\<lambda>_. ?s) (w\<lparr> w_pool := q \<rparr>)"
    show thesis
    proof (cases "rx_FailbackStreak rCfg \<le> ns_healthy ?st + 1")
      case False
      then have "fail_back env cCfg rCfg g (k # ks) w = fail_back env cCfg rCfg g ks ?w1"
        using r pr by (simp add: selectFailback_def Let_def)
      then show thesis
        by (rule skip) (use ext pr in \<open>auto simp: steady_def same_active_def\<close>)
    next
      case full: True
      obtain e where e: "Entry q k = Some e"
        using Probe_in_range [of "te_net env k" "w_pool w" k r] pr r
        by (auto simp: pool_ext_Entry [OF ext] Entry_lt)
      show thesis
      proof (cases "te_dial_fails env (ne_URL e)")
        case True
        then have "fail_back env cCfg rCfg g (k # ks) w = Some ?w1"
          using r pr full e by (simp add: selectFailback_def Let_def swapActiveClient_def)
        then show thesis
          by (rule stop) (use ext in \<open>auto simp: steady_def same_active_def\<close>)
      next
        case False
        then have "fail_back env cCfg rCfg g (k # ks) w = Some (map_state (switch_to k None)
            (signalSubscriptionRestart (?w1\<lparr> w_client := ne_URL e \<rparr>)))"
          using r pr full e by (simp add: selectFailback_def Let_def swapActiveClient_def)
        then show thesis
          by (rule pick) (use True full ext e r Probe_genesis [of _ _ k r q] pr in
              \<open>auto simp: steady_def moved_def pool_ext_Entry [OF ext]\<close>)
      qed
    qed
  qed
qed

lemma moved_steady:
  assumes "steady w w1" "moved w1 w' j t P"
  shows "moved w w' j t P"
  using assms pool_ext_Entry by (auto simp: moved_def steady_def)

lemma fail_back_cases:
  assumes "distinct ks"
  obtains (stays) w' where "fail_back env cCfg rCfg g ks w = Some w'" "steady w w'" "same_active ks w w'"
  | (moves) w' j where "fail_back env cCfg rCfg g ks w = Some w'" "steady w w'" "j \<in> set ks"
      "fit_back env g cCfg (w_pool w) j"
      "rx_FailbackStreak rCfg \<le> ns_healthy (streak (w_state w) j) + 1"
      "moved w w' j None (\<lambda>h. h = g)"
  using assms
proof (induction ks arbitrary: w thesis)
  case Nil
  then show ?case by simp
next
  case (Cons k ks)
  note stays = Cons.prems(1) and moves = Cons.prems(2)
  show ?case
  proof (rule fail_back_step [of env cCfg rCfg g k ks w])
    fix w1
    assume eq: "fail_back env cCfg rCfg g (k # ks) w = fail_back env cCfg rCfg g ks w1"
      and s: "steady w w1" and a: "same_active [k] w w1"
      and q: "w_pool w1 = snd (Probe (te_net env k) (w_pool w) k)"
    show thesis
    proof (rule Cons.IH [of w1])
      fix w'
      assume "fail_back env cCfg rCfg g ks w1 = Some w'" "steady w1 w'" "same_active ks w1 w'"
      then show thesis
        using stays [of w'] eq steady_trans [OF s] same_active_trans [OF a] by simp
    next
      fix w' j
      assume j: "j \<in> set ks" and f: "fail_back env cCfg rCfg g ks w1 = Some w'" "steady w1 w'"
        "fit_back env g cCfg (w_pool w1) j" "moved w1 w' j None (\<lambda>h. h = g)"
        "rx_FailbackStreak rCfg \<le> ns_healthy (streak (w_state w1) j) + 1"
      have "k \<noteq> j" using j Cons.prems(3) by auto
      with f(3) q have "fit_back env g cCfg (w_pool w) j" by (simp add: fit_back_other)
      moreover have "streak (w_state w1) j = streak (w_state w) j"
        using a \<open>k \<noteq> j\<close> by (auto simp: same_active_def)
      ultimately show thesis
        using moves [of w' j] eq f j steady_trans [OF s] moved_steady [OF s] by simp
    qed (use Cons.prems(3) in simp)
  next
    fix w1
    assume "fail_back env cCfg rCfg g (k # ks) w = Some w1" "steady w w1" "same_active [k] w w1"
    then show thesis using stays [of w1] by (auto simp: same_active_def)
  next
    fix w1
    assume "fail_back env cCfg rCfg g (k # ks) w = Some w1" "steady w w1"
      "fit_back env g cCfg (w_pool w) k"
      "rx_FailbackStreak rCfg \<le> ns_healthy (streak (w_state w) k) + 1" "moved w w1 k None (\<lambda>h. h = g)"
    then show thesis using moves [of w1 k] by simp
  qed
qed

subsection \<open>One tick\<close>

definition blames_node :: "syncClass \<Rightarrow> bool" where
  "blames_node c \<longleftrightarrow> c = classNodeLagging \<or> c = classStalled \<or> c = classProbeFailed"

lemma observe_facts:
  assumes "observe rCfg res h c s = (s1, intent)"
  shows "sy_activeIdx s1 = sy_activeIdx s" "sy_failedOverAt s1 = sy_failedOverAt s"
    and "sy_chainIdentifier s1 = (if sy_chainIdentifier s = [] then
        (case res of Inl _ \<Rightarrow> [] | Inr p \<Rightarrow> pr_GenesisHash p) else sy_chainIdentifier s)"
    and "k \<noteq> sy_activeIdx s \<Longrightarrow> streak s1 k = streak s k"
    and "ns_unhealthy (streak s1 (sy_activeIdx s)) =
      (if blames_node c then ns_unhealthy (streak s (sy_activeIdx s)) + 1
       else if c = classSynced then 0 else ns_unhealthy (streak s (sy_activeIdx s)))"
    and "ri_failoverIdx intent \<noteq> None \<longleftrightarrow> blames_node c \<and>
      rx_UnhealthyStreak rCfg \<le> ns_unhealthy (streak s (sy_activeIdx s)) + 1"
    and "ri_signalRestart intent \<longleftrightarrow> c = classIndexerLagging \<or> c = classStalled"
proof -
  have up: "streak (x\<lparr> sy_chainIdentifier := a, sy_lastClass := b, sy_lastDrift := d \<rparr>) = streak x"
    for x a b d by (rule ext) (simp add: streak_def)
  show "sy_activeIdx s1 = sy_activeIdx s" "sy_failedOverAt s1 = sy_failedOverAt s"
    "sy_chainIdentifier s1 = (if sy_chainIdentifier s = [] then
        (case res of Inl _ \<Rightarrow> [] | Inr p \<Rightarrow> pr_GenesisHash p) else sy_chainIdentifier s)"
    using assms by (cases c; cases res; auto simp: observe_def react_def Let_def)+
  show "k \<noteq> sy_activeIdx s \<Longrightarrow> streak s1 k = streak s k"
    using assms by (cases c) (auto simp: observe_def react_def Let_def up)
  show "ns_unhealthy (streak s1 (sy_activeIdx s)) =
      (if blames_node c then ns_unhealthy (streak s (sy_activeIdx s)) + 1
       else if c = classSynced then 0 else ns_unhealthy (streak s (sy_activeIdx s)))"
    using assms by (cases c) (auto simp: observe_def react_def Let_def up blames_node_def)
  show "ri_failoverIdx intent \<noteq> None \<longleftrightarrow> blames_node c \<and>
      rx_UnhealthyStreak rCfg \<le> ns_unhealthy (streak s (sy_activeIdx s)) + 1"
    using assms by (cases c) (auto simp: observe_def react_def Let_def blames_node_def split: if_splits)
  show "ri_signalRestart intent \<longleftrightarrow> c = classIndexerLagging \<or> c = classStalled"
    using assms by (cases c) (auto simp: observe_def react_def Let_def)
qed

lemma publish_cases:
  assumes "i < Len (w_pool w)"
  obtains d where "publishSyncStatus env probe h c i w = Some (w\<lparr> w_db := d \<rparr>)"
proof -
  obtain e where "Entry (w_pool w) i = Some e" using assms by (auto simp: Entry_lt)
  then have "\<exists>d. publishSyncStatus env probe h c i w = Some (w\<lparr> w_db := d \<rparr>)"
    by (auto simp: publishSyncStatus_def Let_def SyncStatus_Upsert_def intro: exI [of _ "w_db w"])
  then show thesis using that by auto
qed

definition signal_if :: "bool \<Rightarrow> watch \<Rightarrow> watch" where
  "signal_if b w = (if b then signalSubscriptionRestart w else w)"

lemma signal_if_fields [simp]:
  "w_state (signal_if b w) = w_state w" "w_pool (signal_if b w) = w_pool w"
  "w_client (signal_if b w) = w_client w"
  by (simp_all add: signal_if_def)

text \<open>A tick that reads the height: the walks run on the state after the observation.\<close>

lemma tick_cases:
  assumes i: "sy_activeIdx (w_state w) = i" "i < Len (w_pool w)"
    and r: "\<not> te_read_fails env"
    and p: "Probe (te_net env i) (w_pool w) i = (res, q)"
    and o: "observe rCfg res (int64 (GetLatestHeight (w_db w))) (tick_class env cCfg w) (w_state w) =
      (s1, intent)"
  obtains (stays) w2 d where "runWatchdogTick cCfg rCfg env w =
        Some ((signal_if (ri_signalRestart intent) w2)\<lparr> w_db := d \<rparr>)"
      "steady (w\<lparr> w_pool := q, w_state := s1 \<rparr>) w2"
      "same_active [0..<i] (w\<lparr> w_pool := q, w_state := s1 \<rparr>) w2"
      "ri_failoverIdx intent \<noteq> None \<Longrightarrow>
        (case find (fit (te_net env) (sy_chainIdentifier s1) cCfg q) [Suc i..<Len q] of
         None \<Rightarrow> True
       | Some j \<Rightarrow> (case Entry q j of None \<Rightarrow> False | Some e \<Rightarrow> te_dial_fails env (ne_URL e)))"
  | (over) w2 d j where "runWatchdogTick cCfg rCfg env w =
        Some ((signal_if (ri_signalRestart intent) w2)\<lparr> w_db := d \<rparr>)"
      "steady (w\<lparr> w_pool := q, w_state := s1 \<rparr>) w2" "ri_failoverIdx intent \<noteq> None"
      "find (fit (te_net env) (sy_chainIdentifier s1) cCfg q) [Suc i..<Len q] = Some j"
      "moved (w\<lparr> w_pool := q, w_state := s1 \<rparr>) w2 j (Some (te_now env div second))
         (\<lambda>h. sy_chainIdentifier s1 = [] \<or> h = sy_chainIdentifier s1)"
  | (home) w2 d j where "runWatchdogTick cCfg rCfg env w =
        Some ((signal_if (ri_signalRestart intent) w2)\<lparr> w_db := d \<rparr>)"
      "steady (w\<lparr> w_pool := q, w_state := s1 \<rparr>) w2" "ri_failoverIdx intent = None"
      "j < i" "\<not> blames_node (tick_class env cCfg w)"
      "fit_back env (sy_chainIdentifier s1) cCfg q j"
      "rx_FailbackStreak rCfg \<le> ns_healthy (streak s1 j) + 1"
      "moved (w\<lparr> w_pool := q, w_state := s1 \<rparr>) w2 j None (\<lambda>h. h = sy_chainIdentifier s1)"
proof -
  let ?w1 = "w\<lparr> w_pool := q, w_state := s1 \<rparr>" and ?g = "sy_chainIdentifier s1"
  let ?probe = "case res of Inl _ \<Rightarrow> zero_probe | Inr p \<Rightarrow> p"
  let ?c = "tick_class env cCfg w"
  let ?pub = "\<lambda>w2. publishSyncStatus env ?probe (int64 (GetLatestHeight (w_db w))) ?c i
      (signal_if (ri_signalRestart intent) w2)"
  have fin: thesis if "steady ?w1 w2" "runWatchdogTick cCfg rCfg env w = ?pub w2"
    and "\<And>d. runWatchdogTick cCfg rCfg env w =
      Some ((signal_if (ri_signalRestart intent) w2)\<lparr> w_db := d \<rparr>) \<Longrightarrow> thesis" for w2
  proof -
    have "pool_ext (w_pool w) (w_pool w2)"
      using that(1) pool_ext_trans [OF pool_ext_Probe [OF p]] by (simp add: steady_def)
    then have "i < Len (w_pool (signal_if (ri_signalRestart intent) w2))"
      using i by (simp add: pool_ext_Len)
    then obtain d where "?pub w2 = Some ((signal_if (ri_signalRestart intent) w2)\<lparr> w_db := d \<rparr>)"
      by (rule publish_cases)
    then show thesis using that(2,3) by simp
  qed
  show thesis
  proof (cases "ri_failoverIdx intent = None")
    case False
    then have run: "runWatchdogTick cCfg rCfg env w = ?pub w2"
      if "fail_over env cCfg i ?g ?w1 = Some w2" for w2
      using that i r p o by (simp add: runWatchdogTick_def canAttemptFailback_def signal_if_def Let_def)
    show thesis
    proof (rule fail_over_cases [of env cCfg i ?g ?w1], goal_cases)
      case (1 w')
      show thesis
        by (rule fin [OF 1(2) run [OF 1(1)]], rule stays [where ?w2.0 = w'])
          (use 1 in \<open>simp_all add: same_active_def cong: option.case_cong\<close>)
    next
      case (2 w' j)
      show thesis
        by (rule fin [OF 2(2) run [OF 2(1)]], rule over [where ?w2.0 = w' and j = j]) (use 2 False in simp_all)
    qed
  next
    case None: True
    show thesis
    proof (cases "canAttemptFailback ?c i None")
      case False
      then have run: "runWatchdogTick cCfg rCfg env w = ?pub ?w1"
        using None i r p o by (simp add: runWatchdogTick_def signal_if_def Let_def)
      show thesis
        by (rule fin [OF steady_refl run], rule stays [where ?w2.0 = ?w1]) (use None in simp_all)
    next
      case can: True
      then have nb: "\<not> blames_node ?c"
        by (auto simp: canAttemptFailback_def blames_node_def split: if_splits)
      have run: "runWatchdogTick cCfg rCfg env w = ?pub w2"
        if "fail_back env cCfg rCfg ?g [0..<i] ?w1 = Some w2" for w2
        using that None can i r p o by (simp add: runWatchdogTick_def signal_if_def Let_def)
      show thesis
      proof (rule fail_back_cases [of "[0..<i]" env cCfg rCfg ?g ?w1], goal_cases)
        case (2 w')
        show thesis
          by (rule fin [OF 2(2) run [OF 2(1)]], rule stays [where ?w2.0 = w']) (use 2 None in simp_all)
      next
        case (3 w' j)
        show thesis
          by (rule fin [OF 3(2) run [OF 3(1)]], rule home [where ?w2.0 = w' and j = j]) (use 3 None nb in simp_all)
      qed simp
    qed
  qed
qed

end
