(* ===== verification/Watchdog_Props.thy ===== *)
theory Watchdog_Props
  imports Watchdog_Facts
begin

text \<open>
  What the watchdog guarantees: it never panics and always knows which client is active, it never
  leaves the chain it started on, it moves only to nodes it has just seen healthy, it does move
  away from a dead node when it can, and what it cannot do from the last node of the list.
\<close>

subsection \<open>Reachable states\<close>

text \<open>
  The runs of the indexer as the watchdog sees them: the startup phase of \<open>main\<close> (probes of the
  primary, then the walk over the fallbacks), ticks, and the other goroutines, which change the
  database, the time of the last progress and the restart channel at any moment.
\<close>

inductive watch_reachable :: "WatchdogConfigForIndexer \<Rightarrow> NodeEntry list \<Rightarrow> watch \<Rightarrow> bool"
  for cfg entries where
  start: "entries \<noteq> [] \<Longrightarrow>
    watch_reachable cfg entries (NewIndexerWithNodes (NewNodePool entries) (ne_URL (hd entries)) t d)"
| probe: "watch_reachable cfg entries w \<Longrightarrow>
    watch_reachable cfg entries (w\<lparr> w_pool := snd (Probe net (w_pool w) idx) \<rparr>)"
| startup: "watch_reachable cfg entries w \<Longrightarrow>
    startup_fallback net dial_fails now [1..<Len (w_pool w)] w = Some (Some w') \<Longrightarrow>
    watch_reachable cfg entries w'"
| tick: "watch_reachable cfg entries w \<Longrightarrow>
    runWatchdogTick (classify_cfg cfg) (react_cfg cfg) env w = Some w' \<Longrightarrow>
    watch_reachable cfg entries w'"
| others: "watch_reachable cfg entries w \<Longrightarrow>
    watch_reachable cfg entries (w\<lparr> w_db := d, w_lastProgressAt := t, w_restart := b \<rparr>)"

inductive_cases watch_reachable_start: "watch_reachable cfg [] w"

lemma watch_okD:
  "watch_ok w \<Longrightarrow> sy_activeIdx (w_state w) < Len (w_pool w)"
  by (auto simp: watch_ok_def Entry_lt)

lemma watch_ok_pool: "watch_ok w \<Longrightarrow> pool_ext (w_pool w) q \<Longrightarrow> watch_ok (w\<lparr> w_pool := q \<rparr>)"
  by (simp add: watch_ok_def pool_ext_Entry)

lemma watch_ok_stays:
  assumes "watch_ok w" "steady w w'" "sy_activeIdx (w_state w') = sy_activeIdx (w_state w)"
    "w_client w' = w_client w"
  shows "watch_ok w'"
  using assms pool_ext_Entry [of "w_pool w" "w_pool w'"] by (simp add: watch_ok_def steady_def)

lemma watch_ok_moved: "steady w w' \<Longrightarrow> moved w w' j t P \<Longrightarrow> watch_ok w'"
  by (auto simp: watch_ok_def steady_def moved_def pool_ext_Entry)

definition on_chain :: "watch \<Rightarrow> nat \<Rightarrow> bool" where
  "on_chain w j \<longleftrightarrow> (\<exists>h. map_of (np_genesisHash (w_pool w)) j = Some h \<and>
     (sy_chainIdentifier (w_state w) = [] \<or> h = sy_chainIdentifier (w_state w)))"

lemma tick_ok:
  assumes ok: "watch_ok w"
  obtains w' where "runWatchdogTick cCfg rCfg env w = Some w'" "watch_ok w'"
    "pool_ext (w_pool w) (w_pool w')"
    "sy_chainIdentifier (w_state w) \<noteq> [] \<Longrightarrow>
       sy_chainIdentifier (w_state w') = sy_chainIdentifier (w_state w)"
    "sy_activeIdx (w_state w') = sy_activeIdx (w_state w) \<or> on_chain w' (sy_activeIdx (w_state w'))"
proof -
  note conclude = that
  let ?i = "sy_activeIdx (w_state w)"
  obtain res q where p: "Probe (te_net env ?i) (w_pool w) ?i = (res, q)" by fastforce
  have ext: "pool_ext (w_pool w) q" using p by (rule pool_ext_Probe)
  show thesis
  proof (cases "te_read_fails env")
    case True
    then have "runWatchdogTick cCfg rCfg env w = Some (w\<lparr> w_pool := q \<rparr>)"
      using p by (simp add: runWatchdogTick_def)
    then show thesis
      by (rule that) (use ok ext watch_ok_pool in auto)
  next
    case False
    obtain s1 intent where o: "observe rCfg res (int64 (GetLatestHeight (w_db w)))
        (tick_class env cCfg w) (w_state w) = (s1, intent)" by fastforce
    note s1 = observe_facts [OF o]
    let ?w1 = "w\<lparr> w_pool := q, w_state := s1 \<rparr>"
    have ok1: "watch_ok ?w1"
      using ok s1(1) by (simp add: watch_ok_def pool_ext_Entry [OF ext])
    have chain: "sy_chainIdentifier (w_state w) \<noteq> [] \<Longrightarrow>
        sy_chainIdentifier s1 = sy_chainIdentifier (w_state w)"
      using s1(3) by simp
    have fin: thesis if "runWatchdogTick cCfg rCfg env w = Some ((signal_if b w2)\<lparr> w_db := d \<rparr>)"
      and "steady ?w1 w2" "watch_ok w2"
      and "sy_activeIdx (w_state w2) = ?i \<or> on_chain w2 (sy_activeIdx (w_state w2))" for b w2 d
      by (rule conclude [OF that(1)])
        (use that(2-) chain pool_ext_trans [OF ext, of "w_pool w2"] in
          \<open>auto simp: watch_ok_def steady_def on_chain_def\<close>)
    show thesis
    proof (rule tick_cases [OF refl watch_okD [OF ok] False p o], goal_cases)
      case (1 w2 d)
      then show thesis
        by (intro fin [OF 1(1,2)]) (use watch_ok_stays [OF ok1 1(2)] s1(1) in \<open>auto simp: same_active_def\<close>)
    next
      case (2 w2 d j)
      then show thesis
        by (intro fin [OF 2(1,2)]) (use watch_ok_moved [OF 2(2,5)] in
            \<open>auto simp: moved_def on_chain_def steady_def\<close>)
    next
      case (3 w2 d j)
      then show thesis
        by (intro fin [OF 3(1,2)]) (use watch_ok_moved [OF 3(2,8)] in
            \<open>auto simp: moved_def on_chain_def steady_def\<close>)
    qed
  qed
qed

lemma startup_ok:
  assumes "watch_ok w"
  shows "\<exists>r. startup_fallback net dial now is w = Some r \<and>
    (\<forall>w'. r = Some w' \<longrightarrow> watch_ok w' \<and> np_entries (w_pool w') = np_entries (w_pool w))"
  using assms
proof (induction "is" arbitrary: w)
  case (Cons i "is")
  obtain res q where p: "Probe (net i) (w_pool w) i = (res, q)" by fastforce
  have ext: "pool_ext (w_pool w) q" using p by (rule pool_ext_Probe)
  have skip: "watch_ok (w\<lparr> w_pool := q \<rparr>)" using Cons.prems ext watch_ok_pool by simp
  have same: "np_entries q = np_entries (w_pool w)" using ext by (simp add: pool_ext_def)
  have "startup_fallback net dial now (i # is) w =
      startup_fallback net dial now is (w\<lparr> w_pool := q \<rparr>) \<or>
    (\<exists>w1. startup_fallback net dial now (i # is) w = Some (Some w1) \<and> watch_ok w1 \<and>
       np_entries (w_pool w1) = np_entries q)"
  proof (cases res)
    case (Inr x)
    obtain e where "Entry q i = Some e"
      using Probe_in_range [of "net i" "w_pool w" i] p Inr pool_ext_Entry [OF ext] by (auto simp: Entry_lt)
    then show ?thesis
      using p Inr by (simp add: StartupSwap_def swapActiveClient_def watch_ok_def)
  qed (use p in simp)
  then show ?case
  proof
    assume "startup_fallback net dial now (i # is) w = startup_fallback net dial now is (w\<lparr> w_pool := q \<rparr>)"
    then show ?thesis using Cons.IH [OF skip] by (simp add: same del: startup_fallback.simps)
  next
    assume "\<exists>w1. startup_fallback net dial now (i # is) w = Some (Some w1) \<and> watch_ok w1 \<and>
       np_entries (w_pool w1) = np_entries q"
    then show ?thesis by (auto simp: same simp del: startup_fallback.simps)
  qed
qed simp

lemma reachable_ok: "watch_reachable cfg entries w \<Longrightarrow> watch_ok w \<and> np_entries (w_pool w) = entries"
proof (induction rule: watch_reachable.induct)
  case (start t d)
  then show ?case
    by (cases entries) (simp_all add: watch_ok_def NewIndexerWithNodes_def NewNodePool_def newSyncState_def
        Entry_def Len_def)
next
  case (probe w net idx)
  then show ?case
    using watch_ok_pool [of w] pool_ext_Probe [of net "w_pool w" idx] by (simp add: prod_eq_iff)
next
  case (startup w net dial_fails now w')
  then show ?case using startup_ok [of w net dial_fails now "[1..<Len (w_pool w)]"] by simp
next
  case (tick w env w')
  then show ?case
    using tick_ok [of w "classify_cfg cfg" "react_cfg cfg" env] by (auto simp: pool_ext_def)
next
  case (others w d t b)
  then show ?case by (simp add: watch_ok_def)
qed

subsection \<open>An example\<close>

definition ex_entries :: "NodeEntry list" where
  "ex_entries = np_entries ex_pool"

definition ex_cfg :: WatchdogConfigForIndexer where
  "ex_cfg = \<lparr> wc_Enabled = True, wc_Interval = 30 * second, wc_StallThreshold = 120 * second,
     wc_IndexerDriftThreshold = 20, wc_NodeDriftThreshold = 10, wc_UnhealthyStreak = 2,
     wc_FailbackStreak = 2 \<rparr>"

definition ex_dead :: network where
  "ex_dead = \<lparr> net_syncInfo = (\<lambda>_. Inl ''connection refused''), net_post = (\<lambda>_ _ _. Inl ''connection refused'') \<rparr>"

definition ex_up :: "int \<Rightarrow> tick_env" where
  "ex_up frontier = \<lparr> te_net = (\<lambda>_. ex_net ''g'' frontier frontier), te_now = 1000 * second,
     te_read_fails = False, te_dial_fails = (\<lambda>_. False), te_publish_fails = False \<rparr>"

definition ex_down :: "nat \<Rightarrow> tick_env" where
  "ex_down i = (ex_up 5)\<lparr> te_net := (\<lambda>k. if k = i then ex_dead else ex_net ''g'' 5 5) \<rparr>"

definition ex_w0 :: watch where
  "ex_w0 = NewIndexerWithNodes (NewNodePool ex_entries) (ne_URL (hd ex_entries)) 990 empty_db"

definition ex_tick :: "tick_env \<Rightarrow> watch \<Rightarrow> watch" where
  "ex_tick env w = the (runWatchdogTick (classify_cfg ex_cfg) (react_cfg ex_cfg) env w)"

lemma ex_reach0: "watch_reachable ex_cfg ex_entries ex_w0"
  unfolding ex_w0_def by (rule watch_reachable.start) (simp add: ex_entries_def ex_pool_def NewNodePool_def)

lemma ex_tick:
  assumes "watch_reachable ex_cfg ex_entries w"
  shows "runWatchdogTick (classify_cfg ex_cfg) (react_cfg ex_cfg) env w = Some (ex_tick env w)"
    and "watch_reachable ex_cfg ex_entries (ex_tick env w)"
proof -
  have ok: "watch_ok w" using reachable_ok [OF assms] by simp
  obtain w' where "runWatchdogTick (classify_cfg ex_cfg) (react_cfg ex_cfg) env w = Some w'"
    using tick_ok [OF ok] .
  then show t: "runWatchdogTick (classify_cfg ex_cfg) (react_cfg ex_cfg) env w = Some (ex_tick env w)"
    by (simp add: ex_tick_def)
  show "watch_reachable ex_cfg ex_entries (ex_tick env w)"
    using assms t by (rule watch_reachable.tick)
qed

text \<open>The chain is recorded, then the primary dies for two ticks.\<close>

definition ex_w1 :: watch where
  "ex_w1 = ex_tick (ex_up 5) ex_w0"

definition ex_w2 :: watch where
  "ex_w2 = ex_tick (ex_down 0) ex_w1"

definition ex_w3 :: watch where
  "ex_w3 = ex_tick (ex_down 0) ex_w2"

lemma ex_reach:
  "watch_reachable ex_cfg ex_entries ex_w1" "watch_reachable ex_cfg ex_entries ex_w2"
  "watch_reachable ex_cfg ex_entries ex_w3"
  using ex_tick(2) ex_reach0 by (simp_all add: ex_w1_def ex_w2_def ex_w3_def)

text \<open>
  C11. The watchdog never panics and never loses track of its client: in every reachable state the
  active index is inside the node list, the active client was built from that node's URL, and the
  next tick, whatever it observes, completes and leads to such a state again.
\<close>

theorem watchdog_safe:
  assumes "watch_reachable cfg entries w"
  shows "sy_activeIdx (w_state w) < length entries \<and>
    w_client w = ne_URL (entries ! sy_activeIdx (w_state w)) \<and>
    (\<exists>w'. runWatchdogTick (classify_cfg cfg) (react_cfg cfg) env w = Some w' \<and>
       sy_activeIdx (w_state w') < length entries \<and>
       w_client w' = ne_URL (entries ! sy_activeIdx (w_state w')))"
proof -
  have ok: "watch_ok w" and e: "np_entries (w_pool w) = entries"
    using reachable_ok [OF assms] by simp_all
  obtain w' where w': "runWatchdogTick (classify_cfg cfg) (react_cfg cfg) env w = Some w'"
    using tick_ok [OF ok] by metis
  have "watch_ok w'" "np_entries (w_pool w') = entries"
    using reachable_ok [OF watch_reachable.tick [OF assms w']] by simp_all
  with ok e w' show ?thesis
    by (auto simp: watch_ok_def Entry_def Len_def split: if_splits)
qed

theorem watchdog_safe_witness: "w_client ex_w3 = ''wss://b:1''"
proof -
  have "sy_activeIdx (w_state ex_w3) = 1" by code_simp
  then show ?thesis
    using watchdog_safe [OF ex_reach(3)] by (simp add: ex_entries_def ex_pool_def NewNodePool_def)
qed

subsection \<open>The chain\<close>

lemma loop_chain:
  assumes "runSyncWatchdogLoop cfg envs w = Some w'" "watch_ok w"
    and "sy_chainIdentifier (w_state w) \<noteq> []"
  shows "sy_chainIdentifier (w_state w') = sy_chainIdentifier (w_state w) \<and>
    (sy_activeIdx (w_state w') = sy_activeIdx (w_state w) \<or>
     map_of (np_genesisHash (w_pool w')) (sy_activeIdx (w_state w')) = Some (sy_chainIdentifier (w_state w)))
    \<and> pool_ext (w_pool w) (w_pool w')"
  using assms
proof (induction envs arbitrary: w)
  case (Cons env envs)
  obtain w1 where t: "runWatchdogTick (classify_cfg cfg) (react_cfg cfg) env w = Some w1"
    and ok: "watch_ok w1" and ext: "pool_ext (w_pool w) (w_pool w1)"
    and chain: "sy_chainIdentifier (w_state w1) = sy_chainIdentifier (w_state w)"
    and idx: "sy_activeIdx (w_state w1) = sy_activeIdx (w_state w) \<or>
      on_chain w1 (sy_activeIdx (w_state w1))"
    using tick_ok [OF Cons.prems(2)] Cons.prems(3) by metis
  have "runSyncWatchdogLoop cfg envs w1 = Some w'"
    using Cons.prems(1) t by simp
  note ih = Cons.IH [OF this ok, unfolded chain, OF Cons.prems(3)]
  have "sy_activeIdx (w_state w1) = sy_activeIdx (w_state w) \<or>
     map_of (np_genesisHash (w_pool w')) (sy_activeIdx (w_state w1)) = Some (sy_chainIdentifier (w_state w))"
    using idx ih Cons.prems(3) chain by (auto simp: on_chain_def pool_ext_def)
  then show ?case
    using ih pool_ext_trans [OF ext] by auto
qed simp

text \<open>
  The watchdog stays on its chain. Once the genesis hash of a chain is recorded, no number of
  ticks changes it, and whenever the active node is a different one afterwards, the genesis hash
  the pool holds for that node is the recorded one.
\<close>

theorem chain_never_changes:
  assumes "watch_reachable cfg entries w" "sy_chainIdentifier (w_state w) \<noteq> []"
    and "runSyncWatchdogLoop cfg envs w = Some w'"
  shows "sy_chainIdentifier (w_state w') = sy_chainIdentifier (w_state w) \<and>
    (sy_activeIdx (w_state w') \<noteq> sy_activeIdx (w_state w) \<longrightarrow>
     map_of (np_genesisHash (w_pool w')) (sy_activeIdx (w_state w')) =
       Some (sy_chainIdentifier (w_state w)))"
  using loop_chain [OF assms(3)] reachable_ok [OF assms(1)] assms(2) by auto


theorem chain_never_changes_witness:
  "sy_activeIdx (w_state ex_w3) \<noteq> sy_activeIdx (w_state ex_w1) \<and>
   map_of (np_genesisHash (w_pool ex_w3)) (sy_activeIdx (w_state ex_w3)) = Some ''g''"
proof -
  have 1: "sy_chainIdentifier (w_state ex_w1) = ''g''" by code_simp
  have 2: "sy_activeIdx (w_state ex_w3) \<noteq> sy_activeIdx (w_state ex_w1)" by code_simp
  have "runSyncWatchdogLoop ex_cfg [ex_down 0, ex_down 0] ex_w1 = Some ex_w3"
    using ex_tick(1) ex_reach by (simp add: ex_w3_def ex_w2_def)
  from chain_never_changes [OF ex_reach(1) _ this] 1 2 show ?thesis by simp
qed

subsection \<open>When the active node changes\<close>

lemma fit_after_probe:
  assumes "Probe net p i = (res, q)"
  shows "i < j \<Longrightarrow> fit nets g cfg q j = fit nets g cfg p j"
    and "j < i \<Longrightarrow> fit_back env g cfg q j = fit_back env g cfg p j"
    and "find (fit nets g cfg q) [Suc i..<n] = find (fit nets g cfg p) [Suc i..<n]"
proof -
  show fwd: "i < j \<Longrightarrow> fit nets g cfg q j = fit nets g cfg p j" for j
    using fit_other [of i j nets g cfg net p] assms by simp
  show "j < i \<Longrightarrow> fit_back env g cfg q j = fit_back env g cfg p j"
    using fit_back_other [of i j env g cfg net p] assms by simp
  show "find (fit nets g cfg q) [Suc i..<n] = find (fit nets g cfg p) [Suc i..<n]"
    by (rule find_cong) (simp_all add: fwd)
qed

text \<open>
  C12. The active node changes only for a reason. After a tick either it is unchanged, or it is the
  first node further down the list that answered this tick's probe, is within the drift
  threshold of its target and is on the recorded chain, and the old node's unhealthy streak
  reached the limit with a class that blames the node; or it is a node higher up that is at head
  and on the chain, whose healthy streak reached the failback limit, while the class does not
  blame the active node. After either move every streak is zero.
\<close>

theorem tick_moves:
  assumes "watch_reachable cfg entries w"
    and "runWatchdogTick (classify_cfg cfg) (react_cfg cfg) env w = Some w'"
    and "sy_activeIdx (w_state w) = i" "sy_activeIdx (w_state w') = j" "i \<noteq> j"
  shows "(\<forall>k. streak (w_state w') k = no_streak) \<and>
    (i < j \<and> blames_node (tick_class env (classify_cfg cfg) w) \<and>
       wc_UnhealthyStreak cfg \<le> ns_unhealthy (streak (w_state w) i) + 1 \<and>
       fit (te_net env) (sy_chainIdentifier (w_state w')) (classify_cfg cfg) (w_pool w) j \<and>
       (\<forall>k. i < k \<and> k < j \<longrightarrow>
          \<not> fit (te_net env) (sy_chainIdentifier (w_state w')) (classify_cfg cfg) (w_pool w) k)
     \<or> j < i \<and> \<not> blames_node (tick_class env (classify_cfg cfg) w) \<and>
       wc_FailbackStreak cfg \<le> ns_healthy (streak (w_state w) j) + 1 \<and>
       fit_back env (sy_chainIdentifier (w_state w')) (classify_cfg cfg) (w_pool w) j)"
proof -
  have ok: "watch_ok w" using reachable_ok [OF assms(1)] by simp
  obtain res q where p: "Probe (te_net env i) (w_pool w) i = (res, q)" by fastforce
  have r: "\<not> te_read_fails env"
    using assms(2-5) by (auto simp: runWatchdogTick_def split: prod.splits)
  obtain s1 intent where o: "observe (react_cfg cfg) res (int64 (GetLatestHeight (w_db w)))
      (tick_class env (classify_cfg cfg) w) (w_state w) = (s1, intent)" by fastforce
  note s1 = observe_facts [OF o]
  have lt: "i < Len (w_pool w)" using watch_okD [OF ok] assms(3) by simp
  show ?thesis
  proof (rule tick_cases [OF assms(3) lt r p o], goal_cases)
    case (1 w2 d)
    then show ?thesis using assms s1(1) by (auto simp: same_active_def)
  next
    case (2 w2 d j')
    then have w': "w' = (signal_if (ri_signalRestart intent) w2)\<lparr> w_db := d \<rparr>" and "j' = j"
      using assms(2,4) by (auto simp: moved_def)
    moreover have "sy_chainIdentifier (w_state w2) = sy_chainIdentifier s1"
      using 2(2) by (simp add: steady_def)
    ultimately show ?thesis
      using 2 s1(6) assms(3) find_upt_first [OF 2(4)] fit_after_probe [OF p]
      by (auto simp: moved_def react_cfg_def)
  next
    case (3 w2 d j')
    then have w': "w' = (signal_if (ri_signalRestart intent) w2)\<lparr> w_db := d \<rparr>" and "j' = j"
      using assms(2,4) by (auto simp: moved_def)
    moreover have "sy_chainIdentifier (w_state w2) = sy_chainIdentifier s1"
      using 3(2) by (simp add: steady_def)
    moreover have "streak s1 j = streak (w_state w) j"
      using s1(4) assms(3,5) by simp
    ultimately show ?thesis
      using 3 fit_after_probe(2) [OF p] by (auto simp: moved_def react_cfg_def)
  qed
qed

theorem tick_moves_witness:
  "fit (te_net (ex_down 0)) ''g'' (classify_cfg ex_cfg) (w_pool ex_w2) 1 \<and>
   streak (w_state ex_w3) 0 = no_streak"
proof -
  have "sy_activeIdx (w_state ex_w2) = 0" "sy_activeIdx (w_state ex_w3) = 1"
    "sy_chainIdentifier (w_state ex_w3) = ''g''" by code_simp+
  with tick_moves [OF ex_reach(2) ex_tick(1) [OF ex_reach(2), of "ex_down 0"], folded ex_w3_def]
  show ?thesis by simp
qed

subsection \<open>A node that does not answer\<close>

definition node_down :: "tick_env \<Rightarrow> nat \<Rightarrow> NodeEntry \<Rightarrow> bool" where
  "node_down env i e \<longleftrightarrow> isl (net_syncInfo (te_net env i) (rpcURL (probeEndpoint e)))"

lemma down_Probe:
  assumes "Entry p i = Some e" "node_down env i e"
  obtains err where "Probe (te_net env i) p i = (Inl err, p)"
proof -
  obtain err where "net_syncInfo (te_net env i) (rpcURL (probeEndpoint e)) = Inl err"
    using assms(2) by (auto simp: node_down_def isl_def)
  then show thesis
    using assms(1) by (intro that) (simp add: Probe_def fetchSyncInfo_def)
qed

lemma down_class:
  assumes "Entry (w_pool w) (sy_activeIdx (w_state w)) = Some e" "node_down env (sy_activeIdx (w_state w)) e"
  shows "tick_class env cCfg w = classProbeFailed"
  using down_Probe [OF assms] by (metis (no_types, lifting) classify_def fst_conv option.distinct(1)
      sum.case(1) tick_class_def)

lemma down_tick_quiet:
  assumes e: "Entry (w_pool w) i = Some e" "sy_activeIdx (w_state w) = i" "node_down env i e"
    and r: "\<not> te_read_fails env" "\<not> rx_UnhealthyStreak rCfg \<le> ns_unhealthy (streak (w_state w) i) + 1"
  obtains s1 d where "runWatchdogTick cCfg rCfg env w = Some (w\<lparr> w_state := s1, w_db := d \<rparr>)"
    "sy_activeIdx s1 = i" "sy_chainIdentifier s1 = sy_chainIdentifier (w_state w)"
    "ns_unhealthy (streak s1 i) = ns_unhealthy (streak (w_state w) i) + 1"
proof -
  obtain err where p: "Probe (te_net env i) (w_pool w) i = (Inl err, w_pool w)"
    using down_Probe [OF e(1,3)] .
  have c: "tick_class env cCfg w = classProbeFailed"
    using down_class e by simp
  obtain s1 intent where o: "observe rCfg (Inl err) (int64 (GetLatestHeight (w_db w)))
      classProbeFailed (w_state w) = (s1, intent)" by fastforce
  note s1 = observe_facts [OF o]
  have n: "ri_failoverIdx intent = None" "\<not> ri_signalRestart intent"
    using s1(6,7) r e(2) by auto
  have run: "runWatchdogTick cCfg rCfg env w = publishSyncStatus env zero_probe
      (int64 (GetLatestHeight (w_db w))) classProbeFailed i (w\<lparr> w_state := s1 \<rparr>)"
    using p c o n r e(2) by (simp add: runWatchdogTick_def canAttemptFailback_def Let_def)
  have "i < Len (w_pool (w\<lparr> w_state := s1 \<rparr>))"
    using e(1) by (auto simp: Entry_lt)
  then obtain d where "publishSyncStatus env zero_probe (int64 (GetLatestHeight (w_db w)))
      classProbeFailed i (w\<lparr> w_state := s1 \<rparr>) = Some (w\<lparr> w_state := s1, w_db := d \<rparr>)"
    by (rule publish_cases)
  then show thesis
    using s1(1,3,5) e(2) run by (intro that [where ?s1.0 = s1 and d = d]) (auto simp: blames_node_def)
qed

lemma down_tick_moves:
  assumes e: "Entry (w_pool w) i = Some e" "sy_activeIdx (w_state w) = i" "node_down env i e"
    and r: "\<not> te_read_fails env" "rx_UnhealthyStreak rCfg \<le> ns_unhealthy (streak (w_state w) i) + 1"
    and j: "i < j" "fit (te_net env) (sy_chainIdentifier (w_state w)) cCfg (w_pool w) j" "j < Len (w_pool w)"
    and d: "\<And>u. \<not> te_dial_fails env u"
  obtains w' where "runWatchdogTick cCfg rCfg env w = Some w'" "i < sy_activeIdx (w_state w')"
proof -
  obtain err where p: "Probe (te_net env i) (w_pool w) i = (Inl err, w_pool w)"
    using down_Probe [OF e(1,3)] .
  have c: "tick_class env cCfg w = classProbeFailed"
    using down_class e by simp
  obtain s1 intent where o: "observe rCfg (Inl err) (int64 (GetLatestHeight (w_db w)))
      (tick_class env cCfg w) (w_state w) = (s1, intent)" by fastforce
  note s1 = observe_facts [OF o]
  have n: "ri_failoverIdx intent \<noteq> None"
    using s1(6) r e(2) c by (auto simp: blames_node_def)
  have g: "sy_chainIdentifier s1 = sy_chainIdentifier (w_state w)"
    using s1(3) by simp
  have "j \<in> set [Suc i..<Len (w_pool w)]" using j by simp
  then obtain k where k: "find (fit (te_net env) (sy_chainIdentifier s1) cCfg (w_pool w))
      [Suc i..<Len (w_pool w)] = Some k"
    using j(2) g by (metis find_None_iff not_Some_eq)
  have lt: "i < Len (w_pool w)" using e(1) by (auto simp: Entry_lt)
  show thesis
  proof (rule tick_cases [OF e(2) lt r(1) p o], goal_cases)
    case (1 w2 d')
    then show thesis using n k d by (auto split: option.splits)
  next
    case (2 w2 d' k')
    then show thesis using find_upt_first [OF 2(4)] by (intro that [OF 2(1)]) (auto simp: moved_def)
  next
    case (3 w2 d' k')
    then show thesis using n by simp
  qed
qed

text \<open>
  C13. Failover happens. Let the active node \<open>i\<close> stop answering for a number of consecutive ticks
  that brings its unhealthy streak to the limit, while in each of them some node further down is
  fit and can be dialed. Then at the latest after these ticks the active node is a later one.
\<close>

theorem failover_happens:
  assumes "watch_reachable cfg entries w" "sy_activeIdx (w_state w) = i"
    and "envs \<noteq> []" "wc_UnhealthyStreak cfg \<le> ns_unhealthy (streak (w_state w) i) + int (length envs)"
    and "\<And>env. env \<in> set envs \<Longrightarrow> \<not> te_read_fails env \<and> node_down env i (entries ! i) \<and>
      (\<forall>u. \<not> te_dial_fails env u) \<and>
      (\<exists>j. i < j \<and> j < length entries \<and>
         fit (te_net env) (sy_chainIdentifier (w_state w)) (classify_cfg cfg) (w_pool w) j)"
  shows "\<exists>n w'. n \<le> length envs \<and> runSyncWatchdogLoop cfg (take n envs) w = Some w' \<and>
    i < sy_activeIdx (w_state w')"
proof -
  have "watch_ok w" and "np_entries (w_pool w) = entries"
    using reachable_ok [OF assms(1)] by simp_all
  then have e: "Entry (w_pool w) i = Some (entries ! i)" and len: "Len (w_pool w) = length entries"
    using assms(2) watch_okD [of w] by (auto simp: Entry_def Len_def)
  then show ?thesis
    using assms(2-5)
  proof (induction envs arbitrary: w)
    case (Cons env envs)
    have env: "\<not> te_read_fails env" "node_down env i (entries ! i)" "\<And>u. \<not> te_dial_fails env u"
      using Cons.prems(6) by auto
    obtain j where j: "i < j" "j < Len (w_pool w)"
      "fit (te_net env) (sy_chainIdentifier (w_state w)) (classify_cfg cfg) (w_pool w) j"
      using Cons.prems(2,6) by auto
    show ?case
    proof (cases "rx_UnhealthyStreak (react_cfg cfg) \<le> ns_unhealthy (streak (w_state w) i) + 1")
      case True
      obtain w' where "runWatchdogTick (classify_cfg cfg) (react_cfg cfg) env w = Some w'"
        "i < sy_activeIdx (w_state w')"
        using down_tick_moves [OF Cons.prems(1,3) env(2,1) True j(1,3,2) env(3)] .
      then show ?thesis by (intro exI [of _ 1] exI [of _ w']) simp
    next
      case False
      obtain s1 d where t: "runWatchdogTick (classify_cfg cfg) (react_cfg cfg) env w =
          Some (w\<lparr> w_state := s1, w_db := d \<rparr>)"
        and s1: "sy_activeIdx s1 = i" "sy_chainIdentifier s1 = sy_chainIdentifier (w_state w)"
          "ns_unhealthy (streak s1 i) = ns_unhealthy (streak (w_state w) i) + 1"
        using down_tick_quiet [OF Cons.prems(1,3) env(2,1) False] .
      have "envs \<noteq> []" using False Cons.prems(5) by (auto simp: react_cfg_def)
      then obtain n w' where "n \<le> length envs" "i < sy_activeIdx (w_state w')"
        "runSyncWatchdogLoop cfg (take n envs) (w\<lparr> w_state := s1, w_db := d \<rparr>) = Some w'"
        using Cons.IH [of "w\<lparr> w_state := s1, w_db := d \<rparr>"] Cons.prems s1 by auto
      then show ?thesis
        using t by (intro exI [of _ "Suc n"] exI [of _ w']) simp
    qed
  qed simp
qed

theorem failover_happens_witness:
  "\<exists>n w'. n \<le> 2 \<and> runSyncWatchdogLoop ex_cfg (take n [ex_down 0, ex_down 0]) ex_w1 = Some w' \<and>
    0 < sy_activeIdx (w_state w')"
proof -
  have 1: "sy_activeIdx (w_state ex_w1) = 0" by code_simp
  have 2: "wc_UnhealthyStreak ex_cfg \<le>
      ns_unhealthy (streak (w_state ex_w1) 0) + int (length [ex_down 0, ex_down 0])" by code_simp
  have 3: "\<not> te_read_fails (ex_down 0)" "\<And>u. \<not> te_dial_fails (ex_down 0) u"
    by (simp_all add: ex_down_def ex_up_def)
  have 4: "node_down (ex_down 0) 0 (ex_entries ! 0)" by code_simp
  have 5: "fit (te_net (ex_down 0)) (sy_chainIdentifier (w_state ex_w1)) (classify_cfg ex_cfg)
      (w_pool ex_w1) 1" "1 < length ex_entries" by code_simp+
  show ?thesis
    using failover_happens [OF ex_reach(1) 1 _ 2] 3 4 5 by (auto simp: numeral_2_eq_2)
qed

lemma down_last_tick:
  assumes ok: "watch_ok w" and e: "Entry (w_pool w) i = Some e" "sy_activeIdx (w_state w) = i"
    and last: "Suc i = Len (w_pool w)" and down: "node_down env i e"
  obtains w' where "runWatchdogTick cCfg rCfg env w = Some w'" "watch_ok w'"
    "pool_ext (w_pool w) (w_pool w')" "sy_activeIdx (w_state w') = i" "w_client w' = w_client w"
proof -
  obtain w' where w': "runWatchdogTick cCfg rCfg env w = Some w'" "watch_ok w'"
    "pool_ext (w_pool w) (w_pool w')"
    using tick_ok [OF ok] by metis
  have "sy_activeIdx (w_state w') = i"
  proof (cases "te_read_fails env")
    case True
    then show ?thesis using w'(1) e(2) by (auto simp: runWatchdogTick_def split: prod.splits)
  next
    case False
    obtain err where p: "Probe (te_net env i) (w_pool w) i = (Inl err, w_pool w)"
      using down_Probe [OF e(1) down] .
    have c: "blames_node (tick_class env cCfg w)"
      using down_class e down by (simp add: blames_node_def)
    obtain s1 intent where o: "observe rCfg (Inl err) (int64 (GetLatestHeight (w_db w)))
        (tick_class env cCfg w) (w_state w) = (s1, intent)" by fastforce
    note s1 = observe_facts [OF o]
    show ?thesis
      by (rule tick_cases [OF e(2) _ False p o]) (use last w'(1) s1(1) e(2) c in \<open>auto simp: same_active_def\<close>)
  qed
  moreover have "w_client w' = w_client w"
    using ok w'(2) calculation e(2) by (auto simp: watch_ok_def pool_ext_Entry [OF w'(3)])
  ultimately show thesis using w' that by blast
qed

text \<open>
  C14. The last node of the list has no way out: while it does not answer, no tick ever replaces it,
  however many ticks pass and however healthy the nodes before it are. The failover walk starts
  after the active index, and failback needs a class that does not blame the active node.
\<close>

theorem last_node_stuck:
  assumes "watch_reachable cfg entries w" "Suc (sy_activeIdx (w_state w)) = length entries"
    and "\<And>env. env \<in> set envs \<Longrightarrow>
      node_down env (sy_activeIdx (w_state w)) (entries ! sy_activeIdx (w_state w))"
  shows "\<exists>w'. runSyncWatchdogLoop cfg envs w = Some w' \<and>
    sy_activeIdx (w_state w') = sy_activeIdx (w_state w) \<and> w_client w' = w_client w"
proof -
  let ?i = "sy_activeIdx (w_state w)"
  have "watch_ok w" "np_entries (w_pool w) = entries"
    using reachable_ok [OF assms(1)] by simp_all
  then show ?thesis
    using assms(2,3)
  proof (induction envs arbitrary: w)
    case (Cons env envs)
    let ?i = "sy_activeIdx (w_state w)"
    have e: "Entry (w_pool w) ?i = Some (entries ! ?i)" "Suc ?i = Len (w_pool w)"
      using Cons.prems(2,3) by (auto simp: Entry_def Len_def)
    have down: "node_down env ?i (entries ! ?i)"
      using Cons.prems(4) [of env] by simp
    obtain w1 where t: "runWatchdogTick (classify_cfg cfg) (react_cfg cfg) env w = Some w1"
      "watch_ok w1" "pool_ext (w_pool w) (w_pool w1)" "sy_activeIdx (w_state w1) = ?i"
      "w_client w1 = w_client w"
      using down_last_tick [OF Cons.prems(1) e(1) refl e(2) down] .
    have "\<exists>w'. runSyncWatchdogLoop cfg envs w1 = Some w' \<and>
        sy_activeIdx (w_state w') = sy_activeIdx (w_state w1) \<and> w_client w' = w_client w1"
      using Cons.prems t by (intro Cons.IH) (auto simp: pool_ext_def)
    then show ?case using t by auto
  qed simp
qed

theorem last_node_stuck_witness:
  "\<exists>w'. runSyncWatchdogLoop ex_cfg [ex_down 1, ex_down 1, ex_down 1] ex_w3 = Some w' \<and>
    sy_activeIdx (w_state w') = 1 \<and> w_client w' = w_client ex_w3"
proof -
  have 1: "sy_activeIdx (w_state ex_w3) = 1" by code_simp
  have 2: "Suc (sy_activeIdx (w_state ex_w3)) = length ex_entries" by code_simp
  have 3: "node_down (ex_down 1) 1 (ex_entries ! 1)" by code_simp
  show ?thesis
    using last_node_stuck [OF ex_reach(3) 2, of "[ex_down 1, ex_down 1, ex_down 1]"] 1 3 by auto
qed

text \<open>
  The indexer's own lag is never held against the node. When the active node answers, is at
  head, and has more momentums than the indexer by more than the drift threshold, then whatever
  the stall timer says the tick asks for a new subscription, counts nothing against the node
  and never fails over.
\<close>

theorem indexer_lag_keeps_node:
  assumes "watch_reachable cfg entries w" "sy_activeIdx (w_state w) = i"
    and "\<not> te_read_fails env" "fst (Probe (te_net env i) (w_pool w) i) = Inr r"
    and "node_lag r \<le> wc_NodeDriftThreshold cfg"
    and "wc_IndexerDriftThreshold cfg < indexer_drift r (int64 (GetLatestHeight (w_db w)))"
    and "runWatchdogTick (classify_cfg cfg) (react_cfg cfg) env w = Some w'"
  shows "w_restart w' \<and> sy_activeIdx (w_state w') \<le> i \<and>
    (sy_activeIdx (w_state w') = i \<longrightarrow>
       ns_unhealthy (streak (w_state w') i) = ns_unhealthy (streak (w_state w) i))"
proof -
  have c: "tick_class env (classify_cfg cfg) w = classIndexerLagging"
    using assms(2,4-6) by (simp add: tick_class_def classify_def classify_cfg_def Let_def)
  obtain q where p: "Probe (te_net env i) (w_pool w) i = (Inr r, q)"
    using assms(4) by (metis prod.collapse)
  obtain s1 intent where o: "observe (react_cfg cfg) (Inr r) (int64 (GetLatestHeight (w_db w)))
      (tick_class env (classify_cfg cfg) w) (w_state w) = (s1, intent)" by fastforce
  note s1 = observe_facts [OF o]
  have intent: "ri_signalRestart intent" "ri_failoverIdx intent = None"
    using s1(6,7) c by (auto simp: blames_node_def)
  have lt: "i < Len (w_pool w)"
    using watch_okD reachable_ok [OF assms(1)] assms(2) by auto
  show ?thesis
    by (rule tick_cases [OF assms(2) lt assms(3) p o])
      (use assms(2,7) intent s1(1,5) c in
        \<open>auto simp: same_active_def moved_def signal_if_def signalSubscriptionRestart_def blames_node_def\<close>)
qed

theorem indexer_lag_keeps_node_witness:
  "w_restart (ex_tick (ex_up 100) ex_w1) \<and> sy_activeIdx (w_state (ex_tick (ex_up 100) ex_w1)) = 0"
proof -
  let ?r = "\<lparr> pr_Frontier = 100, pr_Target = 100, pr_State = 2, pr_GenesisHash = ''g'' \<rparr>"
  have 1: "sy_activeIdx (w_state ex_w1) = 0" by code_simp
  have 2: "fst (Probe (te_net (ex_up 100) 0) (w_pool ex_w1) 0) = Inr ?r" by code_simp
  have 3: "node_lag ?r \<le> wc_NodeDriftThreshold ex_cfg"
    "wc_IndexerDriftThreshold ex_cfg < indexer_drift ?r (int64 (GetLatestHeight (w_db ex_w1)))"
    by code_simp+
  have "\<not> te_read_fails (ex_up 100)" by (simp add: ex_up_def)
  from indexer_lag_keeps_node [OF ex_reach(1) 1 this 2 3 ex_tick(1) [OF ex_reach(1)]]
  show ?thesis by simp
qed

end
