(* ===== verification/Cached_Data.thy ===== *)
theory Cached_Data
  imports Embedded Repo_Bridge
begin

text \<open>
  The data \<open>internal/indexer/indexer.go\<close> refreshes beside the momentums: the pillar snapshot and the
  name-to-owner map, sentinels, accelerator projects and phases, the genesis swap assets, and the
  bridge requests and configuration. The answers of the node's APIs are arguments; a write that
  fails is logged and skipped by the program, so \<open>fails\<close> says which rows are lost. A loop over
  pages may run forever on a node that always returns full pages: it is given fuel, and \<open>None\<close> is
  a loop that has not ended.
\<close>

subsection \<open>Best-effort writes and paging\<close>

definition try_write :: "bool \<Rightarrow> (db \<Rightarrow> sql_error + db) \<Rightarrow> db \<Rightarrow> db" where
  "try_write fails write d =
     (if fails then d else (case write d of Inl err \<Rightarrow> d | Inr d' \<Rightarrow> d'))"

definition uint32 :: "int \<Rightarrow> int" where
  "uint32 x = take_bit 32 x"

text \<open>
  The shape of every paging loop: fetch page \<open>p\<close>, end on an error or an empty page, process the
  items in order, end when \<open>stop\<close> holds of the page or the page is not full, else go on.
\<close>

fun page_loop ::
  "nat \<Rightarrow> nat \<Rightarrow> (int \<Rightarrow> error + 'a list) \<Rightarrow> ('a \<Rightarrow> 's \<Rightarrow> 's) \<Rightarrow> ('a list \<Rightarrow> bool) \<Rightarrow> int \<Rightarrow> 's \<Rightarrow>
    (error option \<times> 's) option" where
  "page_loop 0 pageSize api step stop p st = None"
| "page_loop (Suc fuel) pageSize api step stop p st =
     (case api p of
        Inl err \<Rightarrow> Some (Some err, st)
      | Inr items \<Rightarrow>
          if items = [] then Some (None, st)
          else
            let st' = fold step items st
            in if stop items then Some (None, st')
               else if length items < pageSize then Some (None, st')
               else page_loop fuel pageSize api step stop (uint32 (p + 1)) st')"

subsection \<open>Pillars\<close>

record pillar_info =
  pi_Name :: string
  pi_OwnerAddress :: address
  pi_ProducerAddress :: address
  pi_WithdrawAddress :: address
  pi_Rank :: int
  pi_GiveMomentumRewardPercentage :: int
  pi_GiveDelegateRewardPercentage :: int
  pi_IsRevocable :: bool
  pi_RevokeCooldown :: int
  pi_RevokeTimestamp :: int
  pi_Weight :: "int option"
  pi_ProducedMomentums :: int
  pi_ExpectedMomentums :: int

definition pillar_row :: "pillar_info \<Rightarrow> Pillar" where
  "pillar_row p = \<lparr> pl_OwnerAddress = pi_OwnerAddress p, pl_ProducerAddress = pi_ProducerAddress p,
     pl_WithdrawAddress = pi_WithdrawAddress p, pl_Name = pi_Name p, pl_Rank = pi_Rank p,
     pl_GiveMomentumRewardPercentage = int16 (pi_GiveMomentumRewardPercentage p),
     pl_GiveDelegateRewardPercentage = int16 (pi_GiveDelegateRewardPercentage p),
     pl_IsRevocable = pi_IsRevocable p, pl_RevokeCooldown = pi_RevokeCooldown p,
     pl_RevokeTimestamp = pi_RevokeTimestamp p, pl_Weight = safeBigIntToInt64 (pi_Weight p),
     pl_EpochProducedMomentums = int16 (pi_ProducedMomentums p),
     pl_EpochExpectedMomentums = int16 (pi_ExpectedMomentums p),
     pl_SlotCostQsr = 0, pl_SpawnTimestamp = 0, pl_VotingActivity = (0, 1),
     pl_ProducedMomentumCount = 0, pl_IsRevoked = False \<rparr>"

record cache =
  ca_pillars :: "Pillar list"
  ca_pillarNameToOwner :: "(string \<times> address) list"

definition updatePillarCache ::
  "error + pillar_info list \<Rightarrow> (address \<Rightarrow> bool) \<Rightarrow> cache \<Rightarrow> db \<Rightarrow> error option \<times> cache \<times> db" where
  "updatePillarCache api fails c d =
     (case api of
        Inl err \<Rightarrow> (Some (''failed to get pillars: '' @ err), c, d)
      | Inr list \<Rightarrow>
          (None,
           \<lparr> ca_pillars = map pillar_row list,
             ca_pillarNameToOwner =
               fold (\<lambda>p m. alist_set (pi_Name p) (pi_OwnerAddress p) m) list [] \<rparr>,
           fold (\<lambda>p. try_write (fails (pi_OwnerAddress p)) (Pillar_Upsert (pillar_row p))) list d))"

subsection \<open>Sentinels, projects and swap assets\<close>

record sentinel_info =
  sn_Owner :: address
  sn_RegistrationTimestamp :: int
  sn_IsRevocable :: bool
  sn_RevokeCooldown :: int
  sn_Active :: bool

definition sentinel_row :: "sentinel_info \<Rightarrow> Sentinel" where
  "sentinel_row s = \<lparr> se_Owner = sn_Owner s, se_RegistrationTimestamp = sn_RegistrationTimestamp s,
     se_IsRevocable = sn_IsRevocable s, se_RevokeCooldown = FormatInt (sn_RevokeCooldown s),
     se_Active = sn_Active s \<rparr>"

record vote_breakdown =
  vb_Yes :: int
  vb_No :: int
  vb_Total :: int

definition vote_counts :: "vote_breakdown option \<Rightarrow> int \<times> int \<times> int" where
  "vote_counts v =
     (case v of None \<Rightarrow> (0, 0, 0) | Some b \<Rightarrow> (int16 (vb_Yes b), int16 (vb_No b), int16 (vb_Total b)))"

record phase_data =
  ph_Id :: hash
  ph_Name :: string
  ph_Description :: string
  ph_Url :: string
  ph_ZnnFundsNeeded :: "int option"
  ph_QsrFundsNeeded :: "int option"
  ph_CreationTimestamp :: int
  ph_AcceptedTimestamp :: int
  ph_Status :: int

record phase_info =
  pf_Phase :: "phase_data option"
  pf_Votes :: "vote_breakdown option"

record project_info =
  pr_Id :: hash
  pr_Owner :: address
  pr_Name :: string
  pr_Description :: string
  pr_Url :: string
  pr_ZnnFundsNeeded :: "int option"
  pr_QsrFundsNeeded :: "int option"
  pr_CreationTimestamp :: int
  pr_LastUpdateTimestamp :: int
  pr_Status :: int
  pr_Votes :: "vote_breakdown option"
  pr_Phases :: "phase_info list"

definition project_row :: "sdk \<Rightarrow> project_info \<Rightarrow> Project" where
  "project_row sdk p =
     (let (yes, no, total) = vote_counts (pr_Votes p)
      in \<lparr> pj_ID = pr_Id p, pj_VotingID = getVotingID sdk (pr_Id p), pj_Owner = pr_Owner p,
           pj_Name = pr_Name p, pj_Description = pr_Description p, pj_URL = pr_Url p,
           pj_ZnnFundsNeeded = safeBigIntToInt64 (pr_ZnnFundsNeeded p),
           pj_QsrFundsNeeded = safeBigIntToInt64 (pr_QsrFundsNeeded p),
           pj_CreationTimestamp = pr_CreationTimestamp p,
           pj_LastUpdateTimestamp = pr_LastUpdateTimestamp p, pj_Status = int16 (pr_Status p),
           pj_YesVotes = yes, pj_NoVotes = no, pj_TotalVotes = total \<rparr>)"

definition phase_row :: "sdk \<Rightarrow> hash \<Rightarrow> vote_breakdown option \<Rightarrow> phase_data \<Rightarrow> ProjectPhase" where
  "phase_row sdk projectID v p =
     (let (yes, no, total) = vote_counts v
      in \<lparr> pp_ID = ph_Id p, pp_ProjectID = projectID, pp_VotingID = getVotingID sdk (ph_Id p),
           pp_Name = ph_Name p, pp_Description = ph_Description p, pp_URL = ph_Url p,
           pp_ZnnFundsNeeded = safeBigIntToInt64 (ph_ZnnFundsNeeded p),
           pp_QsrFundsNeeded = safeBigIntToInt64 (ph_QsrFundsNeeded p),
           pp_CreationTimestamp = ph_CreationTimestamp p,
           pp_AcceptedTimestamp = ph_AcceptedTimestamp p, pp_Status = int16 (ph_Status p),
           pp_YesVotes = yes, pp_NoVotes = no, pp_TotalVotes = total \<rparr>)"

definition sync_phase :: "sdk \<Rightarrow> (hash \<Rightarrow> bool) \<Rightarrow> hash \<Rightarrow> phase_info \<Rightarrow> db \<Rightarrow> db" where
  "sync_phase sdk fails projectID x d =
     (case pf_Phase x of
        None \<Rightarrow> d
      | Some p \<Rightarrow> try_write (fails (ph_Id p)) (Phase_Upsert (phase_row sdk projectID (pf_Votes x) p)) d)"

definition sync_project :: "sdk \<Rightarrow> (hash \<Rightarrow> bool) \<Rightarrow> project_info \<Rightarrow> db \<Rightarrow> db" where
  "sync_project sdk fails p d =
     fold (sync_phase sdk fails (pr_Id p)) (pr_Phases p)
       (try_write (fails (pr_Id p)) (Project_Upsert (project_row sdk p)) d)"

text \<open>The assets of \<open>GetAssets\<close> in the order the iteration over the map meets them.\<close>

definition syncSwapAssets ::
  "error + (hash \<times> (int option \<times> int option) option) list \<Rightarrow> (hash \<Rightarrow> bool) \<Rightarrow> int \<Rightarrow> db \<Rightarrow> db" where
  "syncSwapAssets api fails now d =
     (case api of
        Inl err \<Rightarrow> d
      | Inr assets \<Rightarrow>
          fold (\<lambda>(key, entry) d.
             case entry of
               None \<Rightarrow> d
             | Some (znn, qsr) \<Rightarrow>
                 try_write (fails key) (Swap_UpsertAsset
                   \<lparr> sa_KeyIDHash = key, sa_Znn = safeBigIntToInt64 znn,
                     sa_Qsr = safeBigIntToInt64 qsr, sa_LastUpdatedTimestamp = now \<rparr>) d)
            assets d)"

record cached_api =
  api_pillars :: "error + pillar_info list"
  api_sentinels :: "int \<Rightarrow> error + sentinel_info list"
  api_projects :: "int \<Rightarrow> error + project_info list"
  api_assets :: "error + (hash \<times> (int option \<times> int option) option) list"
  api_write_fails :: "string \<Rightarrow> bool"
  api_now :: int

text \<open>An error of a paging loop is logged; the refresh goes on with the next kind of data.\<close>

definition updateCachedData ::
  "nat \<Rightarrow> sdk \<Rightarrow> cached_api \<Rightarrow> cache \<Rightarrow> db \<Rightarrow> (error option \<times> cache \<times> db) option" where
  "updateCachedData fuel sdk api c d =
     (case updatePillarCache (api_pillars api) (api_write_fails api) c d of
        (Some err, c', d1) \<Rightarrow> Some (Some err, c', d1)
      | (None, c', d1) \<Rightarrow>
          (case page_loop fuel 10 (api_sentinels api)
                  (\<lambda>s. try_write (api_write_fails api (sn_Owner s)) (Sentinel_Upsert (sentinel_row s)))
                  (\<lambda>_. False) 0 d1 of
             None \<Rightarrow> None
           | Some (_, d2) \<Rightarrow>
               (case page_loop fuel 10 (api_projects api) (sync_project sdk (api_write_fails api))
                       (\<lambda>_. False) 0 d2 of
                  None \<Rightarrow> None
                | Some (_, d3) \<Rightarrow>
                    Some (None, c', syncSwapAssets (api_assets api) (api_write_fails api)
                                      (api_now api) d3))))"

end
