(* ===== verification/Bridge_Sync.thy ===== *)
theory Bridge_Sync
  imports Cached_Data
begin

text \<open>
  The bridge part of \<open>internal/indexer/indexer.go\<close>: the two request syncs, which page back from the
  newest request to the stop height, and the refresh of the bridge configuration tables.
\<close>

subsection \<open>Wrap and unwrap requests\<close>

record wrap_info =
  wi_Id :: hash
  wi_NetworkClass :: int
  wi_ChainId :: int
  wi_ToAddress :: string
  wi_TokenStandard :: string
  wi_TokenAddress :: string
  wi_Amount :: "int option"
  wi_Fee :: "int option"
  wi_Signature :: string
  wi_CreationMomentumHeight :: int
  wi_ConfirmationsToFinality :: int

definition wrap_row :: "wrap_info \<Rightarrow> WrapTokenRequest" where
  "wrap_row w = \<lparr> wr_ID = wi_Id w, wr_NetworkClass = wi_NetworkClass w, wr_ChainID = wi_ChainId w,
     wr_ToAddress = wi_ToAddress w, wr_TokenStandard = wi_TokenStandard w,
     wr_TokenAddress = wi_TokenAddress w, wr_Amount = safeBigIntToInt64 (wi_Amount w),
     wr_Fee = safeBigIntToInt64 (wi_Fee w), wr_Signature = wi_Signature w,
     wr_CreationMomentumHeight = int64 (wi_CreationMomentumHeight w),
     wr_ConfirmationsToFinality = int64 (wi_ConfirmationsToFinality w) \<rparr>"

text \<open>Whether a page reaches the stop height.\<close>

definition reached :: "int \<Rightarrow> ('a \<Rightarrow> int) \<Rightarrow> 'a list \<Rightarrow> bool" where
  "reached stopHeight height items = list_ex (\<lambda>x. 0 < stopHeight \<and> int64 (height x) \<le> stopHeight) items"

definition sync_wrap :: "(string \<Rightarrow> bool) \<Rightarrow> wrap_info \<Rightarrow> db \<Rightarrow> db" where
  "sync_wrap fails w = try_write (fails (wi_Id w)) (UpsertWrapRequest (wrap_row w))"

definition updateBridgeWrapRequests ::
  "nat \<Rightarrow> bool \<Rightarrow> (int \<Rightarrow> error + wrap_info list) \<Rightarrow> (string \<Rightarrow> bool) \<Rightarrow> db \<Rightarrow>
    (error option \<times> db) option" where
  "updateBridgeWrapRequests fuel read_fails api fails d =
     (if read_fails then Some (Some ''failed to get wrap sync stop height'', d)
      else
        let stopHeight = GetWrapSyncStopHeight d
        in page_loop fuel 100 api (sync_wrap fails)
             (reached stopHeight wi_CreationMomentumHeight) 0 d)"

record unwrap_info =
  ui_TransactionHash :: hash
  ui_LogIndex :: int
  ui_NetworkClass :: int
  ui_ChainId :: int
  ui_ToAddress :: address
  ui_TokenStandard :: string
  ui_TokenAddress :: string
  ui_Amount :: "int option"
  ui_Signature :: string
  ui_RegistrationMomentumHeight :: int
  ui_Redeemed :: int
  ui_Revoked :: int
  ui_RedeemableIn :: int

definition unwrap_row :: "unwrap_info \<Rightarrow> UnwrapTokenRequest" where
  "unwrap_row u = \<lparr> ur_TransactionHash = ui_TransactionHash u, ur_LogIndex = int64 (ui_LogIndex u),
     ur_NetworkClass = ui_NetworkClass u, ur_ChainID = ui_ChainId u,
     ur_ToAddress = ui_ToAddress u, ur_TokenStandard = ui_TokenStandard u,
     ur_TokenAddress = ui_TokenAddress u, ur_Amount = safeBigIntToInt64 (ui_Amount u),
     ur_Signature = ui_Signature u,
     ur_RegistrationMomentumHeight = int64 (ui_RegistrationMomentumHeight u),
     ur_Redeemed = (0 < ui_Redeemed u), ur_Revoked = (0 < ui_Revoked u),
     ur_RedeemableIn = int64 (ui_RedeemableIn u) \<rparr>"

definition sync_unwrap :: "(string \<times> int \<Rightarrow> bool) \<Rightarrow> unwrap_info \<Rightarrow> db \<Rightarrow> db" where
  "sync_unwrap fails u =
     try_write (fails (ui_TransactionHash u, ui_LogIndex u)) (UpsertUnwrapRequest (unwrap_row u))"

definition updateBridgeUnwrapRequests ::
  "nat \<Rightarrow> bool \<Rightarrow> (int \<Rightarrow> error + unwrap_info list) \<Rightarrow> (string \<times> int \<Rightarrow> bool) \<Rightarrow> db \<Rightarrow>
    (error option \<times> db) option" where
  "updateBridgeUnwrapRequests fuel read_fails api fails d =
     (if read_fails then Some (Some ''failed to get unwrap sync stop height'', d)
      else
        let stopHeight = GetUnwrapSyncStopHeight d
        in page_loop fuel 100 api (sync_unwrap fails)
             (reached stopHeight ui_RegistrationMomentumHeight) 0 d)"

subsection \<open>Configuration\<close>

record bridge_info =
  bi_Administrator :: address
  bi_CompressedTssECDSAPubKey :: string
  bi_DecompressedTssECDSAPubKey :: string
  bi_AllowKeyGen :: bool
  bi_Halted :: bool
  bi_UnhaltedAt :: int
  bi_UnhaltDurationInMomentums :: int
  bi_TssNonce :: int
  bi_Metadata :: string

record security_info =
  sc_Guardians :: "address list"
  sc_GuardiansVotes :: "address list"
  sc_AdministratorDelay :: int
  sc_SoftDelay :: int

record orchestrator_info =
  oi_WindowSize :: int
  oi_KeyGenThreshold :: int
  oi_ConfirmationsToFinality :: int
  oi_EstimatedMomentumTime :: int
  oi_AllowKeyGenHeight :: int

record token_pair =
  tp_TokenStandard :: string
  tp_TokenAddress :: string
  tp_Bridgeable :: bool
  tp_Redeemable :: bool
  tp_Owned :: bool
  tp_MinAmount :: "int option"
  tp_FeePercentage :: int
  tp_RedeemDelay :: int
  tp_Metadata :: string

record network_info =
  nw_NetworkClass :: int
  nw_ChainId :: int
  nw_Name :: string
  nw_ContractAddress :: string
  nw_Metadata :: string
  nw_TokenPairs :: "token_pair list"

record time_challenge =
  tc_MethodName :: string
  tc_ParamsHash :: hash
  tc_ChallengeStartHeight :: int

record bridge_api =
  ba_info :: "error + bridge_info option"
  ba_security :: "error + security_info option"
  ba_orchestrator :: "error + orchestrator_info option"
  ba_networks :: "int \<Rightarrow> error + network_info list"
  ba_challenges :: "error + time_challenge list option"
  ba_fails :: "string \<Rightarrow> string \<Rightarrow> bool"
  ba_now :: int

definition sync_admin :: "bridge_api \<Rightarrow> db \<Rightarrow> db" where
  "sync_admin api d =
     (case ba_info api of
        Inr (Some info) \<Rightarrow>
          try_write (ba_fails api ''admin'' []) (UpsertAdmin
            \<lparr> bd_Administrator = bi_Administrator info,
              bd_CompressedTssECDSAPubKey = bi_CompressedTssECDSAPubKey info,
              bd_DecompressedTssECDSAPubKey = bi_DecompressedTssECDSAPubKey info,
              bd_AllowKeyGen = bi_AllowKeyGen info, bd_Halted = bi_Halted info,
              bd_UnhaltedAt = int64 (bi_UnhaltedAt info),
              bd_UnhaltDurationInMomentums = int64 (bi_UnhaltDurationInMomentums info),
              bd_TssNonce = int64 (bi_TssNonce info), bd_Metadata = bi_Metadata info,
              bd_LastUpdatedTimestamp = ba_now api \<rparr>) d
      | _ \<Rightarrow> d)"

text \<open>The union of nominated and voting guardians; the order of the iteration does not matter.\<close>

definition seen_guardians :: "security_info \<Rightarrow> address list" where
  "seen_guardians sec = remdups (sc_Guardians sec @ sc_GuardiansVotes sec)"

definition guardian_row :: "security_info \<Rightarrow> int \<Rightarrow> address \<Rightarrow> BridgeGuardian" where
  "guardian_row sec now addr = \<lparr> bg_Address = addr, bg_Nominated = (addr \<in> set (sc_Guardians sec)),
     bg_Accepted = (addr \<in> set (sc_GuardiansVotes sec)), bg_LastUpdatedTimestamp = now \<rparr>"

definition sync_guardians :: "bridge_api \<Rightarrow> security_info \<Rightarrow> db \<Rightarrow> db" where
  "sync_guardians api sec d =
     try_write (ba_fails api ''absent'' []) (MarkGuardiansAbsent (ba_now api))
       (fold (\<lambda>addr. try_write (ba_fails api ''guardian'' addr)
                (UpsertGuardian (guardian_row sec (ba_now api) addr)))
          (seen_guardians sec) d)"

definition sync_security :: "bridge_api \<Rightarrow> db \<Rightarrow> db" where
  "sync_security api d =
     (case ba_security api of
        Inr (Some sec) \<Rightarrow>
          sync_guardians api sec
            (try_write (ba_fails api ''security'' []) (UpsertSecurityInfo
               \<lparr> bs_AdministratorDelay = int64 (sc_AdministratorDelay sec),
                 bs_SoftDelay = int64 (sc_SoftDelay sec), bs_LastUpdatedTimestamp = ba_now api \<rparr>) d)
      | _ \<Rightarrow> d)"

text \<open>The soft and the administrator delay, zero when unavailable.\<close>

definition delays :: "bridge_api \<Rightarrow> int \<times> int" where
  "delays api =
     (case ba_security api of
        Inr (Some sec) \<Rightarrow> (sc_SoftDelay sec, sc_AdministratorDelay sec) | _ \<Rightarrow> (0, 0))"

definition sync_orchestrator :: "bridge_api \<Rightarrow> db \<Rightarrow> db" where
  "sync_orchestrator api d =
     (case ba_orchestrator api of
        Inr (Some orch) \<Rightarrow>
          try_write (ba_fails api ''orchestrator'' []) (UpsertOrchestratorInfo
            \<lparr> bo_WindowSize = int64 (oi_WindowSize orch), bo_KeyGenThreshold = oi_KeyGenThreshold orch,
              bo_ConfirmationsToFinality = oi_ConfirmationsToFinality orch,
              bo_EstimatedMomentumTime = oi_EstimatedMomentumTime orch,
              bo_AllowKeyGenHeight = int64 (oi_AllowKeyGenHeight orch),
              bo_LastUpdatedTimestamp = ba_now api \<rparr>) d
      | _ \<Rightarrow> d)"

definition sync_token_pair :: "bridge_api \<Rightarrow> network_info \<Rightarrow> token_pair \<Rightarrow> db \<Rightarrow> db" where
  "sync_token_pair api n tp =
     try_write (ba_fails api ''network token'' (nw_Name n @ tp_TokenStandard tp)) (UpsertNetworkToken
       \<lparr> bt_NetworkClass = nw_NetworkClass n, bt_ChainID = nw_ChainId n,
         bt_TokenStandard = tp_TokenStandard tp, bt_TokenAddress = tp_TokenAddress tp,
         bt_Bridgeable = tp_Bridgeable tp, bt_Redeemable = tp_Redeemable tp, bt_Owned = tp_Owned tp,
         bt_MinAmount = safeBigIntToInt64 (tp_MinAmount tp), bt_FeePercentage = tp_FeePercentage tp,
         bt_RedeemDelay = tp_RedeemDelay tp, bt_Metadata = tp_Metadata tp \<rparr>)"

text \<open>The token pairs of a network whose own row cannot be written are skipped.\<close>

definition sync_network :: "bridge_api \<Rightarrow> network_info \<Rightarrow> db \<Rightarrow> db" where
  "sync_network api n d =
     (if ba_fails api ''network'' (nw_Name n) then d
      else
        (case UpsertNetwork
                \<lparr> bn_NetworkClass = nw_NetworkClass n, bn_ChainID = nw_ChainId n,
                  bn_Name = nw_Name n, bn_ContractAddress = nw_ContractAddress n,
                  bn_Metadata = nw_Metadata n, bn_LastUpdatedTimestamp = ba_now api \<rparr> d of
           Inl err \<Rightarrow> d
         | Inr d' \<Rightarrow> fold (sync_token_pair api n) (nw_TokenPairs n) d'))"

definition challenge_row :: "bridge_api \<Rightarrow> time_challenge \<Rightarrow> BridgeTimeChallenge" where
  "challenge_row api tc =
     (let delay = (if tc_MethodName tc \<in> set [''ChangeAdministrator'', ''NominateGuardians'']
                   then int64 (snd (delays api)) else int64 (fst (delays api)))
      in \<lparr> bc_MethodName = tc_MethodName tc, bc_ParamsHash = tc_ParamsHash tc,
           bc_ChallengeStartHeight = int64 (tc_ChallengeStartHeight tc), bc_Delay = delay,
           bc_EndHeight = int64 (int64 (int64 (tc_ChallengeStartHeight tc) + delay) + 1),
           bc_LastUpdatedTimestamp = ba_now api \<rparr>)"

text \<open>The rows written, with the method names to keep.\<close>

definition sync_challenge :: "bridge_api \<Rightarrow> time_challenge \<Rightarrow> string list \<times> db \<Rightarrow> string list \<times> db" where
  "sync_challenge api tc = (\<lambda>(keep, d).
     if ba_fails api ''challenge'' (tc_MethodName tc) then (keep, d)
     else
       (case UpsertTimeChallenge (challenge_row api tc) d of
          Inl err \<Rightarrow> (keep, d) | Inr d' \<Rightarrow> (keep @ [tc_MethodName tc], d')))"

definition sync_challenges :: "bridge_api \<Rightarrow> db \<Rightarrow> db" where
  "sync_challenges api d =
     (case ba_challenges api of
        Inr (Some list) \<Rightarrow>
          (case fold (sync_challenge api) list ([], d) of
             (keep, d') \<Rightarrow> try_write (ba_fails api ''prune'' []) (DeleteTimeChallengesNotIn keep) d')
      | _ \<Rightarrow> d)"

definition updateBridgeConfig :: "nat \<Rightarrow> bridge_api \<Rightarrow> db \<Rightarrow> db option" where
  "updateBridgeConfig fuel api d =
     (case page_loop fuel 50 (ba_networks api) (sync_network api) (\<lambda>_. False) 0
             (sync_orchestrator api (sync_security api (sync_admin api d))) of
        None \<Rightarrow> None
      | Some (_, d') \<Rightarrow> Some (sync_challenges api d'))"

record bridge_requests_api =
  br_wrap_read_fails :: bool
  br_unwrap_read_fails :: bool
  br_wraps :: "int \<Rightarrow> error + wrap_info list"
  br_unwraps :: "int \<Rightarrow> error + unwrap_info list"
  br_wrap_fails :: "string \<Rightarrow> bool"
  br_unwrap_fails :: "string \<times> int \<Rightarrow> bool"

definition syncBridgeData :: "nat \<Rightarrow> bridge_requests_api \<Rightarrow> bridge_api \<Rightarrow> db \<Rightarrow> db option" where
  "syncBridgeData fuel rq api d =
     (case updateBridgeWrapRequests fuel (br_wrap_read_fails rq) (br_wraps rq) (br_wrap_fails rq) d of
        None \<Rightarrow> None
      | Some (_, d1) \<Rightarrow>
          (case updateBridgeUnwrapRequests fuel (br_unwrap_read_fails rq) (br_unwraps rq)
                  (br_unwrap_fails rq) d1 of
             None \<Rightarrow> None
           | Some (_, d2) \<Rightarrow> updateBridgeConfig fuel api d2))"

end
