(* ===== verification/Bridge_Props.thy ===== *)
theory Bridge_Props
  imports Bridge_Sync
begin

text \<open>
  The paging loops end on an honest node and process every item in order, and the two bridge
  syncs refresh every request above the stop height.
\<close>

subsection \<open>Paging\<close>

text \<open>A node that lists \<open>xs\<close> in pages of \<open>n\<close> items.\<close>

definition pages_of :: "nat \<Rightarrow> 'a list \<Rightarrow> int \<Rightarrow> error + 'a list" where
  "pages_of n xs p = Inr (take n (drop (nat p * n) xs))"

lemma uint32_id: "0 \<le> x \<Longrightarrow> x < 4294967296 \<Longrightarrow> uint32 x = x"
  by (simp add: uint32_def take_bit_int_eq_self)

lemma page_loop_honest:
  assumes "0 < n" "0 \<le> p" "p + int (length (drop (nat p * n) xs)) < 4294967295"
    and "length (drop (nat p * n) xs) div n < fuel"
  shows "\<exists>ys zs. drop (nat p * n) xs = ys @ zs \<and>
    page_loop fuel n (pages_of n xs) step stop p st = Some (None, fold step ys st) \<and>
    (zs \<noteq> [] \<longrightarrow> (\<exists>pre page. ys = pre @ page \<and> page \<noteq> [] \<and> stop page))"
  using assms(2-)
proof (induction fuel arbitrary: p st)
  case (Suc fuel)
  let ?rest = "drop (nat p * n) xs"
  let ?page = "take n ?rest"
  show ?case
  proof (cases "?page = [] \<or> stop ?page \<or> length ?page < n")
    case True
    have eq: "page_loop (Suc fuel) n (pages_of n xs) step stop p st = Some (None, fold step ?page st)"
      using True by (auto simp: pages_of_def Let_def)
    show ?thesis
    proof (cases "stop ?page \<and> ?page \<noteq> []")
      case True
      have "?rest = ?page @ drop n ?rest" by (rule append_take_drop_id [symmetric])
      moreover have "\<exists>pre page. ?page = pre @ page \<and> page \<noteq> [] \<and> stop page"
        using True by (metis append_Nil)
      ultimately show ?thesis using eq by blast
    next
      case False
      then have "?page = ?rest"
        using True assms(1) by (metis length_take min_def take_all_iff take_eq_Nil nat_less_le le_refl)
      then show ?thesis
        using eq by (intro exI [of _ ?page] exI [of _ "[]"]) simp
    qed
  next
    case False
    have np: "uint32 (p + 1) = p + 1"
      using Suc.prems by (intro uint32_id) auto
    have d: "drop (nat (p + 1) * n) xs = drop n ?rest"
      using Suc.prems(1) by (simp add: nat_add_distrib add.commute)
    have len: "n \<le> length ?rest" using False by (auto simp: min_def split: if_splits)
    have "p + 1 + int (length (drop (nat (p + 1) * n) xs)) < 4294967295"
      using Suc.prems(2) len assms(1) unfolding d by simp
    moreover have "length (drop (nat (p + 1) * n) xs) div n < fuel"
      using Suc.prems(3) len assms(1) unfolding d by (simp add: le_div_geq add.commute)
    ultimately obtain ys zs where IH: "drop n ?rest = ys @ zs"
      "page_loop fuel n (pages_of n xs) step stop (p + 1) (fold step ?page st) =
         Some (None, fold step ys (fold step ?page st))"
      "zs \<noteq> [] \<longrightarrow> (\<exists>pre page. ys = pre @ page \<and> page \<noteq> [] \<and> stop page)"
      using Suc.IH [of "p + 1" "fold step ?page st"] Suc.prems(1) d by auto
    have "page_loop (Suc fuel) n (pages_of n xs) step stop p st =
        Some (None, fold step (?page @ ys) st)"
      using False IH(2) np by (simp add: pages_of_def Let_def)
    moreover have "?rest = (?page @ ys) @ zs"
      using IH(1) by (metis append.assoc append_take_drop_id)
    moreover have "zs \<noteq> [] \<longrightarrow> (\<exists>pre page. ?page @ ys = pre @ page \<and> page \<noteq> [] \<and> stop page)"
      using IH(3) by (metis append.assoc)
    ultimately show ?thesis by blast
  qed
qed simp

text \<open>
  The paging loops end and miss nothing: on a node that lists \<open>xs\<close> in pages of \<open>n\<close> items, a loop
  without stop condition ends within \<open>length xs div n + 1\<close> rounds and has processed exactly the
  items of \<open>xs\<close>, each once and in order.
\<close>

theorem page_loop_complete:
  assumes "0 < n" "length xs < 4294967295" "length xs div n < fuel"
  shows "page_loop fuel n (pages_of n xs) step (\<lambda>_. False) 0 st = Some (None, fold step xs st)"
  using page_loop_honest [of n 0 xs fuel step "\<lambda>_. False" st] assms by auto

theorem page_loop_complete_witness:
  "page_loop 3 2 (pages_of 2 [1, 2, 3, 4, 5 :: int]) (#) (\<lambda>_. False) 0 [] = Some (None, [5, 4, 3, 2, 1])"
  by (subst page_loop_complete) simp_all

subsection \<open>Refreshing rows\<close>

text \<open>
  A table whose upsert never fails, with the part \<open>fresh\<close> of a row that an upsert brings up to
  date whether or not the row was there.
\<close>

locale refreshed_table = upsert_table +
  fixes fresh :: "'r \<Rightarrow> 'r \<Rightarrow> bool"
  assumes merge_total: "\<exists>m. merge old new = Inr m"
    and fresh_new: "fresh r r"
    and fresh_merge: "merge old new = Inr m \<Longrightarrow> fresh new m"
begin

definition put :: "'r \<Rightarrow> 'r list \<Rightarrow> 'r list" where
  "put r t = (case upsert key merge r t of Inl _ \<Rightarrow> t | Inr t' \<Rightarrow> t')"

lemma upsert_total: "\<exists>t'. upsert key merge r t = Inr t'"
proof -
  have "\<exists>t'. map_result (\<lambda>x. if key x = key r then merge x r else Inr x) t = Inr t'"
    using merge_total by (induction t) (auto split: sum.splits, metis sum.distinct(1))
  then show ?thesis by (auto simp: upsert_def update_chk_def)
qed

lemma upsert_put: "upsert key merge r t = Inr (put r t)"
  using upsert_total [of r t] by (auto simp: put_def)

lemma find_put: "\<exists>row. find_by key (key r) (put r t) = Some row \<and> fresh r row"
proof (cases "find_by key (key r) t")
  case None
  then show ?thesis using find_upsert_fresh [OF upsert_put None] fresh_new by auto
next
  case (Some old)
  then show ?thesis using find_upsert_known [OF upsert_put Some] fresh_merge by auto
qed

lemma find_put_other: "k \<noteq> key r \<Longrightarrow> find_by key k (put r t) = find_by key k t"
  by (rule find_upsert_other [OF upsert_put])

lemma find_fold_other: "k \<notin> key ` set rs \<Longrightarrow> find_by key k (fold put rs t) = find_by key k t"
  by (induction rs arbitrary: t) (auto simp: find_put_other)

lemma find_fold_put:
  "distinct (map key rs) \<Longrightarrow> r \<in> set rs \<Longrightarrow>
   \<exists>row. find_by key (key r) (fold put rs t) = Some row \<and> fresh r row"
proof (induction rs arbitrary: t)
  case (Cons x rs)
  show ?case
  proof (cases "r = x")
    case True
    then have "key r \<notin> key ` set rs" using Cons.prems(1) by auto
    then show ?thesis using True find_put [of x t] by (simp add: find_fold_other)
  next
    case False
    then show ?thesis using Cons by auto
  qed
qed simp

end

definition wrap_fresh :: "WrapTokenRequest \<Rightarrow> WrapTokenRequest \<Rightarrow> bool" where
  "wrap_fresh w r \<longleftrightarrow> wr_Signature r = wr_Signature w \<and>
     wr_ConfirmationsToFinality r = wr_ConfirmationsToFinality w"

definition unwrap_fresh :: "UnwrapTokenRequest \<Rightarrow> UnwrapTokenRequest \<Rightarrow> bool" where
  "unwrap_fresh u r \<longleftrightarrow> ur_Signature r = ur_Signature u \<and> ur_Redeemed r = ur_Redeemed u \<and>
     ur_Revoked r = ur_Revoked u \<and> ur_RedeemableIn r = ur_RedeemableIn u"

interpretation wraps: refreshed_table wr_ID merge_wrap wrap_fresh
  by unfold_locales (auto simp: merge_wrap_def wrap_fresh_def)

interpretation unwraps: refreshed_table unwrap_key merge_unwrap unwrap_fresh
  by unfold_locales (auto simp: merge_unwrap_def unwrap_fresh_def unwrap_key_def)

lemma wraps_fold:
  "wrap_token_requests (fold (sync_wrap (\<lambda>_. False)) ws d) =
     fold wraps.put (map wrap_row ws) (wrap_token_requests d)"
  by (induction ws arbitrary: d)
    (simp_all add: sync_wrap_def try_write_def UpsertWrapRequest_def wraps.upsert_put)

lemma unwraps_fold:
  "unwrap_token_requests (fold (sync_unwrap (\<lambda>_. False)) us d) =
     fold unwraps.put (map unwrap_row us) (unwrap_token_requests d)"
  by (induction us arbitrary: d)
    (simp_all add: sync_unwrap_def try_write_def UpsertUnwrapRequest_def unwraps.upsert_put)

subsection \<open>The request syncs\<close>

text \<open>
  On a list that is sorted from new to old, everything after a page that reaches the stop
  height is at or below it.
\<close>

lemma above_stop_processed:
  assumes "sorted_wrt (\<lambda>a b. height b \<le> height a) xs" "list_all (\<lambda>x. fits_int64 (height x)) xs"
    and "xs = ys @ zs" "zs \<noteq> [] \<longrightarrow> (\<exists>pre page. ys = pre @ page \<and> page \<noteq> [] \<and> reached stop height page)"
    and "x \<in> set xs" "stop < height x"
  shows "x \<in> set ys"
proof (rule ccontr)
  assume "x \<notin> set ys"
  then have z: "x \<in> set zs" using assms(3,5) by simp
  then obtain pre page where "ys = pre @ page" "reached stop height page"
    using assms(4) by fastforce
  then obtain y where y: "y \<in> set ys" "int64 (height y) \<le> stop"
    by (auto simp: reached_def list_ex_iff)
  then have "height y \<le> stop"
    using assms(2,3) by (auto simp: list_all_iff)
  moreover have "height x \<le> height y"
    using assms(1,3) y(1) z by (auto simp: sorted_wrt_append)
  ultimately show False using assms(6) by simp
qed

definition newest_first :: "('a \<Rightarrow> int) \<Rightarrow> 'a list \<Rightarrow> bool" where
  "newest_first height xs \<longleftrightarrow> sorted_wrt (\<lambda>a b. height b \<le> height a) xs \<and>
     list_all (\<lambda>x. fits_int64 (height x)) xs \<and> length xs < 4294967295"

lemma stop_sync:
  assumes "newest_first height xs" "length xs div 100 < fuel"
  obtains ys where "set ys \<subseteq> set xs" "\<And>f. distinct (map f xs) \<Longrightarrow> distinct (map f ys)"
    "page_loop fuel 100 (pages_of 100 xs) step (reached stop height) 0 st = Some (None, fold step ys st)"
    "\<And>x. x \<in> set xs \<Longrightarrow> stop < height x \<Longrightarrow> x \<in> set ys"
proof -
  obtain ys zs where ys: "xs = ys @ zs"
    "page_loop fuel 100 (pages_of 100 xs) step (reached stop height) 0 st = Some (None, fold step ys st)"
    "zs \<noteq> [] \<longrightarrow> (\<exists>pre page. ys = pre @ page \<and> page \<noteq> [] \<and> reached stop height page)"
    using page_loop_honest [of 100 0 xs fuel step "reached stop height" st] assms
    by (auto simp: newest_first_def)
  show thesis
  proof (rule that [of ys])
    show "\<And>x. x \<in> set xs \<Longrightarrow> stop < height x \<Longrightarrow> x \<in> set ys"
      using above_stop_processed [OF _ _ ys(1,3)] assms(1) by (auto simp: newest_first_def)
  qed (use ys in auto)
qed

text \<open>
  C20. The bridge syncs terminate and refresh what is still moving: on a node that lists the
  requests from new to old, a sync ends within \<open>length xs div 100 + 1\<close> pages, and afterwards every
  request above the stop height is stored with the signature and the confirmations (for an
  unwrap: the signature and the redeemed, revoked and redeemable state) the node reports.
\<close>

theorem bridge_requests_refreshed:
  assumes "newest_first wi_CreationMomentumHeight ws" "distinct (map wi_Id ws)"
    and "newest_first ui_RegistrationMomentumHeight us"
    and "distinct (map (\<lambda>u. (ui_TransactionHash u, int64 (ui_LogIndex u))) us)"
    and "length ws div 100 < fuel" "length us div 100 < fuel"
  shows "(\<exists>d'. updateBridgeWrapRequests fuel False (pages_of 100 ws) (\<lambda>_. False) d = Some (None, d') \<and>
      (\<forall>w \<in> set ws. GetWrapSyncStopHeight d < wi_CreationMomentumHeight w \<longrightarrow>
         (\<exists>r. find_by wr_ID (wi_Id w) (wrap_token_requests d') = Some r \<and> wrap_fresh (wrap_row w) r))) \<and>
    (\<exists>d'. updateBridgeUnwrapRequests fuel False (pages_of 100 us) (\<lambda>_. False) d = Some (None, d') \<and>
      (\<forall>u \<in> set us. GetUnwrapSyncStopHeight d < ui_RegistrationMomentumHeight u \<longrightarrow>
         (\<exists>r. find_by unwrap_key (unwrap_key (unwrap_row u)) (unwrap_token_requests d') = Some r \<and>
            unwrap_fresh (unwrap_row u) r)))"
proof
  obtain ys where ys: "set ys \<subseteq> set ws" "distinct (map wi_Id ys)"
    "page_loop fuel 100 (pages_of 100 ws) (sync_wrap (\<lambda>_. False))
       (reached (GetWrapSyncStopHeight d) wi_CreationMomentumHeight) 0 d =
       Some (None, fold (sync_wrap (\<lambda>_. False)) ys d)"
    "\<And>w. w \<in> set ws \<Longrightarrow> GetWrapSyncStopHeight d < wi_CreationMomentumHeight w \<Longrightarrow> w \<in> set ys"
    using stop_sync [OF assms(1,5)] assms(2) by metis
  have "distinct (map wr_ID (map wrap_row ys))"
    using ys(2) by (simp add: wrap_row_def o_def)
  from wraps.find_fold_put [OF this] ys(3,4)
  show "\<exists>d'. updateBridgeWrapRequests fuel False (pages_of 100 ws) (\<lambda>_. False) d = Some (None, d') \<and>
      (\<forall>w \<in> set ws. GetWrapSyncStopHeight d < wi_CreationMomentumHeight w \<longrightarrow>
         (\<exists>r. find_by wr_ID (wi_Id w) (wrap_token_requests d') = Some r \<and> wrap_fresh (wrap_row w) r))"
    by (force simp: updateBridgeWrapRequests_def wraps_fold wrap_row_def)
next
  obtain ys where sync: "set ys \<subseteq> set us"
    "\<And>f :: unwrap_info \<Rightarrow> hash \<times> int. distinct (map f us) \<Longrightarrow> distinct (map f ys)"
    "page_loop fuel 100 (pages_of 100 us) (sync_unwrap (\<lambda>_. False))
       (reached (GetUnwrapSyncStopHeight d) ui_RegistrationMomentumHeight) 0 d =
       Some (None, fold (sync_unwrap (\<lambda>_. False)) ys d)"
    "\<And>u. u \<in> set us \<Longrightarrow> GetUnwrapSyncStopHeight d < ui_RegistrationMomentumHeight u \<Longrightarrow> u \<in> set ys"
    by (rule stop_sync [OF assms(3,6), of "sync_unwrap (\<lambda>_. False)" "GetUnwrapSyncStopHeight d" d]) (rule that; assumption)
  note ys = sync(1) sync(2) [OF assms(4)] sync(3,4)
  have "distinct (map unwrap_key (map unwrap_row ys))"
    using ys(2) by (simp add: unwrap_row_def unwrap_key_def o_def)
  from unwraps.find_fold_put [OF this] ys(3,4)
  show "\<exists>d'. updateBridgeUnwrapRequests fuel False (pages_of 100 us) (\<lambda>_. False) d = Some (None, d') \<and>
      (\<forall>u \<in> set us. GetUnwrapSyncStopHeight d < ui_RegistrationMomentumHeight u \<longrightarrow>
         (\<exists>r. find_by unwrap_key (unwrap_key (unwrap_row u)) (unwrap_token_requests d') = Some r \<and>
            unwrap_fresh (unwrap_row u) r))"
    by (force simp: updateBridgeUnwrapRequests_def unwraps_fold)
qed

definition ex_wrap :: wrap_info where
  "ex_wrap = \<lparr> wi_Id = ''w1'', wi_NetworkClass = 2, wi_ChainId = 1, wi_ToAddress = ''0xa'',
     wi_TokenStandard = ZnnTokenStandard, wi_TokenAddress = ''0xb'', wi_Amount = Some 7, wi_Fee = Some 1,
     wi_Signature = ''sig'', wi_CreationMomentumHeight = 40, wi_ConfirmationsToFinality = 3 \<rparr>"

definition ex_unwrap :: unwrap_info where
  "ex_unwrap = \<lparr> ui_TransactionHash = ''t1'', ui_LogIndex = 0, ui_NetworkClass = 2, ui_ChainId = 1,
     ui_ToAddress = ''z1'', ui_TokenStandard = ZnnTokenStandard, ui_TokenAddress = ''0xb'',
     ui_Amount = Some 7, ui_Signature = ''sig'', ui_RegistrationMomentumHeight = 41, ui_Redeemed = 0,
     ui_Revoked = 0, ui_RedeemableIn = 5 \<rparr>"

theorem bridge_requests_refreshed_witness:
  "\<exists>d' r. updateBridgeWrapRequests 1 False (pages_of 100 [ex_wrap]) (\<lambda>_. False) empty_db = Some (None, d') \<and>
     find_by wr_ID ''w1'' (wrap_token_requests d') = Some r \<and> wr_Signature r = ''sig''"
proof -
  have 1: "newest_first wi_CreationMomentumHeight [ex_wrap]"
    "newest_first ui_RegistrationMomentumHeight [ex_unwrap]"
    by (simp_all add: newest_first_def ex_wrap_def ex_unwrap_def fits_int64_def MinInt64_def MaxInt64_def)
  have 2: "GetWrapSyncStopHeight empty_db < wi_CreationMomentumHeight ex_wrap" by code_simp
  have 3: "wi_Id ex_wrap = ''w1''" "wr_Signature (wrap_row ex_wrap) = ''sig''" by code_simp+
  show ?thesis
    using bridge_requests_refreshed [OF 1(1) _ 1(2), of 1 empty_db] 2 3 by (fastforce simp: wrap_fresh_def)
qed

subsection \<open>Time challenges\<close>

interpretation challenges: refreshed_table bc_MethodName merge_challenge
  "\<lambda>new m. m = new\<lparr> bc_MethodName := bc_MethodName m \<rparr>"
  by unfold_locales (auto simp: merge_challenge_def)

lemma challenges_fold:
  assumes "\<And>k x. \<not> ba_fails api k x"
  shows "fold (sync_challenge api) tcs (keep, d) =
    (keep @ map tc_MethodName tcs, d\<lparr> bridge_time_challenges :=
       fold challenges.put (map (challenge_row api) tcs) (bridge_time_challenges d) \<rparr>)"
  using assms
  by (induction tcs arbitrary: keep d)
    (simp_all add: sync_challenge_def UpsertTimeChallenge_def challenges.upsert_put)

lemma challenge_method [simp]: "bc_MethodName (challenge_row api tc) = tc_MethodName tc"
  by (simp add: challenge_row_def Let_def)

lemma find_by_filter_key:
  "k \<in> K \<Longrightarrow> find_by f k (filter (\<lambda>x. f x \<in> K) t) = find_by f k t"
  by (induction t) auto

text \<open>
  The table of time challenges mirrors the node: after a refresh without write failures it
  holds, for every pending challenge, the row with the current hash, start height, delay and
  first executable height, and no row of a challenge that is gone.
\<close>

theorem challenges_mirror:
  assumes "ba_challenges api = Inr (Some tcs)" "distinct (map tc_MethodName tcs)"
    and "\<And>k x. \<not> ba_fails api k x"
  shows "bc_MethodName ` set (bridge_time_challenges (sync_challenges api d)) \<subseteq> tc_MethodName ` set tcs \<and>
    (\<forall>tc \<in> set tcs. find_by bc_MethodName (tc_MethodName tc)
       (bridge_time_challenges (sync_challenges api d)) = Some (challenge_row api tc))"
proof -
  let ?t = "fold challenges.put (map (challenge_row api) tcs) (bridge_time_challenges d)"
  have table: "bridge_time_challenges (sync_challenges api d) =
      filter (\<lambda>c. bc_MethodName c \<in> tc_MethodName ` set tcs) ?t"
    using assms(1,3)
    by (simp add: sync_challenges_def challenges_fold [OF assms(3)] try_write_def DeleteTimeChallengesNotIn_def)
  have "find_by bc_MethodName (tc_MethodName tc) ?t = Some (challenge_row api tc)" if "tc \<in> set tcs" for tc
  proof -
    have "distinct (map bc_MethodName (map (challenge_row api) tcs))"
      using assms(2) by (simp add: o_def)
    from challenges.find_fold_put [OF this, of "challenge_row api tc"] that
    obtain row where row: "find_by bc_MethodName (tc_MethodName tc) ?t = Some row"
      "row = (challenge_row api tc)\<lparr> bc_MethodName := bc_MethodName row \<rparr>" by fastforce
    then have "bc_MethodName row = bc_MethodName (challenge_row api tc)"
      using find_by_Some by fastforce
    with row show ?thesis by simp
  qed
  then have "find_by bc_MethodName (tc_MethodName tc)
      (filter (\<lambda>c. bc_MethodName c \<in> tc_MethodName ` set tcs) ?t) = Some (challenge_row api tc)"
    if "tc \<in> set tcs" for tc
    using that by (simp add: find_by_filter_key)
  then show ?thesis unfolding table by auto
qed

definition ex_challenge_api :: bridge_api where
  "ex_challenge_api = \<lparr> ba_info = Inr None,
     ba_security = Inr (Some \<lparr> sc_Guardians = [], sc_GuardiansVotes = [], sc_AdministratorDelay = 20,
       sc_SoftDelay = 10 \<rparr>),
     ba_orchestrator = Inr None, ba_networks = (\<lambda>_. Inr []),
     ba_challenges = Inr (Some [\<lparr> tc_MethodName = ''SetTokenPair'', tc_ParamsHash = ''p'',
       tc_ChallengeStartHeight = 100 \<rparr>]),
     ba_fails = (\<lambda>_ _. False), ba_now = 1700000000 \<rparr>"

theorem challenges_mirror_witness:
  "map_option bc_EndHeight (find_by bc_MethodName ''SetTokenPair''
     (bridge_time_challenges (sync_challenges ex_challenge_api empty_db))) = Some 111"
proof -
  let ?tc = "\<lparr> tc_MethodName = ''SetTokenPair'', tc_ParamsHash = ''p'', tc_ChallengeStartHeight = 100 \<rparr>"
  have 1: "ba_challenges ex_challenge_api = Inr (Some [?tc])" by (simp add: ex_challenge_api_def)
  have 2: "bc_EndHeight (challenge_row ex_challenge_api ?tc) = 111" by code_simp
  have "find_by bc_MethodName (tc_MethodName ?tc)
      (bridge_time_challenges (sync_challenges ex_challenge_api empty_db)) = Some (challenge_row ex_challenge_api ?tc)"
    using challenges_mirror [OF 1, of empty_db] by (simp add: ex_challenge_api_def)
  with 2 show ?thesis by simp
qed

end
