(* ===== verification/Sync.thy ===== *)
theory Sync
  imports Processor Retry Cached_Data
begin

text \<open>
  The main loops of \<open>internal/indexer/indexer.go\<close>: the catch-up \<open>sync\<close>, the subscription sessions and
  the loop around them, \<open>Run\<close>, and the offline \<open>Backfill\<close>. What the node, the driver and the
  context do is a script: one element per round of a loop, per announced momentum or per event.
  A script that is used up leaves the loop \<open>Running\<close>, so that every theorem about all scripts is
  one about every moment of a run. The background loops that share the database and the pillar
  map appear in a script as the functions \<open>sr_others\<close> and \<open>pe_others\<close>, applied where the main
  loop may be overtaken.
\<close>

subsection \<open>State\<close>

record sync_state =
  ss_db :: db
  ss_cache :: cache
  ss_events :: "Event list"
  ss_lastProgressAt :: int

datatype run_end = Running | Hung | Ended "error option"

definition canceled :: "error option" where
  "canceled = Some ''context canceled''"

text \<open>A read under \<open>withRetry\<close>: its answer is the one of the attempt that succeeded.\<close>

definition retrying ::
  "(nat \<Rightarrow> bool) \<Rightarrow> (nat \<Rightarrow> bool) \<Rightarrow> (nat \<Rightarrow> error + 'a) \<Rightarrow> error + 'a" where
  "retrying before sleep ans =
     (let run = withRetry \<lparr> fn = (\<lambda>k. case ans k of Inl err \<Rightarrow> Some err | Inr v \<Rightarrow> None),
                            done_before = before, done_sleep = sleep \<rparr>
      in case rr_end run of
           Succeeded \<Rightarrow> ans (rr_calls run)
         | Canceled \<Rightarrow> Inl ''context canceled''
         | GaveUp err \<Rightarrow> Inl err)"

definition overtaken :: "(cache \<times> db \<Rightarrow> cache \<times> db) \<Rightarrow> sync_state \<Rightarrow> sync_state" where
  "overtaken others st =
     st\<lparr> ss_cache := fst (others (ss_cache st, ss_db st)),
         ss_db := snd (others (ss_cache st, ss_db st)) \<rparr>"

subsection \<open>One momentum\<close>

record proc_env =
  pe_others :: "cache \<times> db \<Rightarrow> cache \<times> db"
  pe_ix :: indexer
  pe_tr :: transport
  pe_now :: int

definition with_cache :: "indexer \<Rightarrow> cache \<Rightarrow> indexer" where
  "with_cache ix c = ix\<lparr> ix_pillarNameToOwner := ca_pillarNameToOwner c \<rparr>"

definition ProcessMomentumPublic :: "proc_env \<Rightarrow> momentum \<Rightarrow> sync_state \<Rightarrow> outcome" where
  "ProcessMomentumPublic env m st =
     processMomentum (with_cache (pe_ix env) (ss_cache st)) (pe_tr env) (ss_db st) m"

definition absorb :: "outcome \<Rightarrow> sync_state \<Rightarrow> sync_state" where
  "absorb out st = st\<lparr> ss_db := out_db out, ss_events := ss_events st @ out_events out \<rparr>"

text \<open>Process a momentum and record the progress.\<close>

definition process_one :: "proc_env \<Rightarrow> momentum \<Rightarrow> sync_state \<Rightarrow> error option \<times> sync_state" where
  "process_one env m st0 =
     (let st = overtaken (pe_others env) st0;
          out = ProcessMomentumPublic env m st;
          st' = absorb out st
      in case out_err out of
           Some err \<Rightarrow> (Some err, st')
         | None \<Rightarrow> (None, st'\<lparr> ss_lastProgressAt := pe_now env \<rparr>))"

subsection \<open>Catch-up\<close>

record sync_round =
  sr_others :: "cache \<times> db \<Rightarrow> cache \<times> db"
  sr_done :: bool
  sr_before :: "string \<Rightarrow> nat \<Rightarrow> bool"
  sr_sleep :: "string \<Rightarrow> nat \<Rightarrow> bool"
  sr_read_fails :: "nat \<Rightarrow> error option"
  sr_frontier :: "nat \<Rightarrow> error + int"
  sr_list :: "int \<Rightarrow> int \<Rightarrow> nat \<Rightarrow> error + momentum list option"
  sr_done_at :: "nat \<Rightarrow> bool"
  sr_env :: "nat \<Rightarrow> proc_env"
  sr_fuel :: nat
  sr_cached :: cached_api

definition batchSize :: int where
  "batchSize = 100"

fun sync_batch :: "sync_round \<Rightarrow> nat \<Rightarrow> momentum list \<Rightarrow> sync_state \<Rightarrow> error option \<times> sync_state" where
  "sync_batch r j [] st = (None, st)"
| "sync_batch r j (m # ms) st =
     (if sr_done_at r j then (canceled, st)
      else
        (case process_one (sr_env r j) m st of
           (Some err, st') \<Rightarrow>
             (Some (''failed to process momentum '' @ FormatInt (m_Height m) @ '': '' @ err), st')
         | (None, st') \<Rightarrow> sync_batch r (Suc j) ms st'))"

definition refresh_cached :: "sync_round \<Rightarrow> sync_state \<Rightarrow> run_end \<times> sync_state" where
  "refresh_cached r st =
     (case updateCachedData (sr_fuel r) (ix_sdk (pe_ix (sr_env r 0))) (sr_cached r)
             (ss_cache st) (ss_db st) of
        None \<Rightarrow> (Hung, st)
      | Some (_, c, d) \<Rightarrow> (Running, st\<lparr> ss_cache := c, ss_db := d \<rparr>))"

text \<open>The heights of one round: the one stored last, the node's, and the first to fetch.\<close>

definition latest_height :: "sync_round \<Rightarrow> sync_state \<Rightarrow> error + int" where
  "latest_height r st =
     retrying (sr_before r ''GetLatestHeight'') (sr_sleep r ''GetLatestHeight'')
       (\<lambda>k. case sr_read_fails r k of Some err \<Rightarrow> Inl err | None \<Rightarrow> Inr (GetLatestHeight (ss_db st)))"

definition frontier_height :: "sync_round \<Rightarrow> error + int" where
  "frontier_height r =
     retrying (sr_before r ''GetFrontierMomentum'') (sr_sleep r ''GetFrontierMomentum'') (sr_frontier r)"

definition start_height :: "int \<Rightarrow> int" where
  "start_height dbHeight = (if dbHeight = 0 then 1 else uint64 (dbHeight + 1))"

definition fetch_momentums :: "sync_round \<Rightarrow> int \<Rightarrow> error + momentum list option" where
  "fetch_momentums r start =
     retrying (sr_before r ''GetMomentumsByHeight'') (sr_sleep r ''GetMomentumsByHeight'')
       (sr_list r start batchSize)"

text \<open>One round of the loop; \<open>Running\<close> means that the loop goes on.\<close>

definition sync_once :: "sync_round \<Rightarrow> sync_state \<Rightarrow> run_end \<times> sync_state" where
  "sync_once r st0 =
     (let st = overtaken (sr_others r) st0
      in if sr_done r then (Ended canceled, st)
         else
           (case latest_height r st of
              Inl err \<Rightarrow> (Ended (Some (''failed to get latest height: '' @ err)), st)
            | Inr dbHeight \<Rightarrow>
                (case frontier_height r of
                   Inl err \<Rightarrow> (Ended (Some (''failed to get frontier momentum: '' @ err)), st)
                 | Inr frontierHeight \<Rightarrow>
                     if frontierHeight \<le> dbHeight then (Ended None, st)
                     else
                       (case fetch_momentums r (start_height dbHeight) of
                          Inl err \<Rightarrow>
                            (Ended (Some (''failed to get momentums at height '' @
                               FormatInt (start_height dbHeight) @ '': '' @ err)), st)
                        | Inr None \<Rightarrow> (Running, st)
                        | Inr (Some []) \<Rightarrow> (Running, st)
                        | Inr (Some (m # ms)) \<Rightarrow>
                            (case sync_batch r 0 (m # ms) st of
                               (Some err, st') \<Rightarrow> (Ended (Some err), st')
                             | (None, st') \<Rightarrow>
                                 if start_height dbHeight mod 1000 = 0 then refresh_cached r st'
                                 else (Running, st'))))))"

fun sync_loop :: "sync_round list \<Rightarrow> sync_state \<Rightarrow> run_end \<times> sync_state" where
  "sync_loop [] st = (Running, st)"
| "sync_loop (r # rs) st =
     (case sync_once r st of
        (Running, st') \<Rightarrow> sync_loop rs st'
      | (Hung, st') \<Rightarrow> (Hung, st')
      | (Ended e, st') \<Rightarrow> (Ended e, st'))"

record prime =
  pm_before :: "nat \<Rightarrow> bool"
  pm_sleep :: "nat \<Rightarrow> bool"
  pm_pillars :: "nat \<Rightarrow> error + pillar_info list"
  pm_fails :: "address \<Rightarrow> bool"

definition prime_cache :: "prime \<Rightarrow> sync_state \<Rightarrow> error + cache \<times> db" where
  "prime_cache p st =
     retrying (pm_before p) (pm_sleep p)
       (\<lambda>k. case updatePillarCache (pm_pillars p k) (pm_fails p) (ss_cache st) (ss_db st) of
              (Some err, _) \<Rightarrow> Inl err | (None, cd) \<Rightarrow> Inr cd)"

definition sync :: "prime \<Rightarrow> sync_round list \<Rightarrow> sync_state \<Rightarrow> run_end \<times> sync_state" where
  "sync p rs st =
     (case prime_cache p st of
        Inl err \<Rightarrow> (Ended (Some (''prime pillar cache before catch-up: '' @ err)), st)
      | Inr (c, d) \<Rightarrow> sync_loop rs (st\<lparr> ss_cache := c, ss_db := d \<rparr>))"

subsection \<open>Subscription\<close>

record notice =
  nt_Height :: int
  nt_answer :: "error + momentum list option"
  nt_env :: proc_env

datatype sub_event = SubDone | SubRestart | SubClosed | SubMomentums "notice list"

text \<open>A momentum whose details cannot be fetched, or that fails, is logged and passed over.\<close>

definition process_notice :: "notice \<Rightarrow> sync_state \<Rightarrow> sync_state" where
  "process_notice n st =
     (case nt_answer n of
        Inr (Some (m # _)) \<Rightarrow> snd (process_one (nt_env n) m st)
      | _ \<Rightarrow> st)"

fun session_events :: "sub_event list \<Rightarrow> sync_state \<Rightarrow> run_end \<times> sync_state" where
  "session_events [] st = (Running, st)"
| "session_events (SubDone # es) st = (Ended canceled, st)"
| "session_events (SubRestart # es) st = (Ended None, st)"
| "session_events (SubClosed # es) st = (Ended (Some ''momentum subscription channel closed''), st)"
| "session_events (SubMomentums ns # es) st = session_events es (fold process_notice ns st)"

record sub_session =
  sub_error :: "error option"
  sub_events :: "sub_event list"

definition runSubscriptionSession :: "sub_session \<Rightarrow> sync_state \<Rightarrow> run_end \<times> sync_state" where
  "runSubscriptionSession s st =
     (case sub_error s of
        Some err \<Rightarrow> (Ended (Some (''failed to subscribe to momentums: '' @ err)), st)
      | None \<Rightarrow> session_events (sub_events s) st)"

record loop_round =
  lr_done :: bool
  lr_session :: sub_session
  lr_done_after :: bool
  lr_prime :: prime
  lr_rounds :: "sync_round list"
  lr_done_wait :: bool

fun runSubscriptionLoop :: "loop_round list \<Rightarrow> sync_state \<Rightarrow> run_end \<times> sync_state" where
  "runSubscriptionLoop [] st = (Running, st)"
| "runSubscriptionLoop (r # rs) st =
     (if lr_done r then (Ended canceled, st)
      else
        (case runSubscriptionSession (lr_session r) st of
           (Ended _, st1) \<Rightarrow>
             if lr_done_after r then (Ended canceled, st1)
             else
               (case sync (lr_prime r) (lr_rounds r) st1 of
                  (Ended None, st2) \<Rightarrow> runSubscriptionLoop rs st2
                | (Ended (Some _), st2) \<Rightarrow>
                    if lr_done_wait r then (Ended canceled, st2) else runSubscriptionLoop rs st2
                | (e, st2) \<Rightarrow> (e, st2))
         | (e, st1) \<Rightarrow> (e, st1)))"

definition Run ::
  "int \<Rightarrow> prime \<Rightarrow> sync_round list \<Rightarrow> loop_round list \<Rightarrow> sync_state \<Rightarrow> run_end \<times> sync_state" where
  "Run now p rs ls st =
     (case sync p rs (st\<lparr> ss_lastProgressAt := now \<rparr>) of
        (Ended None, st') \<Rightarrow> runSubscriptionLoop ls st'
      | (Ended (Some err), st') \<Rightarrow> (Ended (Some (''initial sync failed: '' @ err)), st')
      | (e, st') \<Rightarrow> (e, st'))"

subsection \<open>Backfill\<close>

text \<open>The query: heights without a momentum, and momentums with fewer blocks than they announce.\<close>

definition missing_momentums :: "db \<Rightarrow> int list" where
  "missing_momentums d =
     (case max_of mo_Height (momentums d) of
        None \<Rightarrow> []
      | Some highest \<Rightarrow> filter (\<lambda>h. find_by mo_Height h (momentums d) = None) [1..highest])"

definition incomplete_momentums :: "db \<Rightarrow> int list" where
  "incomplete_momentums d =
     map mo_Height
       (filter (\<lambda>m. 0 < mo_TxCount m \<and>
                    count_where (\<lambda>b. ab_MomentumHeight b = mo_Height m) (account_blocks d) < mo_TxCount m)
          (momentums d))"

definition backfill_heights :: "db \<Rightarrow> int list" where
  "backfill_heights d = sort (remdups (missing_momentums d @ incomplete_momentums d))"

definition direct_row :: "momentum \<Rightarrow> Momentum" where
  "direct_row m = \<lparr> mo_Height = m_Height m, mo_Hash = m_Hash m,
     mo_Timestamp = int64 (m_TimestampUnix m), mo_TxCount = int (length (m_Content m)),
     mo_Producer = m_Producer m, mo_ProducerOwner = [], mo_ProducerName = [] \<rparr>"

definition backfillMomentumDirect :: "bool \<Rightarrow> momentum \<Rightarrow> db \<Rightarrow> db" where
  "backfillMomentumDirect fails m = try_write fails (Momentum_Insert (direct_row m))"

record backfill_env =
  bf_query :: "error option"
  bf_done :: "int \<Rightarrow> bool"
  bf_answer :: "int \<Rightarrow> error + momentum list option"
  bf_env :: "int \<Rightarrow> proc_env"
  bf_direct_fails :: "int \<Rightarrow> bool"

definition backfill_one :: "backfill_env \<Rightarrow> int \<Rightarrow> sync_state \<Rightarrow> sync_state" where
  "backfill_one env height st0 =
     (case bf_answer env height of
        Inr (Some (m # _)) \<Rightarrow>
          (let st = overtaken (pe_others (bf_env env height)) st0;
               out = ProcessMomentumPublic (bf_env env height) m st;
               st' = absorb out st
           in case out_err out of
                None \<Rightarrow> st'
              | Some _ \<Rightarrow>
                  st'\<lparr> ss_db := backfillMomentumDirect (bf_direct_fails env height) m (ss_db st') \<rparr>)
      | _ \<Rightarrow> st0)"

fun backfill_loop :: "backfill_env \<Rightarrow> int list \<Rightarrow> sync_state \<Rightarrow> error option \<times> sync_state" where
  "backfill_loop env [] st = (None, st)"
| "backfill_loop env (h # hs) st =
     (if bf_done env h then (canceled, st) else backfill_loop env hs (backfill_one env h st))"

text \<open>A negative height cannot be scanned into a \<open>uint64\<close>.\<close>

definition Backfill :: "backfill_env \<Rightarrow> sync_state \<Rightarrow> error option \<times> sync_state" where
  "Backfill env st =
     (case bf_query env of
        Some err \<Rightarrow> (Some (''failed to query missing momentums: '' @ err), st)
      | None \<Rightarrow>
          let heights = backfill_heights (ss_db st)
          in if list_ex (\<lambda>h. h < 0) heights then (Some ''failed to scan height'', st)
             else backfill_loop env heights st)"

end
