(* ===== verification/Sync_Facts.thy ===== *)
theory Sync_Facts
  imports Sync Bridge_Props Momentum_Props
begin

text \<open>
  What the main loops do to the chain of stored momentums. The locale \<open>append_only\<close> is the contract
  between the catch-up and its readers: an invariant of the stored heights that survives the
  insertion of the next height survives every catch-up, with all its failures.
\<close>

subsection \<open>Stored heights\<close>

definition heights :: "db \<Rightarrow> int set" where
  "heights d = mo_Height ` set (momentums d)"

definition stored :: "db \<Rightarrow> (int \<times> hash) list" where
  "stored d = map (\<lambda>r. (mo_Height r, mo_Hash r)) (momentums d)"

definition id_of :: "momentum \<Rightarrow> int \<times> hash" where
  "id_of m = (m_Height m, m_Hash m)"

definition next_height :: "int set \<Rightarrow> int" where
  "next_height H = (if H = {} then 1 else Max H + 1)"

lemma finite_heights [simp]: "finite (heights d)"
  by (simp add: heights_def)

lemma heights_stored: "heights d = fst ` set (stored d)"
  by (simp add: heights_def stored_def image_image)

lemma GetLatestHeight_Max:
  assumes "heights d \<subseteq> {0..<18446744073709551616}"
  shows "GetLatestHeight d = (if heights d = {} then 0 else Max (heights d))"
proof (cases "momentums d = []")
  case False
  then have "Max (heights d) \<in> heights d" by (intro Max_in) (auto simp: heights_def)
  with assms have "uint64 (Max (heights d)) = Max (heights d)" by (intro uint64_id) auto
  then show ?thesis using False by (auto simp: GetLatestHeight_def max_of_def heights_def)
qed (simp add: GetLatestHeight_def max_of_def heights_def)

lemma start_next:
  assumes "heights d \<subseteq> {0..<18446744073709551616}" "GetLatestHeight d < 18446744073709551615"
  shows "start_height (GetLatestHeight d) = next_height (heights d)"
proof (cases "heights d = {}")
  case False
  then have "0 \<le> Max (heights d)" using assms(1) Max_in [of "heights d"] by fastforce
  moreover have "Max (heights d) < 18446744073709551615"
    using assms(2) GetLatestHeight_Max [OF assms(1)] False by simp
  ultimately have "uint64 (Max (heights d) + 1) = Max (heights d) + 1" by (intro uint64_id) auto
  then show ?thesis
    using GetLatestHeight_Max [OF assms(1)] False by (simp add: start_height_def next_height_def)
qed (use GetLatestHeight_Max [OF assms(1)] in \<open>simp add: start_height_def next_height_def\<close>)

lemma stored_Insert:
  "momentums d' = insert_ignore mo_Height row (momentums d) \<Longrightarrow> mo_Height row \<notin> heights d \<Longrightarrow>
   stored d' = stored d @ [(mo_Height row, mo_Hash row)]"
  unfolding stored_def insert_ignore_def heights_def
  by (metis (no_types, lifting) imageI list.simps(8,9) map_append)

lemma heights_Insert:
  "momentums d' = insert_ignore mo_Height row (momentums d) \<Longrightarrow>
   heights d' = insert (mo_Height row) (heights d)"
  unfolding insert_ignore_def heights_def by (auto split: if_splits simp: image_iff) metis

subsection \<open>One momentum\<close>

lemma momentum_row_id [simp]: "mo_Height (momentum_row ix d m) = m_Height m"
  "mo_Hash (momentum_row ix d m) = m_Hash m"
  by (simp_all add: momentum_row_def Let_def)

lemma batch_momentums:
  assumes "momentum_batch ix d m = Inr (batch, es)" "exec_batch reject j batch d = Inr d'"
  shows "momentums d' = insert_ignore mo_Height (momentum_row ix d m) (momentums d)"
  using Counters.momentum_batch [OF assms(2)] batch_facts(4) [OF assms(1)] by simp

lemma processMomentum_momentums:
  "momentums (out_db (processMomentum ix tr d m)) = momentums d \<or>
   momentums (out_db (processMomentum ix tr d m)) =
     insert_ignore mo_Height (momentum_row ix d m) (momentums d)"
  using processMomentum_db [of ix tr d m]
proof (elim disjE exE conjE)
  fix batch es
  assume "momentum_batch ix d m = Inr (batch, es)"
    and "exec_batch (tr_reject tr) 0 batch d = Inr (out_db (processMomentum ix tr d m))"
  then show ?thesis using batch_momentums by blast
qed simp

lemma processMomentum_momentums_ok:
  assumes "out_err (processMomentum ix tr d m) = None"
  shows "momentums (out_db (processMomentum ix tr d m)) =
    insert_ignore mo_Height (momentum_row ix d m) (momentums d)"
proof -
  obtain batch es where "momentum_batch ix d m = Inr (batch, es)"
    "exec_batch (tr_reject tr) 0 batch d = Inr (out_db (processMomentum ix tr d m))"
    using assms by (rule processMomentum_ok)
  then show ?thesis by (rule batch_momentums)
qed

text \<open>The background loops do not touch the momentums.\<close>

definition quiet :: "(cache \<times> db \<Rightarrow> cache \<times> db) \<Rightarrow> bool" where
  "quiet others = (\<forall>x. momentums (snd (others x)) = momentums (snd x))"

lemma overtaken_momentums [simp]:
  "quiet others \<Longrightarrow> momentums (ss_db (overtaken others st)) = momentums (ss_db st)"
  by (simp add: overtaken_def quiet_def)

lemma same_momentums:
  "momentums d = momentums d' \<Longrightarrow> heights d = heights d' \<and> stored d = stored d' \<and>
     GetLatestHeight d = GetLatestHeight d'"
  by (simp add: heights_def stored_def GetLatestHeight_def)

lemmas overtaken_heights [simp] = same_momentums [OF overtaken_momentums]

lemma process_one_cases:
  assumes "process_one env m st = (e, st')" "quiet (pe_others env)"
  shows "momentums (ss_db st') = momentums (ss_db st) \<and> e \<noteq> None \<or>
    (\<exists>row. mo_Height row = m_Height m \<and> mo_Hash row = m_Hash m \<and>
       momentums (ss_db st') = insert_ignore mo_Height row (momentums (ss_db st)))"
proof -
  let ?st = "overtaken (pe_others env) st"
  let ?ix = "with_cache (pe_ix env) (ss_cache ?st)"
  let ?out = "processMomentum ?ix (pe_tr env) (ss_db ?st) m"
  have db: "momentums (ss_db st') = momentums (out_db ?out)" and e: "e = out_err ?out"
    using assms(1)
    by (auto simp: process_one_def ProcessMomentumPublic_def absorb_def Let_def split: option.splits)
  have same: "momentums (ss_db ?st) = momentums (ss_db st)" using assms(2) by simp
  show ?thesis
    using processMomentum_momentums [of ?ix "pe_tr env" "ss_db ?st" m]
      processMomentum_momentums_ok [of ?ix "pe_tr env" "ss_db ?st" m] momentum_row_id
    unfolding db e same by blast
qed

lemma process_one_refused:
  assumes "process_one env m st = (Some err, st')"
  shows "out_err (processMomentum (with_cache (pe_ix env) (ss_cache (overtaken (pe_others env) st)))
    (pe_tr env) (ss_db (overtaken (pe_others env) st)) m) = Some err"
  using assms
  by (auto simp: process_one_def ProcessMomentumPublic_def Let_def split: option.splits)

subsection \<open>The background loops\<close>

lemma map_Inr_momentums:
  "map_Inr f x = Inr y \<Longrightarrow> (\<And>v. momentums (f v) = momentums d) \<Longrightarrow> momentums y = momentums d"
  by (auto simp: map_Inr_eq_Inr)

lemma upsert_momentums:
  "Pillar_Upsert x1 d = Inr d' \<Longrightarrow> momentums d' = momentums d"
  "Sentinel_Upsert x2 d = Inr d' \<Longrightarrow> momentums d' = momentums d"
  "Project_Upsert x3 d = Inr d' \<Longrightarrow> momentums d' = momentums d"
  "Phase_Upsert x4 d = Inr d' \<Longrightarrow> momentums d' = momentums d"
  "Swap_UpsertAsset x5 d = Inr d' \<Longrightarrow> momentums d' = momentums d"
  "UpsertWrapRequest x6 d = Inr d' \<Longrightarrow> momentums d' = momentums d"
  "UpsertUnwrapRequest x7 d = Inr d' \<Longrightarrow> momentums d' = momentums d"
  "UpsertGuardian x8 d = Inr d' \<Longrightarrow> momentums d' = momentums d"
  "UpsertNetwork x9 d = Inr d' \<Longrightarrow> momentums d' = momentums d"
  "UpsertNetworkToken x10 d = Inr d' \<Longrightarrow> momentums d' = momentums d"
  "UpsertTimeChallenge x11 d = Inr d' \<Longrightarrow> momentums d' = momentums d"
  unfolding Pillar_Upsert_def Sentinel_Upsert_def Project_Upsert_def Phase_Upsert_def
    Swap_UpsertAsset_def UpsertWrapRequest_def UpsertUnwrapRequest_def UpsertGuardian_def
    UpsertNetwork_def UpsertNetworkToken_def UpsertTimeChallenge_def
  by (erule map_Inr_momentums, simp)+

lemma config_momentums:
  "UpsertAdmin x12 d = Inr d' \<Longrightarrow> momentums d' = momentums d"
  "UpsertSecurityInfo x13 d = Inr d' \<Longrightarrow> momentums d' = momentums d"
  "MarkGuardiansAbsent x14 d = Inr d' \<Longrightarrow> momentums d' = momentums d"
  "UpsertOrchestratorInfo x15 d = Inr d' \<Longrightarrow> momentums d' = momentums d"
  "DeleteTimeChallengesNotIn x16 d = Inr d' \<Longrightarrow> momentums d' = momentums d"
  by (auto simp: UpsertAdmin_def UpsertSecurityInfo_def MarkGuardiansAbsent_def
      UpsertOrchestratorInfo_def DeleteTimeChallengesNotIn_def split: if_splits)

lemma try_write_momentums:
  "(\<And>d'. write d = Inr d' \<Longrightarrow> momentums d' = momentums d) \<Longrightarrow>
   momentums (try_write fails write d) = momentums d"
  unfolding try_write_def by (simp only: split: if_split sum.split) blast

lemma fold_momentums:
  "(\<And>x d. momentums (f x d) = momentums d) \<Longrightarrow> momentums (fold f xs d) = momentums d"
  by (induction xs arbitrary: d) auto

lemma page_loop_momentums:
  assumes "page_loop fuel n api step stop p d = Some (e, d')"
    and "\<And>x d. momentums (step x d) = momentums d"
  shows "momentums d' = momentums d"
  using assms
proof (induction fuel n api step stop p d rule: page_loop.induct)
  case (2 fuel n api step stop p st)
  have "momentums (fold step items st) = momentums st" for items
    using 2(3) by (rule fold_momentums)
  with 2 show ?case by (auto simp: Let_def split: sum.splits if_splits)
qed simp

lemma fold_try_momentums:
  "(\<And>x d d'. write x d = Inr d' \<Longrightarrow> momentums d' = momentums d) \<Longrightarrow>
   momentums (fold (\<lambda>x. try_write (fails x) (write x)) xs d) = momentums d"
  by (intro fold_momentums try_write_momentums)

lemma updatePillarCache_momentums:
  "updatePillarCache api fails c d = (e, c', d') \<Longrightarrow> momentums d' = momentums d"
  by (auto simp: updatePillarCache_def intro: fold_try_momentums upsert_momentums split: sum.splits)

lemma sync_project_momentums: "momentums (sync_project sdk fails p d) = momentums d"
  unfolding sync_project_def
  by (subst fold_momentums) (auto simp: sync_phase_def intro: try_write_momentums upsert_momentums split: option.splits)

lemma syncSwapAssets_momentums: "momentums (syncSwapAssets api fails now d) = momentums d"
  by (auto simp: syncSwapAssets_def intro!: fold_momentums try_write_momentums
      intro: upsert_momentums split: sum.splits option.splits)

lemma updateCachedData_momentums:
  assumes "updateCachedData fuel sdk api c d = Some (e, c', d')"
  shows "momentums d' = momentums d"
  using assms
  by (auto simp: updateCachedData_def syncSwapAssets_momentums
      dest!: updatePillarCache_momentums page_loop_momentums
      intro: try_write_momentums upsert_momentums sync_project_momentums
      split: prod.splits option.splits)

lemma sync_challenge_momentums:
  "momentums (snd (sync_challenge api tc kd)) = momentums (snd kd)"
  by (cases kd) (auto simp: sync_challenge_def intro: upsert_momentums split: sum.splits)

lemma sync_challenges_momentums: "momentums (sync_challenges api d) = momentums d"
proof -
  have *: "momentums (snd (fold (sync_challenge api) tcs kd)) = momentums (snd kd)" for tcs kd
    by (induction tcs arbitrary: kd) (simp_all add: sync_challenge_momentums)
  have "momentums (try_write fails (DeleteTimeChallengesNotIn ks) d1) = momentums d1" for fails ks d1
    by (intro try_write_momentums config_momentums)
  with * [of _ "([], d)"] show ?thesis
    by (auto simp: sync_challenges_def split: sum.splits option.splits prod.splits) (metis snd_conv)+
qed

lemma sync_config_momentums:
  "momentums (sync_admin api d) = momentums d"
  "momentums (sync_orchestrator api d) = momentums d"
  by (auto simp: sync_admin_def sync_orchestrator_def
      intro!: try_write_momentums elim!: config_momentums split: sum.splits option.splits)

lemma sync_security_momentums: "momentums (sync_security api d) = momentums d"
proof -
  have "momentums (sync_guardians api sec d1) = momentums d1" for sec d1
  proof -
    have "momentums (fold (\<lambda>addr. try_write (ba_fails api ''guardian'' addr)
        (UpsertGuardian (guardian_row sec (ba_now api) addr))) gs d1) = momentums d1" for gs
      by (intro fold_try_momentums upsert_momentums)
    moreover have "momentums (try_write fails (MarkGuardiansAbsent now) d2) = momentums d2" for fails now d2
      by (intro try_write_momentums config_momentums)
    ultimately show ?thesis by (simp add: sync_guardians_def)
  qed
  then show ?thesis
    by (auto simp: sync_security_def intro!: try_write_momentums elim!: config_momentums
        split: sum.splits option.splits)
qed

lemma sync_network_momentums: "momentums (sync_network api n d) = momentums d"
proof -
  have "momentums (fold (sync_token_pair api n) tps d') = momentums d'" for tps d'
    by (intro fold_momentums) (auto simp: sync_token_pair_def intro: try_write_momentums upsert_momentums)
  then show ?thesis
    by (auto simp: sync_network_def split: sum.splits dest: upsert_momentums)
qed

text \<open>The bridge loop and the cached-data loop are quiet.\<close>

lemma updateBridgeRequests_momentums:
  "updateBridgeWrapRequests fuel rf wapi fails d = Some (e, d') \<Longrightarrow> momentums d' = momentums d"
  "updateBridgeUnwrapRequests fuel rf uapi fails2 d = Some (e, d') \<Longrightarrow> momentums d' = momentums d"
  unfolding updateBridgeWrapRequests_def updateBridgeUnwrapRequests_def Let_def sync_wrap_def sync_unwrap_def
  by (auto split: if_splits elim!: page_loop_momentums intro!: try_write_momentums elim: upsert_momentums)

lemma updateBridgeConfig_momentums:
  assumes "updateBridgeConfig fuel api d = Some d'"
  shows "momentums d' = momentums d"
proof -
  obtain e d1 where "page_loop fuel 50 (ba_networks api) (sync_network api) (\<lambda>_. False) 0
      (sync_orchestrator api (sync_security api (sync_admin api d))) = Some (e, d1)"
    "d' = sync_challenges api d1"
    using assms by (auto simp: updateBridgeConfig_def split: option.splits)
  with page_loop_momentums [OF this(1) sync_network_momentums] show ?thesis
    by (simp add: sync_challenges_momentums sync_config_momentums sync_security_momentums)
qed

lemma syncBridgeData_momentums:
  assumes "syncBridgeData fuel rq api d = Some d'"
  shows "momentums d' = momentums d"
  using assms unfolding syncBridgeData_def
  by (auto split: option.splits prod.splits
      dest!: updateBridgeRequests_momentums updateBridgeConfig_momentums)

subsection \<open>Retried reads\<close>

text \<open>The read answers \<open>v\<close> within the six attempts of \<open>defaultRetry\<close>, on a live context.\<close>

definition answers ::
  "(nat \<Rightarrow> bool) \<Rightarrow> (nat \<Rightarrow> bool) \<Rightarrow> (nat \<Rightarrow> error + 'a) \<Rightarrow> 'a \<Rightarrow> bool" where
  "answers before sleep ans v =
     (\<exists>j<6. ans (Suc j) = Inr v \<and> (\<forall>i. 1 \<le> i \<and> i \<le> j \<longrightarrow> isl (ans i)) \<and>
        (\<forall>i. \<not> before i \<and> \<not> sleep i))"

lemma retrying_answers:
  assumes "answers before sleep ans v"
  shows "retrying before sleep ans = Inr v"
proof -
  obtain j where j: "j < 6" "ans (Suc j) = Inr v" "\<forall>i. 1 \<le> i \<and> i \<le> j \<longrightarrow> isl (ans i)"
    "\<forall>i. \<not> before i \<and> \<not> sleep i"
    using assms by (auto simp: answers_def)
  let ?w = "\<lparr> fn = (\<lambda>k. case ans k of Inl err \<Rightarrow> Some err | Inr v \<Rightarrow> None),
                            done_before = before, done_sleep = sleep \<rparr>"
  have failing: "(case ans (Suc i) of Inl err \<Rightarrow> Some err | Inr v \<Rightarrow> None) \<noteq> None" if "i < j" for i
    using j(3) [rule_format, of "Suc i"] that by (cases "ans (Suc i)") auto
  have "retry_loop defaultRetry ?w 1 (attempts defaultRetry - 1) (rc_BaseDelay defaultRetry) 0 0 =
      \<lparr> rr_end = Succeeded, rr_calls = 0 + Suc j,
        rr_waited = 0 + waits defaultRetry j (rc_BaseDelay defaultRetry) \<rparr>"
    using j failing by (intro retry_loop_success) (auto simp: attempts_def defaultRetry_def)
  then show ?thesis
    using j by (simp add: retrying_def withRetry_def withRetryConfig_def)
qed

lemma retrying_Inr: "retrying before sleep ans = Inr v \<Longrightarrow> \<exists>k. ans k = Inr v"
  by (auto simp: retrying_def Let_def split: retry_end.splits)

subsection \<open>What a catch-up keeps\<close>

text \<open>
  What a round needs of its surroundings: the loops that run beside it leave the momentums alone,
  heights are unsigned 64-bit numbers, and a list of momentums starts at the requested height and
  has no holes.
\<close>

definition chain_list :: "int \<Rightarrow> momentum list \<Rightarrow> bool" where
  "chain_list start ms =
     (map m_Height ms = [start..start + int (length ms) - 1] \<and>
      (\<forall>m \<in> set ms. m_Height m < 18446744073709551616))"

definition chain_round :: "sync_round \<Rightarrow> bool" where
  "chain_round r =
     (quiet (sr_others r) \<and> (\<forall>j. quiet (pe_others (sr_env r j))) \<and>
      (\<forall>k f. sr_frontier r k = Inr f \<longrightarrow> f < 18446744073709551616) \<and>
      (\<forall>s n k ms. sr_list r s n k = Inr (Some ms) \<longrightarrow> chain_list s ms))"

lemma chain_list_Cons:
  "chain_list n (m # ms) \<longleftrightarrow> m_Height m = n \<and> n < 18446744073709551616 \<and> chain_list (n + 1) ms"
proof -
  have "[n..n + int (length (m # ms)) - 1] = n # [n + 1..n + 1 + int (length ms) - 1]"
    by (subst upto_rec1) (simp_all add: algebra_simps)
  then show ?thesis by (auto simp: chain_list_def)
qed

lemma refresh_momentums:
  "refresh_cached r st = (e, st') \<Longrightarrow> momentums (ss_db st') = momentums (ss_db st)"
  by (auto simp: refresh_cached_def split: option.splits dest: updateCachedData_momentums)

lemma next_insert: "finite H \<Longrightarrow> next_height (insert (next_height H) H) = next_height H + 1"
  by (auto simp: next_height_def Max_insert)

lemma sync_once_cases:
  assumes "sync_once r st = (e, st')"
  obtains (same) "st' = overtaken (sr_others r) st"
    | (batch) dbHeight m ms e1 st1 where "latest_height r (overtaken (sr_others r) st) = Inr dbHeight"
      "\<exists>f. frontier_height r = Inr f \<and> dbHeight < f"
      "fetch_momentums r (start_height dbHeight) = Inr (Some (m # ms))"
      "sync_batch r 0 (m # ms) (overtaken (sr_others r) st) = (e1, st1)"
      "momentums (ss_db st') = momentums (ss_db st1)"
  using assms refresh_momentums
  by (auto simp: sync_once_def Let_def not_le simp del: sync_batch.simps
      split: sum.splits option.splits list.splits prod.splits if_splits)

lemma fetch_chain:
  assumes "chain_round r" "fetch_momentums r s = Inr (Some ms)"
  shows "chain_list s ms"
proof -
  obtain k where "sr_list r s batchSize k = Inr (Some ms)"
    using retrying_Inr [OF assms(2) [unfolded fetch_momentums_def]] by blast
  then show ?thesis using assms(1) unfolding chain_round_def by blast
qed

lemma frontier_bound:
  assumes "chain_round r" "frontier_height r = Inr f"
  shows "f < 18446744073709551616"
proof -
  obtain k where "sr_frontier r k = Inr f"
    using retrying_Inr [OF assms(2) [unfolded frontier_height_def]] by blast
  then show ?thesis using assms(1) unfolding chain_round_def by blast
qed

lemma prime_momentums:
  assumes "prime_cache p st = Inr (c, d)"
  shows "momentums d = momentums (ss_db st)"
proof -
  obtain k where "(case updatePillarCache (pm_pillars p k) (pm_fails p) (ss_cache st) (ss_db st) of
      (Some err, _) \<Rightarrow> Inl err | (None, cd) \<Rightarrow> Inr cd) = Inr (c, d)"
    using retrying_Inr [OF assms [unfolded prime_cache_def]] by blast
  then have "updatePillarCache (pm_pillars p k) (pm_fails p) (ss_cache st) (ss_db st) = (None, c, d)"
    by (auto split: prod.splits option.splits)
  then show ?thesis by (rule updatePillarCache_momentums)
qed

locale append_only =
  fixes I :: "int set \<Rightarrow> bool"
  assumes bounded: "I H \<Longrightarrow> H \<subseteq> {0..<18446744073709551616}"
    and grow: "I H \<Longrightarrow> finite H \<Longrightarrow> next_height H < 18446744073709551616 \<Longrightarrow> I (insert (next_height H) H)"
begin

lemma batch_keeps:
  assumes "I (heights (ss_db st))" "chain_list (next_height (heights (ss_db st))) ms"
    and "\<forall>j. quiet (pe_others (sr_env r j))"
  shows "I (heights (ss_db (snd (sync_batch r j ms st))))"
  using assms(1,2)
proof (induction ms arbitrary: st j)
  case (Cons m ms)
  let ?H = "heights (ss_db st)"
  obtain e st1 where one: "process_one (sr_env r j) m st = (e, st1)" by fastforce
  have m: "m_Height m = next_height ?H" "next_height ?H < 18446744073709551616"
    using Cons.prems(2) by (simp_all add: chain_list_Cons)
  from process_one_cases [OF one] assms(3)
  have H: "heights (ss_db st1) = ?H \<and> e \<noteq> None \<or> heights (ss_db st1) = insert (next_height ?H) ?H"
    using same_momentums heights_Insert m(1) by metis
  have I1: "I (heights (ss_db st1))"
    using H grow [OF Cons.prems(1) _ m(2)] Cons.prems(1) by auto
  show ?case
  proof (cases e)
    case None
    then have "chain_list (next_height (heights (ss_db st1))) ms"
      using H Cons.prems(2) by (simp add: chain_list_Cons next_insert)
    from Cons.IH [OF I1 this] show ?thesis using one None Cons.prems(1) by simp
  next
    case (Some err)
    then show ?thesis using one I1 Cons.prems(1) by simp
  qed
qed simp

lemma once_keeps:
  assumes "chain_round r" "I (heights (ss_db st))" "sync_once r st = (e, st')"
  shows "I (heights (ss_db st'))"
  using assms(3)
proof (cases rule: sync_once_cases)
  case same
  then show ?thesis using assms by (simp add: chain_round_def)
next
  case (batch dbHeight m ms e1 st1)
  let ?st = "overtaken (sr_others r) st"
  have I: "I (heights (ss_db ?st))" using assms(1,2) by (simp add: chain_round_def)
  have db: "dbHeight = GetLatestHeight (ss_db ?st)"
    using retrying_Inr [OF batch(1) [unfolded latest_height_def]] by (auto split: option.splits)
  have "GetLatestHeight (ss_db ?st) < 18446744073709551615"
    using batch(2) frontier_bound [OF assms(1)] unfolding db by fastforce
  from start_next [OF bounded [OF I] this]
  have "chain_list (next_height (heights (ss_db ?st))) (m # ms)"
    using fetch_chain [OF assms(1) batch(3)] unfolding db by simp
  from batch_keeps [OF I this, of r 0] have "I (heights (ss_db st1))"
    using batch(4) assms(1) unfolding chain_round_def by (metis snd_conv)
  then show ?thesis using batch(5) same_momentums by metis
qed

lemma loop_keeps:
  assumes "\<forall>r \<in> set rs. chain_round r" "I (heights (ss_db st))"
  shows "I (heights (ss_db (snd (sync_loop rs st))))"
  using assms
proof (induction rs arbitrary: st)
  case (Cons r rs)
  obtain e st' where "sync_once r st = (e, st')" by fastforce
  with once_keeps [of r st e st'] Cons show ?case by (cases e) auto
qed simp

lemma sync_keeps:
  assumes "\<forall>r \<in> set rs. chain_round r" "I (heights (ss_db st))"
  shows "I (heights (ss_db (snd (sync p rs st))))"
proof (cases "prime_cache p st")
  case (Inr cd)
  then obtain c d where cd: "prime_cache p st = Inr (c, d)" by (cases cd) auto
  then have "heights d = heights (ss_db st)"
    using prime_momentums same_momentums by blast
  then show ?thesis using cd assms loop_keeps by (simp add: sync_def)
qed (use assms in \<open>simp add: sync_def\<close>)

end

interpretation up_to: append_only "\<lambda>H. \<exists>k. k0 \<le> k \<and> k < 18446744073709551616 \<and> H = {1..k}" for k0
proof
  fix H assume "\<exists>k\<ge>k0. k < 18446744073709551616 \<and> H = {1..k}"
  then obtain k where k: "k0 \<le> k" "k < 18446744073709551616" "H = {1..k}" by blast
  then show "H \<subseteq> {0..<18446744073709551616}" by auto
  assume n: "next_height H < 18446744073709551616"
  show "\<exists>k'\<ge>k0. k' < 18446744073709551616 \<and> insert (next_height H) H = {1..k'}"
  proof (cases "1 \<le> k")
    case True
    then have "next_height H = k + 1" "insert (k + 1) H = {1..k + 1}"
      using k by (auto simp: next_height_def intro!: Max_eqI)
    then show ?thesis using k n by (intro exI [of _ "k + 1"]) simp
  next
    case False
    then show ?thesis using k by (intro exI [of _ 1]) (auto simp: next_height_def)
  qed
qed

interpretation hole: append_only
  "\<lambda>H. H \<subseteq> {0..<18446744073709551616} \<and> h \<notin> H \<and> H \<noteq> {} \<and> h < Max H" for h
  by unfold_locales (auto simp: next_height_def Max_insert dest: Max_in)

end
