(* ===== verification/Sync_Props.thy ===== *)
theory Sync_Props
  imports Sync_Facts
begin

text \<open>
  The theorems about the main loops: the catch-up keeps the stored heights free of holes and
  reaches the frontier of an honest node, the live subscription may leave a hole that no catch-up
  fills, and \<open>Backfill\<close> fills every hole.
\<close>

subsection \<open>The catch-up leaves no hole\<close>

text \<open>
  C16. Whatever fails during a catch-up (retried reads, a canceled context, a refused batch, a
  commit whose reply is lost), a database that holds the heights 1 to k holds the heights 1 to k'
  for some k' at least k afterwards, and at every moment in between. The node only has to answer a
  list request with consecutive momentums that start at the requested height.
\<close>

theorem sync_keeps_prefix:
  assumes "\<forall>r \<in> set rs. chain_round r" "heights (ss_db st) = {1..k}" "k < 18446744073709551616"
  shows "\<exists>k' \<ge> k. heights (ss_db (snd (sync p rs st))) = {1..k'}"
  using up_to.sync_keeps [OF assms(1), of k st p] assms(2,3) by auto

subsection \<open>The catch-up reaches the frontier\<close>












definition ex_block :: "nat \<Rightarrow> momentum" where
  "ex_block n = \<lparr> m_Height = int n, m_Hash = replicate n CHR ''m'', m_TimestampUnix = 1700000000 + int n,
     m_Producer = ''prod'', m_Content = [] \<rparr>"

definition ex_chain :: "momentum list" where
  "ex_chain = [ex_block 1, ex_block 2]"

definition ex_env :: proc_env where
  "ex_env = \<lparr> pe_others = id, pe_ix = ex_ix, pe_tr = ex_tr, pe_now = 1700000100 \<rparr>"

definition ex_round :: sync_round where
  "ex_round = \<lparr> sr_others = id, sr_done = False, sr_before = (\<lambda>_ _. False), sr_sleep = (\<lambda>_ _. False),
     sr_read_fails = (\<lambda>k. if k < 3 then Some ''busy'' else None), sr_frontier = (\<lambda>_. Inr 2),
     sr_list = (\<lambda>s n _. if s = 1 then Inr (Some ex_chain) else if s = 2 then Inr (Some [ex_block 2]) else Inr None),
     sr_done_at = (\<lambda>_. False), sr_env = (\<lambda>_. ex_env), sr_fuel = 1,
     sr_cached = \<lparr> api_pillars = Inl ''down'', api_sentinels = (\<lambda>_. Inr []), api_projects = (\<lambda>_. Inr []),
       api_assets = Inr [], api_write_fails = (\<lambda>_. False), api_now = 0 \<rparr> \<rparr>"

definition ex_prime :: prime where
  "ex_prime = \<lparr> pm_before = (\<lambda>_. False), pm_sleep = (\<lambda>_. False),
     pm_pillars = (\<lambda>k. if k = 1 then Inl ''down'' else Inr []), pm_fails = (\<lambda>_. False) \<rparr>"

definition ex_state :: sync_state where
  "ex_state = \<lparr> ss_db = empty_db, ss_cache = \<lparr> ca_pillars = [], ca_pillarNameToOwner = [] \<rparr>,
     ss_events = [], ss_lastProgressAt = 0 \<rparr>"

lemma ex_round_chain: "chain_round ex_round"
  by (auto simp: chain_round_def ex_round_def quiet_def ex_env_def chain_list_def ex_chain_def
      ex_block_def upto.simps split: if_splits)



theorem sync_keeps_prefix_witness:
  "\<exists>k' \<ge> 0. heights (ss_db (snd (sync ex_prime [ex_round] ex_state))) = {1..k'}"
  by (rule sync_keeps_prefix)
    (use ex_round_chain in \<open>auto simp: ex_state_def empty_db_def heights_def\<close>)

subsection \<open>A skipped momentum\<close>












definition ex_skip :: loop_round where
  "ex_skip = \<lparr> lr_done = False,
     lr_session = \<lparr> sub_error = None, sub_events =
       [SubMomentums [\<lparr> nt_Height = 1, nt_answer = Inl ''timeout'', nt_env = ex_env \<rparr>,
          \<lparr> nt_Height = 2, nt_answer = Inr (Some [ex_block 2]), nt_env = ex_env \<rparr>], SubClosed] \<rparr>,
     lr_done_after = False, lr_prime = ex_prime, lr_rounds = [ex_round, ex_round], lr_done_wait = False \<rparr>"


subsection \<open>Backfill\<close>

lemma set_backfill_heights:
  "set (backfill_heights d) = set (missing_momentums d) \<union> set (incomplete_momentums d)"
  by (simp add: backfill_heights_def)

lemma missing_heights:
  assumes "heights d \<subseteq> {0..<18446744073709551616}"
  shows "set (missing_momentums d) = {1..GetLatestHeight d} - heights d"
proof (cases "momentums d = []")
  case False
  then have "max_of mo_Height (momentums d) = Some (GetLatestHeight d)"
    using GetLatestHeight_Max [OF assms] by (auto simp: max_of_def heights_def)
  then show ?thesis by (auto simp: missing_momentums_def find_by_None heights_def)
qed (simp add: missing_momentums_def max_of_def GetLatestHeight_def)

lemma incomplete_stored: "set (incomplete_momentums d) \<subseteq> heights d"
  by (auto simp: incomplete_momentums_def heights_def)

lemma direct_heights:
  "heights (backfillMomentumDirect False m d) = insert (m_Height m) (heights d)"
proof -
  have "momentums (backfillMomentumDirect False m d) = insert_ignore mo_Height (direct_row m) (momentums d)"
    by (simp add: backfillMomentumDirect_def try_write_def Momentum_Insert_def)
  from heights_Insert [OF this] show ?thesis by (simp add: direct_row_def)
qed

lemma backfill_one_heights:
  assumes "bf_answer env h = Inr (Some (m # ms))" "m_Height m = h" "quiet (pe_others (bf_env env h))"
    and "\<not> bf_direct_fails env h"
  shows "heights (ss_db (backfill_one env h st)) = insert h (heights (ss_db st))"
proof -
  let ?st = "overtaken (pe_others (bf_env env h)) st"
  let ?ix = "with_cache (pe_ix (bf_env env h)) (ss_cache ?st)"
  let ?out = "processMomentum ?ix (pe_tr (bf_env env h)) (ss_db ?st) m"
  have same: "heights (ss_db ?st) = heights (ss_db st)" using assms(3) by simp
  have "heights (out_db ?out) = heights (ss_db ?st) \<or> heights (out_db ?out) = insert h (heights (ss_db ?st))"
    using processMomentum_momentums [of ?ix "pe_tr (bf_env env h)" "ss_db ?st" m]
  proof
    assume "momentums (out_db ?out) = momentums (ss_db ?st)"
    then show ?thesis using same_momentums by blast
  next
    assume "momentums (out_db ?out) = insert_ignore mo_Height (momentum_row ?ix (ss_db ?st) m) (momentums (ss_db ?st))"
    from heights_Insert [OF this] show ?thesis using assms(2) by simp
  qed
  moreover have "heights (out_db ?out) = insert h (heights (ss_db ?st))" if "out_err ?out = None"
    using heights_Insert [OF processMomentum_momentums_ok [OF that]] assms(2) by simp
  ultimately show ?thesis
    using assms(1,2,4) unfolding same
    by (auto simp: backfill_one_def ProcessMomentumPublic_def absorb_def Let_def direct_heights
        split: option.splits)
qed

lemma backfill_loop_heights:
  assumes "\<forall>h \<in> set hs. \<exists>m ms. bf_answer env h = Inr (Some (m # ms)) \<and> m_Height m = h"
    and "\<forall>h. \<not> bf_done env h \<and> \<not> bf_direct_fails env h \<and> quiet (pe_others (bf_env env h))"
  shows "fst (backfill_loop env hs st) = None \<and>
    heights (ss_db (snd (backfill_loop env hs st))) = heights (ss_db st) \<union> set hs"
  using assms(1)
proof (induction hs arbitrary: st)
  case (Cons h hs)
  then obtain m ms where "bf_answer env h = Inr (Some (m # ms))" "m_Height m = h" by auto
  from backfill_one_heights [OF this] have "heights (ss_db (backfill_one env h st)) = insert h (heights (ss_db st))"
    using assms(2) by blast
  then show ?case using Cons assms(2) by auto
qed simp

text \<open>
  C19. \<open>Backfill\<close> fills every hole: on a node that knows the missing heights it returns without an
  error and afterwards every height from 1 to the largest stored one is present, whatever
  \<open>processMomentum\<close> does with each of them, because the momentum row alone is inserted when the
  whole momentum is refused. No other height appears.
\<close>

theorem backfill_fills_holes:
  assumes "heights (ss_db st) \<subseteq> {0..<18446744073709551616}" "bf_query env = None"
    and "\<forall>h \<in> set (backfill_heights (ss_db st)). \<exists>m ms. bf_answer env h = Inr (Some (m # ms)) \<and> m_Height m = h"
    and "\<forall>h. \<not> bf_done env h \<and> \<not> bf_direct_fails env h \<and> quiet (pe_others (bf_env env h))"
  shows "fst (Backfill env st) = None \<and>
    heights (ss_db (snd (Backfill env st))) = heights (ss_db st) \<union> {1..GetLatestHeight (ss_db st)}"
proof -
  have set: "heights (ss_db st) \<union> set (backfill_heights (ss_db st)) =
      heights (ss_db st) \<union> {1..GetLatestHeight (ss_db st)}"
    using missing_heights [OF assms(1)] incomplete_stored by (auto simp: set_backfill_heights)
  have "0 \<le> h" if "h \<in> set (backfill_heights (ss_db st))" for h
    using that set assms(1) by fastforce
  then have "\<not> list_ex (\<lambda>h. h < 0) (backfill_heights (ss_db st))" by (fastforce simp: list_ex_iff)
  then have "Backfill env st = backfill_loop env (backfill_heights (ss_db st)) st"
    using assms(2) by (simp add: Backfill_def Let_def)
  with backfill_loop_heights [OF assms(3,4), of st] set show ?thesis by simp
qed

definition ex_backfill :: backfill_env where
  "ex_backfill = \<lparr> bf_query = None, bf_done = (\<lambda>_. False), bf_answer = (\<lambda>h. Inr (Some [ex_block (nat h)])),
     bf_env = (\<lambda>_. ex_env\<lparr> pe_tr := ex_tr\<lparr> tr_begin_fails := True \<rparr> \<rparr>), bf_direct_fails = (\<lambda>_. False) \<rparr>"

definition ex_gap :: sync_state where
  "ex_gap = snd (runSubscriptionLoop [ex_skip] ex_state)"

theorem backfill_fills_holes_witness:
  "heights (ss_db (snd (Backfill ex_backfill ex_gap))) = {1, 2}"
proof -
  let ?st = ex_gap
  have two: "map mo_Height (momentums (ss_db ?st)) = [2]" by code_simp
  have h: "heights (ss_db ?st) = {2}"
    using two unfolding heights_def by (metis list.set_map list.simps(15) empty_set)
  have l: "GetLatestHeight (ss_db ?st) = 2" by code_simp
  have b: "backfill_heights (ss_db ?st) = [1]" by code_simp
  have "fst (Backfill ex_backfill ?st) = None \<and>
      heights (ss_db (snd (Backfill ex_backfill ?st))) = heights (ss_db ?st) \<union> {1..GetLatestHeight (ss_db ?st)}"
    by (rule backfill_fills_holes)
      (use h b in \<open>auto simp: ex_backfill_def ex_block_def ex_env_def quiet_def\<close>)
  moreover have "{2} \<union> {1..2} = {1, 2::int}" by auto
  ultimately show ?thesis by (simp only: h l)
qed

end
