(* ===== verification/Cron.thy ===== *)
theory Cron
  imports Cached_Data
begin

text \<open>
  \<open>internal/indexer/cron.go\<close>: the periodic jobs that recompute voting activity, holder counts and
  the daily snapshots. A job reads the pillar snapshot of the cache and the tables and writes row
  by row; \<open>cr_fails op key\<close> says which reads and writes fail, \<open>cr_done n\<close> that the context is done
  before the n-th row, \<open>cr_now\<close> is the clock in epoch seconds.
\<close>

record cron_env =
  cr_pillars :: "Pillar list"
  cr_fails :: "string \<Rightarrow> string \<Rightarrow> bool"
  cr_done :: "nat \<Rightarrow> bool"
  cr_now :: int

definition GetPillars :: "cache \<Rightarrow> Pillar list" where
  "GetPillars c = ca_pillars c"

subsection \<open>Dates\<close>

text \<open>\<open>time.Now().UTC().Format("2006-01-02")\<close>: the civil date of a day counted from 1970-01-01.\<close>

definition civil_date :: "int \<Rightarrow> int \<times> int \<times> int" where
  "civil_date days =
     (let z = days + 719468;
          era = z div 146097;
          doe = z mod 146097;
          yoe = (doe - doe div 1460 + doe div 36524 - doe div 146096) div 365;
          doy = doe - (365 * yoe + yoe div 4 - yoe div 100);
          mp = (5 * doy + 2) div 153;
          day = doy - (153 * mp + 2) div 5 + 1;
          month = (if mp < 10 then mp + 3 else mp - 9);
          year = yoe + era * 400 + (if month \<le> 2 then 1 else 0)
      in (year, month, day))"

definition pad :: "nat \<Rightarrow> string \<Rightarrow> string" where
  "pad n s = replicate (n - length s) CHR ''0'' @ s"

definition format_date :: "int \<Rightarrow> string" where
  "format_date days =
     (case civil_date days of
        (y, m, d) \<Rightarrow> pad 4 (FormatInt y) @ ''-'' @ pad 2 (FormatInt m) @ ''-'' @ pad 2 (FormatInt d))"

subsection \<open>Daily snapshots\<close>

text \<open>A comparison with \<open>NULL\<close> does not hold.\<close>

definition in_day_opt :: "int \<Rightarrow> int option \<Rightarrow> bool" where
  "in_day_opt startTs ts = (case ts of None \<Rightarrow> False | Some t \<Rightarrow> in_day startTs t)"

definition as_bigint :: "int \<Rightarrow> sql_error + int" where
  "as_bigint x = (if fits_int64 x then Inr x else Inl BigintOutOfRange)"

definition snapshotNetworkStats :: "cron_env \<Rightarrow> string \<Rightarrow> int \<Rightarrow> db \<Rightarrow> sql_error + db" where
  "snapshotNetworkStats env date startTs d =
     (if cr_fails env ''network'' [] then Inl ConnectionLost
      else
        (case (as_bigint (sum_where (\<lambda>_. True) mo_TxCount (momentums d)),
               as_bigint (sum_where (\<lambda>m. in_day startTs (mo_Timestamp m)) mo_TxCount (momentums d))) of
           (Inr totalTx, Inr dailyTx) \<Rightarrow>
             if cr_fails env ''network upsert'' [] then Inl ConnectionLost
             else UpsertNetworkStat
               \<lparr> ns_Date = date, ns_TotalTx = totalTx, ns_DailyTx = dailyTx,
                 ns_TotalAddresses = count_where (\<lambda>_. True) (accounts d),
                 ns_DailyAddresses = count_where (\<lambda>a. in_day_opt startTs (ac_FirstActiveAt a)) (accounts d),
                 ns_ActiveAddresses = count_where (\<lambda>a. in_day_opt startTs (ac_LastActiveAt a)) (accounts d),
                 ns_TotalTokens = count_where (\<lambda>_. True) (tokens d), ns_DailyTokens = 0,
                 ns_TotalStakes = count_where (\<lambda>_. True) (stakes d),
                 ns_DailyStakes = count_where (\<lambda>s. in_day startTs (st_StartTimestamp s)) (stakes d),
                 ns_TotalFusions = count_where (\<lambda>_. True) (fusions d),
                 ns_DailyFusions = count_where (\<lambda>f. in_day startTs (fu_MomentumTimestamp f)) (fusions d),
                 ns_TotalPillars = count_where (\<lambda>p. \<not> pl_IsRevoked p) (pillars d),
                 ns_TotalSentinels = count_where (\<lambda>s. se_Active s) (sentinels d) \<rparr> d
         | _ \<Rightarrow> Inl BigintOutOfRange))"

fun each_token :: "cron_env \<Rightarrow> string \<Rightarrow> int \<Rightarrow> nat \<Rightarrow> Token list \<Rightarrow> db \<Rightarrow> db" where
  "each_token env date startTs n [] d = d"
| "each_token env date startTs n (t # ts) d =
     (if cr_done env n then d
      else
        let (mints, burns) = SumDailyMintsBurns (tk_TokenStandard t) startTs d
        in each_token env date startTs (Suc n) ts
             (if cr_fails env ''sum daily'' (tk_TokenStandard t) \<or>
                 \<not> fits_int64 mints \<or> \<not> fits_int64 burns
              then d
              else try_write (cr_fails env ''token stat'' (tk_TokenStandard t)) (UpsertTokenStat
                \<lparr> ts_Date = date, ts_TokenStandard = tk_TokenStandard t, ts_DailyMinted = mints,
                  ts_DailyBurned = burns, ts_TotalSupply = tk_TotalSupply t,
                  ts_TotalHolders = tk_HolderCount t, ts_TotalTransactions = tk_TransactionCount t \<rparr>) d))"

definition snapshotTokenStats :: "cron_env \<Rightarrow> string \<Rightarrow> int \<Rightarrow> db \<Rightarrow> db" where
  "snapshotTokenStats env date startTs d =
     (if cr_fails env ''tokens'' [] then d else each_token env date startTs 0 (Token_GetAll d) d)"

fun each_pillar_stat :: "cron_env \<Rightarrow> string \<Rightarrow> nat \<Rightarrow> Pillar list \<Rightarrow> db \<Rightarrow> db" where
  "each_pillar_stat env date n [] d = d"
| "each_pillar_stat env date n (p # ps) d =
     (if cr_done env n then d
      else
        let delegators = (if cr_fails env ''delegators'' (pl_OwnerAddress p) then 0
                          else CountActiveByPillar (pl_OwnerAddress p) d)
        in each_pillar_stat env date (Suc n) ps
             (try_write (cr_fails env ''pillar stat'' (pl_OwnerAddress p)) (UpsertPillarStat
                \<lparr> ps_Date = date, ps_PillarOwnerAddress = pl_OwnerAddress p, ps_Rank = pl_Rank p,
                  ps_Weight = pl_Weight p, ps_MomentumRewards = 0, ps_DelegateRewards = 0,
                  ps_TotalDelegators = delegators \<rparr>) d))"

definition snapshotPillarStats :: "cron_env \<Rightarrow> string \<Rightarrow> db \<Rightarrow> db" where
  "snapshotPillarStats env date d = each_pillar_stat env date 0 (cr_pillars env) d"

text \<open>
  The bridge aggregates: one row per (network class, chain, token) of today's requests, collected
  in a map keyed by \<open>fmt.Sprintf("%d:%d:%s", ..)\<close>. The rows of a \<open>GROUP BY\<close> come in the order in
  which their groups first appear.
\<close>

definition stat_key :: "int \<Rightarrow> int \<Rightarrow> string \<Rightarrow> string" where
  "stat_key nc ci ts = FormatInt nc @ '':'' @ FormatInt ci @ '':'' @ ts"

definition group_by :: "('r \<Rightarrow> int \<times> int \<times> string) \<Rightarrow> ('r \<Rightarrow> int) \<Rightarrow> 'r list \<Rightarrow>
    ((int \<times> int \<times> string) \<times> int \<times> int) list" where
  "group_by key amount t =
     map (\<lambda>k. (k, count_where (\<lambda>r. key r = k) t, sum_where (\<lambda>r. key r = k) amount t))
       (rev (remdups (rev (map key t))))"

definition today_heights :: "int \<Rightarrow> db \<Rightarrow> int list" where
  "today_heights startTs d =
     map mo_Height (filter (\<lambda>m. in_day startTs (mo_Timestamp m)) (momentums d))"

definition wrap_groups :: "int \<Rightarrow> db \<Rightarrow> ((int \<times> int \<times> string) \<times> int \<times> int) list" where
  "wrap_groups startTs d =
     group_by (\<lambda>w. (wr_NetworkClass w, wr_ChainID w, wr_TokenStandard w)) wr_Amount
       (filter (\<lambda>w. wr_CreationMomentumHeight w \<in> set (today_heights startTs d)) (wrap_token_requests d))"

definition unwrap_groups :: "int \<Rightarrow> db \<Rightarrow> ((int \<times> int \<times> string) \<times> int \<times> int) list" where
  "unwrap_groups startTs d =
     group_by (\<lambda>u. (ur_NetworkClass u, ur_ChainID u, ur_TokenStandard u)) ur_Amount
       (filter (\<lambda>u. ur_RegistrationMomentumHeight u \<in> set (today_heights startTs d))
          (unwrap_token_requests d))"

definition add_wrap :: "string \<Rightarrow> (int \<times> int \<times> string) \<times> int \<times> int \<Rightarrow>
    (string \<times> BridgeStatHistory) list \<Rightarrow> (string \<times> BridgeStatHistory) list" where
  "add_wrap date = (\<lambda>((nc, ci, ts), n, amount) stats.
     alist_set (stat_key nc ci ts)
       \<lparr> bh_Date = date, bh_NetworkClass = nc, bh_ChainID = ci, bh_TokenStandard = ts,
         bh_WrapTxCount = n, bh_WrappedAmount = amount, bh_UnwrapTxCount = 0,
         bh_UnwrappedAmount = 0, bh_TotalVolume = amount \<rparr> stats)"

definition add_unwrap :: "string \<Rightarrow> (int \<times> int \<times> string) \<times> int \<times> int \<Rightarrow>
    (string \<times> BridgeStatHistory) list \<Rightarrow> (string \<times> BridgeStatHistory) list" where
  "add_unwrap date = (\<lambda>((nc, ci, ts), n, amount) stats.
     let s = (case map_of stats (stat_key nc ci ts) of
                Some s \<Rightarrow> s
              | None \<Rightarrow> \<lparr> bh_Date = date, bh_NetworkClass = nc, bh_ChainID = ci, bh_TokenStandard = ts,
                  bh_WrapTxCount = 0, bh_WrappedAmount = 0, bh_UnwrapTxCount = 0,
                  bh_UnwrappedAmount = 0, bh_TotalVolume = 0 \<rparr>)
     in alist_set (stat_key nc ci ts)
          (s\<lparr> bh_UnwrapTxCount := n, bh_UnwrappedAmount := amount,
              bh_TotalVolume := int64 (bh_TotalVolume s + amount) \<rparr>) stats)"

definition snapshotBridgeStats :: "cron_env \<Rightarrow> string \<Rightarrow> int \<Rightarrow> db \<Rightarrow> sql_error + db" where
  "snapshotBridgeStats env date startTs d =
     (if cr_fails env ''wraps'' [] then Inl ConnectionLost
      else if list_ex (\<lambda>(k, n, a). \<not> fits_int64 a) (wrap_groups startTs d) then Inl BigintOutOfRange
      else if cr_fails env ''unwraps'' [] then Inl ConnectionLost
      else if list_ex (\<lambda>(k, n, a). \<not> fits_int64 a) (unwrap_groups startTs d) then Inl BigintOutOfRange
      else
        Inr (fold (\<lambda>(k, s). try_write (cr_fails env ''bridge stat'' k) (UpsertBridgeStat s))
               (fold (add_unwrap date) (unwrap_groups startTs d)
                  (fold (add_wrap date) (wrap_groups startTs d) [])) d))"

definition keep_going :: "(db \<Rightarrow> sql_error + db) \<Rightarrow> db \<Rightarrow> db" where
  "keep_going job d = (case job d of Inl err \<Rightarrow> d | Inr d' \<Rightarrow> d')"

definition runStatSnapshots :: "cron_env \<Rightarrow> db \<Rightarrow> db" where
  "runStatSnapshots env d =
     (let today = format_date (cr_now env div 86400);
          startTs = 86400 * (cr_now env div 86400)
      in keep_going (snapshotBridgeStats env today startTs)
           (snapshotPillarStats env today
              (snapshotTokenStats env today startTs
                 (keep_going (snapshotNetworkStats env today startTs) d))))"

subsection \<open>Voting activity and holder counts\<close>

text \<open>The score of a pillar as a fraction; \<open>None\<close> when a read fails and the pillar is skipped.\<close>

definition voting_score :: "cron_env \<Rightarrow> address \<Rightarrow> db \<Rightarrow> (int \<times> int) option" where
  "voting_score env owner d =
     (case Pillar_GetSpawnTimestampByOwner owner d of
        (_, Some err) \<Rightarrow> None
      | (spawnTimestamp, None) \<Rightarrow>
          let projectIDs = Project_GetIDsCreatedAtOrAfter spawnTimestamp d;
              phaseIDs = Phase_GetIDsCreatedAtOrAfter spawnTimestamp d;
              votes = (if projectIDs = [] then 0 else GetVoteCountForProjects owner projectIDs d) +
                      (if phaseIDs = [] then 0 else GetVoteCountForPhases owner phaseIDs d);
              votable = int (length projectIDs) + int (length phaseIDs)
          in if list_ex (\<lambda>op. cr_fails env op owner) [''spawn'', ''projects'', ''phases''] \<or>
                projectIDs \<noteq> [] \<and> cr_fails env ''project votes'' owner \<or>
                phaseIDs \<noteq> [] \<and> cr_fails env ''phase votes'' owner
             then None
             else Some (if 0 < votable then (votes, votable) else (0, 1)))"

fun each_voter :: "cron_env \<Rightarrow> nat \<Rightarrow> Pillar list \<Rightarrow> db \<Rightarrow> db" where
  "each_voter env n [] d = d"
| "each_voter env n (p # ps) d =
     (if cr_done env n then d
      else each_voter env (Suc n) ps
        (case voting_score env (pl_OwnerAddress p) d of
           None \<Rightarrow> d
         | Some activity \<Rightarrow>
             try_write (cr_fails env ''voting activity'' (pl_OwnerAddress p))
               (Pillar_UpdateVotingActivity (pl_OwnerAddress p) activity) d))"

definition runVotingActivity :: "cron_env \<Rightarrow> db \<Rightarrow> db" where
  "runVotingActivity env d = each_voter env 0 (cr_pillars env) d"

fun each_holder :: "cron_env \<Rightarrow> nat \<Rightarrow> Token list \<Rightarrow> db \<Rightarrow> db" where
  "each_holder env n [] d = d"
| "each_holder env n (t # ts) d =
     (if cr_done env n then d
      else each_holder env (Suc n) ts
        (if cr_fails env ''holder count'' (tk_TokenStandard t) then d
         else try_write (cr_fails env ''holder update'' (tk_TokenStandard t))
                (Token_UpdateHolderCount (tk_TokenStandard t)
                   (Balance_GetHolderCount (tk_TokenStandard t) d)) d))"

definition runTokenHolderCounts :: "cron_env \<Rightarrow> db \<Rightarrow> db" where
  "runTokenHolderCounts env d =
     (if cr_fails env ''tokens'' [] then d else each_holder env 0 (Token_GetAll d) d)"

subsection \<open>The loop\<close>

datatype cron_tick = VotingTick | HolderTick | StatsTick

definition cron_job :: "cron_tick \<times> cron_env \<Rightarrow> db \<Rightarrow> db" where
  "cron_job = (\<lambda>(tick, env).
     case tick of
       VotingTick \<Rightarrow> runVotingActivity env
     | HolderTick \<Rightarrow> runTokenHolderCounts env
     | StatsTick \<Rightarrow> runStatSnapshots env)"

text \<open>The first three jobs run at once, then one per tick.\<close>

definition runCronLoop :: "cron_env \<Rightarrow> cron_env \<Rightarrow> cron_env \<Rightarrow> (cron_tick \<times> cron_env) list \<Rightarrow> db \<Rightarrow> db" where
  "runCronLoop e1 e2 e3 ticks d =
     fold cron_job ticks (runStatSnapshots e3 (runTokenHolderCounts e2 (runVotingActivity e1 d)))"

end
