(* ===== verification/Cron_Props.thy ===== *)
theory Cron_Props
  imports Cron Momentum_Props
begin

text \<open>
  The periodic jobs: the voting score is a fraction of the proposals a pillar could vote on, the
  holder counts are those of the balances, and a snapshot that runs again on the same day changes
  nothing. The locale \<open>snapshot_table\<close> is what the four history tables promise.
\<close>

subsection \<open>Tables that are overwritten by key\<close>







subsection \<open>The rows of a snapshot\<close>

definition token_stat :: "string \<Rightarrow> int \<Rightarrow> db \<Rightarrow> Token \<Rightarrow> TokenStatHistory" where
  "token_stat date startTs d t =
     \<lparr> ts_Date = date, ts_TokenStandard = tk_TokenStandard t,
       ts_DailyMinted = fst (SumDailyMintsBurns (tk_TokenStandard t) startTs d),
       ts_DailyBurned = snd (SumDailyMintsBurns (tk_TokenStandard t) startTs d),
       ts_TotalSupply = tk_TotalSupply t, ts_TotalHolders = tk_HolderCount t,
       ts_TotalTransactions = tk_TransactionCount t \<rparr>"

definition sums_fit :: "int \<Rightarrow> db \<Rightarrow> Token \<Rightarrow> bool" where
  "sums_fit startTs d t \<longleftrightarrow>
     fits_int64 (fst (SumDailyMintsBurns (tk_TokenStandard t) startTs d)) \<and>
     fits_int64 (snd (SumDailyMintsBurns (tk_TokenStandard t) startTs d))"

definition pillar_stat :: "string \<Rightarrow> db \<Rightarrow> Pillar \<Rightarrow> PillarStatHistory" where
  "pillar_stat date d p =
     \<lparr> ps_Date = date, ps_PillarOwnerAddress = pl_OwnerAddress p, ps_Rank = pl_Rank p,
       ps_Weight = pl_Weight p, ps_MomentumRewards = 0, ps_DelegateRewards = 0,
       ps_TotalDelegators = CountActiveByPillar (pl_OwnerAddress p) d \<rparr>"

definition bridge_rows :: "string \<Rightarrow> int \<Rightarrow> db \<Rightarrow> (string \<times> BridgeStatHistory) list" where
  "bridge_rows date startTs d =
     fold (add_unwrap date) (unwrap_groups startTs d) (fold (add_wrap date) (wrap_groups startTs d) [])"

lemma SumDaily_frame [simp]:
  "SumDailyMintsBurns k startTs (d\<lparr> token_stat_histories := x \<rparr>) = SumDailyMintsBurns k startTs d"
  by (simp add: SumDailyMintsBurns_def)

definition no_failures :: "cron_env \<Rightarrow> bool" where
  "no_failures env = ((\<forall>op key. \<not> cr_fails env op key) \<and> (\<forall>n. \<not> cr_done env n))"



definition aggregates_fit :: "int \<Rightarrow> db \<Rightarrow> bool" where
  "aggregates_fit startTs d \<longleftrightarrow>
     fits_int64 (sum_where (\<lambda>_. True) mo_TxCount (momentums d)) \<and>
     fits_int64 (sum_where (\<lambda>m. in_day startTs (mo_Timestamp m)) mo_TxCount (momentums d)) \<and>
     (\<forall>(k, n, a) \<in> set (wrap_groups startTs d @ unwrap_groups startTs d). fits_int64 a)"










subsection \<open>Snapshots\<close>

definition with_stats :: "db \<Rightarrow> NetworkStatHistory list \<Rightarrow> TokenStatHistory list \<Rightarrow>
    PillarStatHistory list \<Rightarrow> BridgeStatHistory list \<Rightarrow> db" where
  "with_stats d x y z w = d\<lparr> network_stat_histories := x, token_stat_histories := y,
     pillar_stat_histories := z, bridge_stat_histories := w \<rparr>"

lemma with_stats_frames [simp]:
  "token_stat date startTs (with_stats d x y z w) = token_stat date startTs d"
  "sums_fit startTs (with_stats d x y z w) = sums_fit startTs d"
  "pillar_stat date (with_stats d x y z w) = pillar_stat date d"
  "bridge_rows date startTs (with_stats d x y z w) = bridge_rows date startTs d"
  "aggregates_fit startTs (with_stats d x y z w) = aggregates_fit startTs d"
  "Token_GetAll (with_stats d x y z w) = Token_GetAll d"
  by (auto simp: fun_eq_iff with_stats_def token_stat_def sums_fit_def pillar_stat_def bridge_rows_def
      aggregates_fit_def Token_GetAll_def SumDailyMintsBurns_def CountActiveByPillar_def wrap_groups_def
      unwrap_groups_def today_heights_def)



definition ex_cron :: cron_env where
  "ex_cron = \<lparr> cr_pillars = [], cr_fails = (\<lambda>_ _. False), cr_done = (\<lambda>_. False), cr_now = 1700000000 \<rparr>"


subsection \<open>Voting activity\<close>

lemma count_distinct_le:
  assumes "set (map f xs) \<subseteq> set ids"
  shows "length (remdups (map f xs)) \<le> length ids"
proof -
  have "length (remdups (map f xs)) = card (set (map f xs))" by (rule length_remdups_card_conv)
  also have "\<dots> \<le> card (set ids)" using assms by (intro card_mono) auto
  finally show ?thesis using card_length [of ids] by simp
qed

lemma vote_count_bounds:
  "0 \<le> GetVoteCountForProjects owner ids d \<and> GetVoteCountForProjects owner ids d \<le> int (length ids)"
  "0 \<le> GetVoteCountForPhases owner ids d \<and> GetVoteCountForPhases owner ids d \<le> int (length ids)"
  unfolding GetVoteCountForProjects_def GetVoteCountForPhases_def
  by (auto intro!: count_distinct_le)

lemma voting_score_bounds:
  assumes "voting_score env owner d = Some (v, n)"
  shows "0 \<le> v \<and> v \<le> n \<and> 0 < n"
proof -
  obtain ts err where "Pillar_GetSpawnTimestampByOwner owner d = (ts, err)" by fastforce
  then show ?thesis
    using assms vote_count_bounds(1) [of owner "Project_GetIDsCreatedAtOrAfter ts d" d]
      vote_count_bounds(2) [of owner "Phase_GetIDsCreatedAtOrAfter ts d" d]
    by (auto simp: voting_score_def Let_def split: option.splits if_splits)
qed

lemma find_update_activity:
  "find_by pl_OwnerAddress k (update_where (\<lambda>p. pl_OwnerAddress p = a)
     (\<lambda>p. p\<lparr> pl_VotingActivity := act \<rparr>) t) =
   map_option (\<lambda>p. if pl_OwnerAddress p = a then p\<lparr> pl_VotingActivity := act \<rparr> else p)
     (find_by pl_OwnerAddress k t)"
  by (induction t) auto

lemma voting_score_frame:
  "voting_score env owner (d\<lparr> pillars := update_where (\<lambda>p. pl_OwnerAddress p = a)
     (\<lambda>p. p\<lparr> pl_VotingActivity := act \<rparr>) (pillars d) \<rparr>) = voting_score env owner d"
proof -
  let ?d = "d\<lparr> pillars := update_where (\<lambda>p. pl_OwnerAddress p = a)
     (\<lambda>p. p\<lparr> pl_VotingActivity := act \<rparr>) (pillars d) \<rparr>"
  have "Pillar_GetSpawnTimestampByOwner owner ?d = Pillar_GetSpawnTimestampByOwner owner d"
    by (auto simp: Pillar_GetSpawnTimestampByOwner_def find_update_activity split: option.splits)
  moreover have "Project_GetIDsCreatedAtOrAfter ts ?d = Project_GetIDsCreatedAtOrAfter ts d"
    "Phase_GetIDsCreatedAtOrAfter ts ?d = Phase_GetIDsCreatedAtOrAfter ts d"
    "GetVoteCountForProjects o' ids ?d = GetVoteCountForProjects o' ids d"
    "GetVoteCountForPhases o' ids ?d = GetVoteCountForPhases o' ids d" for ts o' ids
    by (simp_all add: Project_GetIDsCreatedAtOrAfter_def Phase_GetIDsCreatedAtOrAfter_def
        GetVoteCountForProjects_def GetVoteCountForPhases_def)
  ultimately show ?thesis
    unfolding voting_score_def Let_def by (simp split: prod.split option.split)
qed

text \<open>What a run makes of a row: the score of the database before the run, for cached pillars.\<close>

definition rescored :: "cron_env \<Rightarrow> db \<Rightarrow> address set \<Rightarrow> Pillar \<Rightarrow> Pillar" where
  "rescored env d owners p =
     (case voting_score env (pl_OwnerAddress p) d of
        Some act \<Rightarrow> if pl_OwnerAddress p \<in> owners then p\<lparr> pl_VotingActivity := act \<rparr> else p
      | None \<Rightarrow> p)"

lemma each_voter_rows:
  assumes "no_failures env"
  shows "each_voter env n ps d =
    d\<lparr> pillars := map (rescored env d (pl_OwnerAddress ` set ps)) (pillars d) \<rparr>"
  using assms
proof (induction ps arbitrary: n d)
  case Nil
  have "map (rescored env d {}) (pillars d) = pillars d"
    by (intro map_idI) (auto simp: rescored_def split: option.splits)
  then show ?case by simp
next
  case (Cons p ps)
  show ?case
  proof (cases "voting_score env (pl_OwnerAddress p) d")
    case None
    then have "rescored env d (pl_OwnerAddress ` set (p # ps)) = rescored env d (pl_OwnerAddress ` set ps)"
      by (auto simp: rescored_def fun_eq_iff split: option.splits)
    then show ?thesis using Cons None by (simp add: no_failures_def)
  next
    case (Some act)
    let ?t = "update_where (\<lambda>x. pl_OwnerAddress x = pl_OwnerAddress p) (\<lambda>x. x\<lparr> pl_VotingActivity := act \<rparr>) (pillars d)"
    have "rescored env (d\<lparr> pillars := ?t \<rparr>) O' = rescored env d O'" for O'
      by (simp add: rescored_def fun_eq_iff voting_score_frame)
    moreover have "map (rescored env d (pl_OwnerAddress ` set ps)) ?t =
        map (rescored env d (pl_OwnerAddress ` set (p # ps))) (pillars d)"
      using Some by (auto simp: update_where_def rescored_def split: option.splits)
    ultimately show ?thesis
      using Cons Some by (simp add: no_failures_def try_write_def Pillar_UpdateVotingActivity_def)
  qed
qed

text \<open>
  The voting activity of a pillar is the fraction of the proposals it could vote on: after a
  run of \<open>runVotingActivity\<close> without failures, every stored pillar of the cached set carries the
  score of its votes, with a numerator between 0 and a positive denominator.
\<close>

theorem voting_activity_exact:
  assumes "no_failures env" "row \<in> set (pillars (runVotingActivity env d))"
    and "pl_OwnerAddress row \<in> pl_OwnerAddress ` set (cr_pillars env)"
  shows "voting_score env (pl_OwnerAddress row) d = Some (pl_VotingActivity row) \<and>
    0 \<le> fst (pl_VotingActivity row) \<and> fst (pl_VotingActivity row) \<le> snd (pl_VotingActivity row) \<and>
    0 < snd (pl_VotingActivity row)"
proof -
  let ?O = "pl_OwnerAddress ` set (cr_pillars env)"
  obtain p where p: "p \<in> set (pillars d)" "row = rescored env d ?O p"
    using assms(2) each_voter_rows [OF assms(1)] by (auto simp: runVotingActivity_def)
  have owner: "pl_OwnerAddress (rescored env d ?O p) = pl_OwnerAddress p"
    by (auto simp: rescored_def split: option.splits)
  obtain p' where "find_by pl_OwnerAddress (pl_OwnerAddress p) (pillars d) = Some p'"
    using p(1) by (cases "find_by pl_OwnerAddress (pl_OwnerAddress p) (pillars d)") (auto simp: find_by_None)
  then obtain act where act: "voting_score env (pl_OwnerAddress p) d = Some act"
    using assms(1) by (auto simp: voting_score_def Pillar_GetSpawnTimestampByOwner_def no_failures_def Let_def)
  then have "row = p\<lparr> pl_VotingActivity := act \<rparr>" using p(2) assms(3) owner by (simp add: rescored_def)
  then show ?thesis using act voting_score_bounds [of env "pl_OwnerAddress p" d "fst act" "snd act"] by simp
qed

definition ex_pillar :: Pillar where
  "ex_pillar = pillar_row \<lparr> pi_Name = ''p'', pi_OwnerAddress = ''owner'', pi_ProducerAddress = ''prod'',
     pi_WithdrawAddress = ''w'', pi_Rank = 1, pi_GiveMomentumRewardPercentage = 0,
     pi_GiveDelegateRewardPercentage = 100, pi_IsRevocable = False, pi_RevokeCooldown = 0,
     pi_RevokeTimestamp = 0, pi_Weight = Some 5, pi_ProducedMomentums = 1, pi_ExpectedMomentums = 1 \<rparr>"

definition ex_votes_db :: db where
  "ex_votes_db = empty_db\<lparr> pillars := [ex_pillar],
     projects := [project_row ex_sdk \<lparr> pr_Id = ''j1'', pr_Owner = ''o'', pr_Name = [], pr_Description = [],
       pr_Url = [], pr_ZnnFundsNeeded = None, pr_QsrFundsNeeded = None, pr_CreationTimestamp = 10,
       pr_LastUpdateTimestamp = 10, pr_Status = 0, pr_Votes = None, pr_Phases = [] \<rparr>] \<rparr>"

theorem voting_activity_exact_witness:
  "map pl_VotingActivity (pillars (runVotingActivity (ex_cron\<lparr> cr_pillars := [ex_pillar] \<rparr>) ex_votes_db)) = [(0, 1)]"
proof -
  let ?env = "ex_cron\<lparr> cr_pillars := [ex_pillar] \<rparr>"
  have one: "pillars (runVotingActivity ?env ex_votes_db) = [ex_pillar]" by code_simp
  have "voting_score ?env (pl_OwnerAddress ex_pillar) ex_votes_db = Some (pl_VotingActivity ex_pillar) \<and>
    0 \<le> fst (pl_VotingActivity ex_pillar) \<and> fst (pl_VotingActivity ex_pillar) \<le> snd (pl_VotingActivity ex_pillar) \<and>
    0 < snd (pl_VotingActivity ex_pillar)"
    by (rule voting_activity_exact) (use one in \<open>auto simp: no_failures_def ex_cron_def\<close>)
  then show ?thesis using one by (simp add: ex_pillar_def pillar_row_def)
qed

subsection \<open>Holder counts\<close>

definition recounted :: "db \<Rightarrow> string set \<Rightarrow> Token \<Rightarrow> Token" where
  "recounted d K t =
     (if tk_TokenStandard t \<in> K then t\<lparr> tk_HolderCount := Balance_GetHolderCount (tk_TokenStandard t) d \<rparr> else t)"

lemma each_holder_rows:
  assumes "no_failures env"
  shows "each_holder env n ts d = d\<lparr> tokens := map (recounted d (tk_TokenStandard ` set ts)) (tokens d) \<rparr>"
  using assms
proof (induction ts arbitrary: n d)
  case Nil
  have "map (recounted d {}) (tokens d) = tokens d" by (intro map_idI) (simp add: recounted_def)
  then show ?case by simp
next
  case (Cons t ts)
  let ?t = "update_where (\<lambda>x. tk_TokenStandard x = tk_TokenStandard t)
    (\<lambda>x. x\<lparr> tk_HolderCount := Balance_GetHolderCount (tk_TokenStandard t) d \<rparr>) (tokens d)"
  have "recounted (d\<lparr> tokens := ?t \<rparr>) K = recounted d K" for K
    by (simp add: recounted_def fun_eq_iff Balance_GetHolderCount_def)
  moreover have "map (recounted d (tk_TokenStandard ` set ts)) ?t =
      map (recounted d (tk_TokenStandard ` set (t # ts))) (tokens d)"
    by (auto simp: update_where_def recounted_def)
  ultimately show ?case
    using Cons by (simp add: no_failures_def try_write_def Token_UpdateHolderCount_def)
qed

text \<open>
  After a run of \<open>runTokenHolderCounts\<close> without failures every token carries the number of
  addresses with a positive balance of it, and nothing else of the database has changed.
\<close>

theorem holder_counts_exact:
  assumes "no_failures env"
  shows "(\<forall>t \<in> set (tokens (runTokenHolderCounts env d)).
      tk_HolderCount t = count_where (\<lambda>b. ba_TokenStandard b = tk_TokenStandard t \<and> 0 < ba_Balance b) (balances d)) \<and>
    (\<exists>ts. runTokenHolderCounts env d = d\<lparr> tokens := ts \<rparr> \<and>
      map (\<lambda>t. t\<lparr> tk_HolderCount := 0 \<rparr>) ts = map (\<lambda>t. t\<lparr> tk_HolderCount := 0 \<rparr>) (tokens d))"
proof -
  have "runTokenHolderCounts env d = d\<lparr> tokens := map (recounted d (tk_TokenStandard ` set (tokens d))) (tokens d) \<rparr>"
    using each_holder_rows [OF assms, of 0 "tokens d" d] assms
    by (simp add: runTokenHolderCounts_def no_failures_def Token_GetAll_def)
  then show ?thesis
    by (auto simp: recounted_def Balance_GetHolderCount_def)
qed

definition ex_holders_db :: db where
  "ex_holders_db = empty_db\<lparr>
     tokens := [\<lparr> tk_TokenStandard = ''zts'', tk_Name = ''t'', tk_Symbol = ''T'', tk_Domain = [], tk_Decimals = 8,
       tk_Owner = ''o'', tk_TotalSupply = 10, tk_MaxSupply = 10, tk_IsBurnable = True, tk_IsMintable = True,
       tk_IsUtility = False, tk_TotalBurned = 0, tk_LastUpdateTimestamp = 0, tk_HolderCount = 7,
       tk_TransactionCount = 0 \<rparr>],
     balances := [\<lparr> ba_Address = ''a'', ba_TokenStandard = ''zts'', ba_Balance = 10, ba_LastUpdatedTimestamp = 0 \<rparr>,
       \<lparr> ba_Address = ''b'', ba_TokenStandard = ''zts'', ba_Balance = 0, ba_LastUpdatedTimestamp = 0 \<rparr>] \<rparr>"

theorem holder_counts_exact_witness:
  "map tk_HolderCount (tokens (runTokenHolderCounts ex_cron ex_holders_db)) = [1]"
proof -
  have "no_failures ex_cron" by (simp add: no_failures_def ex_cron_def)
  note exact = conjunct1 [OF holder_counts_exact [OF this, of ex_holders_db]]
  have "map tk_TokenStandard (tokens (runTokenHolderCounts ex_cron ex_holders_db)) = [''zts'']" by code_simp
  then obtain t where t: "tokens (runTokenHolderCounts ex_cron ex_holders_db) = [t]" "tk_TokenStandard t = ''zts''"
    by auto
  have "count_where (\<lambda>b. ba_TokenStandard b = ''zts'' \<and> 0 < ba_Balance b) (balances ex_holders_db) = 1"
    by code_simp
  then show ?thesis using exact t by simp
qed

end
