(* ===== verification/Hub.thy ===== *)
theory Hub
  imports Prelude
begin

text \<open>
  \<open>internal/api/stream/hub.go\<close>: the fan-out of one \<open>NOTIFY\<close> channel to the WebSocket subscribers.
  The hub is shared by the goroutine of \<open>Run\<close> and those of the handlers, so every operation is cut
  where another goroutine may come in between: the state is an atomic variable that \<open>Run\<close> flips
  without the lock, \<open>Subscribe\<close> checks it and inserts while it holds the lock, and \<open>Close\<close> first
  wins the \<open>closed\<close> flag, then unsubscribes, then closes the channel. A history is a list of such
  steps; a step that waits for the lock or is not at its turn is \<open>Blocked\<close>, a send on or a close
  of a closed channel is \<open>Panic\<close>.
\<close>

subsection \<open>State\<close>

datatype hub_state = statePending | stateRunning | stateDegraded | stateStopped

definition defaultClientBuffer :: int where
  "defaultClientBuffer = 32"

definition defaultPerSubjectMax :: int where
  "defaultPerSubjectMax = 8"

text \<open>Durations in nanoseconds.\<close>

definition initialBackoff :: int where
  "initialBackoff = 1000000000"

definition maxBackoff :: int where
  "maxBackoff = 30000000000"

text \<open>\<open>sub_pc\<close> is how far the winning \<open>Close\<close> call has come.\<close>

datatype close_pc = NotClosing | WonFlag | Unsubscribed | Finished

record 'a Subscriber =
  su_ch :: "'a list"
  su_ch_closed :: bool
  su_subject :: string
  su_closed :: bool
  su_lagged :: int
  su_pc :: close_pc

text \<open>Where the goroutine of \<open>Run\<close> is.\<close>

datatype run_pc = RConnect | RListening | RDropped | RBackoff | RExiting | RDraining | RReturned

record 'a Hub =
  hb_bufSize :: int
  hb_perSubjectMax :: int
  hb_state :: hub_state
  hb_subs :: "nat list"
  hb_perSubject :: "string \<Rightarrow> int"
  hb_all :: "nat \<Rightarrow> 'a Subscriber option"
  hb_next :: nat
  hb_lock :: "string option"
  hb_pc :: run_pc
  hb_ctx_done :: bool
  hb_backoff :: int

definition New :: "int \<Rightarrow> int \<Rightarrow> 'a Hub" where
  "New ClientBuf PerSubjectMax =
     \<lparr> hb_bufSize = (if ClientBuf \<le> 0 then defaultClientBuffer else ClientBuf),
       hb_perSubjectMax = (if PerSubjectMax = 0 then defaultPerSubjectMax else PerSubjectMax),
       hb_state = statePending, hb_subs = [], hb_perSubject = (\<lambda>_. 0), hb_all = (\<lambda>_. None),
       hb_next = 0, hb_lock = None, hb_pc = RConnect, hb_ctx_done = False,
       hb_backoff = initialBackoff \<rparr>"

definition Running :: "'a Hub \<Rightarrow> bool" where
  "Running h = (hb_state h = stateRunning)"

datatype 'a hub_result = Ok "'a Hub" | Blocked | Panic

datatype subscribe_error = ErrHubNotRunning | ErrTooManyForSubject

subsection \<open>Subscribe\<close>

text \<open>The check under the lock; an accepted caller keeps the lock until it has inserted.\<close>

definition subscribe_check :: "string \<Rightarrow> 'a Hub \<Rightarrow> subscribe_error option" where
  "subscribe_check subject h =
     (if hb_state h \<noteq> stateRunning then Some ErrHubNotRunning
      else if 0 < hb_perSubjectMax h \<and> hb_perSubjectMax h \<le> hb_perSubject h subject
      then Some ErrTooManyForSubject else None)"

definition subscribe_enter :: "string \<Rightarrow> 'a Hub \<Rightarrow> 'a hub_result" where
  "subscribe_enter subject h =
     (if hb_lock h \<noteq> None then Blocked
      else (case subscribe_check subject h of
              Some err \<Rightarrow> Ok h
            | None \<Rightarrow> Ok (h\<lparr> hb_lock := Some subject \<rparr>)))"

definition new_sub :: "string \<Rightarrow> 'a Subscriber" where
  "new_sub subject = \<lparr> su_ch = [], su_ch_closed = False, su_subject = subject, su_closed = False,
     su_lagged = 0, su_pc = NotClosing \<rparr>"

definition subscribe_insert :: "'a Hub \<Rightarrow> 'a hub_result" where
  "subscribe_insert h =
     (case hb_lock h of
        None \<Rightarrow> Blocked
      | Some subject \<Rightarrow>
          Ok (h\<lparr> hb_all := (hb_all h)(hb_next h \<mapsto> new_sub subject),
                 hb_subs := hb_subs h @ [hb_next h], hb_next := Suc (hb_next h),
                 hb_perSubject := (hb_perSubject h)(subject := hb_perSubject h subject + 1),
                 hb_lock := None \<rparr>))"

definition SubscriberCount :: "'a Hub \<Rightarrow> int" where
  "SubscriberCount h = int (length (hb_subs h))"

definition SubjectCount :: "string \<Rightarrow> 'a Hub \<Rightarrow> int" where
  "SubjectCount subject h = hb_perSubject h subject"

subsection \<open>Close\<close>

definition put_sub :: "nat \<Rightarrow> 'a Subscriber \<Rightarrow> 'a Hub \<Rightarrow> 'a Hub" where
  "put_sub s x h = h\<lparr> hb_all := (hb_all h)(s \<mapsto> x) \<rparr>"

definition close_swap :: "nat \<Rightarrow> 'a Hub \<Rightarrow> 'a hub_result" where
  "close_swap s h =
     (case hb_all h s of
        None \<Rightarrow> Blocked
      | Some x \<Rightarrow> if su_closed x then Ok h
                  else Ok (put_sub s (x\<lparr> su_closed := True, su_pc := WonFlag \<rparr>) h))"

definition unsubscribe :: "nat \<Rightarrow> string \<Rightarrow> 'a Hub \<Rightarrow> 'a Hub" where
  "unsubscribe s subject h =
     (if s \<notin> set (hb_subs h) then h
      else
        let n = hb_perSubject h subject - 1
        in h\<lparr> hb_subs := remove1 s (hb_subs h),
              hb_perSubject := (hb_perSubject h)(subject := (if n \<le> 0 then 0 else n)) \<rparr>)"

definition close_unsubscribe :: "nat \<Rightarrow> 'a Hub \<Rightarrow> 'a hub_result" where
  "close_unsubscribe s h =
     (case hb_all h s of
        None \<Rightarrow> Blocked
      | Some x \<Rightarrow>
          if su_pc x \<noteq> WonFlag \<or> hb_lock h \<noteq> None then Blocked
          else Ok (put_sub s (x\<lparr> su_pc := Unsubscribed \<rparr>) (unsubscribe s (su_subject x) h)))"

definition close_channel :: "nat \<Rightarrow> 'a Hub \<Rightarrow> 'a hub_result" where
  "close_channel s h =
     (case hb_all h s of
        None \<Rightarrow> Blocked
      | Some x \<Rightarrow>
          if su_pc x \<noteq> Unsubscribed then Blocked
          else if su_ch_closed x then Panic
          else Ok (put_sub s (x\<lparr> su_ch_closed := True, su_pc := Finished \<rparr>) h))"

subsection \<open>The goroutine of Run\<close>

definition close_sub :: "'a Subscriber \<Rightarrow> 'a Subscriber" where
  "close_sub x = (if su_closed x then x else x\<lparr> su_closed := True, su_ch_closed := True \<rparr>)"

definition closeAllSubs :: "'a Hub \<Rightarrow> 'a Hub" where
  "closeAllSubs h =
     h\<lparr> hb_all := (\<lambda>s. if s \<in> set (hb_subs h) then map_option close_sub (hb_all h s) else hb_all h s),
        hb_subs := [], hb_perSubject := (\<lambda>_. 0) \<rparr>"

text \<open>A channel that is closed without its flag set would be closed twice.\<close>

definition double_close :: "'a Hub \<Rightarrow> bool" where
  "double_close h = list_ex (\<lambda>s. case hb_all h s of
     None \<Rightarrow> False | Some x \<Rightarrow> \<not> su_closed x \<and> su_ch_closed x) (hb_subs h)"

definition offer :: "int \<Rightarrow> 'a \<Rightarrow> 'a Subscriber \<Rightarrow> 'a Subscriber" where
  "offer bufSize e x =
     (if int (length (su_ch x)) < bufSize then x\<lparr> su_ch := su_ch x @ [e] \<rparr>
      else x\<lparr> su_lagged := su_lagged x + 1 \<rparr>)"

definition dispatch :: "'a \<Rightarrow> 'a Hub \<Rightarrow> 'a hub_result" where
  "dispatch e h =
     (if list_ex (\<lambda>s. case hb_all h s of None \<Rightarrow> False | Some x \<Rightarrow> su_ch_closed x) (hb_subs h)
      then Panic
      else Ok (h\<lparr> hb_all := (\<lambda>s. if s \<in> set (hb_subs h)
                               then map_option (offer (hb_bufSize h) e) (hb_all h s) else hb_all h s) \<rparr>))"

definition nextBackoff :: "int \<Rightarrow> int" where
  "nextBackoff d = (let next = int64 (d * 2) in if maxBackoff < next then maxBackoff else next)"

text \<open>Connecting and \<open>LISTEN\<close> succeed.\<close>

definition connected :: "'a Hub \<Rightarrow> 'a hub_result" where
  "connected h =
     (if hb_pc h \<noteq> RConnect then Blocked
      else Ok (h\<lparr> hb_state := stateRunning, hb_pc := RListening \<rparr>))"

text \<open>
  What \<open>Run\<close> does when \<open>connectAndListen\<close> has returned: it returns when the context is done or
  there was no error, else it waits, with the first backoff again when it had been listening.
\<close>

definition after_listen :: "bool \<Rightarrow> bool \<Rightarrow> 'a Hub \<Rightarrow> 'a Hub" where
  "after_listen listened err_nil h =
     (if hb_ctx_done h \<or> err_nil then h\<lparr> hb_pc := RExiting \<rparr>
      else h\<lparr> hb_backoff := (if listened then initialBackoff else hb_backoff h), hb_pc := RBackoff \<rparr>)"

text \<open>Connecting or \<open>LISTEN\<close> fails.\<close>

definition connect_failed :: "'a Hub \<Rightarrow> 'a hub_result" where
  "connect_failed h =
     (if hb_pc h \<noteq> RConnect then Blocked
      else Ok (after_listen False False h))"

text \<open>A notification; a malformed payload is skipped.\<close>

definition notified :: "(string \<Rightarrow> error + 'a) \<Rightarrow> string \<Rightarrow> 'a Hub \<Rightarrow> 'a hub_result" where
  "notified unmarshal payload h =
     (if hb_pc h \<noteq> RListening \<or> hb_lock h \<noteq> None then Blocked
      else (case unmarshal payload of Inl err \<Rightarrow> Ok h | Inr e \<Rightarrow> dispatch e h))"

text \<open>\<open>WaitForNotification\<close> fails: first the state, then the subscribers.\<close>

definition wait_failed :: "'a Hub \<Rightarrow> 'a hub_result" where
  "wait_failed h =
     (if hb_pc h \<noteq> RListening then Blocked
      else Ok (h\<lparr> hb_state := (if hb_ctx_done h then hb_state h else stateDegraded), hb_pc := RDropped \<rparr>))"

text \<open>\<open>canceled\<close> says whether the error was a cancellation or a deadline, for which \<open>connectAndListen\<close> returns no error.\<close>

definition drop_subscribers :: "bool \<Rightarrow> 'a Hub \<Rightarrow> 'a hub_result" where
  "drop_subscribers canceled h =
     (if hb_pc h \<noteq> RDropped \<or> hb_lock h \<noteq> None then Blocked
      else if double_close h then Panic
      else Ok (after_listen True canceled (closeAllSubs h)))"

text \<open>
  The wait before the next attempt: the \<open>select\<close> returns by the timer, even when the context is
  done too, or by the context; else it goes on.
\<close>

definition sleep :: "bool \<Rightarrow> bool \<Rightarrow> bool option" where
  "sleep timer ctx_done = (if timer then Some True else if ctx_done then Some False else None)"

definition slept :: "bool \<Rightarrow> 'a Hub \<Rightarrow> 'a hub_result" where
  "slept timer h =
     (if hb_pc h \<noteq> RBackoff then Blocked
      else
        (case sleep timer (hb_ctx_done h) of
           None \<Rightarrow> Blocked
         | Some False \<Rightarrow> Ok (h\<lparr> hb_pc := RExiting \<rparr>)
         | Some True \<Rightarrow> Ok (h\<lparr> hb_backoff := nextBackoff (hb_backoff h), hb_pc := RConnect \<rparr>)))"

text \<open>The deferred \<open>drainAll\<close>: again first the state, then the subscribers.\<close>

definition stop :: "'a Hub \<Rightarrow> 'a hub_result" where
  "stop h =
     (if hb_pc h \<noteq> RExiting then Blocked
      else Ok (h\<lparr> hb_state := stateStopped, hb_pc := RDraining \<rparr>))"

definition drain_all :: "'a Hub \<Rightarrow> 'a hub_result" where
  "drain_all h =
     (if hb_pc h \<noteq> RDraining \<or> hb_lock h \<noteq> None then Blocked
      else if double_close h then Panic
      else Ok ((closeAllSubs h)\<lparr> hb_pc := RReturned \<rparr>))"

subsection \<open>Histories\<close>

text \<open>\<open>Receive\<close> is a handler that takes the next event from its channel.\<close>

definition receive :: "nat \<Rightarrow> 'a Hub \<Rightarrow> 'a hub_result" where
  "receive s h =
     (case hb_all h s of
        None \<Rightarrow> Blocked
      | Some x \<Rightarrow> (case su_ch x of [] \<Rightarrow> Blocked | e # es \<Rightarrow> Ok (put_sub s (x\<lparr> su_ch := es \<rparr>) h)))"

datatype hub_op =
    SubscribeEnter string | SubscribeInsert
  | CloseSwap nat | CloseUnsubscribe nat | CloseChannel nat | Receive nat
  | Connected | ConnectFailed | Notified string | WaitFailed | DropSubscribers bool | Slept bool | Stop | DrainAll
  | CancelContext

definition hub_step :: "(string \<Rightarrow> error + 'a) \<Rightarrow> hub_op \<Rightarrow> 'a Hub \<Rightarrow> 'a hub_result" where
  "hub_step unmarshal op h =
     (case op of
        SubscribeEnter subject \<Rightarrow> subscribe_enter subject h
      | SubscribeInsert \<Rightarrow> subscribe_insert h
      | CloseSwap s \<Rightarrow> close_swap s h
      | CloseUnsubscribe s \<Rightarrow> close_unsubscribe s h
      | CloseChannel s \<Rightarrow> close_channel s h
      | Receive s \<Rightarrow> receive s h
      | Connected \<Rightarrow> connected h
      | ConnectFailed \<Rightarrow> connect_failed h
      | Notified payload \<Rightarrow> notified unmarshal payload h
      | WaitFailed \<Rightarrow> wait_failed h
      | DropSubscribers canceled \<Rightarrow> drop_subscribers canceled h
      | Slept timer \<Rightarrow> slept timer h
      | Stop \<Rightarrow> stop h
      | DrainAll \<Rightarrow> drain_all h
      | CancelContext \<Rightarrow> Ok (h\<lparr> hb_ctx_done := True \<rparr>))"

text \<open>A blocked step does not happen; a panic ends the history.\<close>

fun history :: "(string \<Rightarrow> error + 'a) \<Rightarrow> hub_op list \<Rightarrow> 'a Hub \<Rightarrow> 'a Hub option" where
  "history unmarshal [] h = Some h"
| "history unmarshal (op # ops) h =
     (case hub_step unmarshal op h of
        Ok h' \<Rightarrow> history unmarshal ops h'
      | Blocked \<Rightarrow> history unmarshal ops h
      | Panic \<Rightarrow> None)"

end
