(* ===== verification/Streams.thy ===== *)
theory Streams
  imports Hub Repo_Ledger
begin

text \<open>
  \<open>internal/api/handlers/momentums_stream.go\<close> and \<open>transactions_stream.go\<close>: what a WebSocket client
  of a hub sees. A handler subscribes, replays rows from the database and then writes live frames.
  A frame is the row it was made from (the DTO copies its fields). The script of a live loop says
  what its \<open>select\<close> picks: a closed context, a closed channel, an event together with the value of
  \<open>Lagged()\<close> at the check and the success of the write, or a ping.
\<close>

definition streamReplayMaxRows :: int where
  "streamReplayMaxRows = 10000"

subsection \<open>Opening a stream\<close>

text \<open>The answer to a request whose token has been verified, up to the upgrade.\<close>

datatype problem = Problem int string string

definition subscribe_problem :: "string \<Rightarrow> subscribe_error \<Rightarrow> problem" where
  "subscribe_problem name err =
     (case err of
        ErrHubNotRunning \<Rightarrow>
          Problem 503 ''stream_unavailable'' (name @ '' stream is temporarily unavailable'')
      | ErrTooManyForSubject \<Rightarrow>
          Problem 429 ''stream_subject_limit'' ''too many concurrent streams for this token's subject'')"

definition bad_from_height :: problem where
  "bad_from_height = Problem 400 ''invalid_from_height'' ''from_height must be a non-negative integer''"

definition momentum_from_height :: "string \<Rightarrow> problem + int" where
  "momentum_from_height v =
     (if v = [] then Inr 0
      else (case ParseUint64 v of None \<Rightarrow> Inl bad_from_height | Some n \<Rightarrow> Inr n))"

definition tx_from_height :: "string \<Rightarrow> problem + int" where
  "tx_from_height v =
     (if v = [] then Inr 0
      else (case ParseInt64 v of
              None \<Rightarrow> Inl bad_from_height
            | Some n \<Rightarrow> if n < 0 then Inl bad_from_height else Inr n))"

definition open_stream :: "string \<Rightarrow> (string \<Rightarrow> problem + int) \<Rightarrow> string \<Rightarrow> string \<Rightarrow> 'a Hub \<Rightarrow> problem + int" where
  "open_stream name parse v subject h =
     (case parse v of
        Inl p \<Rightarrow> Inl p
      | Inr fromHeight \<Rightarrow>
          (case subscribe_check subject h of
             Some err \<Rightarrow> Inl (subscribe_problem name err)
           | None \<Rightarrow> Inr fromHeight))"

subsection \<open>Momentums\<close>

text \<open>Frames already written, and the height of the last one or an error.\<close>

fun write_all :: "nat list \<Rightarrow> nat \<Rightarrow> 'f list \<Rightarrow> 'f list \<times> bool" where
  "write_all broken j [] = ([], True)"
| "write_all broken j (f # fs) =
     (if j \<in> set broken then ([], False)
      else (case write_all broken (Suc j) fs of (out, ok) \<Rightarrow> (f # out, ok)))"

definition replay :: "bool \<Rightarrow> bool \<Rightarrow> nat list \<Rightarrow> int \<Rightarrow> db \<Rightarrow> Momentum list \<times> int option" where
  "replay latest_fails list_fails broken fromHeight d =
     (if latest_fails then ([], None)
      else
        (case Momentum_GetLatest d of
           Inl err \<Rightarrow> ([], Some 0)
         | Inr latest \<Rightarrow>
             if mo_Height latest < fromHeight then ([], Some (fromHeight - 1))
             else
               let stop = (if streamReplayMaxRows < mo_Height latest - fromHeight + 1
                           then fromHeight + streamReplayMaxRows - 1 else mo_Height latest)
               in if list_fails then ([], None)
                  else
                    let rows = Momentum_ListByHeightRange fromHeight stop streamReplayMaxRows d
                    in case write_all broken 0 rows of
                         (out, True) \<Rightarrow> (out, Some (if rows = [] then 0 else mo_Height (last rows)))
                       | (out, False) \<Rightarrow> (out, None)))"

datatype 'a live_input = LiveDone | LiveClosed | LiveEvent 'a int bool | LivePing bool

text \<open>How the connection ended: a close frame with its status, or none.\<close>

datatype live_end = Live | CloseStatus int | Gone

text \<open>One turn of \<open>runLive\<close>: the new watermark, the frame written, and how the turn ended.\<close>

definition live_turn :: "int \<Rightarrow> Momentum live_input \<Rightarrow> int \<times> Momentum list \<times> live_end" where
  "live_turn lastSent inp =
     (case inp of
        LiveDone \<Rightarrow> (lastSent, [], CloseStatus 1000)
      | LiveClosed \<Rightarrow> (lastSent, [], CloseStatus 1011)
      | LiveEvent m lagged written \<Rightarrow>
          if 0 < lagged then (lastSent, [], CloseStatus 4000)
          else if mo_Height m \<le> lastSent then (lastSent, [], Live)
          else if \<not> written then (lastSent, [], Gone)
          else (mo_Height m, [m], Live)
      | LivePing ok \<Rightarrow> (lastSent, [], if ok then Live else Gone))"

fun runLive :: "Momentum live_input list \<Rightarrow> int \<Rightarrow> Momentum list \<times> live_end" where
  "runLive [] lastSent = ([], Live)"
| "runLive (i # rest) lastSent =
     (case live_turn lastSent i of
        (lastSent', out, Live) \<Rightarrow>
          (case runLive rest lastSent' of (out', e) \<Rightarrow> (out @ out', e))
      | (_, out, e) \<Rightarrow> (out, e))"

definition MomentumsStream ::
  "bool \<Rightarrow> bool \<Rightarrow> nat list \<Rightarrow> int \<Rightarrow> db \<Rightarrow> Momentum live_input list \<Rightarrow> Momentum list \<times> live_end" where
  "MomentumsStream latest_fails list_fails broken fromHeight d inputs =
     (if 0 < fromHeight then
        (case replay latest_fails list_fails broken fromHeight d of
           (out, None) \<Rightarrow> (out, CloseStatus 1011)
         | (out, Some lastSent) \<Rightarrow> (case runLive inputs lastSent of (out', e) \<Rightarrow> (out @ out', e)))
      else runLive inputs 0)"

subsection \<open>Transactions\<close>

text \<open>The set of hashes is \<open>None\<close> while it is the nil map.\<close>

record txStreamCursor =
  cu_height :: int
  cu_hashes :: "hash list option"

definition empty_cursor :: txStreamCursor where
  "empty_cursor = \<lparr> cu_height = 0, cu_hashes = None \<rparr>"

definition seen :: "txStreamCursor \<Rightarrow> AccountBlock \<Rightarrow> bool" where
  "seen c ab =
     (if 0 < cu_height c \<and> ab_MomentumHeight ab < cu_height c then True
      else if ab_MomentumHeight ab = cu_height c
      then (case cu_hashes c of None \<Rightarrow> False | Some hs \<Rightarrow> ab_Hash ab \<in> set hs)
      else False)"

text \<open>A write to the nil map panics: \<open>None\<close>.\<close>

definition mark :: "txStreamCursor \<Rightarrow> AccountBlock \<Rightarrow> txStreamCursor option" where
  "mark c ab =
     (let c' = (if ab_MomentumHeight ab \<noteq> cu_height c
                then \<lparr> cu_height = ab_MomentumHeight ab, cu_hashes = Some [] \<rparr> else c)
      in case cu_hashes c' of
           None \<Rightarrow> None
         | Some hs \<Rightarrow> Some (c'\<lparr> cu_hashes := Some (ab_Hash ab # hs) \<rparr>))"

datatype tx_end = TxLive | TxCloseStatus int | TxGone | TxPanic

fun mark_all :: "nat list \<Rightarrow> nat \<Rightarrow> AccountBlock list \<Rightarrow> txStreamCursor \<Rightarrow>
    AccountBlock list \<times> tx_end \<times> txStreamCursor" where
  "mark_all broken j [] c = ([], TxLive, c)"
| "mark_all broken j (ab # bs) c =
     (if j \<in> set broken then ([], TxCloseStatus 1011, c)
      else
        (case mark c ab of
           None \<Rightarrow> ([ab], TxPanic, c)
         | Some c' \<Rightarrow>
             (case mark_all broken (Suc j) bs c' of (out, e, c'') \<Rightarrow> (ab # out, e, c''))))"

definition replayTransactions ::
  "bool \<Rightarrow> bool \<Rightarrow> nat list \<Rightarrow> int \<Rightarrow> address \<Rightarrow> db \<Rightarrow> AccountBlock list \<times> tx_end \<times> txStreamCursor" where
  "replayTransactions latest_fails list_fails broken fromHeight addressFilter d =
     (if latest_fails then ([], TxCloseStatus 1011, empty_cursor)
      else
        (case Momentum_GetLatest d of
           Inl err \<Rightarrow> ([], TxLive, \<lparr> cu_height = fromHeight - 1, cu_hashes = None \<rparr>)
         | Inr latest \<Rightarrow>
             let tip = int64 (mo_Height latest)
             in if tip < fromHeight then ([], TxLive, \<lparr> cu_height = fromHeight - 1, cu_hashes = None \<rparr>)
                else
                  let stop = (if streamReplayMaxRows < tip - fromHeight + 1
                              then fromHeight + streamReplayMaxRows - 1 else tip)
                  in if list_fails then ([], TxCloseStatus 1011, empty_cursor)
                     else mark_all broken 0
                            (AccountBlock_ListByMomentumHeightRange fromHeight stop addressFilter
                               streamReplayMaxRows d) empty_cursor))"

definition tx_turn :: "address \<Rightarrow> txStreamCursor \<Rightarrow> AccountBlock live_input \<Rightarrow>
    txStreamCursor \<times> AccountBlock list \<times> tx_end" where
  "tx_turn addressFilter c inp =
     (case inp of
        LiveDone \<Rightarrow> (c, [], TxCloseStatus 1000)
      | LiveClosed \<Rightarrow> (c, [], TxCloseStatus 1011)
      | LiveEvent ab lagged written \<Rightarrow>
          if 0 < lagged then (c, [], TxCloseStatus 4000)
          else if addressFilter \<noteq> [] \<and> ab_Address ab \<noteq> addressFilter \<and> ab_ToAddress ab \<noteq> addressFilter
          then (c, [], TxLive)
          else if seen c ab then (c, [], TxLive)
          else if \<not> written then (c, [], TxGone)
          else (case mark c ab of None \<Rightarrow> (c, [ab], TxPanic) | Some c' \<Rightarrow> (c', [ab], TxLive))
      | LivePing ok \<Rightarrow> (c, [], if ok then TxLive else TxGone))"

fun runTxLive :: "address \<Rightarrow> AccountBlock live_input list \<Rightarrow> txStreamCursor \<Rightarrow> AccountBlock list \<times> tx_end" where
  "runTxLive addressFilter [] c = ([], TxLive)"
| "runTxLive addressFilter (i # rest) c =
     (case tx_turn addressFilter c i of
        (c', out, TxLive) \<Rightarrow>
          (case runTxLive addressFilter rest c' of (out', e) \<Rightarrow> (out @ out', e))
      | (_, out, e) \<Rightarrow> (out, e))"

definition TransactionsStream ::
  "bool \<Rightarrow> bool \<Rightarrow> nat list \<Rightarrow> int \<Rightarrow> address \<Rightarrow> db \<Rightarrow> AccountBlock live_input list \<Rightarrow>
    AccountBlock list \<times> tx_end" where
  "TransactionsStream latest_fails list_fails broken fromHeight addressFilter d inputs =
     (if 0 < fromHeight then
        (case replayTransactions latest_fails list_fails broken fromHeight addressFilter d of
           (out, TxLive, c) \<Rightarrow> (case runTxLive addressFilter inputs c of (out', e) \<Rightarrow> (out @ out', e))
         | (out, e, c) \<Rightarrow> (out, e))
      else runTxLive addressFilter inputs empty_cursor)"

subsection \<open>A subscriber and its handler\<close>

text \<open>
  The channel between the hub and one handler: the hub offers events, the handler takes one,
  checks the lag counter (the hub may have come in between) and goes on. \<open>cl_hand\<close> is an event taken but
  not yet handled.
\<close>

record client =
  cl_sub :: "Momentum Subscriber"
  cl_hand :: "Momentum option"
  cl_lastSent :: int
  cl_frames :: "Momentum list"
  cl_end :: live_end

datatype client_op = Offer Momentum | Take | Handle bool

definition client_step :: "int \<Rightarrow> client_op \<Rightarrow> client \<Rightarrow> client" where
  "client_step bufSize op cl =
     (case op of
        Offer m \<Rightarrow> cl\<lparr> cl_sub := offer bufSize m (cl_sub cl) \<rparr>
      | Take \<Rightarrow>
          (case (su_ch (cl_sub cl), cl_hand cl, cl_end cl) of
             (m # ms, None, Live) \<Rightarrow> cl\<lparr> cl_sub := (cl_sub cl)\<lparr> su_ch := ms \<rparr>, cl_hand := Some m \<rparr>
           | _ \<Rightarrow> cl)
      | Handle written \<Rightarrow>
          (case cl_hand cl of
             None \<Rightarrow> cl
           | Some m \<Rightarrow>
               (case live_turn (cl_lastSent cl) (LiveEvent m (su_lagged (cl_sub cl)) written) of
                  (lastSent, out, e) \<Rightarrow>
                    cl\<lparr> cl_hand := None, cl_lastSent := lastSent, cl_frames := cl_frames cl @ out,
                        cl_end := e \<rparr>)))"

definition new_client :: "string \<Rightarrow> int \<Rightarrow> client" where
  "new_client subject lastSent =
     \<lparr> cl_sub = new_sub subject, cl_hand = None, cl_lastSent = lastSent, cl_frames = [], cl_end = Live \<rparr>"

definition client_run :: "int \<Rightarrow> client_op list \<Rightarrow> string \<Rightarrow> int \<Rightarrow> client" where
  "client_run bufSize ops subject lastSent =
     fold (client_step bufSize) ops (new_client subject lastSent)"

end
