(* ===== verification/Hub_Props.thy ===== *)
theory Hub_Props
  imports Hub
begin

text \<open>
  The hub under every interleaving of its goroutines: no panic, exact accounting of the
  subscribers, and no subscriber left on a hub that does not listen.
\<close>

subsection \<open>The invariant\<close>

definition sub_ok :: "bool \<Rightarrow> 'a Subscriber \<Rightarrow> bool" where
  "sub_ok live x =
     (case su_pc x of
        NotClosing \<Rightarrow> su_closed x = (\<not> live) \<and> su_ch_closed x = (\<not> live)
      | WonFlag \<Rightarrow> su_closed x \<and> \<not> su_ch_closed x
      | Unsubscribed \<Rightarrow> \<not> live \<and> su_closed x \<and> \<not> su_ch_closed x
      | Finished \<Rightarrow> \<not> live \<and> su_closed x \<and> su_ch_closed x)"

definition subs_ok :: "'a Hub \<Rightarrow> bool" where
  "subs_ok h \<longleftrightarrow> distinct (hb_subs h) \<and> (\<forall>s \<in> set (hb_subs h). hb_all h s \<noteq> None) \<and>
     (\<forall>s x. hb_all h s = Some x \<longrightarrow> s < hb_next h \<and> sub_ok (s \<in> set (hb_subs h)) x)"

definition live_of :: "string \<Rightarrow> 'a Hub \<Rightarrow> int" where
  "live_of subject h =
     int (length (filter (\<lambda>s. map_option su_subject (hb_all h s) = Some subject) (hb_subs h)))"

definition counts_ok :: "'a Hub \<Rightarrow> bool" where
  "counts_ok h \<longleftrightarrow> (\<forall>subject. hb_perSubject h subject = live_of subject h)"

definition cap_ok :: "'a Hub \<Rightarrow> bool" where
  "cap_ok h \<longleftrightarrow> (0 < hb_perSubjectMax h \<longrightarrow>
     (\<forall>subject. hb_perSubject h subject \<le> hb_perSubjectMax h) \<and>
     (\<forall>subject. hb_lock h = Some subject \<longrightarrow> hb_perSubject h subject < hb_perSubjectMax h))"

definition deaf :: "'a Hub \<Rightarrow> bool" where
  "deaf h \<longleftrightarrow> hb_subs h = [] \<and> hb_lock h = None \<and> hb_state h \<noteq> stateRunning"

definition run_ok :: "'a Hub \<Rightarrow> bool" where
  "run_ok h \<longleftrightarrow>
     (case hb_pc h of
        RConnect \<Rightarrow> deaf h
      | RListening \<Rightarrow> hb_state h = stateRunning
      | RDropped \<Rightarrow> hb_ctx_done h \<or> hb_state h = stateDegraded
      | RBackoff \<Rightarrow> deaf h
      | RExiting \<Rightarrow> True
      | RDraining \<Rightarrow> hb_state h = stateStopped
      | RReturned \<Rightarrow> deaf h \<and> hb_state h = stateStopped) \<and>
     initialBackoff \<le> hb_backoff h \<and> hb_backoff h \<le> maxBackoff"

definition hub_ok :: "'a Hub \<Rightarrow> bool" where
  "hub_ok h \<longleftrightarrow> subs_ok h \<and> counts_ok h \<and> cap_ok h \<and> run_ok h"

lemmas hub_ok_defs = hub_ok_def subs_ok_def counts_ok_def cap_ok_def run_ok_def deaf_def

subsection \<open>Every step keeps it\<close>

lemma New_ok: "hub_ok (New ClientBuf PerSubjectMax)"
  by (simp add: hub_ok_defs New_def live_of_def initialBackoff_def maxBackoff_def defaultPerSubjectMax_def)

lemma live_of_frames [simp]:
  "live_of x (h\<lparr> hb_lock := l \<rparr>) = live_of x h" "live_of x (h\<lparr> hb_state := st \<rparr>) = live_of x h"
  "live_of x (h\<lparr> hb_pc := pc \<rparr>) = live_of x h" "live_of x (h\<lparr> hb_backoff := b \<rparr>) = live_of x h"
  "live_of x (h\<lparr> hb_ctx_done := c \<rparr>) = live_of x h" "live_of x (h\<lparr> hb_perSubject := p \<rparr>) = live_of x h"
  by (simp_all add: live_of_def)

text \<open>A step that leaves the subscribers alone.\<close>

definition same_subs :: "'a Hub \<Rightarrow> 'a Hub \<Rightarrow> bool" where
  "same_subs h h' \<longleftrightarrow> hb_subs h' = hb_subs h \<and> hb_all h' = hb_all h \<and> hb_next h' = hb_next h \<and>
     hb_perSubject h' = hb_perSubject h \<and> hb_perSubjectMax h' = hb_perSubjectMax h"

lemma same_subs_ok:
  assumes "hub_ok h" "same_subs h h'" "run_ok h'"
    and "\<And>subject. hb_lock h' = Some subject \<Longrightarrow> hb_lock h = Some subject \<or>
      (0 < hb_perSubjectMax h \<longrightarrow> hb_perSubject h subject < hb_perSubjectMax h)"
  shows "hub_ok h'"
proof -
  have "subs_ok h'" "counts_ok h'"
    using assms(1,2) by (auto simp: hub_ok_def subs_ok_def counts_ok_def same_subs_def live_of_def)
  moreover have "cap_ok h'" using assms(1,2,4) unfolding hub_ok_def cap_ok_def same_subs_def by metis
  ultimately show ?thesis using assms(3) by (simp add: hub_ok_def)
qed

lemma subs_okI:
  "distinct (hb_subs h) \<Longrightarrow> (\<And>s. s \<in> set (hb_subs h) \<Longrightarrow> \<exists>x. hb_all h s = Some x) \<Longrightarrow>
   (\<And>s x. hb_all h s = Some x \<Longrightarrow> s < hb_next h \<and> sub_ok (s \<in> set (hb_subs h)) x) \<Longrightarrow> subs_ok h"
  unfolding subs_ok_def by blast

lemma subs_okD:
  assumes "hub_ok h"
  shows "distinct (hb_subs h)" "\<And>s. s \<in> set (hb_subs h) \<Longrightarrow> \<exists>x. hb_all h s = Some x"
    "\<And>s x. hb_all h s = Some x \<Longrightarrow> s < hb_next h \<and> sub_ok (s \<in> set (hb_subs h)) x"
  using assms unfolding hub_ok_def subs_ok_def by blast+

lemma enter_ok:
  assumes "hub_ok h" "subscribe_enter subject h = Ok h'"
  shows "hub_ok h'"
proof (cases "subscribe_check subject h")
  case None
  then have h': "h' = h\<lparr> hb_lock := Some subject \<rparr>" "hb_lock h = None"
    using assms(2) by (auto simp: subscribe_enter_def split: if_splits)
  have "hb_state h = stateRunning" using None by (auto simp: subscribe_check_def split: if_splits)
  then have "run_ok h'" using assms(1) by (auto simp: hub_ok_def run_ok_def deaf_def h' split: run_pc.splits)
  then show ?thesis
    using None by (intro same_subs_ok [OF assms(1)]) (auto simp: same_subs_def h' subscribe_check_def split: if_splits)
qed (use assms in \<open>auto simp: subscribe_enter_def split: if_splits\<close>)

lemma insert_ok:
  assumes "hub_ok h" "subscribe_insert h = Ok h'"
  shows "hub_ok h'"
proof -
  obtain subject where lock: "hb_lock h = Some subject" using assms(2) by (auto simp: subscribe_insert_def split: option.splits)
  let ?n = "hb_next h"
  note old = subs_okD [OF assms(1)]
  have fresh: "hb_all h ?n = None" "?n \<notin> set (hb_subs h)"
    using assms(1) unfolding hub_ok_def subs_ok_def by (metis less_irrefl option.exhaust)+
  have h': "h' = h\<lparr> hb_all := (hb_all h)(?n \<mapsto> new_sub subject), hb_subs := hb_subs h @ [?n],
      hb_next := Suc ?n, hb_perSubject := (hb_perSubject h)(subject := hb_perSubject h subject + 1),
      hb_lock := None \<rparr>"
    using assms(2) lock by (simp add: subscribe_insert_def)
  have "live_of x h' = live_of x h + (if x = subject then 1 else 0)" for x
  proof -
    have "filter (\<lambda>s. map_option su_subject (hb_all h' s) = Some x) (hb_subs h) =
        filter (\<lambda>s. map_option su_subject (hb_all h s) = Some x) (hb_subs h)"
      using fresh(2) by (intro filter_cong) (auto simp: h')
    then show ?thesis by (simp add: live_of_def h' new_sub_def)
  qed
  then have "counts_ok h'" using assms(1) by (simp add: hub_ok_def counts_ok_def h')
  moreover have "subs_ok h'"
  proof (rule subs_okI)
    show "distinct (hb_subs h')" using fresh(2) old(1) by (simp add: h')
    show "\<exists>x. hb_all h' s = Some x" if "s \<in> set (hb_subs h')" for s
      using that old(2) [of s] by (auto simp: h')
    show "s < hb_next h' \<and> sub_ok (s \<in> set (hb_subs h')) x" if "hb_all h' s = Some x" for s x
    proof (cases "s = ?n")
      case True
      then show ?thesis using that by (auto simp: h' new_sub_def sub_ok_def)
    next
      case False
      then show ?thesis using that old(3) [of s x] by (simp add: h')
    qed
  qed
  moreover have "cap_ok h'" using assms(1) lock by (auto simp: hub_ok_def cap_ok_def h')
  moreover have "run_ok h'"
    using assms(1) lock by (auto simp: hub_ok_def run_ok_def deaf_def h' split: run_pc.splits)
  ultimately show ?thesis by (simp add: hub_ok_def)
qed

text \<open>A change of one subscriber that keeps its subject.\<close>

lemma put_sub_ok:
  assumes "hub_ok h" "hb_all h s = Some x" "su_subject y = su_subject x"
    and "sub_ok (s \<in> set (hb_subs h)) y"
  shows "hub_ok (put_sub s y h)"
proof -
  have "live_of z (put_sub s y h) = live_of z h" for z
  proof -
    have "filter (\<lambda>i. map_option su_subject (hb_all (put_sub s y h) i) = Some z) (hb_subs h) =
        filter (\<lambda>i. map_option su_subject (hb_all h i) = Some z) (hb_subs h)"
      using assms(2,3) by (intro filter_cong) (auto simp: put_sub_def)
    then show ?thesis by (simp add: live_of_def put_sub_def)
  qed
  then have "counts_ok (put_sub s y h)" using assms(1) by (simp add: hub_ok_def counts_ok_def put_sub_def)
  moreover have "subs_ok (put_sub s y h)"
    using assms by (auto simp: hub_ok_def subs_ok_def put_sub_def)
  ultimately show ?thesis
    using assms(1) by (auto simp: hub_ok_def cap_ok_def run_ok_def deaf_def put_sub_def split: run_pc.splits)
qed

lemma known_sub:
  "hub_ok h \<Longrightarrow> hb_all h s = Some x \<Longrightarrow> sub_ok (s \<in> set (hb_subs h)) x"
  by (simp add: hub_ok_def subs_ok_def)

lemma swap_ok:
  assumes "hub_ok h" "close_swap s h = Ok h'"
  shows "hub_ok h'"
proof -
  obtain x where x: "hb_all h s = Some x" using assms(2) by (auto simp: close_swap_def split: option.splits)
  show ?thesis
  proof (cases "su_closed x")
    case False
    then have "h' = put_sub s (x\<lparr> su_closed := True, su_pc := WonFlag \<rparr>) h"
      using assms(2) x by (simp add: close_swap_def)
    moreover have "sub_ok (s \<in> set (hb_subs h)) (x\<lparr> su_closed := True, su_pc := WonFlag \<rparr>)"
      using known_sub [OF assms(1) x] False by (auto simp: sub_ok_def split: close_pc.splits)
    ultimately show ?thesis using put_sub_ok [OF assms(1) x] by simp
  qed (use assms x in \<open>simp add: close_swap_def\<close>)
qed

lemma unsubscribe_ok:
  assumes "hub_ok h" "close_unsubscribe s h = Ok h'"
  shows "hub_ok h'"
proof -
  obtain x where x: "hb_all h s = Some x" "su_pc x = WonFlag" "hb_lock h = None"
    "h' = put_sub s (x\<lparr> su_pc := Unsubscribed \<rparr>) (unsubscribe s (su_subject x) h)"
    using assms(2) by (auto simp: close_unsubscribe_def split: option.splits if_splits)
  have sok: "sub_ok False (x\<lparr> su_pc := Unsubscribed \<rparr>)"
    using known_sub [OF assms(1) x(1)] x(2) by (simp add: sub_ok_def)
  show ?thesis
  proof (cases "s \<in> set (hb_subs h)")
    case False
    then have "h' = put_sub s (x\<lparr> su_pc := Unsubscribed \<rparr>) h" using x(4) by (simp add: unsubscribe_def)
    then show ?thesis using put_sub_ok [OF assms(1) x(1)] sok False by simp
  next
    case True
    have d: "distinct (hb_subs h)" using assms(1) by (simp add: hub_ok_def subs_ok_def)
    let ?P = "\<lambda>z i. map_option su_subject (hb_all h i) = Some z"
    have "length (filter (?P z) (remove1 s (hb_subs h))) =
        length (filter (?P z) (hb_subs h)) - (if z = su_subject x then 1 else 0)" for z
      using True d x(1) by (induction "hb_subs h") (auto simp: filter_remove1 length_remove1)
    moreover have "0 < length (filter (?P (su_subject x)) (hb_subs h))"
      using True x(1) by (auto simp: length_greater_0_conv filter_empty_conv)
    moreover have "hb_perSubject h z = live_of z h" for z using assms(1) by (simp add: hub_ok_def counts_ok_def)
    ultimately have cnt: "hb_perSubject h' z = int (length (filter (?P z) (remove1 s (hb_subs h))))"
      and le: "hb_perSubject h' z \<le> hb_perSubject h z" for z
      using x(4) True by (auto simp: unsubscribe_def put_sub_def Let_def live_of_def)
    have subs: "hb_subs h' = remove1 s (hb_subs h)" "hb_all h' = (hb_all h)(s \<mapsto> x\<lparr> su_pc := Unsubscribed \<rparr>)"
      using x(4) True by (simp_all add: unsubscribe_def put_sub_def Let_def)
    have "filter (\<lambda>i. map_option su_subject (hb_all h' i) = Some z) (remove1 s (hb_subs h)) =
        filter (?P z) (remove1 s (hb_subs h))" for z
      using d by (intro filter_cong) (auto simp: subs)
    then have "counts_ok h'" using cnt by (simp add: counts_ok_def live_of_def subs)
    moreover have "subs_ok h'"
    proof (rule subs_okI)
      have n: "hb_next h' = hb_next h" using x(4) True by (simp add: unsubscribe_def put_sub_def Let_def)
      show "distinct (hb_subs h')" using d by (simp add: subs)
      show "\<exists>y. hb_all h' i = Some y" if "i \<in> set (hb_subs h')" for i
        using that subs_okD(2) [OF assms(1), of i] d by (simp add: subs)
      show "i < hb_next h' \<and> sub_ok (i \<in> set (hb_subs h')) y" if "hb_all h' i = Some y" for i y
      proof (cases "i = s")
        case True
        then show ?thesis using that sok d subs_okD(3) [OF assms(1) x(1)] by (simp add: subs n)
      next
        case False
        then show ?thesis using that d subs_okD(3) [OF assms(1), of i y] by (simp add: subs n)
      qed
    qed
    moreover have "cap_ok h'"
    proof -
      have "hb_lock h' = None" "hb_perSubjectMax h' = hb_perSubjectMax h"
        using x(3,4) True by (simp_all add: unsubscribe_def put_sub_def Let_def)
      moreover have "cap_ok h" using assms(1) by (simp add: hub_ok_def)
      ultimately show ?thesis unfolding cap_ok_def using le order_trans by fastforce
    qed
    moreover have "run_ok h'"
      using assms(1) x(4) True by (auto simp: hub_ok_def run_ok_def deaf_def unsubscribe_def put_sub_def Let_def split: run_pc.splits)
    ultimately show ?thesis by (simp add: hub_ok_def)
  qed
qed

lemma channel_ok:
  assumes "hub_ok h" "close_channel s h = Ok h'"
  shows "hub_ok h'"
proof -
  obtain x where x: "hb_all h s = Some x" "su_pc x = Unsubscribed"
    "h' = put_sub s (x\<lparr> su_ch_closed := True, su_pc := Finished \<rparr>) h"
    using assms(2) by (auto simp: close_channel_def split: option.splits if_splits)
  then show ?thesis
    using known_sub [OF assms(1) x(1)] put_sub_ok [OF assms(1) x(1)] by (simp add: sub_ok_def)
qed

lemma receive_ok:
  assumes "hub_ok h" "receive s h = Ok h'"
  shows "hub_ok h'"
proof -
  obtain x e es where x: "hb_all h s = Some x" "h' = put_sub s (x\<lparr> su_ch := es \<rparr>) h"
    using assms(2) by (auto simp: receive_def split: option.splits list.splits)
  have "sub_ok (s \<in> set (hb_subs h)) (x\<lparr> su_ch := es \<rparr>)"
    using known_sub [OF assms(1) x(1)] by (simp add: sub_ok_def split: close_pc.splits)
  then show ?thesis using put_sub_ok [OF assms(1) x(1)] x(2) by simp
qed

lemma mapped_ok:
  assumes "hub_ok h" "hb_subs h' = hb_subs h" "hb_next h' = hb_next h"
    and "hb_all h' = (\<lambda>s. if s \<in> set (hb_subs h) then map_option f (hb_all h s) else hb_all h s)"
    and "\<And>x. su_subject (f x) = su_subject x" "\<And>x. sub_ok True x \<Longrightarrow> sub_ok True (f x)"
  shows "subs_ok h'" "live_of z h' = live_of z h"
proof -
  show "subs_ok h'"
  proof (rule subs_okI)
    show "distinct (hb_subs h')" using subs_okD(1) [OF assms(1)] by (simp add: assms(2))
    show "\<exists>x. hb_all h' s = Some x" if "s \<in> set (hb_subs h')" for s
      using that subs_okD(2) [OF assms(1), of s] by (auto simp: assms(2,4))
    show "s < hb_next h' \<and> sub_ok (s \<in> set (hb_subs h')) x" if got: "hb_all h' s = Some x" for s x
    proof (cases "s \<in> set (hb_subs h)")
      case True
      then obtain y where "hb_all h s = Some y" "x = f y" using got by (auto simp: assms(4))
      then show ?thesis using True subs_okD(3) [OF assms(1), of s y] assms(6) by (simp add: assms(2,3))
    next
      case False
      then show ?thesis using got subs_okD(3) [OF assms(1), of s x] by (simp add: assms(2,3,4))
    qed
  qed
  have "filter (\<lambda>s. map_option su_subject (hb_all h' s) = Some z) (hb_subs h) =
      filter (\<lambda>s. map_option su_subject (hb_all h s) = Some z) (hb_subs h)"
    by (intro filter_cong) (auto simp: assms(4,5) option.map_comp o_def)
  then show "live_of z h' = live_of z h" by (simp add: live_of_def assms(2))
qed

lemma dispatch_ok:
  assumes "hub_ok h" "dispatch e h = Ok h'"
  shows "hub_ok h'"
proof -
  have h': "h' = h\<lparr> hb_all := (\<lambda>s. if s \<in> set (hb_subs h)
      then map_option (offer (hb_bufSize h) e) (hb_all h s) else hb_all h s) \<rparr>"
    using assms(2) by (auto simp: dispatch_def split: if_splits)
  have f: "su_subject (offer n e x) = su_subject x" "sub_ok b x \<Longrightarrow> sub_ok b (offer n e x)" for n b x
    by (auto simp: offer_def sub_ok_def split: close_pc.splits)
  have "subs_ok h'" and l: "\<And>z. live_of z h' = live_of z h"
    by (rule mapped_ok [OF assms(1), of _ "offer (hb_bufSize h) e"]; simp add: h' f)+
  moreover have "counts_ok h'" using assms(1) l by (simp add: hub_ok_def counts_ok_def h')
  ultimately show ?thesis
    using assms(1) by (auto simp: hub_ok_def cap_ok_def run_ok_def deaf_def h' split: run_pc.splits)
qed

lemma closed_all:
  assumes "hub_ok h" "hb_lock h = None"
  shows "subs_ok (closeAllSubs h)" "counts_ok (closeAllSubs h)" "cap_ok (closeAllSubs h)"
proof -
  show "subs_ok (closeAllSubs h)"
  proof (rule subs_okI)
    show "s < hb_next (closeAllSubs h) \<and> sub_ok (s \<in> set (hb_subs (closeAllSubs h))) x"
      if got: "hb_all (closeAllSubs h) s = Some x" for s x
    proof (cases "s \<in> set (hb_subs h)")
      case True
      then obtain y where y: "hb_all h s = Some y" "x = close_sub y" using got by (auto simp: closeAllSubs_def)
      then show ?thesis
        using True subs_okD(3) [OF assms(1) y(1)]
        by (auto simp: closeAllSubs_def close_sub_def sub_ok_def split: close_pc.splits)
    next
      case False
      then show ?thesis using got subs_okD(3) [OF assms(1), of s x] by (simp add: closeAllSubs_def)
    qed
  qed (simp_all add: closeAllSubs_def)
  show "counts_ok (closeAllSubs h)" by (simp add: counts_ok_def closeAllSubs_def live_of_def)
  show "cap_ok (closeAllSubs h)" using assms by (auto simp: hub_ok_def cap_ok_def closeAllSubs_def)
qed

lemma no_double_close: "hub_ok h \<Longrightarrow> \<not> double_close h"
proof
  assume ok: "hub_ok h" and "double_close h"
  then obtain s x where "s \<in> set (hb_subs h)" "hb_all h s = Some x" "\<not> su_closed x" "su_ch_closed x"
    by (auto simp: double_close_def list_ex_iff split: option.splits)
  then show False using subs_okD(3) [OF ok, of s x] by (auto simp: sub_ok_def split: close_pc.splits)
qed

lemma no_closed_send:
  "hub_ok h \<Longrightarrow> \<not> list_ex (\<lambda>s. case hb_all h s of None \<Rightarrow> False | Some x \<Rightarrow> su_ch_closed x) (hb_subs h)"
proof
  assume ok: "hub_ok h" and "list_ex (\<lambda>s. case hb_all h s of None \<Rightarrow> False | Some x \<Rightarrow> su_ch_closed x) (hb_subs h)"
  then obtain s x where "s \<in> set (hb_subs h)" "hb_all h s = Some x" "su_ch_closed x"
    by (auto simp: list_ex_iff split: option.splits)
  then show False using subs_okD(3) [OF ok, of s x] by (auto simp: sub_ok_def split: close_pc.splits)
qed

lemma dropped_ok:
  assumes "hub_ok h" "drop_subscribers canceled h = Ok h'"
  shows "hub_ok h'"
proof -
  have pc: "hb_pc h = RDropped" "hb_lock h = None" and
    h': "h' = after_listen True canceled (closeAllSubs h)"
    using assms(2) by (auto simp: drop_subscribers_def Let_def split: if_splits)
  note ok = closed_all [OF assms(1) pc(2)]
  have "run_ok h'"
    using assms(1) pc by (auto simp: h' after_listen_def hub_ok_def run_ok_def deaf_def closeAllSubs_def initialBackoff_def maxBackoff_def)
  then show ?thesis
    using ok by (auto simp: h' after_listen_def hub_ok_def subs_ok_def counts_ok_def cap_ok_def)
qed

lemma drained_ok:
  assumes "hub_ok h" "drain_all h = Ok h'"
  shows "hub_ok h'"
proof -
  have pc: "hb_pc h = RDraining" "hb_lock h = None" and h': "h' = (closeAllSubs h)\<lparr> hb_pc := RReturned \<rparr>"
    using assms(2) by (auto simp: drain_all_def split: if_splits)
  note ok = closed_all [OF assms(1) pc(2)]
  have "run_ok h'" using assms(1) pc by (auto simp: h' hub_ok_def run_ok_def deaf_def closeAllSubs_def)
  then show ?thesis using ok by (auto simp: h' hub_ok_def subs_ok_def counts_ok_def cap_ok_def)
qed

lemma nextBackoff_bounds:
  "initialBackoff \<le> b \<Longrightarrow> b \<le> maxBackoff \<Longrightarrow> initialBackoff \<le> nextBackoff b \<and> nextBackoff b \<le> maxBackoff"
proof -
  assume b: "initialBackoff \<le> b" "b \<le> maxBackoff"
  then have "int64 (b * 2) = b * 2" by (intro int64_small) (auto simp: initialBackoff_def maxBackoff_def)
  then show ?thesis using b by (simp add: nextBackoff_def Let_def initialBackoff_def maxBackoff_def)
qed

lemma run_steps_ok:
  assumes "hub_ok h"
  shows "connected h = Ok h' \<Longrightarrow> hub_ok h'" "connect_failed h = Ok h' \<Longrightarrow> hub_ok h'"
    "wait_failed h = Ok h' \<Longrightarrow> hub_ok h'" "slept timer h = Ok h' \<Longrightarrow> hub_ok h'" "stop h = Ok h' \<Longrightarrow> hub_ok h'"
proof -
  note run = assms [unfolded hub_ok_def run_ok_def deaf_def]
  show "connected h = Ok h' \<Longrightarrow> hub_ok h'"
    using run by (intro same_subs_ok [OF assms, of h'])
      (auto simp: connected_def same_subs_def run_ok_def deaf_def split: if_splits)
  show "connect_failed h = Ok h' \<Longrightarrow> hub_ok h'"
    using run by (intro same_subs_ok [OF assms, of h'])
      (auto simp: connect_failed_def after_listen_def same_subs_def run_ok_def deaf_def split: if_splits)
  show "wait_failed h = Ok h' \<Longrightarrow> hub_ok h'"
    using run by (intro same_subs_ok [OF assms, of h'])
      (auto simp: wait_failed_def same_subs_def run_ok_def deaf_def split: if_splits)
  show "slept timer h = Ok h' \<Longrightarrow> hub_ok h'"
    using run nextBackoff_bounds [of "hb_backoff h"] by (intro same_subs_ok [OF assms, of h'])
      (auto simp: slept_def sleep_def same_subs_def run_ok_def deaf_def split: if_splits)
  show "stop h = Ok h' \<Longrightarrow> hub_ok h'"
    using run by (intro same_subs_ok [OF assms, of h'])
      (auto simp: stop_def same_subs_def run_ok_def deaf_def split: if_splits)
qed

lemma cancel_ok: "hub_ok h \<Longrightarrow> hub_ok (h\<lparr> hb_ctx_done := True \<rparr>)"
  by (rule same_subs_ok) (auto simp: same_subs_def hub_ok_def run_ok_def deaf_def split: run_pc.splits)

lemma step_ok:
  assumes "hub_ok h" "hub_step unmarshal op h = Ok h'"
  shows "hub_ok h'"
  using assms dispatch_ok [OF assms(1)]
  by (cases op) (auto simp: hub_step_def notified_def intro: enter_ok insert_ok swap_ok unsubscribe_ok channel_ok
      receive_ok run_steps_ok dropped_ok drained_ok cancel_ok split: if_splits sum.splits)

lemma channel_no_panic: "hub_ok h \<Longrightarrow> close_channel s h \<noteq> Panic"
proof
  assume ok: "hub_ok h" and "close_channel s h = Panic"
  then obtain x where "hb_all h s = Some x" "su_pc x = Unsubscribed" "su_ch_closed x"
    by (auto simp: close_channel_def split: option.splits if_splits)
  then show False using known_sub [OF ok] by (fastforce simp: sub_ok_def)
qed

lemma step_no_panic:
  assumes "hub_ok h"
  shows "hub_step unmarshal op h \<noteq> Panic"
  using no_double_close [OF assms] no_closed_send [OF assms] channel_no_panic [OF assms]
  by (cases op) (auto simp: hub_step_def subscribe_enter_def subscribe_insert_def close_swap_def
      close_unsubscribe_def receive_def connected_def connect_failed_def notified_def dispatch_def wait_failed_def
      drop_subscribers_def slept_def stop_def drain_all_def Let_def split: option.splits list.splits sum.splits bool.splits)

lemma history_ok:
  assumes "hub_ok h"
  shows "\<exists>h'. history unmarshal ops h = Some h' \<and> hub_ok h'"
  using assms
proof (induction ops arbitrary: h)
  case (Cons op ops)
  from Cons step_ok [OF Cons.prems] step_no_panic [OF Cons.prems, of unmarshal op] show ?case
    by (cases "hub_step unmarshal op h") auto
qed simp

text \<open>
  C22. The hub under every interleaving of \<open>Run\<close>, \<open>Subscribe\<close>, \<open>Close\<close>, the handlers and a
  cancellation: no goroutine ever sends on or closes a closed channel; the count of a subject is
  the number of its live subscribers and never exceeds the cap; every live subscriber has an open
  channel; no subscriber is left while \<open>Run\<close> waits, reconnects or has returned; and the wait
  between attempts stays between 1 and 30 seconds.
\<close>

theorem hub_safe:
  "\<exists>h. history unmarshal ops (New ClientBuf PerSubjectMax) = Some h \<and>
     (\<forall>subject. SubjectCount subject h =
        int (length (filter (\<lambda>s. map_option su_subject (hb_all h s) = Some subject) (hb_subs h))) \<and>
        (hb_perSubjectMax h \<le> 0 \<or> SubjectCount subject h \<le> hb_perSubjectMax h)) \<and>
     list_all (\<lambda>s. map_option su_ch_closed (hb_all h s) = Some False) (hb_subs h) \<and>
     (hb_pc h \<notin> {RConnect, RBackoff, RReturned} \<or> SubscriberCount h = 0) \<and>
     1000000000 \<le> hb_backoff h \<and> hb_backoff h \<le> 30000000000"
proof -
  obtain h where h: "history unmarshal ops (New ClientBuf PerSubjectMax) = Some h" and ok: "hub_ok h"
    using history_ok [OF New_ok] by blast
  have "list_all (\<lambda>s. map_option su_ch_closed (hb_all h s) = Some False) (hb_subs h)"
  proof -
    have "map_option su_ch_closed (hb_all h s) = Some False" if s: "s \<in> set (hb_subs h)" for s
    proof -
      obtain x where x: "hb_all h s = Some x" using subs_okD(2) [OF ok s] by blast
      then show ?thesis using subs_okD(3) [OF ok x] s by (auto simp: sub_ok_def split: close_pc.splits)
    qed
    then show ?thesis by (simp add: list_all_iff)
  qed
  moreover have "SubjectCount subject h =
        int (length (filter (\<lambda>s. map_option su_subject (hb_all h s) = Some subject) (hb_subs h)))" for subject
    using ok by (simp add: hub_ok_def counts_ok_def live_of_def SubjectCount_def)
  moreover have "hb_perSubjectMax h \<le> 0 \<or> SubjectCount subject h \<le> hb_perSubjectMax h" for subject
    using ok by (auto simp: hub_ok_def cap_ok_def SubjectCount_def)
  moreover have "hb_pc h \<notin> {RConnect, RBackoff, RReturned} \<or> SubscriberCount h = 0"
    using ok by (auto simp: hub_ok_def run_ok_def deaf_def SubscriberCount_def)
  moreover have "1000000000 \<le> hb_backoff h \<and> hb_backoff h \<le> 30000000000"
    using ok by (simp add: hub_ok_def run_ok_def initialBackoff_def maxBackoff_def)
  ultimately show ?thesis using h by blast
qed

definition ex_history :: "string Hub option" where
  "ex_history = history Inr [Connected, SubscribeEnter ''alice'', SubscribeInsert, Notified ''m'', WaitFailed,
     SubscribeEnter ''bob'', DropSubscribers False] (New 32 8)"

theorem hub_safe_witness:
  "\<exists>h. ex_history = Some h \<and> hb_pc h = RBackoff \<and> SubscriberCount h = 0 \<and> SubjectCount ''alice'' h = 0"
proof -
  have pc: "map_option hb_pc ex_history = Some RBackoff" by code_simp
  then obtain h where h: "ex_history = Some h" "hb_pc h = RBackoff" by auto
  have count: "hb_pc h \<notin> {RConnect, RBackoff, RReturned} \<or> SubscriberCount h = 0"
    and subject: "SubjectCount ''alice'' h =
      int (length (filter (\<lambda>s. map_option su_subject (hb_all h s) = Some ''alice'') (hb_subs h)))"
    using hub_safe [where unmarshal = Inr and ops = "[Connected, SubscribeEnter ''alice'', SubscribeInsert,
      Notified ''m'', WaitFailed, SubscribeEnter ''bob'', DropSubscribers False]" and ClientBuf = 32 and PerSubjectMax = 8]
      h(1) unfolding ex_history_def by auto
  from count h(2) have "SubscriberCount h = 0" by simp
  then show ?thesis using h subject by (auto simp: SubscriberCount_def)
qed

end
