(* ===== verification/Stream_Props.thy ===== *)
theory Stream_Props
  imports Streams Hub_Props
begin

text \<open>
  What a stream client can rely on: live momentums come in order and without a silent gap, account
  blocks come once; and the one way a transactions stream can crash its handler.
\<close>

subsection \<open>Momentums: no silent gap\<close>

text \<open>The events a client with watermark \<open>l\<close> has to see of a list.\<close>

fun increasing :: "int \<Rightarrow> Momentum list \<Rightarrow> Momentum list" where
  "increasing l [] = []"
| "increasing l (m # ms) =
     (if mo_Height m \<le> l then increasing l ms else m # increasing (mo_Height m) ms)"

fun watermark :: "int \<Rightarrow> Momentum list \<Rightarrow> int" where
  "watermark l [] = l"
| "watermark l (m # ms) = watermark (if mo_Height m \<le> l then l else mo_Height m) ms"

fun offered :: "client_op list \<Rightarrow> Momentum list" where
  "offered [] = []"
| "offered (Offer m # ops) = m # offered ops"
| "offered (_ # ops) = offered ops"

lemma increasing_append: "increasing l (xs @ ys) = increasing l xs @ increasing (watermark l xs) ys"
  by (induction l xs rule: increasing.induct) auto

lemma watermark_append: "watermark l (xs @ ys) = watermark (watermark l xs) ys"
  by (induction l xs rule: increasing.induct) auto

lemma offered_append: "offered (xs @ ys) = offered xs @ offered ys"
  by (induction xs rule: offered.induct) auto

lemma increasing_sorted:
  "sorted_wrt (<) (map mo_Height (increasing l ms)) \<and> (\<forall>m \<in> set (increasing l ms). l < mo_Height m)"
proof (induction l ms rule: increasing.induct)
  case (2 l m ms)
  show ?case
  proof (cases "mo_Height m \<le> l")
    case False
    then have "\<forall>x \<in> set (increasing (mo_Height m) ms). l < mo_Height x"
      using 2(2) by (meson less_trans not_le_imp_less)
    then show ?thesis using 2(2) False by simp
  qed (use 2(1) in simp)
qed simp

definition tracks_client :: "int \<Rightarrow> Momentum list \<Rightarrow> client \<Rightarrow> bool" where
  "tracks_client l0 evs cl \<longleftrightarrow> 0 \<le> su_lagged (cl_sub cl) \<and> (cl_end cl = Live \<or> cl_hand cl = None) \<and>
     (\<exists>k. cl_frames cl = increasing l0 (take k evs) \<and> k \<le> length evs \<and>
        (cl_end cl = Live \<and> su_lagged (cl_sub cl) = 0 \<longrightarrow>
           drop k evs = (case cl_hand cl of None \<Rightarrow> [] | Some m \<Rightarrow> [m]) @ su_ch (cl_sub cl) \<and>
           cl_lastSent cl = watermark l0 (take k evs)))"

lemma offer_tracks:
  assumes "tracks_client l0 evs cl"
  shows "tracks_client l0 (evs @ [m]) (client_step n (Offer m) cl)"
proof -
  obtain k where k: "cl_frames cl = increasing l0 (take k evs)" "k \<le> length evs" "0 \<le> su_lagged (cl_sub cl)"
    "cl_end cl = Live \<or> cl_hand cl = None"
    "cl_end cl = Live \<and> su_lagged (cl_sub cl) = 0 \<longrightarrow>
       drop k evs = (case cl_hand cl of None \<Rightarrow> [] | Some m \<Rightarrow> [m]) @ su_ch (cl_sub cl) \<and>
       cl_lastSent cl = watermark l0 (take k evs)"
    using assms unfolding tracks_client_def by blast
  show ?thesis
    unfolding tracks_client_def
    by (intro conjI exI [of _ k]) (use k in \<open>auto simp: client_step_def offer_def\<close>)
qed

lemma take_tracks:
  assumes "tracks_client l0 evs cl"
  shows "tracks_client l0 evs (client_step n Take cl)"
  using assms unfolding tracks_client_def client_step_def
  by (auto split: list.splits option.splits live_end.splits)

lemma handle_tracks:
  assumes "tracks_client l0 evs cl"
  shows "tracks_client l0 evs (client_step n (Handle w) cl)"
proof (cases "cl_hand cl")
  case None
  then show ?thesis using assms by (simp add: client_step_def)
next
  case (Some m)
  then have live: "cl_end cl = Live" using assms by (auto simp: tracks_client_def)
  obtain k where k: "cl_frames cl = increasing l0 (take k evs)" "k \<le> length evs" "0 \<le> su_lagged (cl_sub cl)"
    "su_lagged (cl_sub cl) = 0 \<Longrightarrow> drop k evs = m # su_ch (cl_sub cl) \<and> cl_lastSent cl = watermark l0 (take k evs)"
    using assms Some live by (auto simp: tracks_client_def)
  show ?thesis
  proof (cases "su_lagged (cl_sub cl) = 0 \<and> (w \<or> mo_Height m \<le> cl_lastSent cl)")
    case False
    then show ?thesis
      using k(1-3) Some by (auto simp: client_step_def live_turn_def tracks_client_def)
  next
    case True
    then have d: "drop k evs = m # su_ch (cl_sub cl)" "cl_lastSent cl = watermark l0 (take k evs)" using k(4) by auto
    have t: "take (Suc k) evs = take k evs @ [m]" "drop (Suc k) evs = su_ch (cl_sub cl)" "Suc k \<le> length evs"
    proof -
      have "k < length evs" using d(1) by (metis drop_all list.distinct(1) not_le_imp_less)
      then show "take (Suc k) evs = take k evs @ [m]" "drop (Suc k) evs = su_ch (cl_sub cl)" "Suc k \<le> length evs"
        using d(1) by (simp_all add: take_Suc_conv_app_nth nth_via_drop) (metis drop_Suc list.sel(3) tl_drop)
    qed
    show ?thesis
      unfolding tracks_client_def
      by (intro conjI exI [of _ "Suc k"])
        (use True Some d(2) k(1,3) t in \<open>auto simp: client_step_def live_turn_def increasing_append watermark_append\<close>)
  qed
qed

lemma client_tracks:
  "tracks_client l0 (offered ops) (fold (client_step n) ops (new_client subject l0))"
proof (induction ops rule: rev_induct)
  case Nil
  then show ?case by (simp add: tracks_client_def new_client_def new_sub_def)
next
  case (snoc op ops)
  then show ?case
    by (cases op) (auto simp: offered_append intro: offer_tracks take_tracks handle_tracks)
qed

text \<open>
  C23. A client of the momentums stream never misses an event silently: whatever the interleaving
  of the hub's offers with the handler's turns and whatever the buffer, the frames written are
  those of an initial part of the events the hub offered, with only heights at or below the
  watermark left out, so their heights rise strictly; and a live client whose channel is empty and
  who never lagged has got all of them.
\<close>

theorem stream_no_gap:
  "(\<exists>k. cl_frames (client_run n ops subject l0) = increasing l0 (take k (offered ops))) \<and>
   sorted_wrt (<) (map mo_Height (cl_frames (client_run n ops subject l0))) \<and>
   list_all (\<lambda>m. l0 < mo_Height m) (cl_frames (client_run n ops subject l0)) \<and>
   (cl_end (client_run n ops subject l0) = Live \<and> su_lagged (cl_sub (client_run n ops subject l0)) = 0 \<and>
    su_ch (cl_sub (client_run n ops subject l0)) = [] \<and> cl_hand (client_run n ops subject l0) = None \<longrightarrow>
      cl_frames (client_run n ops subject l0) = increasing l0 (offered ops))"
proof -
  let ?cl = "client_run n ops subject l0"
  obtain k where k: "cl_frames ?cl = increasing l0 (take k (offered ops))"
    "cl_end ?cl = Live \<and> su_lagged (cl_sub ?cl) = 0 \<longrightarrow>
       drop k (offered ops) = (case cl_hand ?cl of None \<Rightarrow> [] | Some m \<Rightarrow> [m]) @ su_ch (cl_sub ?cl)"
    using client_tracks [of l0 ops n subject] unfolding tracks_client_def client_run_def by blast
  moreover have "cl_frames ?cl = increasing l0 (offered ops)"
    if "cl_end ?cl = Live \<and> su_lagged (cl_sub ?cl) = 0 \<and> su_ch (cl_sub ?cl) = [] \<and> cl_hand ?cl = None"
    using k that by simp
  ultimately show ?thesis
    using increasing_sorted [of l0 "take k (offered ops)"] by (auto simp: list_all_iff)
qed

definition ex_mo :: "int \<Rightarrow> Momentum" where
  "ex_mo h = \<lparr> mo_Height = h, mo_Hash = [], mo_Timestamp = 0, mo_TxCount = 0, mo_Producer = [],
     mo_ProducerOwner = [], mo_ProducerName = [] \<rparr>"

theorem stream_no_gap_witness:
  "map mo_Height (cl_frames (client_run 2
     [Offer (ex_mo 5), Take, Offer (ex_mo 6), Handle True, Offer (ex_mo 7), Take, Handle True, Take, Handle True]
     ''sub'' 5)) = [6, 7]"
proof -
  let ?ops = "[Offer (ex_mo 5), Take, Offer (ex_mo 6), Handle True, Offer (ex_mo 7), Take, Handle True, Take, Handle True]"
  let ?cl = "client_run 2 ?ops ''sub'' 5"
  have "cl_end ?cl = Live \<and> su_lagged (cl_sub ?cl) = 0 \<and> su_ch (cl_sub ?cl) = [] \<and> cl_hand ?cl = None"
    by (simp add: client_run_def client_step_def new_client_def new_sub_def offer_def live_turn_def ex_mo_def)
  then have "cl_frames ?cl = increasing 5 (offered ?ops)" using stream_no_gap [of 2 ?ops "''sub''" 5] by blast
  then show ?thesis by (simp add: ex_mo_def)
qed

subsection \<open>Transactions: a block comes once\<close>

definition tx_id :: "AccountBlock \<Rightarrow> int \<times> hash" where
  "tx_id ab = (ab_MomentumHeight ab, ab_Hash ab)"

text \<open>The cursor knows the height of the last frame and the hashes sent at it.\<close>

definition tracks_cursor :: "txStreamCursor \<Rightarrow> AccountBlock list \<Rightarrow> bool" where
  "tracks_cursor c out \<longleftrightarrow> distinct (map tx_id out) \<and> sorted (map ab_MomentumHeight out) \<and>
     (out \<noteq> [] \<longrightarrow> cu_height c = ab_MomentumHeight (last out) \<and>
        (\<exists>hs. cu_hashes c = Some hs \<and>
           (\<forall>ab \<in> set out. ab_MomentumHeight ab \<le> cu_height c \<and>
              (ab_MomentumHeight ab = cu_height c \<longrightarrow> ab_Hash ab \<in> set hs))))"

lemma mark_tracks:
  assumes "tracks_cursor c out" "mark c ab = Some c'"
    and "out \<noteq> [] \<Longrightarrow> cu_height c \<le> ab_MomentumHeight ab" "tx_id ab \<notin> tx_id ` set out"
  shows "tracks_cursor c' (out @ [ab])"
proof -
  have h: "\<forall>x \<in> set out. ab_MomentumHeight x \<le> ab_MomentumHeight ab"
    using assms(1,3) unfolding tracks_cursor_def by (cases "out = []") fastforce+
  moreover have "cu_height c' = ab_MomentumHeight ab"
    using assms(2) by (auto simp: mark_def Let_def split: option.splits if_splits)
  moreover have "\<exists>hs. cu_hashes c' = Some hs \<and> ab_Hash ab \<in> set hs \<and>
      (\<forall>x \<in> set out. ab_MomentumHeight x = ab_MomentumHeight ab \<longrightarrow> ab_Hash x \<in> set hs)"
  proof (cases "ab_MomentumHeight ab = cu_height c")
    case True
    then show ?thesis
      using assms(1,2) unfolding tracks_cursor_def mark_def
      by (cases "out = []") (auto simp: Let_def split: option.splits)
  next
    case False
    then have "\<forall>x \<in> set out. ab_MomentumHeight x \<noteq> ab_MomentumHeight ab"
      using assms(1,3) unfolding tracks_cursor_def by (cases "out = []") fastforce+
    then show ?thesis using assms(2) False by (auto simp: mark_def Let_def)
  qed
  ultimately show ?thesis
    using assms(1,4) unfolding tracks_cursor_def by (auto simp: sorted_append)
qed

lemma seen_tracks:
  assumes "tracks_cursor c out" "\<not> seen c ab" "out \<noteq> [] \<Longrightarrow> 0 < cu_height c"
  shows "(out \<noteq> [] \<longrightarrow> cu_height c \<le> ab_MomentumHeight ab) \<and> tx_id ab \<notin> tx_id ` set out"
proof (cases "out = []")
  case False
  then obtain hs where c: "cu_hashes c = Some hs" "0 < cu_height c"
    "\<forall>x \<in> set out. ab_MomentumHeight x \<le> cu_height c \<and>
      (ab_MomentumHeight x = cu_height c \<longrightarrow> ab_Hash x \<in> set hs)"
    using assms(1,3) unfolding tracks_cursor_def by blast
  then have "cu_height c \<le> ab_MomentumHeight ab" using assms(2) by (auto simp: seen_def split: if_splits)
  moreover have "tx_id ab \<noteq> tx_id x" if "x \<in> set out" for x
    using that c assms(2) calculation by (force simp: seen_def tx_id_def)
  ultimately show ?thesis by blast
qed simp

definition live_heights :: "AccountBlock live_input list \<Rightarrow> bool" where
  "live_heights inputs = list_all (\<lambda>i. case i of LiveEvent ab lagged written \<Rightarrow> 0 < ab_MomentumHeight ab | _ \<Rightarrow> True) inputs"

lemma tx_live_tracks:
  assumes "tracks_cursor c out" "live_heights inputs" "\<forall>ab \<in> set out. 0 < ab_MomentumHeight ab"
    and "runTxLive addr inputs c = (out', e)"
  shows "distinct (map tx_id (out @ out')) \<and> sorted (map ab_MomentumHeight (out @ out'))"
  using assms
proof (induction inputs arbitrary: c out out')
  case Nil
  then show ?case by (simp add: tracks_cursor_def)
next
  case (Cons i inputs)
  obtain c1 o1 e1 where t: "tx_turn addr c i = (c1, o1, e1)" using prod_cases3 by blast
  have inputs: "live_heights inputs" using Cons.prems(2) by (simp add: live_heights_def)
  have pos: "out \<noteq> [] \<Longrightarrow> 0 < cu_height c" using Cons.prems(1,3) unfolding tracks_cursor_def by fastforce
  show ?case
  proof (cases "o1 = []")
    case True
    then have "c1 = c" using t by (auto simp: tx_turn_def split: live_input.splits if_splits option.splits)
    then show ?thesis
      using Cons.IH [OF Cons.prems(1) inputs Cons.prems(3)] Cons.prems(1,4) t True
      by (auto simp: tracks_cursor_def split: tx_end.splits prod.splits)
  next
    case False
    then obtain ab lagged written where i: "i = LiveEvent ab lagged written" "o1 = [ab]" "\<not> seen c ab"
      using t by (auto simp: tx_turn_def split: live_input.splits if_splits option.splits)
    have s: "(out \<noteq> [] \<longrightarrow> cu_height c \<le> ab_MomentumHeight ab) \<and> tx_id ab \<notin> tx_id ` set out"
      by (rule seen_tracks [OF Cons.prems(1) i(3) pos])
    show ?thesis
    proof (cases "mark c ab")
      case (Some c')
      then have c1: "c1 = c'" "e1 = TxLive"
        using t i False by (auto simp: tx_turn_def split: if_splits)
      have tr: "tracks_cursor c' (out @ [ab])" using s by (intro mark_tracks [OF Cons.prems(1) Some]) auto
      have "\<forall>x \<in> set (out @ [ab]). 0 < ab_MomentumHeight x"
        using Cons.prems(2,3) i(1) by (auto simp: live_heights_def)
      note IH = Cons.IH [OF tr inputs this]
      obtain o2 where "runTxLive addr inputs c' = (o2, e)" "out' = ab # o2"
        using Cons.prems(4) t c1 i(2) by (auto split: prod.splits)
      then show ?thesis using IH [of o2] by simp
    next
      case None
      have "sorted (map ab_MomentumHeight (out @ [ab]))" "distinct (map tx_id (out @ [ab]))"
      proof -
        have "\<forall>x \<in> set out. ab_MomentumHeight x \<le> ab_MomentumHeight ab"
          using Cons.prems(1) s unfolding tracks_cursor_def by (cases "out = []") fastforce+
        then show "sorted (map ab_MomentumHeight (out @ [ab]))" "distinct (map tx_id (out @ [ab]))"
          using Cons.prems(1) s by (auto simp: tracks_cursor_def sorted_append)
      qed
      moreover have "out' = [ab]" using None Cons.prems(4) t i False by (auto simp: tx_turn_def split: if_splits)
      ultimately show ?thesis by simp
    qed
  qed
qed

lemma replay_tracks:
  assumes "tracks_cursor c out" "mark_all broken j rows c = (out', e, c')"
    and "distinct (map tx_id (out @ rows))" "sorted (map ab_MomentumHeight (out @ rows))"
    and "\<forall>ab \<in> set (out @ rows). 0 < ab_MomentumHeight ab"
  shows "tracks_cursor c' (out @ out') \<and> set out' \<subseteq> set rows \<or> e = TxPanic"
  using assms
proof (induction rows arbitrary: j c out out')
  case (Cons ab rows)
  show ?case
  proof (cases "j \<in> set broken \<or> mark c ab = None")
    case True
    then show ?thesis using Cons.prems(1,2) by (auto split: if_splits)
  next
    case False
    then obtain c1 where c1: "mark c ab = Some c1" by auto
    obtain o1 where o1: "mark_all broken (Suc j) rows c1 = (o1, e, c')" "out' = ab # o1"
      using Cons.prems(2) False c1 by (auto split: prod.splits)
    have "tracks_cursor c1 (out @ [ab])"
    proof (rule mark_tracks [OF Cons.prems(1) c1])
      show "tx_id ab \<notin> tx_id ` set out" using Cons.prems(3) by auto
      show "cu_height c \<le> ab_MomentumHeight ab" if "out \<noteq> []"
        using Cons.prems(1,4) that unfolding tracks_cursor_def by (auto simp: sorted_append)
    qed
    from Cons.IH [OF this o1(1)] Cons.prems(3-5) o1(2) show ?thesis by auto
  qed
qed simp

lemma mark_new_height: "0 < ab_MomentumHeight ab \<Longrightarrow> cu_hashes c \<noteq> None \<or> cu_height c = 0 \<Longrightarrow> \<exists>c'. mark c ab = Some c' \<and> cu_hashes c' \<noteq> None"
  by (auto simp: mark_def Let_def)

lemma mark_all_no_panic:
  assumes "\<forall>ab \<in> set rows. 0 < ab_MomentumHeight ab" "cu_hashes c \<noteq> None \<or> cu_height c = 0"
  shows "fst (snd (mark_all broken j rows c)) \<noteq> TxPanic"
  using assms
proof (induction rows arbitrary: j c)
  case (Cons ab rows)
  obtain c' where c': "mark c ab = Some c'" "cu_hashes c' \<noteq> None"
    using mark_new_height [of ab c] Cons.prems by auto
  with Cons.IH [of c' "Suc j"] Cons.prems(1) show ?case by (auto split: prod.splits)
qed simp

lemma range_rows:
  assumes "distinct (map ab_Hash (account_blocks d))" "0 < fromHeight"
  shows "distinct (map tx_id (AccountBlock_ListByMomentumHeightRange fromHeight hi addr n d)) \<and>
    sorted (map ab_MomentumHeight (AccountBlock_ListByMomentumHeightRange fromHeight hi addr n d)) \<and>
    (\<forall>ab \<in> set (AccountBlock_ListByMomentumHeightRange fromHeight hi addr n d). 0 < ab_MomentumHeight ab)"
proof -
  define all where "all = sort_key ab_MomentumHeight (sort_key ab_Hash
    (filter (\<lambda>b. fromHeight \<le> ab_MomentumHeight b \<and> ab_MomentumHeight b \<le> hi \<and>
       (addr = [] \<or> involves addr b)) (account_blocks d)))"
  have "distinct (map ab_Hash all)"
    using assms(1) unfolding all_def by (simp add: distinct_map distinct_filter inj_on_def)
  then have "distinct (map tx_id all)" by (auto simp: distinct_map inj_on_def tx_id_def)
  moreover have "sorted (map ab_MomentumHeight all)" by (simp add: all_def)
  moreover have "\<forall>ab \<in> set all. 0 < ab_MomentumHeight ab" using assms(2) by (auto simp: all_def)
  moreover have "AccountBlock_ListByMomentumHeightRange fromHeight hi addr n d \<in> {[], all, take (nat n) all}"
    by (simp add: AccountBlock_ListByMomentumHeightRange_def all_def Let_def)
  moreover have "\<forall>ab \<in> set (take (nat n) all). 0 < ab_MomentumHeight ab"
    using calculation(3) by (meson in_set_takeD)
  ultimately show ?thesis
    by (auto simp: distinct_map sorted_wrt_take take_map [symmetric] intro: inj_on_subset [OF _ set_take_subset])
qed

text \<open>
  C24. A block comes once and in order: the frames of a transactions stream (replayed and live,
  whatever happens on the connection) never repeat a block of a momentum, and their momentum
  heights never fall, when the stored hashes are unique and heights positive.
\<close>

theorem tx_frames_once:
  assumes "distinct (map ab_Hash (account_blocks d))" "live_heights inputs"
    and "TransactionsStream latest_fails list_fails broken fromHeight addr d inputs = (out, e)"
  shows "distinct (map tx_id out) \<and> sorted (map ab_MomentumHeight out)"
proof (cases "0 < fromHeight")
  case False
  then have "runTxLive addr inputs empty_cursor = (out, e)" using assms(3) by (simp add: TransactionsStream_def)
  then show ?thesis using tx_live_tracks [of empty_cursor "[]" inputs addr out e] assms(2) by (simp add: tracks_cursor_def)
next
  case True
  obtain o1 e1 c where r: "replayTransactions latest_fails list_fails broken fromHeight addr d = (o1, e1, c)"
    using prod_cases3 by blast
  have replayed: "tracks_cursor c o1 \<and> (\<forall>ab \<in> set o1. 0 < ab_MomentumHeight ab)"
  proof (cases "\<exists>hi. mark_all broken 0 (AccountBlock_ListByMomentumHeightRange fromHeight hi addr
      streamReplayMaxRows d) empty_cursor = (o1, e1, c)")
    case True
    then obtain hi where m: "mark_all broken 0 (AccountBlock_ListByMomentumHeightRange fromHeight hi addr
      streamReplayMaxRows d) empty_cursor = (o1, e1, c)" by blast
    note rows = range_rows [OF assms(1) \<open>0 < fromHeight\<close>, of hi addr streamReplayMaxRows]
    have "e1 \<noteq> TxPanic" using mark_all_no_panic [of _ empty_cursor broken 0] rows m by (metis empty_cursor_def fst_conv snd_conv txStreamCursor.select_convs(1))
    then show ?thesis
      using replay_tracks [OF _ m, of "[]"] rows by (auto simp: tracks_cursor_def)
  next
    case False
    then have "o1 = []" using r by (auto simp: replayTransactions_def Let_def split: if_splits sum.splits)
    then show ?thesis by (simp add: tracks_cursor_def)
  qed
  show ?thesis
  proof (cases e1)
    case TxLive
    obtain o2 where "runTxLive addr inputs c = (o2, e)" "out = o1 @ o2"
      using assms(3) r True TxLive by (auto simp: TransactionsStream_def split: prod.splits)
    then show ?thesis using tx_live_tracks [of c o1 inputs addr o2 e] replayed assms(2) by simp
  qed (use assms(3) r True replayed in \<open>auto simp: TransactionsStream_def tracks_cursor_def\<close>)
qed

definition ex_ab :: "int \<Rightarrow> hash \<Rightarrow> AccountBlock" where
  "ex_ab h hash = \<lparr> ab_Hash = hash, ab_MomentumHash = ''m'', ab_MomentumTimestamp = 0, ab_MomentumHeight = h,
     ab_BlockType = 2, ab_Height = 1, ab_Address = ''alice'', ab_ToAddress = ''bob'', ab_Amount = 1,
     ab_TokenStandard = ''zts'', ab_Data = [], ab_Method = [], ab_Input = [],
     ab_PairedAccountBlock = [], ab_DescendantOf = [] \<rparr>"

definition ex_stream_db :: db where
  "ex_stream_db = empty_db\<lparr> momentums := [ex_mo 1, ex_mo 2],
     account_blocks := [ex_ab 1 ''a'', ex_ab 2 ''b''] \<rparr>"

theorem tx_frames_once_witness:
  "sorted (map ab_MomentumHeight (fst (TransactionsStream False False [] 2 [] ex_stream_db
     [LiveEvent (ex_ab 2 ''b'') 0 True, LiveEvent (ex_ab 2 ''c'') 0 True, LiveEvent (ex_ab 1 ''a'') 0 True]))) \<and>
   map ab_Hash (fst (TransactionsStream False False [] 2 [] ex_stream_db
     [LiveEvent (ex_ab 2 ''b'') 0 True, LiveEvent (ex_ab 2 ''c'') 0 True, LiveEvent (ex_ab 1 ''a'') 0 True])) =
     [''b'', ''c'']"
proof
  let ?in = "[LiveEvent (ex_ab 2 ''b'') 0 True, LiveEvent (ex_ab 2 ''c'') 0 True, LiveEvent (ex_ab 1 ''a'') 0 True]"
  obtain out e where run: "TransactionsStream False False [] 2 [] ex_stream_db ?in = (out, e)" by fastforce
  have "distinct (map ab_Hash (account_blocks ex_stream_db))" by (simp add: ex_stream_db_def ex_ab_def)
  moreover have "live_heights ?in" by (simp add: live_heights_def ex_ab_def)
  ultimately show "sorted (map ab_MomentumHeight (fst (TransactionsStream False False [] 2 [] ex_stream_db ?in)))"
    using tx_frames_once [OF _ _ run] run by simp
  show "map ab_Hash (fst (TransactionsStream False False [] 2 [] ex_stream_db ?in)) = [''b'', ''c'']" by code_simp
qed

subsection \<open>A crash\<close>

text \<open>
  C25. A transactions stream opened at the height after the tip crashes its handler when a block of
  the tip arrives live: the replay returns a cursor at the tip without a hash set, \<open>seen\<close> lets the
  block through, its frame is written, and \<open>mark\<close> writes to the nil map.
\<close>

theorem tx_stream_panics:
  assumes "Momentum_GetLatest d = Inr latest" "int64 (mo_Height latest) = tip" "0 \<le> tip"
    and "ab_MomentumHeight ab = tip" "addr = [] \<or> ab_Address ab = addr"
  shows "TransactionsStream False False [] (tip + 1) addr d (LiveEvent ab 0 True # inputs) = ([ab], TxPanic)"
proof -
  let ?c = "\<lparr> cu_height = tip, cu_hashes = None \<rparr>"
  have "replayTransactions False False [] (tip + 1) addr d = ([], TxLive, ?c)"
    using assms(1,2) by (simp add: replayTransactions_def Let_def)
  moreover have "tx_turn addr ?c (LiveEvent ab 0 True) = (?c, [ab], TxPanic)"
    using assms(4,5) by (auto simp: tx_turn_def seen_def mark_def)
  ultimately show ?thesis using assms(3) by (simp add: TransactionsStream_def)
qed

theorem tx_stream_panics_witness:
  "TransactionsStream False False [] 3 ''alice'' ex_stream_db [LiveEvent (ex_ab 2 ''c'') 0 True] =
     ([ex_ab 2 ''c''], TxPanic)"
proof -
  have "TransactionsStream False False [] (2 + 1) ''alice'' ex_stream_db [LiveEvent (ex_ab 2 ''c'') 0 True] =
     ([ex_ab 2 ''c''], TxPanic)"
    by (rule tx_stream_panics [where latest = "ex_mo 2"])
      (code_simp, auto simp: ex_mo_def ex_ab_def int64_small)
  then show ?thesis by simp
qed

end
