(* ===== verification/Httpx.thy ===== *)
theory Httpx
  imports Paging
begin

text \<open>
  \<open>internal/api/httpx\<close>, \<open>internal/auth\<close> and the bearer-token side of \<open>internal/api/middleware\<close>:
  what every REST handler shares. A request is given by its query string, headers and URL
  parameters, each a function that yields the empty string for an absent name, as the Go getters
  do. A response is a status with a value that will be marshaled, or a problem document.
\<close>

record request =
  rq_Query :: "string \<Rightarrow> string"
  rq_Header :: "string \<Rightarrow> string"
  rq_URLParam :: "string \<Rightarrow> string"

subsection \<open>Responses\<close>

record Problem_doc =
  pb_Type :: string
  pb_Title :: string
  pb_Status :: int
  pb_Detail :: string
  pb_Code :: string

datatype 'b response = JSON int 'b | ProblemJSON Problem_doc

text \<open>\<open>http.StatusText\<close> for the codes the API writes.\<close>

definition StatusText :: "int \<Rightarrow> string" where
  "StatusText code =
     (if code = 400 then ''Bad Request''
      else if code = 401 then ''Unauthorized''
      else if code = 404 then ''Not Found''
      else if code = 429 then ''Too Many Requests''
      else if code = 500 then ''Internal Server Error''
      else if code = 503 then ''Service Unavailable''
      else [])"

definition WriteProblem :: "int \<Rightarrow> string \<Rightarrow> string \<Rightarrow> 'b response" where
  "WriteProblem status code detail =
     ProblemJSON \<lparr> pb_Type = ''about:blank'', pb_Title = StatusText status, pb_Status = status,
       pb_Detail = detail, pb_Code = code \<rparr>"

text \<open>The DTOs always marshal, so only the first branch of \<open>WriteJSON\<close> is left.\<close>

definition WriteJSON :: "int \<Rightarrow> 'b \<Rightarrow> 'b response" where
  "WriteJSON status v = JSON status v"

fun response_status :: "'b response \<Rightarrow> int" where
  "response_status (JSON s v) = s"
| "response_status (ProblemJSON p) = pb_Status p"

lemma status_WriteProblem [simp]: "response_status (WriteProblem s c t) = s"
  by (simp add: WriteProblem_def)

lemma status_WriteJSON [simp]: "response_status (WriteJSON s v) = s"
  by (simp add: WriteJSON_def)

text \<open>\<open>handlers.go\<close>.\<close>

definition writeRepoError :: "sql_error \<Rightarrow> 'b response" where
  "writeRepoError err =
     (if err = NoRows then WriteProblem 404 ''not_found'' ''resource not found''
      else WriteProblem 500 ''internal_error'' ''database error'')"

subsection \<open>Pagination\<close>

record Pagination =
  pg_Page :: int
  pg_PageSize :: int

definition DefaultPageSize :: int where
  "DefaultPageSize = 50"

definition MaxPageSize :: int where
  "MaxPageSize = 200"

definition Offset :: "Pagination \<Rightarrow> int" where
  "Offset p = int64 (int64 (pg_Page p - 1) * pg_PageSize p)"

definition ParsePagination :: "request \<Rightarrow> Pagination" where
  "ParsePagination r =
     \<lparr> pg_Page =
         (let v = rq_Query r ''page''
          in if v \<noteq> [] then (case Atoi v of Some n \<Rightarrow> if 0 < n then n else 1 | None \<Rightarrow> 1) else 1),
       pg_PageSize =
         (let v = rq_Query r ''page_size''
          in if v \<noteq> []
             then (case Atoi v of
                     Some n \<Rightarrow> if 0 < n then (if MaxPageSize < n then MaxPageSize else n) else DefaultPageSize
                   | None \<Rightarrow> DefaultPageSize)
             else DefaultPageSize) \<rparr>"

definition ParseSort :: "request \<Rightarrow> string \<Rightarrow> string" where
  "ParseSort r def =
     (if rq_Query r ''sort'' = ''asc'' then ''asc''
      else if rq_Query r ''sort'' = ''desc'' then ''desc'' else def)"

text \<open>\<open>strconv.ParseBool\<close>.\<close>

definition ParseBool :: "string \<Rightarrow> bool option" where
  "ParseBool v =
     (if v \<in> {''1'', ''t'', ''T'', ''TRUE'', ''true'', ''True''} then Some True
      else if v \<in> {''0'', ''f'', ''F'', ''FALSE'', ''false'', ''False''} then Some False
      else None)"

definition boolQuery :: "request \<Rightarrow> string \<Rightarrow> bool \<Rightarrow> bool" where
  "boolQuery r name def =
     (let v = rq_Query r name
      in if v = [] then def else (case ParseBool v of None \<Rightarrow> def | Some b \<Rightarrow> b))"

text \<open>\<open>dto.NewPage\<close>.\<close>

record 'r Page =
  pa_Data :: "'r list"
  pa_Page :: int
  pa_PageSize :: int
  pa_Total :: int

definition NewPage :: "'r list \<Rightarrow> int \<Rightarrow> int \<Rightarrow> int \<Rightarrow> 'r Page" where
  "NewPage data page pageSize n =
     \<lparr> pa_Data = data, pa_Page = page, pa_PageSize = pageSize, pa_Total = n \<rparr>"

text \<open>A query for page \<open>p\<close> with \<open>n\<close> rows.\<close>

definition with_page :: "int \<Rightarrow> int \<Rightarrow> request \<Rightarrow> request" where
  "with_page p n r =
     r\<lparr> rq_Query := (rq_Query r)(''page'' := FormatInt p, ''page_size'' := FormatInt n) \<rparr>"

lemma ParsePagination_bounds:
  "1 \<le> pg_Page (ParsePagination r)" "pg_Page (ParsePagination r) \<le> MaxInt64"
  "1 \<le> pg_PageSize (ParsePagination r)" "pg_PageSize (ParsePagination r) \<le> MaxPageSize"
proof -
  have "Atoi v = Some n \<Longrightarrow> n \<le> MaxInt64" for v n
    by (auto simp: ParseInt64_def fits_int64_def split: option.splits if_splits)
  then show "1 \<le> pg_Page (ParsePagination r)" "pg_Page (ParsePagination r) \<le> MaxInt64"
    by (auto simp: ParsePagination_def Let_def MaxInt64_def split: option.splits)
  show "1 \<le> pg_PageSize (ParsePagination r)" "pg_PageSize (ParsePagination r) \<le> MaxPageSize"
    by (auto simp: ParsePagination_def Let_def DefaultPageSize_def MaxPageSize_def split: option.splits)
qed

subsection \<open>Tokens\<close>

definition ascii_lower :: "char \<Rightarrow> char" where
  "ascii_lower c = (let n = of_char c :: int in if 65 \<le> n \<and> n \<le> 90 then char_of (n + 32) else c)"

text \<open>
  \<open>strings.EqualFold(h[:7], "Bearer ")\<close>: no letter of the prefix has a fold outside ASCII.
  \<open>strings.TrimSpace\<close> is a parameter: it works on UTF-8.
\<close>

definition bearer_prefix :: string where
  "bearer_prefix = ''Bearer ''"

definition has_bearer :: "string \<Rightarrow> bool" where
  "has_bearer h \<longleftrightarrow> length bearer_prefix < length h \<and>
     map ascii_lower (take (length bearer_prefix) h) = map ascii_lower bearer_prefix"

text \<open>The middleware: the token, or the problem code.\<close>

definition bearerToken :: "(string \<Rightarrow> string) \<Rightarrow> request \<Rightarrow> string + string" where
  "bearerToken TrimSpace r =
     (let h = rq_Header r ''Authorization''
      in if h = [] then Inl ''missing_token''
         else if \<not> has_bearer h then Inl ''invalid_token''
         else Inr (TrimSpace (drop (length bearer_prefix) h)))"

text \<open>The stream handlers, which also look at the query and treat an empty token as a failure.\<close>

definition streamToken :: "(string \<Rightarrow> string) \<Rightarrow> request \<Rightarrow> string + string" where
  "streamToken TrimSpace r =
     (let h = rq_Header r ''Authorization''
      in if h \<noteq> [] then
           if \<not> has_bearer h then Inl ''invalid_token''
           else (let tok = TrimSpace (drop (length bearer_prefix) h)
                 in if tok = [] then Inl [] else Inr tok)
         else if rq_Query r ''token'' \<noteq> [] then Inr (rq_Query r ''token'')
         else Inl ''missing_token'')"

datatype verify_error = ErrTokenExpired | ErrTokenOther

text \<open>
  \<open>Signer.Verify\<close> rejects the empty token itself; the rest is the JWT library's: a parameter that
  yields the subject or an error.
\<close>

definition Verify :: "(string \<Rightarrow> verify_error + string) \<Rightarrow> string \<Rightarrow> verify_error + string" where
  "Verify parse tok = (if tok = [] then Inl ErrTokenOther else parse tok)"

definition Auth :: "(string \<Rightarrow> string) \<Rightarrow> (string \<Rightarrow> verify_error + string) \<Rightarrow>
    (string \<Rightarrow> request \<Rightarrow> 'b response) \<Rightarrow> request \<Rightarrow> 'b response" where
  "Auth TrimSpace parse next r =
     (case bearerToken TrimSpace r of
        Inl code \<Rightarrow>
          WriteProblem 401 code
            (if code = ''missing_token'' then ''missing Authorization header (want: Bearer <token>)''
             else ''malformed Authorization header (want: Bearer <token>)'')
      | Inr tok \<Rightarrow>
          (case Verify parse tok of
             Inl ErrTokenExpired \<Rightarrow> WriteProblem 401 ''expired_token'' ''token expired''
           | Inl ErrTokenOther \<Rightarrow> WriteProblem 401 ''invalid_token'' ''invalid token''
           | Inr subject \<Rightarrow> next subject r))"

lemma Auth_cases:
  "response_status (Auth TrimSpace parse next r) = 401 \<or>
   (\<exists>tok subject. bearerToken TrimSpace r = Inr tok \<and> tok \<noteq> [] \<and> parse tok = Inr subject \<and>
      Auth TrimSpace parse next r = next subject r)"
  by (auto simp: Auth_def Verify_def split: sum.splits verify_error.splits if_splits)

end
