(* ===== verification/Dto.thy ===== *)
theory Dto
  imports Models Repo_Pillar Repo_Accelerator
begin

text \<open>
  \<open>internal/api/dto\<close>: the shapes that go over the wire and the conversions from the models. A Go
  pointer that may be nil is an option. Amounts are decimal strings. The serial \<open>id\<close> of a vote is
  not part of the model's row and left out here too.
\<close>

type_synonym Amount = string

definition AmountFromInt64 :: "int \<Rightarrow> Amount" where
  "AmountFromInt64 v = FormatInt v"

record Account_dto =
  dac_Address :: string
  dac_BlockCount :: int
  dac_PublicKey :: string
  dac_Delegate :: string
  dac_DelegationStartTimestamp :: int
  dac_GenesisZnnBalance :: Amount
  dac_GenesisQsrBalance :: Amount
  dac_ZnnSent :: Amount
  dac_ZnnReceived :: Amount
  dac_QsrSent :: Amount
  dac_QsrReceived :: Amount
  dac_FirstActiveAt :: "int option"
  dac_LastActiveAt :: "int option"
  dac_FirstSeen :: "int option"
  dac_LastSeen :: "int option"
  dac_TxCount :: int

definition FromAccount :: "Account option \<Rightarrow> Account_dto option" where
  "FromAccount = map_option (\<lambda>x.
        \<lparr> dac_Address = ac_Address x, dac_BlockCount = ac_BlockCount x,
          dac_PublicKey = ac_PublicKey x, dac_Delegate = ac_Delegate x,
          dac_DelegationStartTimestamp = ac_DelegationStartTimestamp x,
          dac_GenesisZnnBalance = AmountFromInt64 (ac_GenesisZnnBalance x),
          dac_GenesisQsrBalance = AmountFromInt64 (ac_GenesisQsrBalance x),
          dac_ZnnSent = AmountFromInt64 (ac_ZnnSent x),
          dac_ZnnReceived = AmountFromInt64 (ac_ZnnReceived x),
          dac_QsrSent = AmountFromInt64 (ac_QsrSent x),
          dac_QsrReceived = AmountFromInt64 (ac_QsrReceived x), dac_FirstActiveAt = ac_FirstActiveAt x,
          dac_LastActiveAt = ac_LastActiveAt x, dac_FirstSeen = ac_FirstSeen x,
          dac_LastSeen = ac_LastSeen x, dac_TxCount = ac_TxCount x \<rparr>)"

record AccountBlock_dto =
  dab_Hash :: string
  dab_MomentumHash :: string
  dab_MomentumTimestamp :: int
  dab_MomentumHeight :: int
  dab_BlockType :: int
  dab_Height :: int
  dab_Address :: string
  dab_ToAddress :: string
  dab_Amount :: Amount
  dab_TokenStandard :: string
  dab_Data :: string
  dab_Method :: string
  dab_Input :: string
  dab_PairedAccountBlock :: string
  dab_DescendantOf :: string

definition FromAccountBlock :: "AccountBlock option \<Rightarrow> AccountBlock_dto option" where
  "FromAccountBlock = map_option (\<lambda>x.
        \<lparr> dab_Hash = ab_Hash x, dab_MomentumHash = ab_MomentumHash x,
          dab_MomentumTimestamp = ab_MomentumTimestamp x, dab_MomentumHeight = ab_MomentumHeight x,
          dab_BlockType = ab_BlockType x, dab_Height = ab_Height x, dab_Address = ab_Address x,
          dab_ToAddress = ab_ToAddress x, dab_Amount = AmountFromInt64 (ab_Amount x),
          dab_TokenStandard = ab_TokenStandard x, dab_Data = ab_Data x, dab_Method = ab_Method x,
          dab_Input = ab_Input x, dab_PairedAccountBlock = ab_PairedAccountBlock x,
          dab_DescendantOf = ab_DescendantOf x \<rparr>)"

definition FromAccountBlocks :: "AccountBlock option list \<Rightarrow> AccountBlock_dto list" where
  "FromAccountBlocks = List.map_filter FromAccountBlock"

record Balance_dto =
  dba_Address :: string
  dba_TokenStandard :: string
  dba_Balance :: Amount
  dba_LastUpdatedTimestamp :: int

definition FromBalance :: "Balance option \<Rightarrow> Balance_dto option" where
  "FromBalance = map_option (\<lambda>x.
        \<lparr> dba_Address = ba_Address x, dba_TokenStandard = ba_TokenStandard x,
          dba_Balance = AmountFromInt64 (ba_Balance x),
          dba_LastUpdatedTimestamp = ba_LastUpdatedTimestamp x \<rparr>)"

definition FromBalances :: "Balance option list \<Rightarrow> Balance_dto list" where
  "FromBalances = List.map_filter FromBalance"

record WrapTokenRequest_dto =
  dwr_ID :: string
  dwr_NetworkClass :: int
  dwr_ChainID :: int
  dwr_ToAddress :: string
  dwr_TokenStandard :: string
  dwr_TokenAddress :: string
  dwr_Amount :: Amount
  dwr_Fee :: Amount
  dwr_Signature :: string
  dwr_CreationMomentumHeight :: int
  dwr_ConfirmationsToFinality :: int

definition FromWrapTokenRequest :: "WrapTokenRequest option \<Rightarrow> WrapTokenRequest_dto option" where
  "FromWrapTokenRequest = map_option (\<lambda>x.
        \<lparr> dwr_ID = wr_ID x, dwr_NetworkClass = wr_NetworkClass x, dwr_ChainID = wr_ChainID x,
          dwr_ToAddress = wr_ToAddress x, dwr_TokenStandard = wr_TokenStandard x,
          dwr_TokenAddress = wr_TokenAddress x, dwr_Amount = AmountFromInt64 (wr_Amount x),
          dwr_Fee = AmountFromInt64 (wr_Fee x), dwr_Signature = wr_Signature x,
          dwr_CreationMomentumHeight = wr_CreationMomentumHeight x,
          dwr_ConfirmationsToFinality = wr_ConfirmationsToFinality x \<rparr>)"

definition FromWrapTokenRequests :: "WrapTokenRequest option list \<Rightarrow> WrapTokenRequest_dto list" where
  "FromWrapTokenRequests = List.map_filter FromWrapTokenRequest"

record UnwrapTokenRequest_dto =
  dur_TransactionHash :: string
  dur_LogIndex :: int
  dur_NetworkClass :: int
  dur_ChainID :: int
  dur_ToAddress :: string
  dur_TokenStandard :: string
  dur_TokenAddress :: string
  dur_Amount :: Amount
  dur_Signature :: string
  dur_RegistrationMomentumHeight :: int
  dur_Redeemed :: bool
  dur_Revoked :: bool
  dur_RedeemableIn :: int

definition FromUnwrapTokenRequest :: "UnwrapTokenRequest option \<Rightarrow> UnwrapTokenRequest_dto option" where
  "FromUnwrapTokenRequest = map_option (\<lambda>x.
        \<lparr> dur_TransactionHash = ur_TransactionHash x, dur_LogIndex = ur_LogIndex x,
          dur_NetworkClass = ur_NetworkClass x, dur_ChainID = ur_ChainID x,
          dur_ToAddress = ur_ToAddress x, dur_TokenStandard = ur_TokenStandard x,
          dur_TokenAddress = ur_TokenAddress x, dur_Amount = AmountFromInt64 (ur_Amount x),
          dur_Signature = ur_Signature x,
          dur_RegistrationMomentumHeight = ur_RegistrationMomentumHeight x,
          dur_Redeemed = ur_Redeemed x, dur_Revoked = ur_Revoked x, dur_RedeemableIn = ur_RedeemableIn x \<rparr>)"

definition FromUnwrapTokenRequests :: "UnwrapTokenRequest option list \<Rightarrow> UnwrapTokenRequest_dto list" where
  "FromUnwrapTokenRequests = List.map_filter FromUnwrapTokenRequest"

record Fusion_dto =
  dfu_ID :: string
  dfu_Address :: string
  dfu_Beneficiary :: string
  dfu_MomentumHash :: string
  dfu_MomentumTimestamp :: int
  dfu_MomentumHeight :: int
  dfu_QsrAmount :: Amount
  dfu_ExpirationHeight :: int
  dfu_IsActive :: bool
  dfu_CancelID :: string

definition FromFusion :: "Fusion option \<Rightarrow> Fusion_dto option" where
  "FromFusion = map_option (\<lambda>x.
        \<lparr> dfu_ID = fu_ID x, dfu_Address = fu_Address x, dfu_Beneficiary = fu_Beneficiary x,
          dfu_MomentumHash = fu_MomentumHash x, dfu_MomentumTimestamp = fu_MomentumTimestamp x,
          dfu_MomentumHeight = fu_MomentumHeight x, dfu_QsrAmount = AmountFromInt64 (fu_QsrAmount x),
          dfu_ExpirationHeight = fu_ExpirationHeight x, dfu_IsActive = fu_IsActive x,
          dfu_CancelID = fu_CancelID x \<rparr>)"

definition FromFusions :: "Fusion option list \<Rightarrow> Fusion_dto list" where
  "FromFusions = List.map_filter FromFusion"

record Momentum_dto =
  dmo_Height :: int
  dmo_Hash :: string
  dmo_Timestamp :: int
  dmo_TxCount :: int
  dmo_Producer :: string
  dmo_ProducerOwner :: string
  dmo_ProducerName :: string

definition FromMomentum :: "Momentum option \<Rightarrow> Momentum_dto option" where
  "FromMomentum = map_option (\<lambda>x.
        \<lparr> dmo_Height = mo_Height x, dmo_Hash = mo_Hash x, dmo_Timestamp = mo_Timestamp x,
          dmo_TxCount = mo_TxCount x, dmo_Producer = mo_Producer x,
          dmo_ProducerOwner = mo_ProducerOwner x, dmo_ProducerName = mo_ProducerName x \<rparr>)"

definition FromMomentums :: "Momentum option list \<Rightarrow> Momentum_dto list" where
  "FromMomentums = List.map_filter FromMomentum"

record Pillar_dto =
  dpl_OwnerAddress :: string
  dpl_ProducerAddress :: string
  dpl_WithdrawAddress :: string
  dpl_Name :: string
  dpl_Rank :: int
  dpl_GiveMomentumRewardPercentage :: int
  dpl_GiveDelegateRewardPercentage :: int
  dpl_IsRevocable :: bool
  dpl_RevokeCooldown :: int
  dpl_RevokeTimestamp :: int
  dpl_Weight :: Amount
  dpl_EpochProducedMomentums :: int
  dpl_EpochExpectedMomentums :: int
  dpl_SlotCostQsr :: Amount
  dpl_SpawnTimestamp :: int
  dpl_VotingActivity :: "int \<times> int"
  dpl_ProducedMomentumCount :: int
  dpl_IsRevoked :: bool

definition FromPillar :: "Pillar option \<Rightarrow> Pillar_dto option" where
  "FromPillar = map_option (\<lambda>x.
        \<lparr> dpl_OwnerAddress = pl_OwnerAddress x, dpl_ProducerAddress = pl_ProducerAddress x,
          dpl_WithdrawAddress = pl_WithdrawAddress x, dpl_Name = pl_Name x, dpl_Rank = pl_Rank x,
          dpl_GiveMomentumRewardPercentage = pl_GiveMomentumRewardPercentage x,
          dpl_GiveDelegateRewardPercentage = pl_GiveDelegateRewardPercentage x,
          dpl_IsRevocable = pl_IsRevocable x, dpl_RevokeCooldown = pl_RevokeCooldown x,
          dpl_RevokeTimestamp = pl_RevokeTimestamp x, dpl_Weight = AmountFromInt64 (pl_Weight x),
          dpl_EpochProducedMomentums = pl_EpochProducedMomentums x,
          dpl_EpochExpectedMomentums = pl_EpochExpectedMomentums x,
          dpl_SlotCostQsr = AmountFromInt64 (pl_SlotCostQsr x),
          dpl_SpawnTimestamp = pl_SpawnTimestamp x, dpl_VotingActivity = pl_VotingActivity x,
          dpl_ProducedMomentumCount = pl_ProducedMomentumCount x, dpl_IsRevoked = pl_IsRevoked x \<rparr>)"

definition FromPillars :: "Pillar option list \<Rightarrow> Pillar_dto list" where
  "FromPillars = List.map_filter FromPillar"

record Project_dto =
  dpj_ID :: string
  dpj_VotingID :: string
  dpj_Owner :: string
  dpj_Name :: string
  dpj_Description :: string
  dpj_URL :: string
  dpj_ZnnFundsNeeded :: Amount
  dpj_QsrFundsNeeded :: Amount
  dpj_CreationTimestamp :: int
  dpj_LastUpdateTimestamp :: int
  dpj_Status :: int
  dpj_YesVotes :: int
  dpj_NoVotes :: int
  dpj_TotalVotes :: int

definition FromProject :: "Project option \<Rightarrow> Project_dto option" where
  "FromProject = map_option (\<lambda>x.
        \<lparr> dpj_ID = pj_ID x, dpj_VotingID = pj_VotingID x, dpj_Owner = pj_Owner x,
          dpj_Name = pj_Name x, dpj_Description = pj_Description x, dpj_URL = pj_URL x,
          dpj_ZnnFundsNeeded = AmountFromInt64 (pj_ZnnFundsNeeded x),
          dpj_QsrFundsNeeded = AmountFromInt64 (pj_QsrFundsNeeded x),
          dpj_CreationTimestamp = pj_CreationTimestamp x,
          dpj_LastUpdateTimestamp = pj_LastUpdateTimestamp x, dpj_Status = pj_Status x,
          dpj_YesVotes = pj_YesVotes x, dpj_NoVotes = pj_NoVotes x, dpj_TotalVotes = pj_TotalVotes x \<rparr>)"

definition FromProjects :: "Project option list \<Rightarrow> Project_dto list" where
  "FromProjects = List.map_filter FromProject"

record ProjectPhase_dto =
  dpp_ID :: string
  dpp_ProjectID :: string
  dpp_VotingID :: string
  dpp_Name :: string
  dpp_Description :: string
  dpp_URL :: string
  dpp_ZnnFundsNeeded :: Amount
  dpp_QsrFundsNeeded :: Amount
  dpp_CreationTimestamp :: int
  dpp_AcceptedTimestamp :: int
  dpp_Status :: int
  dpp_YesVotes :: int
  dpp_NoVotes :: int
  dpp_TotalVotes :: int

definition FromProjectPhase :: "ProjectPhase option \<Rightarrow> ProjectPhase_dto option" where
  "FromProjectPhase = map_option (\<lambda>x.
        \<lparr> dpp_ID = pp_ID x, dpp_ProjectID = pp_ProjectID x, dpp_VotingID = pp_VotingID x,
          dpp_Name = pp_Name x, dpp_Description = pp_Description x, dpp_URL = pp_URL x,
          dpp_ZnnFundsNeeded = AmountFromInt64 (pp_ZnnFundsNeeded x),
          dpp_QsrFundsNeeded = AmountFromInt64 (pp_QsrFundsNeeded x),
          dpp_CreationTimestamp = pp_CreationTimestamp x,
          dpp_AcceptedTimestamp = pp_AcceptedTimestamp x, dpp_Status = pp_Status x,
          dpp_YesVotes = pp_YesVotes x, dpp_NoVotes = pp_NoVotes x, dpp_TotalVotes = pp_TotalVotes x \<rparr>)"

definition FromProjectPhases :: "ProjectPhase option list \<Rightarrow> ProjectPhase_dto list" where
  "FromProjectPhases = List.map_filter FromProjectPhase"

record CumulativeReward_dto =
  dcr_Address :: string
  dcr_RewardType :: string
  dcr_Amount :: Amount
  dcr_TokenStandard :: string

definition FromCumulativeReward :: "CumulativeReward option \<Rightarrow> CumulativeReward_dto option" where
  "FromCumulativeReward = map_option (\<lambda>x.
        \<lparr> dcr_Address = cr_Address x, dcr_RewardType = RewardType_String (cr_RewardType x),
          dcr_Amount = AmountFromInt64 (cr_Amount x), dcr_TokenStandard = cr_TokenStandard x \<rparr>)"

definition FromCumulativeRewards :: "CumulativeReward option list \<Rightarrow> CumulativeReward_dto list" where
  "FromCumulativeRewards = List.map_filter FromCumulativeReward"

record RewardTransaction_dto =
  drt_Hash :: string
  drt_Address :: string
  drt_RewardType :: string
  drt_MomentumTimestamp :: int
  drt_MomentumHeight :: int
  drt_AccountHeight :: int
  drt_Amount :: Amount
  drt_TokenStandard :: string
  drt_SourceAddress :: string

definition FromRewardTransaction :: "RewardTransaction option \<Rightarrow> RewardTransaction_dto option" where
  "FromRewardTransaction = map_option (\<lambda>x.
        \<lparr> drt_Hash = rt_Hash x, drt_Address = rt_Address x,
          drt_RewardType = RewardType_String (rt_RewardType x),
          drt_MomentumTimestamp = rt_MomentumTimestamp x, drt_MomentumHeight = rt_MomentumHeight x,
          drt_AccountHeight = rt_AccountHeight x, drt_Amount = AmountFromInt64 (rt_Amount x),
          drt_TokenStandard = rt_TokenStandard x, drt_SourceAddress = rt_SourceAddress x \<rparr>)"

definition FromRewardTransactions :: "RewardTransaction option list \<Rightarrow> RewardTransaction_dto list" where
  "FromRewardTransactions = List.map_filter FromRewardTransaction"

record Sentinel_dto =
  dse_Owner :: string
  dse_RegistrationTimestamp :: int
  dse_IsRevocable :: bool
  dse_RevokeCooldown :: string
  dse_Active :: bool

definition FromSentinel :: "Sentinel option \<Rightarrow> Sentinel_dto option" where
  "FromSentinel = map_option (\<lambda>x.
        \<lparr> dse_Owner = se_Owner x, dse_RegistrationTimestamp = se_RegistrationTimestamp x,
          dse_IsRevocable = se_IsRevocable x, dse_RevokeCooldown = se_RevokeCooldown x,
          dse_Active = se_Active x \<rparr>)"

definition FromSentinels :: "Sentinel option list \<Rightarrow> Sentinel_dto list" where
  "FromSentinels = List.map_filter FromSentinel"

record Stake_dto =
  dst_ID :: string
  dst_Address :: string
  dst_StartTimestamp :: int
  dst_ExpirationTimestamp :: int
  dst_ZnnAmount :: Amount
  dst_DurationInSec :: int
  dst_IsActive :: bool
  dst_CancelID :: string

definition FromStake :: "Stake option \<Rightarrow> Stake_dto option" where
  "FromStake = map_option (\<lambda>x.
        \<lparr> dst_ID = st_ID x, dst_Address = st_Address x,
          dst_StartTimestamp = st_StartTimestamp x, dst_ExpirationTimestamp = st_ExpirationTimestamp x,
          dst_ZnnAmount = AmountFromInt64 (st_ZnnAmount x), dst_DurationInSec = st_DurationInSec x,
          dst_IsActive = st_IsActive x, dst_CancelID = st_CancelID x \<rparr>)"

definition FromStakes :: "Stake option list \<Rightarrow> Stake_dto list" where
  "FromStakes = List.map_filter FromStake"

record Token_dto =
  dtk_TokenStandard :: string
  dtk_Name :: string
  dtk_Symbol :: string
  dtk_Domain :: string
  dtk_Decimals :: int
  dtk_Owner :: string
  dtk_TotalSupply :: Amount
  dtk_MaxSupply :: Amount
  dtk_IsBurnable :: bool
  dtk_IsMintable :: bool
  dtk_IsUtility :: bool
  dtk_TotalBurned :: Amount
  dtk_LastUpdateTimestamp :: int
  dtk_HolderCount :: int
  dtk_TransactionCount :: int

definition FromToken :: "Token option \<Rightarrow> Token_dto option" where
  "FromToken = map_option (\<lambda>x.
        \<lparr> dtk_TokenStandard = tk_TokenStandard x, dtk_Name = tk_Name x,
          dtk_Symbol = tk_Symbol x, dtk_Domain = tk_Domain x, dtk_Decimals = tk_Decimals x,
          dtk_Owner = tk_Owner x, dtk_TotalSupply = AmountFromInt64 (tk_TotalSupply x),
          dtk_MaxSupply = AmountFromInt64 (tk_MaxSupply x), dtk_IsBurnable = tk_IsBurnable x,
          dtk_IsMintable = tk_IsMintable x, dtk_IsUtility = tk_IsUtility x,
          dtk_TotalBurned = AmountFromInt64 (tk_TotalBurned x),
          dtk_LastUpdateTimestamp = tk_LastUpdateTimestamp x, dtk_HolderCount = tk_HolderCount x,
          dtk_TransactionCount = tk_TransactionCount x \<rparr>)"

definition FromTokens :: "Token option list \<Rightarrow> Token_dto list" where
  "FromTokens = List.map_filter FromToken"

record Vote_dto =
  dvo_MomentumHash :: string
  dvo_MomentumTimestamp :: int
  dvo_MomentumHeight :: int
  dvo_VoterAddress :: string
  dvo_ProjectID :: string
  dvo_PhaseID :: string
  dvo_VotingID :: string
  dvo_Vote :: int

definition FromVote :: "Vote option \<Rightarrow> Vote_dto option" where
  "FromVote = map_option (\<lambda>x.
        \<lparr> dvo_MomentumHash = vo_MomentumHash x, dvo_MomentumTimestamp = vo_MomentumTimestamp x,
          dvo_MomentumHeight = vo_MomentumHeight x, dvo_VoterAddress = vo_VoterAddress x,
          dvo_ProjectID = vo_ProjectID x, dvo_PhaseID = vo_PhaseID x, dvo_VotingID = vo_VotingID x,
          dvo_Vote = vo_Vote x \<rparr>)"

definition FromVotes :: "Vote option list \<Rightarrow> Vote_dto list" where
  "FromVotes = List.map_filter FromVote"

record PillarDelegator_dto =
  dpd_Address :: string
  dpd_DelegationStartTimestamp :: int

definition FromPillarDelegators :: "PillarDelegator option list \<Rightarrow> PillarDelegator_dto list" where
  "FromPillarDelegators = List.map_filter (map_option (\<lambda>x.
        \<lparr> dpd_Address = pd_Address x, dpd_DelegationStartTimestamp = pd_DelegationStartTimestamp x \<rparr>))"

record Status_dto =
  dss_LatestHeight :: int
  dss_LatestTimestamp :: int
  dss_IndexerLagSeconds :: int
  dss_Version :: string

subsection \<open>Voting reports\<close>

record ProposalVoteTally =
  dpt_VotingID :: string
  dpt_YesCount :: int
  dpt_NoCount :: int
  dpt_AbstainCount :: int
  dpt_NoVoteCount :: int
  dpt_YesPillars :: "string list"
  dpt_NoPillars :: "string list"
  dpt_AbstainPillars :: "string list"
  dpt_NoVotePillars :: "string list"

record PhaseVoteTally =
  dph_PhaseID :: string
  dph_PhaseName :: string
  dph_Vote :: ProposalVoteTally

record ProjectVotingReport_dto =
  dpr_ProjectID :: string
  dpr_ProjectName :: string
  dpr_ActivePillarCount :: int
  dpr_Project :: ProposalVoteTally
  dpr_Phases :: "PhaseVoteTally list"

record PillarVoteEntry =
  dpv_ProjectID :: string
  dpv_ProjectName :: string
  dpv_PhaseID :: string
  dpv_PhaseName :: string
  dpv_VotingID :: string
  dpv_Vote :: string
  dpv_MomentumHeight :: int
  dpv_MomentumTimestamp :: int

record PillarVotingHistory_dto =
  dvh_PillarName :: string
  dvh_PillarOwner :: string
  dvh_TotalVotes :: int
  dvh_YesCount :: int
  dvh_NoCount :: int
  dvh_AbstainCount :: int
  dvh_Votes :: "PillarVoteEntry list"

definition VoteCodeToString :: "int \<Rightarrow> string" where
  "VoteCodeToString code =
     (if code = 0 then ''yes'' else if code = 1 then ''no'' else if code = 2 then ''abstain''
      else ''unknown'')"

text \<open>The names with one vote code; the map's order does not matter because every list is sorted.\<close>

definition voted :: "int \<Rightarrow> (string \<times> int) list \<Rightarrow> string list" where
  "voted code byPillar = map fst (filter (\<lambda>(name, c). c = code) byPillar)"

definition FromProposalTally :: "ProposalTallyRow \<Rightarrow> ProposalVoteTally" where
  "FromProposalTally r =
     (let yes = sort (voted 0 (pt_ByPillar r)); no = sort (voted 1 (pt_ByPillar r));
          abstain = sort (voted 2 (pt_ByPillar r))
      in \<lparr> dpt_VotingID = pt_VotingID r, dpt_YesCount = int (length yes), dpt_NoCount = int (length no),
           dpt_AbstainCount = int (length abstain), dpt_NoVoteCount = int (length (pt_NoVotePillars r)),
           dpt_YesPillars = yes, dpt_NoPillars = no, dpt_AbstainPillars = abstain,
           dpt_NoVotePillars = sort (pt_NoVotePillars r) \<rparr>)"

definition FromPhaseTally :: "string \<Rightarrow> string \<Rightarrow> ProposalTallyRow \<Rightarrow> PhaseVoteTally" where
  "FromPhaseTally phaseID phaseName r =
     \<lparr> dph_PhaseID = phaseID, dph_PhaseName = phaseName, dph_Vote = FromProposalTally r \<rparr>"

definition vote_entry :: "PillarVoteRow \<Rightarrow> PillarVoteEntry" where
  "vote_entry r =
     \<lparr> dpv_ProjectID = pv_ProjectID r, dpv_ProjectName = pv_ProjectName r, dpv_PhaseID = pv_PhaseID r,
       dpv_PhaseName = pv_PhaseName r, dpv_VotingID = pv_VotingID r,
       dpv_Vote = VoteCodeToString (pv_Vote r), dpv_MomentumHeight = pv_MomentumHeight r,
       dpv_MomentumTimestamp = pv_MomentumTimestamp r \<rparr>"

fun count_votes :: "PillarVoteRow list \<Rightarrow> PillarVotingHistory_dto \<Rightarrow> PillarVotingHistory_dto" where
  "count_votes [] out = out"
| "count_votes (r # rs) out =
     (let out1 = (if pv_Vote r = 0 then out\<lparr> dvh_YesCount := dvh_YesCount out + 1 \<rparr>
                  else if pv_Vote r = 1 then out\<lparr> dvh_NoCount := dvh_NoCount out + 1 \<rparr>
                  else if pv_Vote r = 2 then out\<lparr> dvh_AbstainCount := dvh_AbstainCount out + 1 \<rparr>
                  else out)
      in count_votes rs (out1\<lparr> dvh_Votes := dvh_Votes out1 @ [vote_entry r] \<rparr>))"

definition FromPillarVotingHistory :: "string \<Rightarrow> string \<Rightarrow> PillarVoteRow list \<Rightarrow> PillarVotingHistory_dto" where
  "FromPillarVotingHistory pillarName pillarOwner raws =
     count_votes raws
       \<lparr> dvh_PillarName = pillarName, dvh_PillarOwner = pillarOwner, dvh_TotalVotes = int (length raws),
         dvh_YesCount = 0, dvh_NoCount = 0, dvh_AbstainCount = 0, dvh_Votes = [] \<rparr>"

definition projectVotingReportToDTO :: "ProjectVotingReportRow \<Rightarrow> ProjectVotingReport_dto" where
  "projectVotingReportToDTO row =
     \<lparr> dpr_ProjectID = pr_ProjectID row, dpr_ProjectName = pr_ProjectName row,
       dpr_ActivePillarCount = pr_ActivePillarCount row, dpr_Project = FromProposalTally (pr_Project row),
       dpr_Phases = map (\<lambda>ph. FromPhaseTally (ph_PhaseID ph) (ph_PhaseName ph) (ph_Tally ph)) (pr_Phases row) \<rparr>"

subsection \<open>Facts\<close>

lemma map_filter_Some: "List.map_filter (map_option f) (map Some xs) = map f xs"
  by (induction xs) (auto simp: List.map_filter_def)

lemma count_votes_result:
  "count_votes rs out = out\<lparr>
     dvh_YesCount := dvh_YesCount out + int (length (filter (\<lambda>r. pv_Vote r = 0) rs)),
     dvh_NoCount := dvh_NoCount out + int (length (filter (\<lambda>r. pv_Vote r = 1) rs)),
     dvh_AbstainCount := dvh_AbstainCount out + int (length (filter (\<lambda>r. pv_Vote r = 2) rs)),
     dvh_Votes := dvh_Votes out @ map vote_entry rs \<rparr>"
  by (induction rs arbitrary: out) (auto simp: Let_def)

end
