(* ===== verification/Rest.thy ===== *)
theory Rest
  imports Httpx Dto Repo_Account Repo_Ledger Repo_Token Repo_Entries Repo_Bridge
begin

text \<open>
  \<open>internal/api/handlers\<close> and the \<open>/api/v1\<close> subtree of \<open>internal/api/router\<close>. A handler is a
  function of the request and the database; \<open>fault\<close> is the error the driver reports instead of
  running a query, if any. Matching a path to a route and cutting out its parameters is the
  router library's work: a route is the constructor of \<open>endpoint\<close>, its parameters are in the
  request.
\<close>

definition db_read :: "sql_error option \<Rightarrow> sql_error + 'a \<Rightarrow> sql_error + 'a" where
  "db_read fault res = (case fault of None \<Rightarrow> res | Some e \<Rightarrow> Inl e)"

text \<open>The bodies the handlers share: a page of a listing, one row, and an unpaged list.\<close>

definition page_of :: "(ListOpts \<Rightarrow> sql_error + 'r list \<times> int) \<Rightarrow> ('r option list \<Rightarrow> 'x list) \<Rightarrow> string \<Rightarrow>
    sql_error option \<Rightarrow> request \<Rightarrow> 'x Page response" where
  "page_of listf toDTO srt fault r =
     (let p = ParsePagination r
      in case db_read fault (listf \<lparr> lo_Limit = pg_PageSize p, lo_Offset = Offset p, lo_Sort = srt \<rparr>) of
           Inl err \<Rightarrow> writeRepoError err
         | Inr (rows, n) \<Rightarrow> WriteJSON 200 (NewPage (toDTO (map Some rows)) (pg_Page p) (pg_PageSize p) n))"

definition one_of :: "sql_error + 'r \<Rightarrow> ('r option \<Rightarrow> 'x) \<Rightarrow> sql_error option \<Rightarrow> 'x response" where
  "one_of res toDTO fault =
     (case db_read fault res of
        Inl err \<Rightarrow> writeRepoError err
      | Inr row \<Rightarrow> WriteJSON 200 (toDTO (Some row)))"

definition data_of :: "sql_error + 'r list \<Rightarrow> ('r option list \<Rightarrow> 'x list) \<Rightarrow> sql_error option \<Rightarrow>
    'x list response" where
  "data_of res toDTO fault =
     (case db_read fault res of
        Inl err \<Rightarrow> writeRepoError err
      | Inr rows \<Rightarrow> WriteJSON 200 (toDTO (map Some rows)))"

text \<open>A required URL parameter.\<close>

definition with_param :: "string \<Rightarrow> string \<Rightarrow> string \<Rightarrow> request \<Rightarrow> (string \<Rightarrow> 'b response) \<Rightarrow> 'b response" where
  "with_param name code detail r body =
     (let v = rq_URLParam r name in if v = [] then WriteProblem 400 code detail else body v)"

definition with_address :: "request \<Rightarrow> (string \<Rightarrow> 'b response) \<Rightarrow> 'b response" where
  "with_address = with_param ''address'' ''invalid_address'' ''address is required''"

subsection \<open>Momentums, account blocks and accounts\<close>

definition Status :: "string \<Rightarrow> int \<Rightarrow> sql_error option \<Rightarrow> db \<Rightarrow> Status_dto response" where
  "Status version now fault d =
     (case db_read fault (Momentum_GetLatest d) of
        Inl err \<Rightarrow>
          if err = NoRows
          then WriteJSON 200 \<lparr> dss_LatestHeight = 0, dss_LatestTimestamp = 0, dss_IndexerLagSeconds = 0,
                 dss_Version = version \<rparr>
          else writeRepoError err
      | Inr m \<Rightarrow>
          let lag = int64 (now - mo_Timestamp m)
          in WriteJSON 200 \<lparr> dss_LatestHeight = mo_Height m, dss_LatestTimestamp = mo_Timestamp m,
               dss_IndexerLagSeconds = (if lag < 0 then 0 else lag), dss_Version = version \<rparr>)"

definition MomentumsList :: "sql_error option \<Rightarrow> request \<Rightarrow> db \<Rightarrow> Momentum_dto Page response" where
  "MomentumsList fault r d = page_of (\<lambda>opts. Momentum_List opts d) FromMomentums (ParseSort r ''desc'') fault r"

definition MomentumsLatest :: "sql_error option \<Rightarrow> db \<Rightarrow> Momentum_dto option response" where
  "MomentumsLatest fault d = one_of (Momentum_GetLatest d) FromMomentum fault"

definition MomentumsGetByHeight :: "sql_error option \<Rightarrow> request \<Rightarrow> db \<Rightarrow> Momentum_dto option response" where
  "MomentumsGetByHeight fault r d =
     (case ParseUint64 (rq_URLParam r ''height'') of
        None \<Rightarrow> WriteProblem 400 ''invalid_height'' ''height must be a non-negative integer''
      | Some height \<Rightarrow> one_of (Momentum_GetByHeight height d) FromMomentum fault)"

definition AccountBlocksList :: "int \<Rightarrow> sql_error option \<Rightarrow> request \<Rightarrow> db \<Rightarrow> AccountBlock_dto Page response" where
  "AccountBlocksList reltuples fault r d =
     page_of (\<lambda>opts. AccountBlock_List reltuples opts d) FromAccountBlocks (ParseSort r ''desc'') fault r"

definition AccountBlocksGet :: "sql_error option \<Rightarrow> request \<Rightarrow> db \<Rightarrow> AccountBlock_dto option response" where
  "AccountBlocksGet fault r d =
     with_param ''hash'' ''invalid_hash'' ''hash is required'' r
       (\<lambda>h. one_of (AccountBlock_GetByHash h d) FromAccountBlock fault)"

definition AccountBlocksByAddress :: "sql_error option \<Rightarrow> request \<Rightarrow> db \<Rightarrow> AccountBlock_dto Page response" where
  "AccountBlocksByAddress fault r d =
     with_address r (\<lambda>addr. page_of (\<lambda>opts. AccountBlock_ListByAddress addr opts d) FromAccountBlocks
       (ParseSort r ''desc'') fault r)"

definition AccountsGet :: "sql_error option \<Rightarrow> request \<Rightarrow> db \<Rightarrow> Account_dto option response" where
  "AccountsGet fault r d = with_address r (\<lambda>addr. one_of (Account_GetByAddress addr d) FromAccount fault)"

definition AccountsBalances :: "sql_error option \<Rightarrow> request \<Rightarrow> db \<Rightarrow> Balance_dto list response" where
  "AccountsBalances fault r d = with_address r (\<lambda>addr. data_of (Balance_ListByAddress addr d) FromBalances fault)"

subsection \<open>Tokens\<close>

definition with_token :: "request \<Rightarrow> (string \<Rightarrow> 'b response) \<Rightarrow> 'b response" where
  "with_token = with_param ''token_standard'' ''invalid_token_standard'' ''token_standard is required''"

definition TokensList :: "sql_error option \<Rightarrow> request \<Rightarrow> db \<Rightarrow> Token_dto Page response" where
  "TokensList fault r d = page_of (\<lambda>opts. Token_List () opts d) FromTokens [] fault r"

definition TokensGet :: "sql_error option \<Rightarrow> request \<Rightarrow> db \<Rightarrow> Token_dto option response" where
  "TokensGet fault r d = with_token r (\<lambda>std. one_of (Token_GetByStandard std d) FromToken fault)"

definition TokensHolders :: "sql_error option \<Rightarrow> request \<Rightarrow> db \<Rightarrow> Balance_dto Page response" where
  "TokensHolders fault r d =
     with_token r (\<lambda>std. page_of (\<lambda>opts. Balance_ListByToken std opts d) FromBalances [] fault r)"

subsection \<open>Pillars and sentinels\<close>

definition with_name :: "request \<Rightarrow> (string \<Rightarrow> 'b response) \<Rightarrow> 'b response" where
  "with_name = with_param ''name'' ''invalid_name'' ''name is required''"

definition PillarsList :: "sql_error option \<Rightarrow> request \<Rightarrow> db \<Rightarrow> Pillar_dto Page response" where
  "PillarsList fault r d =
     page_of (\<lambda>opts. Pillar_List (boolQuery r ''include_revoked'' False) opts d) FromPillars [] fault r"

definition PillarsGetByName :: "sql_error option \<Rightarrow> request \<Rightarrow> db \<Rightarrow> Pillar_dto option response" where
  "PillarsGetByName fault r d = with_name r (\<lambda>name. one_of (Pillar_GetByName name d) FromPillar fault)"

definition PillarsDelegators ::
  "sql_error option \<Rightarrow> sql_error option \<Rightarrow> request \<Rightarrow> db \<Rightarrow> PillarDelegator_dto Page response" where
  "PillarsDelegators fault1 fault2 r d =
     with_name r (\<lambda>name.
       (case db_read fault1 (Pillar_GetByName name d) of
          Inl err \<Rightarrow> writeRepoError err
        | Inr pillar \<Rightarrow>
            page_of (\<lambda>opts. Pillar_ListDelegators (pl_OwnerAddress pillar) opts d) FromPillarDelegators [] fault2 r))"

definition PillarsVotingHistory :: "sql_error option \<Rightarrow> request \<Rightarrow> db \<Rightarrow> PillarVotingHistory_dto response" where
  "PillarsVotingHistory fault r d =
     with_name r (\<lambda>name.
       (case db_read fault (PillarVotingHistory name d) of
          Inl err \<Rightarrow> writeRepoError err
        | Inr row \<Rightarrow>
            WriteJSON 200 (FromPillarVotingHistory (pvh_PillarName row) (pvh_PillarOwner row) (pvh_Votes row))))"

definition SentinelsList :: "sql_error option \<Rightarrow> request \<Rightarrow> db \<Rightarrow> Sentinel_dto Page response" where
  "SentinelsList fault r d =
     page_of (\<lambda>opts. Sentinel_List (\<not> boolQuery r ''include_inactive'' False) opts d) FromSentinels [] fault r"

subsection \<open>Stakes, fusions and rewards\<close>

definition StakesList :: "sql_error option \<Rightarrow> request \<Rightarrow> db \<Rightarrow> Stake_dto Page response" where
  "StakesList fault r d =
     page_of (\<lambda>opts. Stake_List (\<not> boolQuery r ''include_inactive'' False) opts d) FromStakes [] fault r"

definition StakesByAddress :: "sql_error option \<Rightarrow> request \<Rightarrow> db \<Rightarrow> Stake_dto Page response" where
  "StakesByAddress fault r d =
     with_address r (\<lambda>addr. page_of (\<lambda>opts. Stake_ListByAddress
       (addr, \<not> boolQuery r ''include_inactive'' False) opts d) FromStakes [] fault r)"

definition FusionsList :: "sql_error option \<Rightarrow> request \<Rightarrow> db \<Rightarrow> Fusion_dto Page response" where
  "FusionsList fault r d =
     page_of (\<lambda>opts. Fusion_List (\<not> boolQuery r ''include_inactive'' False) opts d) FromFusions [] fault r"

definition FusionsByAddress :: "sql_error option \<Rightarrow> request \<Rightarrow> db \<Rightarrow> Fusion_dto Page response" where
  "FusionsByAddress fault r d =
     with_address r (\<lambda>addr. page_of (\<lambda>opts. Fusion_ListByAddress
       (addr, \<not> boolQuery r ''include_inactive'' False) opts d) FromFusions [] fault r)"

definition RewardsCumulative :: "sql_error option \<Rightarrow> request \<Rightarrow> db \<Rightarrow> CumulativeReward_dto list response" where
  "RewardsCumulative fault r d =
     with_address r (\<lambda>addr. data_of (Reward_CumulativeByAddress addr d) FromCumulativeRewards fault)"

definition RewardsHistory :: "sql_error option \<Rightarrow> request \<Rightarrow> db \<Rightarrow> RewardTransaction_dto Page response" where
  "RewardsHistory fault r d =
     with_address r (\<lambda>addr. page_of (\<lambda>opts. Reward_HistoryByAddress addr opts d) FromRewardTransactions [] fault r)"

subsection \<open>Projects and votes\<close>

definition with_id :: "request \<Rightarrow> (string \<Rightarrow> 'b response) \<Rightarrow> 'b response" where
  "with_id = with_param ''id'' ''invalid_id'' ''id is required''"

definition ProjectsList :: "sql_error option \<Rightarrow> request \<Rightarrow> db \<Rightarrow> Project_dto Page response" where
  "ProjectsList fault r d = page_of (\<lambda>opts. Project_List () opts d) FromProjects [] fault r"

definition ProjectsGet :: "sql_error option \<Rightarrow> request \<Rightarrow> db \<Rightarrow> Project_dto option response" where
  "ProjectsGet fault r d = with_id r (\<lambda>i. one_of (Project_GetByID i d) FromProject fault)"

definition ProjectsPhases :: "sql_error option \<Rightarrow> request \<Rightarrow> db \<Rightarrow> ProjectPhase_dto list response" where
  "ProjectsPhases fault r d = with_id r (\<lambda>i. data_of (Phase_ListByProject i d) FromProjectPhases fault)"

definition ProjectsVotes :: "sql_error option \<Rightarrow> request \<Rightarrow> db \<Rightarrow> Vote_dto Page response" where
  "ProjectsVotes fault r d =
     with_id r (\<lambda>i. page_of (\<lambda>opts. Vote_ListByProject i opts d) FromVotes [] fault r)"

definition ProjectsVotingReport :: "sql_error option \<Rightarrow> request \<Rightarrow> db \<Rightarrow> ProjectVotingReport_dto response" where
  "ProjectsVotingReport fault r d =
     with_id r (\<lambda>i.
       (case db_read fault (ProjectVotingReport i d) of
          Inl err \<Rightarrow> writeRepoError err
        | Inr row \<Rightarrow> WriteJSON 200 (projectVotingReportToDTO row)))"

subsection \<open>Bridge\<close>

definition BridgeWraps :: "sql_error option \<Rightarrow> request \<Rightarrow> db \<Rightarrow> WrapTokenRequest_dto Page response" where
  "BridgeWraps fault r d = page_of (\<lambda>opts. ListWraps () opts d) FromWrapTokenRequests [] fault r"

definition BridgeUnwraps :: "sql_error option \<Rightarrow> request \<Rightarrow> db \<Rightarrow> UnwrapTokenRequest_dto Page response" where
  "BridgeUnwraps fault r d = page_of (\<lambda>opts. ListUnwraps () opts d) FromUnwrapTokenRequests [] fault r"

definition BridgeWrapsByAddress :: "sql_error option \<Rightarrow> request \<Rightarrow> db \<Rightarrow> WrapTokenRequest_dto Page response" where
  "BridgeWrapsByAddress fault r d =
     with_address r (\<lambda>addr. page_of (\<lambda>opts. ListWrapsByAddress addr opts d) FromWrapTokenRequests [] fault r)"

definition BridgeUnwrapsByAddress :: "sql_error option \<Rightarrow> request \<Rightarrow> db \<Rightarrow> UnwrapTokenRequest_dto Page response" where
  "BridgeUnwrapsByAddress fault r d =
     with_address r (\<lambda>addr. page_of (\<lambda>opts. ListUnwrapsByAddress addr opts d) FromUnwrapTokenRequests [] fault r)"

end
