(* ===== verification/Router.thy ===== *)
theory Router
  imports Rest
begin

text \<open>
  \<open>internal/api/router/router.go\<close> and \<open>middleware/ratelimit.go\<close>: the authenticated routes with the
  middleware in front of them, and the readiness probe. The sliding window of the rate limiter is
  the library's: a parameter that says whether a key may pass.
\<close>

subsection \<open>Routes\<close>

datatype endpoint =
    EStatus | EMomentums | EMomentumsLatest | EMomentumsByHeight
  | EAccount | EAccountBalances | EAccountTransactions
  | EAccountBlocks | EAccountBlock
  | ETokens | EToken | ETokenHolders
  | EPillars | EPillar | EPillarDelegators | EPillarVotingReport
  | ESentinels | EStakes | EAccountStakes | EFusions | EAccountFusions
  | EAccountRewards | EAccountRewardsCumulative
  | EProjects | EProject | EProjectPhases | EProjectVotes | EProjectVotingReport
  | EBridgeWraps | EBridgeUnwraps | EAccountBridgeWraps | EAccountBridgeUnwraps

text \<open>What a response can carry.\<close>

datatype item =
    IStatus Status_dto | IMomentum Momentum_dto | IAccount Account_dto | IBalance Balance_dto
  | IAccountBlock AccountBlock_dto | IToken Token_dto | IPillar Pillar_dto
  | IDelegator PillarDelegator_dto | IHistory PillarVotingHistory_dto | ISentinel Sentinel_dto
  | IStake Stake_dto | IFusion Fusion_dto | ICumulative CumulativeReward_dto
  | IReward RewardTransaction_dto | IProject Project_dto | IPhase ProjectPhase_dto | IVote Vote_dto
  | IReport ProjectVotingReport_dto | IWrap WrapTokenRequest_dto | IUnwrap UnwrapTokenRequest_dto

datatype body = One "item option" | Data "item list" | Paged "item Page"

text \<open>What a request meets: the faults of its queries, the planner's estimate, the clock, the version.\<close>

record env =
  en_fault1 :: "sql_error option"
  en_fault2 :: "sql_error option"
  en_reltuples :: int
  en_now :: int
  en_version :: string

definition map_page :: "('a \<Rightarrow> 'b) \<Rightarrow> 'a Page \<Rightarrow> 'b Page" where
  "map_page f p = NewPage (map f (pa_Data p)) (pa_Page p) (pa_PageSize p) (pa_Total p)"

abbreviation as_page :: "('a \<Rightarrow> item) \<Rightarrow> 'a Page response \<Rightarrow> body response" where
  "as_page f \<equiv> map_response (\<lambda>p. Paged (map_page f p))"

abbreviation as_one :: "('a \<Rightarrow> item) \<Rightarrow> 'a option response \<Rightarrow> body response" where
  "as_one f \<equiv> map_response (\<lambda>x. One (map_option f x))"

abbreviation as_data :: "('a \<Rightarrow> item) \<Rightarrow> 'a list response \<Rightarrow> body response" where
  "as_data f \<equiv> map_response (\<lambda>xs. Data (map f xs))"

definition serve :: "env \<Rightarrow> endpoint \<Rightarrow> request \<Rightarrow> db \<Rightarrow> body response" where
  "serve en e r d =
     (case e of
        EStatus \<Rightarrow> map_response (\<lambda>x. One (Some (IStatus x))) (Status (en_version en) (en_now en) (en_fault1 en) d)
      | EMomentums \<Rightarrow> as_page IMomentum (MomentumsList (en_fault1 en) r d)
      | EMomentumsLatest \<Rightarrow> as_one IMomentum (MomentumsLatest (en_fault1 en) d)
      | EMomentumsByHeight \<Rightarrow> as_one IMomentum (MomentumsGetByHeight (en_fault1 en) r d)
      | EAccount \<Rightarrow> as_one IAccount (AccountsGet (en_fault1 en) r d)
      | EAccountBalances \<Rightarrow> as_data IBalance (AccountsBalances (en_fault1 en) r d)
      | EAccountTransactions \<Rightarrow> as_page IAccountBlock (AccountBlocksByAddress (en_fault1 en) r d)
      | EAccountBlocks \<Rightarrow> as_page IAccountBlock (AccountBlocksList (en_reltuples en) (en_fault1 en) r d)
      | EAccountBlock \<Rightarrow> as_one IAccountBlock (AccountBlocksGet (en_fault1 en) r d)
      | ETokens \<Rightarrow> as_page IToken (TokensList (en_fault1 en) r d)
      | EToken \<Rightarrow> as_one IToken (TokensGet (en_fault1 en) r d)
      | ETokenHolders \<Rightarrow> as_page IBalance (TokensHolders (en_fault1 en) r d)
      | EPillars \<Rightarrow> as_page IPillar (PillarsList (en_fault1 en) r d)
      | EPillar \<Rightarrow> as_one IPillar (PillarsGetByName (en_fault1 en) r d)
      | EPillarDelegators \<Rightarrow> as_page IDelegator (PillarsDelegators (en_fault1 en) (en_fault2 en) r d)
      | EPillarVotingReport \<Rightarrow> map_response (\<lambda>x. One (Some (IHistory x))) (PillarsVotingHistory (en_fault1 en) r d)
      | ESentinels \<Rightarrow> as_page ISentinel (SentinelsList (en_fault1 en) r d)
      | EStakes \<Rightarrow> as_page IStake (StakesList (en_fault1 en) r d)
      | EAccountStakes \<Rightarrow> as_page IStake (StakesByAddress (en_fault1 en) r d)
      | EFusions \<Rightarrow> as_page IFusion (FusionsList (en_fault1 en) r d)
      | EAccountFusions \<Rightarrow> as_page IFusion (FusionsByAddress (en_fault1 en) r d)
      | EAccountRewards \<Rightarrow> as_page IReward (RewardsHistory (en_fault1 en) r d)
      | EAccountRewardsCumulative \<Rightarrow> as_data ICumulative (RewardsCumulative (en_fault1 en) r d)
      | EProjects \<Rightarrow> as_page IProject (ProjectsList (en_fault1 en) r d)
      | EProject \<Rightarrow> as_one IProject (ProjectsGet (en_fault1 en) r d)
      | EProjectPhases \<Rightarrow> as_data IPhase (ProjectsPhases (en_fault1 en) r d)
      | EProjectVotes \<Rightarrow> as_page IVote (ProjectsVotes (en_fault1 en) r d)
      | EProjectVotingReport \<Rightarrow> map_response (\<lambda>x. One (Some (IReport x))) (ProjectsVotingReport (en_fault1 en) r d)
      | EBridgeWraps \<Rightarrow> as_page IWrap (BridgeWraps (en_fault1 en) r d)
      | EBridgeUnwraps \<Rightarrow> as_page IUnwrap (BridgeUnwraps (en_fault1 en) r d)
      | EAccountBridgeWraps \<Rightarrow> as_page IWrap (BridgeWrapsByAddress (en_fault1 en) r d)
      | EAccountBridgeUnwraps \<Rightarrow> as_page IUnwrap (BridgeUnwrapsByAddress (en_fault1 en) r d))"

subsection \<open>Middleware\<close>

definition keyBySubjectThenIP :: "(request \<Rightarrow> string) \<Rightarrow> string \<Rightarrow> request \<Rightarrow> string" where
  "keyBySubjectThenIP KeyByIP subject r = (if subject \<noteq> [] then ''sub:'' @ subject else KeyByIP r)"

definition rateLimited :: "'b response" where
  "rateLimited = WriteProblem 429 ''rate_limited'' ''too many requests; slow down''"

definition RateLimit :: "int \<Rightarrow> (request \<Rightarrow> string) \<Rightarrow> (string \<Rightarrow> bool) \<Rightarrow>
    (request \<Rightarrow> 'b response) \<Rightarrow> string \<Rightarrow> request \<Rightarrow> 'b response" where
  "RateLimit perMinute KeyByIP allow next subject r =
     (if perMinute \<le> 0 then next r
      else if allow (keyBySubjectThenIP KeyByIP subject r) then next r
      else rateLimited)"

text \<open>What the libraries bring: trimming, token parsing, the client address and the window.\<close>

record libs =
  li_TrimSpace :: "string \<Rightarrow> string"
  li_parse :: "string \<Rightarrow> verify_error + string"
  li_KeyByIP :: "request \<Rightarrow> string"
  li_allow :: "string \<Rightarrow> bool"

definition api_v1 :: "libs \<Rightarrow> int \<Rightarrow> env \<Rightarrow> endpoint \<Rightarrow> request \<Rightarrow> db \<Rightarrow> body response" where
  "api_v1 lib perMinute en e r d =
     Auth (li_TrimSpace lib) (li_parse lib)
       (RateLimit perMinute (li_KeyByIP lib) (li_allow lib) (\<lambda>r. serve en e r d)) r"

subsection \<open>Readiness\<close>

definition minSchemaVersion :: int where
  "minSchemaVersion = 13"

definition unhealthyStreakForReady :: int where
  "unhealthyStreakForReady = 2"

definition syncStatusStaleAfter :: int where
  "syncStatusStaleAfter = 300"

definition syncStatusAge :: "SyncStatus \<Rightarrow> int \<Rightarrow> int \<times> bool" where
  "syncStatusAge ss now = (let age = int64 (now - ss_CheckedAt ss) in (age, syncStatusStaleAfter < age))"

text \<open>What the probe finds at each stage; \<open>MigrationsMissing\<close> is an error that names the table.\<close>

datatype schema_read = MigrationsMissing | SchemaError string | SchemaRow int bool

datatype ready_body =
    Ready
  | ReadyInactive int
  | ReadySynced string int string

text \<open>The dash of the messages, in UTF-8.\<close>

definition em_dash :: string where
  "em_dash = [CHR 0xE2, CHR 0x80, CHR 0x94]"

definition drift_detail :: "SyncStatus \<Rightarrow> string" where
  "drift_detail ss =
     ''state='' @ ss_State ss @ '' drift='' @ FormatInt (ss_DriftMomentums ss) @ '' node='' @ ss_ActiveNodeLabel ss"

definition readyz :: "bool \<Rightarrow> string option \<Rightarrow> schema_read \<Rightarrow> (sql_error + SyncStatus) option \<Rightarrow>
    (sql_error \<Rightarrow> string) \<Rightarrow> int \<Rightarrow> ready_body response" where
  "readyz has_pool ping_error schema sync message now =
     (if \<not> has_pool then WriteJSON 200 Ready
      else
        (case ping_error of
           Some err \<Rightarrow> WriteProblem 503 ''db_unavailable'' err
         | None \<Rightarrow>
             (case schema of
                MigrationsMissing \<Rightarrow>
                  WriteProblem 503 ''schema_not_migrated''
                    (''schema_migrations table missing '' @ em_dash @
                     '' start the indexer container so migrations run'')
              | SchemaError err \<Rightarrow> WriteProblem 503 ''db_unavailable'' err
              | SchemaRow version dirty \<Rightarrow>
                  if dirty then
                    WriteProblem 503 ''schema_dirty''
                      (''schema_migrations marks version '' @ FormatInt version @ '' dirty '' @ em_dash @
                       '' manual repair needed'')
                  else if version < minSchemaVersion then
                    WriteProblem 503 ''schema_not_migrated''
                      (''schema_migrations.version = '' @ FormatInt version @ '', API requires >= '' @
                       FormatInt minSchemaVersion)
                  else
                    (case sync of
                       None \<Rightarrow> WriteJSON 200 Ready
                     | Some (Inl err) \<Rightarrow>
                         if err = NoRows then WriteJSON 200 Ready
                         else WriteProblem 503 ''sync_status_unreadable'' (message err)
                     | Some (Inr ss) \<Rightarrow>
                         (case syncStatusAge ss now of
                            (age, True) \<Rightarrow> WriteJSON 200 (ReadyInactive age)
                          | (age, False) \<Rightarrow>
                              if ss_State ss \<noteq> ''synced'' \<and> unhealthyStreakForReady \<le> ss_ConsecutiveBadChecks ss
                              then WriteProblem 503 ''indexer_drift'' (drift_detail ss)
                              else WriteJSON 200 (ReadySynced (ss_ActiveNodeLabel ss) (ss_DriftMomentums ss)
                                     (ss_State ss)))))))"

end
