(* ===== verification/Rest_Props.thy ===== *)
theory Rest_Props
  imports Router
begin

text \<open>
  What a client of the REST API can rely on: every listing answers a page or refuses an offset that
  wrapped, walking the pages yields every row once, no data leaves without a verified token, and
  a voting report sorts the active pillars into disjoint groups.
\<close>

subsection \<open>Listings\<close>

text \<open>The items a listing endpoint ranges over, or None for another endpoint or an unusable parameter.\<close>

abbreviation items_of :: "('x \<Rightarrow> item) \<Rightarrow> ('r option \<Rightarrow> 'x option) \<Rightarrow> 'r list \<Rightarrow> item list" where
  "items_of f toDTO rows \<equiv> map (\<lambda>x. f (the (toDTO (Some x)))) rows"

definition param :: "string \<Rightarrow> request \<Rightarrow> (string \<Rightarrow> 'a) \<Rightarrow> 'a option" where
  "param name r f = (if rq_URLParam r name = [] then None else Some (f (rq_URLParam r name)))"

definition only_active :: "request \<Rightarrow> bool" where
  "only_active r = (\<not> boolQuery r ''include_inactive'' False)"

definition delegator_item :: "PillarDelegator \<Rightarrow> item" where
  "delegator_item x = IDelegator \<lparr> dpd_Address = pd_Address x,
     dpd_DelegationStartTimestamp = pd_DelegationStartTimestamp x \<rparr>"

definition listing_items :: "endpoint \<Rightarrow> request \<Rightarrow> db \<Rightarrow> item list option" where
  "listing_items e r d =
     (case e of
        EMomentums \<Rightarrow> Some (items_of IMomentum FromMomentum
          (order_by (orderClause (ParseSort r ''desc'')) mo_Height (momentums d)))
      | EAccountBlocks \<Rightarrow> Some (items_of IAccountBlock FromAccountBlock
          (order_by (orderClause (ParseSort r ''desc'')) ab_MomentumHeight (account_blocks d)))
      | EAccountTransactions \<Rightarrow> param ''address'' r (\<lambda>a. items_of IAccountBlock FromAccountBlock
          (order_by (orderClause (ParseSort r ''desc'')) ab_MomentumHeight (filter (involves a) (account_blocks d))))
      | ETokens \<Rightarrow> Some (items_of IToken FromToken (token_rows () [] d))
      | ETokenHolders \<Rightarrow> param ''token_standard'' r (\<lambda>t. items_of IBalance FromBalance (holder_rows t [] d))
      | EPillars \<Rightarrow> Some (items_of IPillar FromPillar (pillar_rows (boolQuery r ''include_revoked'' False) [] d))
      | EPillarDelegators \<Rightarrow>
          (case Pillar_GetByName (rq_URLParam r ''name'') d of
             Inl err \<Rightarrow> None
           | Inr p \<Rightarrow> if rq_URLParam r ''name'' = [] \<or> pl_OwnerAddress p = [] then None
                      else Some (map delegator_item (delegator_rows (pl_OwnerAddress p) [] d)))
      | ESentinels \<Rightarrow> Some (items_of ISentinel FromSentinel (sentinel_rows (only_active r) [] d))
      | EStakes \<Rightarrow> Some (items_of IStake FromStake (stake_rows (only_active r) [] d))
      | EAccountStakes \<Rightarrow> param ''address'' r (\<lambda>a. items_of IStake FromStake (stake_address_rows (a, only_active r) [] d))
      | EFusions \<Rightarrow> Some (items_of IFusion FromFusion (fusion_rows (only_active r) [] d))
      | EAccountFusions \<Rightarrow> param ''address'' r (\<lambda>a. items_of IFusion FromFusion (fusion_address_rows (a, only_active r) [] d))
      | EAccountRewards \<Rightarrow> param ''address'' r (\<lambda>a. items_of IReward FromRewardTransaction (reward_rows a [] d))
      | EProjects \<Rightarrow> Some (items_of IProject FromProject (project_rows () [] d))
      | EProjectVotes \<Rightarrow> param ''id'' r (\<lambda>i. items_of IVote FromVote (vote_rows i [] d))
      | EBridgeWraps \<Rightarrow> Some (items_of IWrap FromWrapTokenRequest (wrap_rows () [] d))
      | EBridgeUnwraps \<Rightarrow> Some (items_of IUnwrap FromUnwrapTokenRequest (unwrap_rows () [] d))
      | EAccountBridgeWraps \<Rightarrow> param ''address'' r (\<lambda>a. items_of IWrap FromWrapTokenRequest (wrap_address_rows a [] d))
      | EAccountBridgeUnwraps \<Rightarrow> param ''address'' r (\<lambda>a. items_of IUnwrap FromUnwrapTokenRequest (unwrap_address_rows a [] d))
      | _ \<Rightarrow> None)"


definition page_response :: "int \<Rightarrow> 'x list \<Rightarrow> request \<Rightarrow> 'x Page response" where
  "page_response n its r =
     (let p = ParsePagination r
      in if Offset p < 0 then WriteProblem 500 ''internal_error'' ''database error''
         else WriteJSON 200 (NewPage (take (nat (pg_PageSize p)) (drop (nat (Offset p)) its))
                (pg_Page p) (pg_PageSize p) n))"

lemma map_filter_the:
  "(\<And>x. toDTO (Some x) \<noteq> None) \<Longrightarrow> List.map_filter toDTO (map Some xs) = map (\<lambda>x. the (toDTO (Some x))) xs"
  by (induction xs) (auto simp: List.map_filter_def)

lemma page_of_paged:
  assumes "\<And>opts. lo_Sort opts = srt \<Longrightarrow> listf opts = paged rows opts"
    and "\<And>xs. conv (map Some xs) = map g xs"
  shows "page_of listf conv srt None r = page_response (int (length rows)) (map g rows) r"
proof -
  have "0 < pg_PageSize (ParsePagination r)" using ParsePagination_bounds(3) [of r] by simp
  then have "paged rows \<lparr> lo_Limit = pg_PageSize (ParsePagination r), lo_Offset = Offset (ParsePagination r), lo_Sort = srt \<rparr> =
      (if Offset (ParsePagination r) < 0 then Inl NegativeOffset
       else Inr (take (nat (pg_PageSize (ParsePagination r))) (drop (nat (Offset (ParsePagination r))) rows),
              int (length rows)))"
    by (simp add: paged_total) (simp add: paged_def limit_offset_def)
  then show ?thesis
    by (simp add: page_of_def page_response_def db_read_def Let_def assms writeRepoError_def take_map drop_map)
qed

lemma page_of_window:
  assumes "\<And>opts. lo_Sort opts = srt \<Longrightarrow>
      listf opts = map_Inr (\<lambda>out. (out, n)) (limit_offset (lo_Limit opts) (lo_Offset opts) rows)"
    and "\<And>xs. conv (map Some xs) = map g xs"
  shows "page_of listf conv srt None r = page_response n (map g rows) r"
proof -
  have "0 < pg_PageSize (ParsePagination r)" using ParsePagination_bounds(3) [of r] by simp
  then show ?thesis
    by (cases "Offset (ParsePagination r) < 0")
      (simp_all add: page_of_def page_response_def db_read_def Let_def assms limit_offset_def
        writeRepoError_def take_map drop_map)
qed


named_theorems dto_lists "a list of rows as a list of DTOs"

lemma dto_list_conversions [dto_lists]:
  "FromAccountBlocks (map Some xs0) = map (\<lambda>x. the (FromAccountBlock (Some x))) xs0"
  "FromBalances (map Some xs1) = map (\<lambda>x. the (FromBalance (Some x))) xs1"
  "FromWrapTokenRequests (map Some xs2) = map (\<lambda>x. the (FromWrapTokenRequest (Some x))) xs2"
  "FromUnwrapTokenRequests (map Some xs3) = map (\<lambda>x. the (FromUnwrapTokenRequest (Some x))) xs3"
  "FromFusions (map Some xs4) = map (\<lambda>x. the (FromFusion (Some x))) xs4"
  "FromMomentums (map Some xs5) = map (\<lambda>x. the (FromMomentum (Some x))) xs5"
  "FromPillars (map Some xs6) = map (\<lambda>x. the (FromPillar (Some x))) xs6"
  "FromProjects (map Some xs7) = map (\<lambda>x. the (FromProject (Some x))) xs7"
  "FromRewardTransactions (map Some xs8) = map (\<lambda>x. the (FromRewardTransaction (Some x))) xs8"
  "FromSentinels (map Some xs9) = map (\<lambda>x. the (FromSentinel (Some x))) xs9"
  "FromStakes (map Some xs10) = map (\<lambda>x. the (FromStake (Some x))) xs10"
  "FromTokens (map Some xs11) = map (\<lambda>x. the (FromToken (Some x))) xs11"
  "FromVotes (map Some xs12) = map (\<lambda>x. the (FromVote (Some x))) xs12"
  by (simp_all add: FromAccountBlocks_def FromBalances_def FromWrapTokenRequests_def FromUnwrapTokenRequests_def FromFusions_def FromMomentums_def FromPillars_def FromProjects_def FromRewardTransactions_def FromSentinels_def FromStakes_def FromTokens_def FromVotes_def
    FromAccountBlock_def FromBalance_def FromWrapTokenRequest_def FromUnwrapTokenRequest_def FromFusion_def FromMomentum_def FromPillar_def FromProject_def FromRewardTransaction_def FromSentinel_def FromStake_def FromToken_def FromVote_def map_filter_the)

lemma delegator_conversion [dto_lists]:
  "FromPillarDelegators (map Some xs) = map (\<lambda>x. \<lparr> dpd_Address = pd_Address x,
     dpd_DelegationStartTimestamp = pd_DelegationStartTimestamp x \<rparr>) xs"
  by (simp add: FromPillarDelegators_def map_filter_Some)

lemmas repo_listing_defs = Token_List_def Balance_ListByToken_def Pillar_List_def Pillar_ListDelegators_def
  Sentinel_List_def Stake_List_def Stake_ListByAddress_def Fusion_List_def Fusion_ListByAddress_def
  Reward_HistoryByAddress_def Project_List_def Vote_ListByProject_def ListWraps_def ListUnwraps_def
  ListWrapsByAddress_def ListUnwrapsByAddress_def

named_theorems handler_pages "the handler of a listing as the page of its rows"

lemmas param_defs = with_param_def with_address_def with_token_def with_name_def with_id_def

lemma TokensList_page [handler_pages]:
  "TokensList None r d = page_response (int (length (token_rows () [] d)))
     (map (\<lambda>x. the (FromToken (Some x))) (token_rows () [] d)) r"
  unfolding TokensList_def
  by (rule page_of_paged) (simp_all add: Token_List_def dto_lists)

lemma TokensHolders_page [handler_pages]:
  "rq_URLParam r ''token_standard'' \<noteq> [] \<Longrightarrow>
   TokensHolders None r d = page_response (int (length (holder_rows (rq_URLParam r ''token_standard'') [] d)))
     (map (\<lambda>x. the (FromBalance (Some x))) (holder_rows (rq_URLParam r ''token_standard'') [] d)) r"
  unfolding TokensHolders_def
  by (simp add: param_defs, rule page_of_paged) (simp_all add: Balance_ListByToken_def dto_lists)

lemma PillarsList_page [handler_pages]:
  "PillarsList None r d = page_response (int (length (pillar_rows (boolQuery r ''include_revoked'' False) [] d)))
     (map (\<lambda>x. the (FromPillar (Some x))) (pillar_rows (boolQuery r ''include_revoked'' False) [] d)) r"
  unfolding PillarsList_def
  by (rule page_of_paged) (simp_all add: Pillar_List_def dto_lists)

lemma SentinelsList_page [handler_pages]:
  "SentinelsList None r d = page_response (int (length (sentinel_rows (only_active r) [] d)))
     (map (\<lambda>x. the (FromSentinel (Some x))) (sentinel_rows (only_active r) [] d)) r"
  unfolding SentinelsList_def only_active_def
  by (rule page_of_paged) (simp_all add: Sentinel_List_def dto_lists)

lemma StakesList_page [handler_pages]:
  "StakesList None r d = page_response (int (length (stake_rows (only_active r) [] d)))
     (map (\<lambda>x. the (FromStake (Some x))) (stake_rows (only_active r) [] d)) r"
  unfolding StakesList_def only_active_def
  by (rule page_of_paged) (simp_all add: Stake_List_def dto_lists)

lemma StakesByAddress_page [handler_pages]:
  "rq_URLParam r ''address'' \<noteq> [] \<Longrightarrow>
   StakesByAddress None r d = page_response (int (length (stake_address_rows (rq_URLParam r ''address'', only_active r) [] d)))
     (map (\<lambda>x. the (FromStake (Some x))) (stake_address_rows (rq_URLParam r ''address'', only_active r) [] d)) r"
  unfolding StakesByAddress_def only_active_def
  by (simp add: param_defs, rule page_of_paged) (simp_all add: Stake_ListByAddress_def dto_lists)

lemma FusionsList_page [handler_pages]:
  "FusionsList None r d = page_response (int (length (fusion_rows (only_active r) [] d)))
     (map (\<lambda>x. the (FromFusion (Some x))) (fusion_rows (only_active r) [] d)) r"
  unfolding FusionsList_def only_active_def
  by (rule page_of_paged) (simp_all add: Fusion_List_def dto_lists)

lemma FusionsByAddress_page [handler_pages]:
  "rq_URLParam r ''address'' \<noteq> [] \<Longrightarrow>
   FusionsByAddress None r d = page_response (int (length (fusion_address_rows (rq_URLParam r ''address'', only_active r) [] d)))
     (map (\<lambda>x. the (FromFusion (Some x))) (fusion_address_rows (rq_URLParam r ''address'', only_active r) [] d)) r"
  unfolding FusionsByAddress_def only_active_def
  by (simp add: param_defs, rule page_of_paged) (simp_all add: Fusion_ListByAddress_def dto_lists)

lemma RewardsHistory_page [handler_pages]:
  "rq_URLParam r ''address'' \<noteq> [] \<Longrightarrow>
   RewardsHistory None r d = page_response (int (length (reward_rows (rq_URLParam r ''address'') [] d)))
     (map (\<lambda>x. the (FromRewardTransaction (Some x))) (reward_rows (rq_URLParam r ''address'') [] d)) r"
  unfolding RewardsHistory_def
  by (simp add: param_defs, rule page_of_paged) (simp_all add: Reward_HistoryByAddress_def dto_lists)

lemma ProjectsList_page [handler_pages]:
  "ProjectsList None r d = page_response (int (length (project_rows () [] d)))
     (map (\<lambda>x. the (FromProject (Some x))) (project_rows () [] d)) r"
  unfolding ProjectsList_def
  by (rule page_of_paged) (simp_all add: Project_List_def dto_lists)

lemma ProjectsVotes_page [handler_pages]:
  "rq_URLParam r ''id'' \<noteq> [] \<Longrightarrow>
   ProjectsVotes None r d = page_response (int (length (vote_rows (rq_URLParam r ''id'') [] d)))
     (map (\<lambda>x. the (FromVote (Some x))) (vote_rows (rq_URLParam r ''id'') [] d)) r"
  unfolding ProjectsVotes_def
  by (simp add: param_defs, rule page_of_paged) (simp_all add: Vote_ListByProject_def dto_lists)

lemma BridgeWraps_page [handler_pages]:
  "BridgeWraps None r d = page_response (int (length (wrap_rows () [] d)))
     (map (\<lambda>x. the (FromWrapTokenRequest (Some x))) (wrap_rows () [] d)) r"
  unfolding BridgeWraps_def
  by (rule page_of_paged) (simp_all add: ListWraps_def dto_lists)

lemma BridgeUnwraps_page [handler_pages]:
  "BridgeUnwraps None r d = page_response (int (length (unwrap_rows () [] d)))
     (map (\<lambda>x. the (FromUnwrapTokenRequest (Some x))) (unwrap_rows () [] d)) r"
  unfolding BridgeUnwraps_def
  by (rule page_of_paged) (simp_all add: ListUnwraps_def dto_lists)

lemma BridgeWrapsByAddress_page [handler_pages]:
  "rq_URLParam r ''address'' \<noteq> [] \<Longrightarrow>
   BridgeWrapsByAddress None r d = page_response (int (length (wrap_address_rows (rq_URLParam r ''address'') [] d)))
     (map (\<lambda>x. the (FromWrapTokenRequest (Some x))) (wrap_address_rows (rq_URLParam r ''address'') [] d)) r"
  unfolding BridgeWrapsByAddress_def
  by (simp add: param_defs, rule page_of_paged) (simp_all add: ListWrapsByAddress_def dto_lists)

lemma BridgeUnwrapsByAddress_page [handler_pages]:
  "rq_URLParam r ''address'' \<noteq> [] \<Longrightarrow>
   BridgeUnwrapsByAddress None r d = page_response (int (length (unwrap_address_rows (rq_URLParam r ''address'') [] d)))
     (map (\<lambda>x. the (FromUnwrapTokenRequest (Some x))) (unwrap_address_rows (rq_URLParam r ''address'') [] d)) r"
  unfolding BridgeUnwrapsByAddress_def
  by (simp add: param_defs, rule page_of_paged) (simp_all add: ListUnwrapsByAddress_def dto_lists)

lemma MomentumsList_page [handler_pages]:
  "MomentumsList None r d = page_response (case max_of mo_Height (momentums d) of None \<Rightarrow> 0 | Some h \<Rightarrow> h)
     (map (\<lambda>x. the (FromMomentum (Some x)))
       (order_by (orderClause (ParseSort r ''desc'')) mo_Height (momentums d))) r"
  unfolding MomentumsList_def by (rule page_of_window) (simp_all add: Momentum_List_def dto_lists)

lemma AccountBlocksList_page [handler_pages]:
  "AccountBlocksList reltuples None r d = page_response (max reltuples 0)
     (map (\<lambda>x. the (FromAccountBlock (Some x)))
       (order_by (orderClause (ParseSort r ''desc'')) ab_MomentumHeight (account_blocks d))) r"
  unfolding AccountBlocksList_def by (rule page_of_window) (simp_all add: AccountBlock_List_def dto_lists)

lemma AccountBlocksByAddress_page [handler_pages]:
  "rq_URLParam r ''address'' \<noteq> [] \<Longrightarrow>
   AccountBlocksByAddress None r d = page_response
     (case find_by ac_Address (rq_URLParam r ''address'') (accounts d) of None \<Rightarrow> 0 | Some a \<Rightarrow> ac_TxCount a)
     (map (\<lambda>x. the (FromAccountBlock (Some x))) (order_by (orderClause (ParseSort r ''desc'')) ab_MomentumHeight
       (filter (involves (rq_URLParam r ''address'')) (account_blocks d)))) r"
  unfolding AccountBlocksByAddress_def
  by (simp add: param_defs, rule page_of_window) (simp_all add: AccountBlock_ListByAddress_def dto_lists)

lemma PillarsDelegators_page [handler_pages]:
  "rq_URLParam r ''name'' \<noteq> [] \<Longrightarrow> Pillar_GetByName (rq_URLParam r ''name'') d = Inr p \<Longrightarrow> pl_OwnerAddress p \<noteq> [] \<Longrightarrow>
   PillarsDelegators None None r d = page_response (int (length (delegator_rows (pl_OwnerAddress p) [] d)))
     (map (\<lambda>x. \<lparr> dpd_Address = pd_Address x, dpd_DelegationStartTimestamp = pd_DelegationStartTimestamp x \<rparr>)
       (delegator_rows (pl_OwnerAddress p) [] d)) r"
  unfolding PillarsDelegators_def
  by (simp add: param_defs db_read_def, rule page_of_paged) (simp_all add: Pillar_ListDelegators_def dto_lists)



definition ex_env :: env where
  "ex_env = \<lparr> en_fault1 = None, en_fault2 = None, en_reltuples = 0, en_now = 0, en_version = ''1'' \<rparr>"

definition ex_request :: request where
  "ex_request = \<lparr> rq_Query = (\<lambda>_. []), rq_Header = (\<lambda>_. []), rq_URLParam = (\<lambda>_. []) \<rparr>"


subsection \<open>Walking the pages\<close>


lemma with_page_other [simp]:
  "ParseSort (with_page p n r) srt = ParseSort r srt"
  "boolQuery (with_page p n r) ''include_revoked'' b = boolQuery r ''include_revoked'' b"
  "only_active (with_page p n r) = only_active r"
  "rq_URLParam (with_page p n r) = rq_URLParam r"
  by (simp_all add: with_page_def ParseSort_def boolQuery_def only_active_def)

lemma listing_items_with_page [simp]: "listing_items e (with_page p n r) d = listing_items e r d"
  by (cases e) (simp_all add: listing_items_def param_def split: sum.split)

lemma FormatInt_not_Nil [simp]: "FormatInt v \<noteq> []"
  using SetString10_FormatInt [of v] by (auto simp: SetString10_def)



definition ex_sentinel :: "string \<Rightarrow> int \<Rightarrow> Sentinel" where
  "ex_sentinel owner t = \<lparr> se_Owner = owner, se_RegistrationTimestamp = t, se_IsRevocable = False,
     se_RevokeCooldown = ''0'', se_Active = True \<rparr>"

definition ex_rest_db :: db where
  "ex_rest_db = empty_db\<lparr> sentinels := [ex_sentinel ''a'' 1, ex_sentinel ''b'' 2, ex_sentinel ''c'' 3] \<rparr>"


subsection \<open>Only with a token\<close>

lemma status_map_response [simp]: "response_status (map_response f x) = response_status x"
  by (cases x) auto

definition query_status :: "int \<Rightarrow> bool" where
  "query_status s \<longleftrightarrow> s = 200 \<or> s = 404 \<or> s = 500"

definition handler_status :: "int \<Rightarrow> bool" where
  "handler_status s \<longleftrightarrow> s = 400 \<or> query_status s"

lemma query_status_parts:
  "query_status (response_status (page_of listf conv srt fault r))"
  "query_status (response_status (one_of res conv1 fault))"
  "query_status (response_status (data_of res2 conv fault))"
  "query_status (response_status (writeRepoError err))"
  "query_status 200"
  by (auto simp: query_status_def page_of_def one_of_def data_of_def writeRepoError_def Let_def split: sum.split)

lemma query_status_case:
  "(\<And>x. query_status (response_status (f x))) \<Longrightarrow> (\<And>y. query_status (response_status (g y))) \<Longrightarrow>
   query_status (response_status (case s of Inl x \<Rightarrow> f x | Inr y \<Rightarrow> g y))"
  by (cases s) auto

lemma handler_status_parts:
  "query_status s \<Longrightarrow> handler_status s" "handler_status 400"
  "(\<And>v. query_status (response_status (body v))) \<Longrightarrow> handler_status (response_status (with_param name code detail r body))"
  by (auto simp: handler_status_def with_param_def Let_def)

lemmas handler_defs = Status_def MomentumsList_def MomentumsLatest_def MomentumsGetByHeight_def AccountBlocksList_def
  AccountBlocksGet_def AccountBlocksByAddress_def AccountsGet_def AccountsBalances_def TokensList_def TokensGet_def
  TokensHolders_def PillarsList_def PillarsGetByName_def PillarsDelegators_def PillarsVotingHistory_def
  SentinelsList_def StakesList_def StakesByAddress_def FusionsList_def FusionsByAddress_def RewardsCumulative_def
  RewardsHistory_def ProjectsList_def ProjectsGet_def ProjectsPhases_def ProjectsVotes_def ProjectsVotingReport_def
  BridgeWraps_def BridgeUnwraps_def BridgeWrapsByAddress_def BridgeUnwrapsByAddress_def

lemma serve_status: "handler_status (response_status (serve en e r d))"
  by (cases e) (auto simp: serve_def handler_defs Let_def with_address_def with_token_def with_name_def with_id_def
      intro!: handler_status_parts(2-3) query_status_parts query_status_case intro: handler_status_parts(1) split: sum.split option.split)

text \<open>
  C26. Nothing is served without a verified token: a request to the authenticated routes is
  answered with 401, independently of the database, unless its \<open>Authorization\<close> header is a bearer
  header whose token the signer accepts; then it is answered by the route's handler or, over the
  limit of its subject, with 429. Every answer has one of seven statuses.
\<close>

theorem api_guarded:
  "(\<exists>code detail. \<forall>d. api_v1 lib perMinute en e r d = WriteProblem 401 code detail) \<or>
   (\<exists>tok subject.
      has_bearer (rq_Header r ''Authorization'') \<and>
      tok = li_TrimSpace lib (drop 7 (rq_Header r ''Authorization'')) \<and> tok \<noteq> [] \<and>
      li_parse lib tok = Inr subject \<and>
      (if 0 < perMinute \<and> \<not> li_allow lib (keyBySubjectThenIP (li_KeyByIP lib) subject r)
       then (\<forall>d. api_v1 lib perMinute en e r d = rateLimited)
       else (\<forall>d. api_v1 lib perMinute en e r d = serve en e r d \<and>
              response_status (serve en e r d) \<in> {200, 400, 404, 500})))"
proof (cases "bearerToken (li_TrimSpace lib) r")
  case (Inl code)
  then show ?thesis by (auto simp: api_v1_def Auth_def)
next
  case (Inr tok)
  have "length bearer_prefix = 7" by (simp add: bearer_prefix_def)
  with Inr have tok: "has_bearer (rq_Header r ''Authorization'')"
    "tok = li_TrimSpace lib (drop 7 (rq_Header r ''Authorization''))"
    by (auto simp: bearerToken_def Let_def split: if_splits)
  show ?thesis
  proof (cases "Verify (li_parse lib) tok")
    case (Inl err)
    then show ?thesis using Inr by (cases err) (auto simp: api_v1_def Auth_def)
  next
    case (Inr subject)
    then have "tok \<noteq> []" "li_parse lib tok = Inr subject" by (auto simp: Verify_def split: if_splits)
    moreover have "api_v1 lib perMinute en e r d =
        (if 0 < perMinute \<and> \<not> li_allow lib (keyBySubjectThenIP (li_KeyByIP lib) subject r)
         then rateLimited else serve en e r d)" for d
      using \<open>bearerToken (li_TrimSpace lib) r = Inr tok\<close> Inr by (simp add: api_v1_def Auth_def RateLimit_def)
    moreover have "response_status (serve en e r d) \<in> {200, 400, 404, 500}" for d
      using serve_status [of en e r d] by (auto simp: handler_status_def query_status_def)
    ultimately show ?thesis using tok by auto
  qed
qed

definition ex_libs :: libs where
  "ex_libs = \<lparr> li_TrimSpace = (\<lambda>s. s), li_parse = (\<lambda>t. if t = ''good'' then Inr ''alice'' else Inl ErrTokenOther),
     li_KeyByIP = (\<lambda>_. ''ip''), li_allow = (\<lambda>k. k = ''sub:alice'') \<rparr>"

theorem api_guarded_witness:
  "api_v1 ex_libs 60 ex_env ESentinels (ex_request\<lparr> rq_Header := (\<lambda>_. ''bearer good'') \<rparr>) ex_rest_db =
   serve ex_env ESentinels (ex_request\<lparr> rq_Header := (\<lambda>_. ''bearer good'') \<rparr>) ex_rest_db"
proof -
  let ?r = "ex_request\<lparr> rq_Header := (\<lambda>_. ''bearer good'') \<rparr>"
  have "response_status (api_v1 ex_libs 60 ex_env ESentinels ?r ex_rest_db) = 200" by code_simp
  moreover have "response_status (rateLimited :: body response) = 429" by (simp add: rateLimited_def)
  ultimately show ?thesis
    using api_guarded [of ex_libs 60 ex_env ESentinels ?r] by (auto split: if_splits)
qed

subsection \<open>Voting reports\<close>

text \<open>The tallies hold exactly the votes read so far.\<close>

definition tally_of :: "db \<Rightarrow> Vote list \<Rightarrow> string \<Rightarrow> (string \<times> int) list \<Rightarrow> bool" where
  "tally_of d vs vid m \<longleftrightarrow>
     (\<forall>name c. map_of m name = Some c \<longrightarrow>
        (\<exists>v \<in> set vs. vo_VotingID v = vid \<and> voter_name v d = Some name \<and> vo_Vote v = c)) \<and>
     (\<forall>v \<in> set vs. \<forall>name. vo_VotingID v = vid \<and> voter_name v d = Some name \<longrightarrow> map_of m name \<noteq> None)"

definition tallies_of :: "db \<Rightarrow> string list \<Rightarrow> Vote list \<Rightarrow> (string \<times> (string \<times> int) list) list \<Rightarrow> bool" where
  "tallies_of d ids vs out \<longleftrightarrow> (\<forall>vid \<in> set ids. \<exists>m. map_of out vid = Some m \<and> tally_of d vs vid m)"

lemma tallies_of_init: "tallies_of d ids [] (fold (\<lambda>vid. alist_set vid []) ids [])"
proof -
  have "map_of (fold (\<lambda>vid. alist_set vid []) ids out) vid =
      (if vid \<in> set ids then Some [] else map_of out vid)" for vid and out :: "(string \<times> (string \<times> int) list) list"
    by (induction ids arbitrary: out) auto
  then show ?thesis by (simp add: tallies_of_def tally_of_def)
qed

lemma tallies_of_step:
  assumes "tallies_of d ids vs out"
  shows "tallies_of d ids (vs @ [v]) (vote_step d v out)"
  unfolding tallies_of_def
proof
  fix vid assume vid: "vid \<in> set ids"
  then obtain m where m: "map_of out vid = Some m" "tally_of d vs vid m" using assms by (auto simp: tallies_of_def)
  show "\<exists>m. map_of (vote_step d v out) vid = Some m \<and> tally_of d (vs @ [v]) vid m"
  proof (cases "vo_VotingID v = vid \<and> voter_name v d \<noteq> None")
    case True
    then obtain name where name: "voter_name v d = Some name" by auto
    have "map_of (vote_step d v out) vid = Some (alist_set name (vo_Vote v) m)"
      using True m(1) name by (auto simp: vote_step_def put_vote_def)
    moreover have "tally_of d (vs @ [v]) vid (alist_set name (vo_Vote v) m)"
      using m(2) True name unfolding tally_of_def by auto
    ultimately show ?thesis by blast
  next
    case False
    then have "map_of (vote_step d v out) vid = Some m"
      using m(1) by (auto simp: vote_step_def put_vote_def split: option.splits)
    moreover have "tally_of d (vs @ [v]) vid m" using m(2) False unfolding tally_of_def by auto
    ultimately show ?thesis by blast
  qed
qed

lemma tallies_of_loaded:
  "tallies_of d ids (filter (\<lambda>v. vo_VotingID v \<in> set ids) (votes d)) (loadVotesByVotingID ids d)"
proof -
  have "tallies_of d ids vs out \<Longrightarrow> tallies_of d ids (vs @ ws) (fold (vote_step d) ws out)" for vs ws out
  proof (induction ws arbitrary: vs out)
    case (Cons w ws)
    from Cons.IH [OF tallies_of_step [OF Cons.prems]] show ?case by simp
  qed simp
  from this [OF tallies_of_init] show ?thesis by (simp add: loadVotesByVotingID_def)
qed

definition all_pillars :: "ProposalVoteTally \<Rightarrow> string list" where
  "all_pillars t = dpt_YesPillars t @ dpt_NoPillars t @ dpt_AbstainPillars t @ dpt_NoVotePillars t"

definition total_count :: "ProposalVoteTally \<Rightarrow> int" where
  "total_count t = dpt_YesCount t + dpt_NoCount t + dpt_AbstainCount t + dpt_NoVoteCount t"

lemma voted_filter: "distinct (map fst m) \<Longrightarrow> distinct (voted c m)"
  unfolding voted_def by (induction m) auto

lemma set_voted: "distinct (map fst m) \<Longrightarrow> set (voted c m) = {name. map_of m name = Some c}"
  by (auto simp: voted_def image_iff map_of_eq_Some_iff)

lemma tally_partition:
  assumes "tally_ok d m" "distinct (loadActivePillarNames d)" "\<forall>c \<in> snd ` set m. c \<in> {0, 1, 2}"
    and t: "t = FromProposalTally (SetNoVote (loadActivePillarNames d)
        \<lparr> pt_VotingID = vid, pt_ByPillar = m, pt_NoVotePillars = [] \<rparr>)"
  shows "distinct (all_pillars t)" "set (all_pillars t) = set (loadActivePillarNames d)"
    "total_count t = int (length (loadActivePillarNames d))"
proof -
  let ?names = "loadActivePillarNames d"
  have m: "distinct (map fst m)" "fst ` set m \<subseteq> set ?names" using assms(1) by (simp_all add: tally_ok_def)
  have lists: "dpt_YesPillars t = sort (voted 0 m)" "dpt_NoPillars t = sort (voted 1 m)"
    "dpt_AbstainPillars t = sort (voted 2 m)" "dpt_NoVotePillars t = sort (filter (\<lambda>n. map_of m n = None) ?names)"
    by (simp_all add: t FromProposalTally_def SetNoVote_def)
  show d: "distinct (all_pillars t)"
    using m(1) assms(2) by (auto simp: all_pillars_def lists voted_filter set_voted dest: eq_key_imp_eq_value [OF m(1)])
  have "{name. map_of m name \<noteq> None} \<subseteq> set ?names" using m(2) by (auto simp: map_of_eq_None_iff)
  moreover have "map_of m name \<in> {None, Some 0, Some 1, Some 2}" for name
    using assms(3) map_of_SomeD [of m name] by (cases "map_of m name") force+
  ultimately show s: "set (all_pillars t) = set ?names"
    using m(1) by (auto simp: all_pillars_def lists set_voted)
  have "total_count t = int (length (all_pillars t))"
    by (simp add: total_count_def all_pillars_def t FromProposalTally_def Let_def)
  also have "length (all_pillars t) = length ?names" using d s assms(2) by (metis distinct_card)
  finally show "total_count t = int (length ?names)" .
qed

text \<open>What a tally says about a pillar is true of the stored votes.\<close>

definition tally_true :: "db \<Rightarrow> ProposalVoteTally \<Rightarrow> bool" where
  "tally_true d t \<longleftrightarrow>
     (\<forall>name. \<forall>(code, names) \<in> {(0, dpt_YesPillars t), (1, dpt_NoPillars t), (2, dpt_AbstainPillars t)}.
        name \<in> set names \<longrightarrow>
        (\<exists>v \<in> set (votes d). vo_VotingID v = dpt_VotingID t \<and> voter_name v d = Some name \<and> vo_Vote v = code)) \<and>
     (\<forall>name \<in> set (dpt_NoVotePillars t).
        \<forall>v \<in> set (votes d). vo_VotingID v = dpt_VotingID t \<longrightarrow> voter_name v d \<noteq> Some name)"

lemma tally_is_true:
  assumes "tally_ok d m" "tally_of d (filter (\<lambda>v. vo_VotingID v \<in> set ids) (votes d)) vid m" "vid \<in> set ids"
    and t: "t = FromProposalTally (SetNoVote names \<lparr> pt_VotingID = vid, pt_ByPillar = m, pt_NoVotePillars = [] \<rparr>)"
  shows "tally_true d t"
proof -
  have m: "distinct (map fst m)" using assms(1) by (simp add: tally_ok_def)
  have lists: "dpt_YesPillars t = sort (voted 0 m)" "dpt_NoPillars t = sort (voted 1 m)" "dpt_VotingID t = vid"
    "dpt_AbstainPillars t = sort (voted 2 m)" "dpt_NoVotePillars t = sort (filter (\<lambda>n. map_of m n = None) names)"
    by (simp_all add: t FromProposalTally_def SetNoVote_def)
  have "\<exists>v \<in> set (votes d). vo_VotingID v = vid \<and> voter_name v d = Some name \<and> vo_Vote v = code"
    if "map_of m name = Some code" for name code
    using assms(2) that unfolding tally_of_def by fastforce
  moreover have "voter_name v d \<noteq> Some name"
    if "map_of m name = None" "v \<in> set (votes d)" "vo_VotingID v = vid" for name v
    using assms(2,3) that unfolding tally_of_def by auto
  ultimately show ?thesis unfolding tally_true_def lists by (auto simp: set_voted [OF m])
qed

lemma report_tallies:
  assumes "ProjectVotingReport projectID d = Inr row"
  shows "pr_ActivePillarCount row = int (length (loadActivePillarNames d)) \<and>
    (\<exists>ids. \<forall>tr \<in> set (pr_Project row # map ph_Tally (pr_Phases row)).
       \<exists>i \<in> set ids. tr = tally_for (loadActivePillarNames d) (loadVotesByVotingID ids d) i)"
proof -
  obtain name vid where "loadProjectIdentity projectID d = Inr (name, vid)"
    using assms by (auto simp: ProjectVotingReport_def split: if_splits sum.splits)
  with assms show ?thesis
    by (intro conjI exI [of _ "vid # map pm_votingID (loadPhaseMetas projectID d)"])
      (auto simp: ProjectVotingReport_def Let_def split: if_splits, blast)
qed

text \<open>
  C29. The voting report of a project is a partition of the active pillars, for the project and for
  every phase: when names are unique and votes are 0, 1 or 2, each active pillar is in exactly one
  of the groups yes, no, abstain and no vote, and the four counts add up to the number of active
  pillars; a pillar is listed under a vote only if a stored vote of that proposal resolves to it, and
  under no vote only if none does.
\<close>

theorem voting_report_partitions:
  assumes "ProjectsVotingReport None r d = JSON 200 rep"
    and "distinct (loadActivePillarNames d)" "list_all (\<lambda>v. vo_Vote v \<in> {0, 1, 2}) (votes d)"
    and "t \<in> set (dpr_Project rep # map dph_Vote (dpr_Phases rep))"
  shows "distinct (all_pillars t) \<and> set (all_pillars t) = set (loadActivePillarNames d) \<and>
    total_count t = dpr_ActivePillarCount rep \<and> tally_true d t"
proof -
  obtain row where row: "ProjectVotingReport (rq_URLParam r ''id'') d = Inr row" "rep = projectVotingReportToDTO row"
    using assms(1) by (auto simp: ProjectsVotingReport_def with_id_def with_param_def db_read_def Let_def
        WriteProblem_def WriteJSON_def writeRepoError_def split: if_splits sum.splits)
  obtain ids where ids: "pr_ActivePillarCount row = int (length (loadActivePillarNames d))"
    "\<forall>tr \<in> set (pr_Project row # map ph_Tally (pr_Phases row)).
       \<exists>i \<in> set ids. tr = tally_for (loadActivePillarNames d) (loadVotesByVotingID ids d) i"
    using report_tallies [OF row(1)] by blast
  obtain i where i: "i \<in> set ids" "t = FromProposalTally (tally_for (loadActivePillarNames d) (loadVotesByVotingID ids d) i)"
    using assms(4) ids(2) by (auto simp: row(2) projectVotingReportToDTO_def FromPhaseTally_def)
  obtain m where m: "map_of (loadVotesByVotingID ids d) i = Some m"
    "tally_of d (filter (\<lambda>v. vo_VotingID v \<in> set ids) (votes d)) i m"
    using tallies_of_loaded [of d ids] i(1) by (auto simp: tallies_of_def)
  have ok: "tally_ok d m" using loadVotes_ok [of d ids] m(1) by (auto simp: tallies_ok_def)
  have t: "t = FromProposalTally (SetNoVote (loadActivePillarNames d)
      \<lparr> pt_VotingID = i, pt_ByPillar = m, pt_NoVotePillars = [] \<rparr>)" using i(2) m(1) by (simp add: tally_for_def)
  have "\<forall>c \<in> snd ` set m. c \<in> {0, 1, 2}"
  proof
    fix c assume "c \<in> snd ` set m"
    then obtain name where "(name, c) \<in> set m" by auto
    then have "map_of m name = Some c" using ok by (simp add: tally_ok_def map_of_eq_Some_iff)
    then obtain v where "v \<in> set (votes d)" "vo_Vote v = c" using m(2) unfolding tally_of_def by fastforce
    then show "c \<in> {0, 1, 2}" using assms(3) by (auto simp: list_all_iff)
  qed
  note part = tally_partition [OF ok assms(2) this t]
  show ?thesis
    using part tally_is_true [OF ok m(2) i(1) t] by (simp add: row(2) ids(1) projectVotingReportToDTO_def)
qed

definition ex_pillar :: "string \<Rightarrow> address \<Rightarrow> Pillar" where
  "ex_pillar name owner = \<lparr> pl_OwnerAddress = owner, pl_ProducerAddress = [], pl_WithdrawAddress = [], pl_Name = name,
     pl_Rank = 0, pl_GiveMomentumRewardPercentage = 0, pl_GiveDelegateRewardPercentage = 0, pl_IsRevocable = False,
     pl_RevokeCooldown = 0, pl_RevokeTimestamp = 0, pl_Weight = 0, pl_EpochProducedMomentums = 0,
     pl_EpochExpectedMomentums = 0, pl_SlotCostQsr = 0, pl_SpawnTimestamp = 0, pl_VotingActivity = (0, 1),
     pl_ProducedMomentumCount = 0, pl_IsRevoked = False \<rparr>"

definition ex_vote :: "address \<Rightarrow> int \<Rightarrow> Vote" where
  "ex_vote voter code = \<lparr> vo_MomentumHash = [], vo_MomentumTimestamp = 0, vo_MomentumHeight = 1,
     vo_VoterAddress = voter, vo_ProjectID = ''p'', vo_PhaseID = [], vo_VotingID = ''v'', vo_Vote = code \<rparr>"

definition ex_report_db :: db where
  "ex_report_db = empty_db\<lparr> pillars := [ex_pillar ''A'' ''a'', ex_pillar ''B'' ''b''], votes := [ex_vote ''a'' 0],
     projects := [\<lparr> pj_ID = ''p'', pj_VotingID = ''v'', pj_Owner = [], pj_Name = ''P'', pj_Description = [],
       pj_URL = [], pj_ZnnFundsNeeded = 0, pj_QsrFundsNeeded = 0, pj_CreationTimestamp = 0,
       pj_LastUpdateTimestamp = 0, pj_Status = 0, pj_YesVotes = 0, pj_NoVotes = 0, pj_TotalVotes = 0 \<rparr>] \<rparr>"

theorem voting_report_partitions_witness:
  "\<exists>rep. ProjectsVotingReport None (ex_request\<lparr> rq_URLParam := (\<lambda>_. ''p'') \<rparr>) ex_report_db = JSON 200 rep \<and>
     total_count (dpr_Project rep) = dpr_ActivePillarCount rep \<and> dpt_YesPillars (dpr_Project rep) = [''A'']"
proof -
  obtain rep where rep: "ProjectsVotingReport None (ex_request\<lparr> rq_URLParam := (\<lambda>_. ''p'') \<rparr>) ex_report_db = JSON 200 rep"
    "dpt_YesPillars (dpr_Project rep) = [''A'']"
  proof -
    have "(case ProjectsVotingReport None (ex_request\<lparr> rq_URLParam := (\<lambda>_. ''p'') \<rparr>) ex_report_db of
        JSON s rep \<Rightarrow> s = 200 \<and> dpt_YesPillars (dpr_Project rep) = [''A''] | _ \<Rightarrow> False)" by code_simp
    then show ?thesis using that by (auto split: response.splits)
  qed
  have "distinct (loadActivePillarNames ex_report_db)" "list_all (\<lambda>v. vo_Vote v \<in> {0, 1, 2}) (votes ex_report_db)"
    by code_simp+
  then have "total_count (dpr_Project rep) = dpr_ActivePillarCount rep"
    using voting_report_partitions [OF rep(1)] by simp
  with rep show ?thesis by blast
qed

end
