(* ===== verification/Stream_Open.thy ===== *)
theory Stream_Open
  imports Streams Router
begin

text \<open>
  The first steps of the two stream handlers: token, query, subscription. Only then is the
  connection upgraded, so a refusal is a plain HTTP problem and no refused client holds a slot.
\<close>

definition stream_subject :: "libs \<Rightarrow> request \<Rightarrow> problem + string" where
  "stream_subject lib r =
     (case streamToken (li_TrimSpace lib) r of
        Inl code \<Rightarrow> Inl (Problem 401 code ''missing JWT (Authorization header or ?token= query)'')
      | Inr tok \<Rightarrow>
          (case Verify (li_parse lib) tok of
             Inl err \<Rightarrow> Inl (Problem 401 ''invalid_token'' ''invalid token'')
           | Inr subject \<Rightarrow> Inr subject))"

definition open_momentums :: "libs \<Rightarrow> request \<Rightarrow> 'a Hub \<Rightarrow> problem + string \<times> int" where
  "open_momentums lib r h =
     (case stream_subject lib r of
        Inl p \<Rightarrow> Inl p
      | Inr subject \<Rightarrow>
          (case open_stream ''momentum'' momentum_from_height (rq_Query r ''from_height'') subject h of
             Inl p \<Rightarrow> Inl p
           | Inr fromHeight \<Rightarrow> Inr (subject, fromHeight)))"

definition open_transactions :: "libs \<Rightarrow> request \<Rightarrow> 'a Hub \<Rightarrow> problem + string \<times> int \<times> address" where
  "open_transactions lib r h =
     (case stream_subject lib r of
        Inl p \<Rightarrow> Inl p
      | Inr subject \<Rightarrow>
          (case open_stream ''transactions'' tx_from_height (rq_Query r ''from_height'') subject h of
             Inl p \<Rightarrow> Inl p
           | Inr fromHeight \<Rightarrow> Inr (subject, fromHeight, rq_Query r ''address'')))"

subsection \<open>What an opened stream has passed\<close>

lemma stream_subject_Inr:
  assumes "stream_subject lib r = Inr subject"
  shows "\<exists>tok. streamToken (li_TrimSpace lib) r = Inr tok \<and> tok \<noteq> [] \<and> li_parse lib tok = Inr subject"
  using assms by (auto simp: stream_subject_def Verify_def split: sum.splits if_splits)

lemma open_stream_Inr:
  assumes "open_stream name parse v subject h = Inr fromHeight"
  shows "parse v = Inr fromHeight" "Hub.Running h"
    "hb_perSubjectMax h \<le> 0 \<or> SubjectCount subject h < hb_perSubjectMax h"
  using assms
  by (auto simp: open_stream_def subscribe_check_def Running_def SubjectCount_def split: sum.splits option.splits if_splits)

lemma parse_nat_nonneg: "parse_nat s = Some n \<Longrightarrow> 0 \<le> n"
proof -
  have "parse_digits acc s = Some n \<Longrightarrow> 0 \<le> acc \<Longrightarrow> 0 \<le> n" for acc s
    by (induction s arbitrary: acc) (auto simp: digit_val_def Let_def split: option.splits if_splits)
  then show "parse_nat s = Some n \<Longrightarrow> 0 \<le> n"
    by (auto simp: parse_nat_def split: if_splits)
qed

lemma from_height_bounds:
  "momentum_from_height v = Inr n \<Longrightarrow> 0 \<le> n \<and> n < 2 ^ 64"
  "tx_from_height v = Inr n \<Longrightarrow> 0 \<le> n \<and> n < 2 ^ 63"
  by (auto simp: momentum_from_height_def tx_from_height_def ParseUint64_def ParseInt64_def fits_int64_def
      MaxInt64_def dest: parse_nat_nonneg split: if_splits option.splits)

lemma open_momentums_Inr:
  assumes "open_momentums lib r h = Inr (subject, fromHeight)"
  shows "\<exists>tok. streamToken (li_TrimSpace lib) r = Inr tok \<and> tok \<noteq> [] \<and> li_parse lib tok = Inr subject"
    "Hub.Running h" "0 \<le> fromHeight" "fromHeight < 2 ^ 64"
    "hb_perSubjectMax h \<le> 0 \<or> SubjectCount subject h < hb_perSubjectMax h"
proof -
  have o: "stream_subject lib r = Inr subject"
    "open_stream ''momentum'' momentum_from_height (rq_Query r ''from_height'') subject h = Inr fromHeight"
    using assms by (auto simp: open_momentums_def split: sum.splits)
  show "\<exists>tok. streamToken (li_TrimSpace lib) r = Inr tok \<and> tok \<noteq> [] \<and> li_parse lib tok = Inr subject"
    by (rule stream_subject_Inr [OF o(1)])
  show "0 \<le> fromHeight" "fromHeight < 2 ^ 64"
    using from_height_bounds(1) [OF open_stream_Inr(1) [OF o(2)]] by blast+
  show "Hub.Running h" "hb_perSubjectMax h \<le> 0 \<or> SubjectCount subject h < hb_perSubjectMax h"
    by (rule open_stream_Inr(2) [OF o(2)], rule open_stream_Inr(3) [OF o(2)])
qed

fun problem_status :: "problem \<Rightarrow> int" where
  "problem_status (Problem status code detail) = status"

lemma from_height_refusal:
  "momentum_from_height v = Inl p \<Longrightarrow> p = bad_from_height"
  "tx_from_height v = Inl p \<Longrightarrow> p = bad_from_height"
  by (auto simp: momentum_from_height_def tx_from_height_def split: if_splits option.splits)

lemma subject_refusal: "stream_subject lib r = Inl p \<Longrightarrow> problem_status p = 401"
  by (auto simp: stream_subject_def split: sum.splits)

lemma stream_refusal:
  assumes "open_stream name parse v subject h = Inl p" "\<And>p. parse v = Inl p \<Longrightarrow> p = bad_from_height"
  shows "problem_status p \<in> {400, 429, 503}"
  using assms
  by (auto simp: open_stream_def subscribe_problem_def bad_from_height_def
      split: sum.splits option.splits subscribe_error.splits)

lemma open_refusals:
  "open_momentums lib r h = Inl p \<Longrightarrow> problem_status p \<in> {400, 401, 429, 503}"
  "open_transactions lib r h = Inl p \<Longrightarrow> problem_status p \<in> {400, 401, 429, 503}"
  using subject_refusal stream_refusal from_height_refusal
  by (fastforce simp: open_momentums_def open_transactions_def split: sum.splits)+

end
