(* ===== verification/Mcp.thy ===== *)
theory Mcp
  imports Router
begin

text \<open>
  \<open>internal/mcp\<close>: the tools a language model calls, and the transport in front of them. A tool
  reads the same repositories through the same DTOs as the REST handlers. Its result is the value
  \<open>jsonResult\<close> marshals, or the repository's error. The protocol itself is the SDK's.
\<close>

subsection \<open>Parameters\<close>

record pageParams =
  pp_Page :: int
  pp_PageSize :: int

definition pagination :: "pageParams \<Rightarrow> Pagination" where
  "pagination p =
     (let page = (if pp_Page p < 1 then 1 else pp_Page p);
          size = (if pp_PageSize p < 1 then DefaultPageSize else pp_PageSize p);
          size' = (if MaxPageSize < size then MaxPageSize else size)
      in \<lparr> pg_Page = page, pg_PageSize = size' \<rparr>)"

definition sortDirection :: "string \<Rightarrow> string \<Rightarrow> string" where
  "sortDirection s def = (if s = ''asc'' \<or> s = ''desc'' then s else def)"

text \<open>The bodies the tools share.\<close>

definition tool_page :: "(ListOpts \<Rightarrow> sql_error + 'r list \<times> int) \<Rightarrow> ('r option list \<Rightarrow> 'x list) \<Rightarrow> string \<Rightarrow>
    sql_error option \<Rightarrow> pageParams \<Rightarrow> sql_error + 'x Page" where
  "tool_page listf toDTO srt fault p =
     (let page = pagination p
      in case db_read fault (listf \<lparr> lo_Limit = pg_PageSize page, lo_Offset = Offset page, lo_Sort = srt \<rparr>) of
           Inl err \<Rightarrow> Inl err
         | Inr (rows, n) \<Rightarrow> Inr (NewPage (toDTO (map Some rows)) (pg_Page page) (pg_PageSize page) n))"

definition tool_one :: "sql_error + 'r \<Rightarrow> ('r option \<Rightarrow> 'x) \<Rightarrow> sql_error option \<Rightarrow> sql_error + 'x" where
  "tool_one res toDTO fault =
     (case db_read fault res of Inl err \<Rightarrow> Inl err | Inr row \<Rightarrow> Inr (toDTO (Some row)))"

definition tool_data :: "sql_error + 'r list \<Rightarrow> ('r option list \<Rightarrow> 'x list) \<Rightarrow> sql_error option \<Rightarrow>
    sql_error + 'x list" where
  "tool_data res toDTO fault =
     (case db_read fault res of Inl err \<Rightarrow> Inl err | Inr rows \<Rightarrow> Inr (toDTO (map Some rows)))"

subsection \<open>The tools\<close>

definition getStatus :: "string \<Rightarrow> int \<Rightarrow> sql_error option \<Rightarrow> db \<Rightarrow> sql_error + Status_dto" where
  "getStatus version now fault d =
     (case db_read fault (Momentum_GetLatest d) of
        Inl err \<Rightarrow>
          if err = NoRows
          then Inr \<lparr> dss_LatestHeight = 0, dss_LatestTimestamp = 0, dss_IndexerLagSeconds = 0,
                 dss_Version = version \<rparr>
          else Inl err
      | Inr m \<Rightarrow>
          let lag = int64 (now - mo_Timestamp m)
          in Inr \<lparr> dss_LatestHeight = mo_Height m, dss_LatestTimestamp = mo_Timestamp m,
               dss_IndexerLagSeconds = (if lag < 0 then 0 else lag), dss_Version = version \<rparr>)"

definition getMomentumByHeight :: "sql_error option \<Rightarrow> int \<Rightarrow> db \<Rightarrow> sql_error + Momentum_dto option" where
  "getMomentumByHeight fault height d = tool_one (Momentum_GetByHeight height d) FromMomentum fault"

definition getLatestMomentum :: "sql_error option \<Rightarrow> db \<Rightarrow> sql_error + Momentum_dto option" where
  "getLatestMomentum fault d = tool_one (Momentum_GetLatest d) FromMomentum fault"

definition listMomentums :: "sql_error option \<Rightarrow> pageParams \<Rightarrow> string \<Rightarrow> db \<Rightarrow> sql_error + Momentum_dto Page" where
  "listMomentums fault p srt d =
     tool_page (\<lambda>opts. Momentum_List opts d) FromMomentums (sortDirection srt ''desc'') fault p"

definition getAccount :: "sql_error option \<Rightarrow> string \<Rightarrow> db \<Rightarrow> sql_error + Account_dto option" where
  "getAccount fault addr d = tool_one (Account_GetByAddress addr d) FromAccount fault"

definition listAccountBalances :: "sql_error option \<Rightarrow> string \<Rightarrow> db \<Rightarrow> sql_error + Balance_dto list" where
  "listAccountBalances fault addr d = tool_data (Balance_ListByAddress addr d) FromBalances fault"

definition listTokens :: "sql_error option \<Rightarrow> pageParams \<Rightarrow> db \<Rightarrow> sql_error + Token_dto Page" where
  "listTokens fault p d = tool_page (\<lambda>opts. Token_List () opts d) FromTokens [] fault p"

definition getToken :: "sql_error option \<Rightarrow> string \<Rightarrow> db \<Rightarrow> sql_error + Token_dto option" where
  "getToken fault std d = tool_one (Token_GetByStandard std d) FromToken fault"

definition listTokenHolders :: "sql_error option \<Rightarrow> string \<Rightarrow> pageParams \<Rightarrow> db \<Rightarrow> sql_error + Balance_dto Page" where
  "listTokenHolders fault std p d = tool_page (\<lambda>opts. Balance_ListByToken std opts d) FromBalances [] fault p"

definition listAccountBlocks :: "int \<Rightarrow> sql_error option \<Rightarrow> pageParams \<Rightarrow> string \<Rightarrow> db \<Rightarrow>
    sql_error + AccountBlock_dto Page" where
  "listAccountBlocks reltuples fault p srt d =
     tool_page (\<lambda>opts. AccountBlock_List reltuples opts d) FromAccountBlocks (sortDirection srt ''desc'') fault p"

definition getAccountBlock :: "sql_error option \<Rightarrow> string \<Rightarrow> db \<Rightarrow> sql_error + AccountBlock_dto option" where
  "getAccountBlock fault h d = tool_one (AccountBlock_GetByHash h d) FromAccountBlock fault"

definition listAccountTransactions :: "sql_error option \<Rightarrow> string \<Rightarrow> pageParams \<Rightarrow> string \<Rightarrow> db \<Rightarrow>
    sql_error + AccountBlock_dto Page" where
  "listAccountTransactions fault addr p srt d =
     tool_page (\<lambda>opts. AccountBlock_ListByAddress addr opts d) FromAccountBlocks (sortDirection srt ''desc'') fault p"

definition listPillars :: "sql_error option \<Rightarrow> pageParams \<Rightarrow> bool \<Rightarrow> db \<Rightarrow> sql_error + Pillar_dto Page" where
  "listPillars fault p includeRevoked d =
     tool_page (\<lambda>opts. Pillar_List includeRevoked opts d) FromPillars [] fault p"

definition getPillarByName :: "sql_error option \<Rightarrow> string \<Rightarrow> db \<Rightarrow> sql_error + Pillar_dto option" where
  "getPillarByName fault name d = tool_one (Pillar_GetByName name d) FromPillar fault"

definition listPillarDelegators :: "sql_error option \<Rightarrow> sql_error option \<Rightarrow> string \<Rightarrow> pageParams \<Rightarrow> db \<Rightarrow>
    sql_error + PillarDelegator_dto Page" where
  "listPillarDelegators fault1 fault2 name p d =
     (case db_read fault1 (Pillar_GetByName name d) of
        Inl err \<Rightarrow> Inl err
      | Inr pillar \<Rightarrow>
          tool_page (\<lambda>opts. Pillar_ListDelegators (pl_OwnerAddress pillar) opts d) FromPillarDelegators [] fault2 p)"

definition getPillarVotingHistory :: "sql_error option \<Rightarrow> string \<Rightarrow> db \<Rightarrow> sql_error + PillarVotingHistory_dto" where
  "getPillarVotingHistory fault name d =
     (case db_read fault (PillarVotingHistory name d) of
        Inl err \<Rightarrow> Inl err
      | Inr row \<Rightarrow> Inr (FromPillarVotingHistory (pvh_PillarName row) (pvh_PillarOwner row) (pvh_Votes row)))"

definition listSentinels :: "sql_error option \<Rightarrow> pageParams \<Rightarrow> bool \<Rightarrow> db \<Rightarrow> sql_error + Sentinel_dto Page" where
  "listSentinels fault p includeInactive d =
     (let activeOnly = (\<not> includeInactive)
      in tool_page (\<lambda>opts. Sentinel_List activeOnly opts d) FromSentinels [] fault p)"

definition listStakes :: "sql_error option \<Rightarrow> pageParams \<Rightarrow> bool \<Rightarrow> db \<Rightarrow> sql_error + Stake_dto Page" where
  "listStakes fault p includeInactive d =
     tool_page (\<lambda>opts. Stake_List (\<not> includeInactive) opts d) FromStakes [] fault p"

definition listAccountStakes :: "sql_error option \<Rightarrow> string \<Rightarrow> pageParams \<Rightarrow> bool \<Rightarrow> db \<Rightarrow> sql_error + Stake_dto Page" where
  "listAccountStakes fault addr p includeInactive d =
     tool_page (\<lambda>opts. Stake_ListByAddress (addr, \<not> includeInactive) opts d) FromStakes [] fault p"

definition listFusions :: "sql_error option \<Rightarrow> pageParams \<Rightarrow> bool \<Rightarrow> db \<Rightarrow> sql_error + Fusion_dto Page" where
  "listFusions fault p includeInactive d =
     tool_page (\<lambda>opts. Fusion_List (\<not> includeInactive) opts d) FromFusions [] fault p"

definition listAccountFusions :: "sql_error option \<Rightarrow> string \<Rightarrow> pageParams \<Rightarrow> bool \<Rightarrow> db \<Rightarrow> sql_error + Fusion_dto Page" where
  "listAccountFusions fault addr p includeInactive d =
     tool_page (\<lambda>opts. Fusion_ListByAddress (addr, \<not> includeInactive) opts d) FromFusions [] fault p"

definition listAccountRewards :: "sql_error option \<Rightarrow> string \<Rightarrow> pageParams \<Rightarrow> db \<Rightarrow> sql_error + RewardTransaction_dto Page" where
  "listAccountRewards fault addr p d =
     tool_page (\<lambda>opts. Reward_HistoryByAddress addr opts d) FromRewardTransactions [] fault p"

definition getAccountCumulativeRewards :: "sql_error option \<Rightarrow> string \<Rightarrow> db \<Rightarrow> sql_error + CumulativeReward_dto list" where
  "getAccountCumulativeRewards fault addr d =
     tool_data (Reward_CumulativeByAddress addr d) FromCumulativeRewards fault"

definition listProjects :: "sql_error option \<Rightarrow> pageParams \<Rightarrow> db \<Rightarrow> sql_error + Project_dto Page" where
  "listProjects fault p d = tool_page (\<lambda>opts. Project_List () opts d) FromProjects [] fault p"

definition getProject :: "sql_error option \<Rightarrow> string \<Rightarrow> db \<Rightarrow> sql_error + Project_dto option" where
  "getProject fault i d = tool_one (Project_GetByID i d) FromProject fault"

definition listProjectPhases :: "sql_error option \<Rightarrow> string \<Rightarrow> db \<Rightarrow> sql_error + ProjectPhase_dto list" where
  "listProjectPhases fault i d = tool_data (Phase_ListByProject i d) FromProjectPhases fault"

definition listProjectVotes :: "sql_error option \<Rightarrow> string \<Rightarrow> pageParams \<Rightarrow> db \<Rightarrow> sql_error + Vote_dto Page" where
  "listProjectVotes fault i p d = tool_page (\<lambda>opts. Vote_ListByProject i opts d) FromVotes [] fault p"

definition getProjectVotingReport :: "sql_error option \<Rightarrow> string \<Rightarrow> db \<Rightarrow> sql_error + ProjectVotingReport_dto" where
  "getProjectVotingReport fault i d =
     (case db_read fault (ProjectVotingReport i d) of
        Inl err \<Rightarrow> Inl err
      | Inr row \<Rightarrow> Inr (projectVotingReportToDTO row))"

definition listBridgeWraps :: "sql_error option \<Rightarrow> pageParams \<Rightarrow> db \<Rightarrow> sql_error + WrapTokenRequest_dto Page" where
  "listBridgeWraps fault p d = tool_page (\<lambda>opts. ListWraps () opts d) FromWrapTokenRequests [] fault p"

definition listBridgeUnwraps :: "sql_error option \<Rightarrow> pageParams \<Rightarrow> db \<Rightarrow> sql_error + UnwrapTokenRequest_dto Page" where
  "listBridgeUnwraps fault p d = tool_page (\<lambda>opts. ListUnwraps () opts d) FromUnwrapTokenRequests [] fault p"

definition listAccountBridgeWraps :: "sql_error option \<Rightarrow> string \<Rightarrow> pageParams \<Rightarrow> db \<Rightarrow>
    sql_error + WrapTokenRequest_dto Page" where
  "listAccountBridgeWraps fault addr p d =
     tool_page (\<lambda>opts. ListWrapsByAddress addr opts d) FromWrapTokenRequests [] fault p"

definition listAccountBridgeUnwraps :: "sql_error option \<Rightarrow> string \<Rightarrow> pageParams \<Rightarrow> db \<Rightarrow>
    sql_error + UnwrapTokenRequest_dto Page" where
  "listAccountBridgeUnwraps fault addr p d =
     tool_page (\<lambda>opts. ListUnwrapsByAddress addr opts d) FromUnwrapTokenRequests [] fault p"

subsection \<open>The catalog\<close>

text \<open>
  A call of each registered tool with its parameters, in the order of \<open>Register\<close>.
  \<open>get_schema_overview\<close> answers a constant; it is in \<open>Mcp_Server\<close>.
\<close>

datatype tool_call =
    TStatus
  | TMomentumByHeight int | TLatestMomentum | TMomentums pageParams string
  | TAccount string | TAccountBalances string
  | TTokens pageParams | TToken string | TTokenHolders string pageParams
  | TAccountBlocks pageParams string | TAccountBlock string | TAccountTransactions string pageParams string
  | TPillars pageParams bool | TPillar string | TPillarDelegators string pageParams | TPillarVotingHistory string
  | TSentinels pageParams bool
  | TStakes pageParams bool | TAccountStakes string pageParams bool
  | TFusions pageParams bool | TAccountFusions string pageParams bool
  | TAccountRewards string pageParams | TAccountCumulativeRewards string
  | TProjects pageParams | TProject string | TProjectPhases string | TProjectVotes string pageParams
  | TProjectVotingReport string
  | TBridgeWraps pageParams | TBridgeUnwraps pageParams
  | TAccountBridgeWraps string pageParams | TAccountBridgeUnwraps string pageParams

abbreviation tool_paged :: "('a \<Rightarrow> item) \<Rightarrow> sql_error + 'a Page \<Rightarrow> sql_error + body" where
  "tool_paged f \<equiv> map_sum id (\<lambda>p. Paged (map_page f p))"

abbreviation tool_single :: "('a \<Rightarrow> item) \<Rightarrow> sql_error + 'a option \<Rightarrow> sql_error + body" where
  "tool_single f \<equiv> map_sum id (\<lambda>x. One (map_option f x))"

abbreviation tool_listed :: "('a \<Rightarrow> item) \<Rightarrow> sql_error + 'a list \<Rightarrow> sql_error + body" where
  "tool_listed f \<equiv> map_sum id (\<lambda>xs. Data (map f xs))"

fun call_tool :: "env \<Rightarrow> tool_call \<Rightarrow> db \<Rightarrow> sql_error + body" where
  "call_tool en TStatus d =
     map_sum id (\<lambda>x. One (Some (IStatus x))) (getStatus (en_version en) (en_now en) (en_fault1 en) d)"
| "call_tool en (TMomentumByHeight h) d = tool_single IMomentum (getMomentumByHeight (en_fault1 en) h d)"
| "call_tool en TLatestMomentum d = tool_single IMomentum (getLatestMomentum (en_fault1 en) d)"
| "call_tool en (TMomentums p s) d = tool_paged IMomentum (listMomentums (en_fault1 en) p s d)"
| "call_tool en (TAccount a) d = tool_single IAccount (getAccount (en_fault1 en) a d)"
| "call_tool en (TAccountBalances a) d = tool_listed IBalance (listAccountBalances (en_fault1 en) a d)"
| "call_tool en (TTokens p) d = tool_paged IToken (listTokens (en_fault1 en) p d)"
| "call_tool en (TToken t) d = tool_single IToken (getToken (en_fault1 en) t d)"
| "call_tool en (TTokenHolders t p) d = tool_paged IBalance (listTokenHolders (en_fault1 en) t p d)"
| "call_tool en (TAccountBlocks p s) d =
     tool_paged IAccountBlock (listAccountBlocks (en_reltuples en) (en_fault1 en) p s d)"
| "call_tool en (TAccountBlock h) d = tool_single IAccountBlock (getAccountBlock (en_fault1 en) h d)"
| "call_tool en (TAccountTransactions a p s) d =
     tool_paged IAccountBlock (listAccountTransactions (en_fault1 en) a p s d)"
| "call_tool en (TPillars p b) d = tool_paged IPillar (listPillars (en_fault1 en) p b d)"
| "call_tool en (TPillar n) d = tool_single IPillar (getPillarByName (en_fault1 en) n d)"
| "call_tool en (TPillarDelegators n p) d =
     tool_paged IDelegator (listPillarDelegators (en_fault1 en) (en_fault2 en) n p d)"
| "call_tool en (TPillarVotingHistory n) d =
     map_sum id (\<lambda>x. One (Some (IHistory x))) (getPillarVotingHistory (en_fault1 en) n d)"
| "call_tool en (TSentinels p b) d = tool_paged ISentinel (listSentinels (en_fault1 en) p b d)"
| "call_tool en (TStakes p b) d = tool_paged IStake (listStakes (en_fault1 en) p b d)"
| "call_tool en (TAccountStakes a p b) d = tool_paged IStake (listAccountStakes (en_fault1 en) a p b d)"
| "call_tool en (TFusions p b) d = tool_paged IFusion (listFusions (en_fault1 en) p b d)"
| "call_tool en (TAccountFusions a p b) d = tool_paged IFusion (listAccountFusions (en_fault1 en) a p b d)"
| "call_tool en (TAccountRewards a p) d = tool_paged IReward (listAccountRewards (en_fault1 en) a p d)"
| "call_tool en (TAccountCumulativeRewards a) d =
     tool_listed ICumulative (getAccountCumulativeRewards (en_fault1 en) a d)"
| "call_tool en (TProjects p) d = tool_paged IProject (listProjects (en_fault1 en) p d)"
| "call_tool en (TProject i) d = tool_single IProject (getProject (en_fault1 en) i d)"
| "call_tool en (TProjectPhases i) d = tool_listed IPhase (listProjectPhases (en_fault1 en) i d)"
| "call_tool en (TProjectVotes i p) d = tool_paged IVote (listProjectVotes (en_fault1 en) i p d)"
| "call_tool en (TProjectVotingReport i) d =
     map_sum id (\<lambda>x. One (Some (IReport x))) (getProjectVotingReport (en_fault1 en) i d)"
| "call_tool en (TBridgeWraps p) d = tool_paged IWrap (listBridgeWraps (en_fault1 en) p d)"
| "call_tool en (TBridgeUnwraps p) d = tool_paged IUnwrap (listBridgeUnwraps (en_fault1 en) p d)"
| "call_tool en (TAccountBridgeWraps a p) d = tool_paged IWrap (listAccountBridgeWraps (en_fault1 en) a p d)"
| "call_tool en (TAccountBridgeUnwraps a p) d = tool_paged IUnwrap (listAccountBridgeUnwraps (en_fault1 en) a p d)"

subsection \<open>The transport\<close>

text \<open>
  An answer of the transport: a JSON-RPC error frame (status, code, message, data code), or what the
  protocol handler writes.
\<close>

datatype 'b mcp_response = RpcError int int string string | Served 'b

definition writeAuthError :: "string \<Rightarrow> string \<Rightarrow> 'b mcp_response" where
  "writeAuthError code message = RpcError 401 (- 32001) message code"

definition mcp_bearerToken :: "(string \<Rightarrow> string) \<Rightarrow> request \<Rightarrow> string \<times> bool \<times> bool" where
  "mcp_bearerToken TrimSpace r =
     (let h = rq_Header r ''Authorization''
      in if h \<noteq> [] then
           if \<not> has_bearer h then ([], True, False)
           else (TrimSpace (drop (length bearer_prefix) h), True, True)
         else if rq_Query r ''token'' \<noteq> [] then (rq_Query r ''token'', True, True)
         else ([], False, False))"

definition mcp_Auth :: "(string \<Rightarrow> string) \<Rightarrow> (string \<Rightarrow> verify_error + string) \<Rightarrow>
    (string \<Rightarrow> request \<Rightarrow> 'b mcp_response) \<Rightarrow> request \<Rightarrow> 'b mcp_response" where
  "mcp_Auth TrimSpace parse next r =
     (case mcp_bearerToken TrimSpace r of
        (tok, found, ok) \<Rightarrow>
          if \<not> found then writeAuthError ''missing_token'' ''missing JWT (Authorization header or ?token= query)''
          else if \<not> ok then writeAuthError ''invalid_token'' ''malformed Authorization header (want: Bearer <token>)''
          else (case Verify parse tok of
                  Inl ErrTokenExpired \<Rightarrow> writeAuthError ''expired_token'' ''invalid or expired token''
                | Inl ErrTokenOther \<Rightarrow> writeAuthError ''invalid_token'' ''invalid or expired token''
                | Inr subject \<Rightarrow> next subject r))"

definition mcp_rateLimited :: "'b mcp_response" where
  "mcp_rateLimited = RpcError 429 (- 32002) ''too many requests; slow down'' ''rate_limited''"

definition mcp_RateLimit :: "int \<Rightarrow> (request \<Rightarrow> string) \<Rightarrow> (string \<Rightarrow> bool) \<Rightarrow>
    (request \<Rightarrow> 'b mcp_response) \<Rightarrow> string \<Rightarrow> request \<Rightarrow> 'b mcp_response" where
  "mcp_RateLimit perMinute KeyByIP allow next subject r =
     (if perMinute \<le> 0 then next r
      else if allow (keyBySubjectThenIP KeyByIP subject r) then next r
      else mcp_rateLimited)"

text \<open>The composition in \<open>cmd/mcp/main.go\<close>; \<open>handle\<close> is the SDK's handler, which calls the tools.\<close>

definition mcp_http :: "libs \<Rightarrow> int \<Rightarrow> (request \<Rightarrow> 'b) \<Rightarrow> request \<Rightarrow> 'b mcp_response" where
  "mcp_http lib perMinute handle r =
     mcp_Auth (li_TrimSpace lib) (li_parse lib)
       (mcp_RateLimit perMinute (li_KeyByIP lib) (li_allow lib) (\<lambda>r. Served (handle r))) r"

subsection \<open>Readiness\<close>

definition mcp_minSchemaVersion :: int where
  "mcp_minSchemaVersion = 12"

text \<open>The status and the code of the problem, or none when ready.\<close>

definition mcp_Readyz :: "bool \<Rightarrow> string option \<Rightarrow> schema_read \<Rightarrow> int \<times> string option" where
  "mcp_Readyz has_pool ping_error schema =
     (if \<not> has_pool then (200, None)
      else
        (case ping_error of
           Some err \<Rightarrow> (503, Some ''db_unavailable'')
         | None \<Rightarrow>
             (case schema of
                MigrationsMissing \<Rightarrow> (503, Some ''schema_not_migrated'')
              | SchemaError err \<Rightarrow> (503, Some ''db_unavailable'')
              | SchemaRow version dirty \<Rightarrow>
                  if dirty then (503, Some ''schema_dirty'')
                  else if version < mcp_minSchemaVersion then (503, Some ''schema_not_migrated'')
                  else (200, None))))"

subsection \<open>Metrics\<close>

text \<open>The label a call is counted under; \<open>isError\<close> is the flag of a tool's result.\<close>

definition mcp_classify :: "bool option \<Rightarrow> bool \<Rightarrow> string" where
  "mcp_classify isError failed =
     (if failed then ''error'' else if isError = Some True then ''error'' else ''ok'')"

definition toolName :: "string option \<Rightarrow> string" where
  "toolName name = (case name of None \<Rightarrow> ''unknown'' | Some n \<Rightarrow> if n = [] then ''unknown'' else n)"

end
