(* ===== verification/Mcp_Props.thy ===== *)
theory Mcp_Props
  imports Mcp
begin

text \<open>
  The MCP tools against the REST API: a tool called with some arguments and the endpoint requested
  with the same arguments give the same payload.
\<close>

subsection \<open>The request that asks the same\<close>

definition lookup_or_empty :: "(string \<times> string) list \<Rightarrow> string \<Rightarrow> string" where
  "lookup_or_empty kvs k = (case map_of kvs k of None \<Rightarrow> [] | Some v \<Rightarrow> v)"

definition same_request :: "(string \<times> string) list \<Rightarrow> (string \<times> string) list \<Rightarrow> request" where
  "same_request query params =
     \<lparr> rq_Query = lookup_or_empty query, rq_Header = (\<lambda>_. []), rq_URLParam = lookup_or_empty params \<rparr>"

text \<open>An omitted number is zero in the tool's parameters and absent from the query.\<close>

definition page_query :: "pageParams \<Rightarrow> (string \<times> string) list" where
  "page_query p =
     [(''page'', if pp_Page p = 0 then [] else FormatInt (pp_Page p)),
      (''page_size'', if pp_PageSize p = 0 then [] else FormatInt (pp_PageSize p))]"

definition bool_query :: "string \<Rightarrow> bool \<Rightarrow> (string \<times> string) list" where
  "bool_query name b = [(name, if b then ''true'' else ''false'')]"

fun rest_call :: "tool_call \<Rightarrow> endpoint \<times> request" where
  "rest_call TStatus = (EStatus, same_request [] [])"
| "rest_call (TMomentumByHeight h) = (EMomentumsByHeight, same_request [] [(''height'', FormatInt h)])"
| "rest_call TLatestMomentum = (EMomentumsLatest, same_request [] [])"
| "rest_call (TMomentums p s) = (EMomentums, same_request ((''sort'', s) # page_query p) [])"
| "rest_call (TAccount a) = (EAccount, same_request [] [(''address'', a)])"
| "rest_call (TAccountBalances a) = (EAccountBalances, same_request [] [(''address'', a)])"
| "rest_call (TTokens p) = (ETokens, same_request (page_query p) [])"
| "rest_call (TToken t) = (EToken, same_request [] [(''token_standard'', t)])"
| "rest_call (TTokenHolders t p) = (ETokenHolders, same_request (page_query p) [(''token_standard'', t)])"
| "rest_call (TAccountBlocks p s) = (EAccountBlocks, same_request ((''sort'', s) # page_query p) [])"
| "rest_call (TAccountBlock h) = (EAccountBlock, same_request [] [(''hash'', h)])"
| "rest_call (TAccountTransactions a p s) =
     (EAccountTransactions, same_request ((''sort'', s) # page_query p) [(''address'', a)])"
| "rest_call (TPillars p b) = (EPillars, same_request (bool_query ''include_revoked'' b @ page_query p) [])"
| "rest_call (TPillar n) = (EPillar, same_request [] [(''name'', n)])"
| "rest_call (TPillarDelegators n p) = (EPillarDelegators, same_request (page_query p) [(''name'', n)])"
| "rest_call (TPillarVotingHistory n) = (EPillarVotingReport, same_request [] [(''name'', n)])"
| "rest_call (TSentinels p b) = (ESentinels, same_request (bool_query ''include_inactive'' b @ page_query p) [])"
| "rest_call (TStakes p b) = (EStakes, same_request (bool_query ''include_inactive'' b @ page_query p) [])"
| "rest_call (TAccountStakes a p b) =
     (EAccountStakes, same_request (bool_query ''include_inactive'' b @ page_query p) [(''address'', a)])"
| "rest_call (TFusions p b) = (EFusions, same_request (bool_query ''include_inactive'' b @ page_query p) [])"
| "rest_call (TAccountFusions a p b) =
     (EAccountFusions, same_request (bool_query ''include_inactive'' b @ page_query p) [(''address'', a)])"
| "rest_call (TAccountRewards a p) = (EAccountRewards, same_request (page_query p) [(''address'', a)])"
| "rest_call (TAccountCumulativeRewards a) = (EAccountRewardsCumulative, same_request [] [(''address'', a)])"
| "rest_call (TProjects p) = (EProjects, same_request (page_query p) [])"
| "rest_call (TProject i) = (EProject, same_request [] [(''id'', i)])"
| "rest_call (TProjectPhases i) = (EProjectPhases, same_request [] [(''id'', i)])"
| "rest_call (TProjectVotes i p) = (EProjectVotes, same_request (page_query p) [(''id'', i)])"
| "rest_call (TProjectVotingReport i) = (EProjectVotingReport, same_request [] [(''id'', i)])"
| "rest_call (TBridgeWraps p) = (EBridgeWraps, same_request (page_query p) [])"
| "rest_call (TBridgeUnwraps p) = (EBridgeUnwraps, same_request (page_query p) [])"
| "rest_call (TAccountBridgeWraps a p) = (EAccountBridgeWraps, same_request (page_query p) [(''address'', a)])"
| "rest_call (TAccountBridgeUnwraps a p) = (EAccountBridgeUnwraps, same_request (page_query p) [(''address'', a)])"

text \<open>The arguments the SDK can decode into the parameter structs, with the required key not empty.\<close>

definition page_fits :: "pageParams \<Rightarrow> bool" where
  "page_fits p \<longleftrightarrow> fits_int64 (pp_Page p) \<and> fits_int64 (pp_PageSize p)"

fun call_ok :: "tool_call \<Rightarrow> bool" where
  "call_ok TStatus = True"
| "call_ok (TMomentumByHeight h) = (0 \<le> h \<and> h < 2 ^ 64)"
| "call_ok TLatestMomentum = True"
| "call_ok (TMomentums p s) = page_fits p"
| "call_ok (TAccount a) = (a \<noteq> [])"
| "call_ok (TAccountBalances a) = (a \<noteq> [])"
| "call_ok (TTokens p) = page_fits p"
| "call_ok (TToken t) = (t \<noteq> [])"
| "call_ok (TTokenHolders t p) = (t \<noteq> [] \<and> page_fits p)"
| "call_ok (TAccountBlocks p s) = page_fits p"
| "call_ok (TAccountBlock h) = (h \<noteq> [])"
| "call_ok (TAccountTransactions a p s) = (a \<noteq> [] \<and> page_fits p)"
| "call_ok (TPillars p b) = page_fits p"
| "call_ok (TPillar n) = (n \<noteq> [])"
| "call_ok (TPillarDelegators n p) = (n \<noteq> [] \<and> page_fits p)"
| "call_ok (TPillarVotingHistory n) = (n \<noteq> [])"
| "call_ok (TSentinels p b) = page_fits p"
| "call_ok (TStakes p b) = page_fits p"
| "call_ok (TAccountStakes a p b) = (a \<noteq> [] \<and> page_fits p)"
| "call_ok (TFusions p b) = page_fits p"
| "call_ok (TAccountFusions a p b) = (a \<noteq> [] \<and> page_fits p)"
| "call_ok (TAccountRewards a p) = (a \<noteq> [] \<and> page_fits p)"
| "call_ok (TAccountCumulativeRewards a) = (a \<noteq> [])"
| "call_ok (TProjects p) = page_fits p"
| "call_ok (TProject i) = (i \<noteq> [])"
| "call_ok (TProjectPhases i) = (i \<noteq> [])"
| "call_ok (TProjectVotes i p) = (i \<noteq> [] \<and> page_fits p)"
| "call_ok (TProjectVotingReport i) = (i \<noteq> [])"
| "call_ok (TBridgeWraps p) = page_fits p"
| "call_ok (TBridgeUnwraps p) = page_fits p"
| "call_ok (TAccountBridgeWraps a p) = (a \<noteq> [] \<and> page_fits p)"
| "call_ok (TAccountBridgeUnwraps a p) = (a \<noteq> [] \<and> page_fits p)"

subsection \<open>Both sides step by step\<close>

definition to_response :: "sql_error + 'a \<Rightarrow> 'a response" where
  "to_response res = (case res of Inl err \<Rightarrow> writeRepoError err | Inr v \<Rightarrow> WriteJSON 200 v)"

lemma map_writeRepoError [simp]: "map_response f (writeRepoError err) = writeRepoError err"
  by (simp add: writeRepoError_def WriteProblem_def)

lemma map_to_response: "map_response f (to_response res) = to_response (map_sum id f res)"
  by (cases res) (simp_all add: to_response_def WriteJSON_def)

lemma FormatInt_nonempty: "FormatInt v \<noteq> []"
proof
  assume "FormatInt v = []"
  then have "SetString10 [] = Some v" using SetString10_FormatInt [of v] by simp
  then show False by (simp add: SetString10_def)
qed

lemma same_pagination:
  assumes "page_fits p"
    and "rq_Query r ''page'' = (if pp_Page p = 0 then [] else FormatInt (pp_Page p))"
    and "rq_Query r ''page_size'' = (if pp_PageSize p = 0 then [] else FormatInt (pp_PageSize p))"
  shows "ParsePagination r = pagination p"
  using assms
  by (auto simp: ParsePagination_def pagination_def page_fits_def FormatInt_nonempty ParseInt64_FormatInt Let_def
      DefaultPageSize_def MaxPageSize_def)

lemma page_agrees:
  assumes "ParsePagination r = pagination p"
  shows "page_of listf toDTO srt fault r = to_response (tool_page listf toDTO srt fault p)"
  using assms by (auto simp: page_of_def tool_page_def to_response_def Let_def split: sum.splits)

lemma one_agrees: "one_of res toDTO fault = to_response (tool_one res toDTO fault)"
  by (auto simp: one_of_def tool_one_def to_response_def split: sum.splits)

lemma data_agrees: "data_of res toDTO fault = to_response (tool_data res toDTO fault)"
  by (auto simp: data_of_def tool_data_def to_response_def split: sum.splits)

lemma query_same [simp]:
  "rq_Query (same_request q u) = lookup_or_empty q" "rq_URLParam (same_request q u) = lookup_or_empty u"
  by (simp_all add: same_request_def)

lemma lookup_Nil [simp]: "lookup_or_empty [] k = []"
  by (simp add: lookup_or_empty_def)

lemma lookup_Cons [simp]: "lookup_or_empty ((k', v) # kvs) k = (if k = k' then v else lookup_or_empty kvs k)"
  by (auto simp: lookup_or_empty_def)

lemmas query_defs = page_query_def bool_query_def

lemma paged_request:
  assumes "page_fits p"
  shows "ParsePagination (same_request (page_query p) u) = pagination p"
    "ParsePagination (same_request ((''sort'', s) # page_query p) u) = pagination p"
    "ParsePagination (same_request (bool_query ''include_inactive'' b @ page_query p) u) = pagination p"
    "ParsePagination (same_request (bool_query ''include_revoked'' b @ page_query p) u) = pagination p"
  by (rule same_pagination [OF assms]; simp add: query_defs)+

lemma sorted_request: "ParseSort (same_request ((''sort'', s) # q) u) def = sortDirection s def"
  by (auto simp: ParseSort_def sortDirection_def)

lemma flag_request: "boolQuery (same_request (bool_query name b @ q) u) name def = b"
  by (simp add: boolQuery_def bool_query_def ParseBool_def)

lemma height_request:
  assumes "0 \<le> h" "h < 2 ^ 64"
  shows "ParseUint64 (FormatInt h) = Some h"
  using assms by (simp add: ParseUint64_def FormatInt_def parse_nat_int_digits)

lemma status_agrees: "Status version now fault d = to_response (getStatus version now fault d)"
  by (auto simp: Status_def getStatus_def to_response_def Let_def split: sum.splits)

lemma history_agrees:
  assumes "rq_URLParam r ''name'' = name" "name \<noteq> []"
  shows "PillarsVotingHistory fault r d = to_response (getPillarVotingHistory fault name d)"
  using assms by (auto simp: PillarsVotingHistory_def getPillarVotingHistory_def to_response_def with_name_def
      with_param_def Let_def split: sum.splits)

lemma report_agrees:
  assumes "rq_URLParam r ''id'' = i" "i \<noteq> []"
  shows "ProjectsVotingReport fault r d = to_response (getProjectVotingReport fault i d)"
  using assms by (auto simp: ProjectsVotingReport_def getProjectVotingReport_def to_response_def with_id_def
      with_param_def Let_def split: sum.splits)

lemma delegators_agree:
  assumes "rq_URLParam r ''name'' = name" "name \<noteq> []" "ParsePagination r = pagination p"
  shows "PillarsDelegators fault1 fault2 r d = to_response (listPillarDelegators fault1 fault2 name p d)"
proof (cases "db_read fault1 (Pillar_GetByName name d)")
  case (Inl err)
  then show ?thesis
    using assms(1,2) by (simp add: PillarsDelegators_def listPillarDelegators_def to_response_def with_name_def
        with_param_def)
next
  case (Inr pillar)
  then show ?thesis
    using assms(1,2) by (simp add: PillarsDelegators_def listPillarDelegators_def with_name_def with_param_def
        page_agrees [OF assms(3)])
qed

lemmas agree_params = with_address_def with_token_def with_name_def with_id_def with_param_def Let_def

lemmas agree_steps = map_to_response page_agrees [OF paged_request(1)] page_agrees [OF paged_request(2)]
  page_agrees [OF paged_request(3)] page_agrees [OF paged_request(4)] one_agrees data_agrees
  sorted_request flag_request height_request status_agrees history_agrees report_agrees
  delegators_agree [OF _ _ paged_request(1)]

lemmas rest_ops = MomentumsList_def MomentumsLatest_def MomentumsGetByHeight_def AccountBlocksList_def
  AccountBlocksGet_def AccountBlocksByAddress_def AccountsGet_def AccountsBalances_def TokensList_def
  TokensGet_def TokensHolders_def PillarsList_def PillarsGetByName_def SentinelsList_def StakesList_def
  StakesByAddress_def FusionsList_def FusionsByAddress_def RewardsCumulative_def RewardsHistory_def
  ProjectsList_def ProjectsGet_def ProjectsPhases_def ProjectsVotes_def BridgeWraps_def BridgeUnwraps_def
  BridgeWrapsByAddress_def BridgeUnwrapsByAddress_def

lemmas mcp_ops = getMomentumByHeight_def getLatestMomentum_def listMomentums_def getAccount_def
  listAccountBalances_def listTokens_def getToken_def listTokenHolders_def listAccountBlocks_def
  getAccountBlock_def listAccountTransactions_def listPillars_def getPillarByName_def listSentinels_def
  listStakes_def listAccountStakes_def listFusions_def listAccountFusions_def listAccountRewards_def
  getAccountCumulativeRewards_def listProjects_def getProject_def listProjectPhases_def listProjectVotes_def
  listBridgeWraps_def listBridgeUnwraps_def listAccountBridgeWraps_def listAccountBridgeUnwraps_def

text \<open>
  C30. The MCP front end agrees with the REST front end: for every tool and all arguments the
  protocol can decode, with the required key present, the REST endpoint asked for the same thing
  answers 200 with exactly the value the tool returns, and when the tool fails with a repository
  error the endpoint answers the problem of that same error. In particular paging defaults, clamping
  and sorting are the same, although the two are written separately.
\<close>

theorem mcp_rest_agree:
  assumes "call_ok t"
  shows "(case rest_call t of (e, r) \<Rightarrow> serve en e r d) = to_response (call_tool en t d)"
  using assms
  by (cases t) (simp_all add: serve_def agree_params agree_steps rest_ops mcp_ops)

theorem mcp_rest_agree_witness:
  "serve \<lparr> en_fault1 = None, en_fault2 = None, en_reltuples = 7, en_now = 0, en_version = [] \<rparr> EAccountBlocks
     (same_request [(''sort'', ''up''), (''page'', ''2''), (''page_size'', ''500'')] []) empty_db
   = WriteJSON 200 (Paged (NewPage [] 2 200 7))"
proof -
  let ?p = "\<lparr> pp_Page = 2, pp_PageSize = 500 \<rparr>"
  let ?en = "\<lparr> en_fault1 = None, en_fault2 = None, en_reltuples = 7, en_now = 0, en_version = [] \<rparr>"
  have "FormatInt 2 = ''2''" "FormatInt 500 = ''500''" by code_simp+
  then have "rest_call (TAccountBlocks ?p ''up'') =
      (EAccountBlocks, same_request [(''sort'', ''up''), (''page'', ''2''), (''page_size'', ''500'')] [])"
    by (simp add: page_query_def)
  moreover have "call_ok (TAccountBlocks ?p ''up'')" by code_simp
  moreover have "call_tool ?en (TAccountBlocks ?p ''up'') empty_db = Inr (Paged (NewPage [] 2 200 7))"
    by code_simp
  ultimately show ?thesis
    using mcp_rest_agree [of "TAccountBlocks ?p ''up''" ?en empty_db] by (simp add: to_response_def)
qed

text \<open>The transport: what reaches the protocol handler has a verified, non-empty token.\<close>

lemma mcp_guarded:
  "(\<exists>code message data. mcp_http lib perMinute handle r = RpcError 401 code message data) \<or>
   mcp_http lib perMinute handle r = mcp_rateLimited \<and> 0 < perMinute \<or>
   (\<exists>tok subject. fst (mcp_bearerToken (li_TrimSpace lib) r) = tok \<and> tok \<noteq> [] \<and> li_parse lib tok = Inr subject \<and>
      mcp_http lib perMinute handle r = Served (handle r))"
  by (auto simp: mcp_http_def mcp_Auth_def mcp_RateLimit_def writeAuthError_def Verify_def Let_def
      split: prod.splits sum.splits verify_error.splits if_splits)

text \<open>The probe of the MCP server accepts a schema that the probe of the API refuses.\<close>

lemma readiness_gates_differ:
  "mcp_Readyz True None (SchemaRow 12 False) = (200, None)"
  "response_status (readyz True None (SchemaRow 12 False) sync message now) = 503"
  by (simp_all add: mcp_Readyz_def mcp_minSchemaVersion_def readyz_def minSchemaVersion_def)

end
