(* ===== verification/Webhooks.thy ===== *)
theory Webhooks
  imports Processor "HOL-Library.Sublist"
begin

text \<open>
  \<open>internal/webhooks/dispatcher.go\<close>: the buffered queue between the indexer and the HTTP endpoints.
  \<open>Emit\<close> reads the \<open>closed\<close> flag and then sends, so a \<open>Stop\<close> may come in between; the worker is one
  goroutine that waits on two channels. A history is a list of such steps. Closing a closed
  channel would be a panic: the outer \<open>None\<close>. Requests, signatures and JSON encoding are
  parameters.
\<close>

record Endpoint =
  ep_URL :: string
  ep_Secret :: string
  ep_Events :: "string list"

definition queueSize :: nat where
  "queueSize = 1024"

subsection \<open>Delivering one event\<close>

text \<open>How an attempt ends: the request cannot be built, nothing comes back, or a status.\<close>

datatype attempt = BuildFailed | TransportError | Answered int

record sent =
  se_URL :: string
  se_Body :: string
  se_Signature :: "string option"
  se_wait :: int

definition wants :: "Endpoint \<Rightarrow> string \<Rightarrow> bool" where
  "wants ep eventType = (if ep_Events ep = [] then True else list_ex (\<lambda>ev. ev = eventType) (ep_Events ep))"

definition accepted_status :: "int \<Rightarrow> bool" where
  "accepted_status s \<longleftrightarrow> 200 \<le> s \<and> s < 300"

text \<open>\<open>se_wait\<close> is the pause before the attempt, in milliseconds.\<close>

fun deliver_loop :: "(nat \<Rightarrow> attempt) \<Rightarrow> (string \<Rightarrow> string \<Rightarrow> string) \<Rightarrow> Endpoint \<Rightarrow> string \<Rightarrow> nat list \<Rightarrow> sent list" where
  "deliver_loop net sign ep body [] = []"
| "deliver_loop net sign ep body (k # ks) =
     (let req = \<lparr> se_URL = ep_URL ep, se_Body = body,
                  se_Signature = (if ep_Secret ep \<noteq> [] then Some (sign (ep_Secret ep) body) else None),
                  se_wait = (if 0 < k then int k * 200 else 0) \<rparr>
      in case net k of
           BuildFailed \<Rightarrow> []
         | TransportError \<Rightarrow> req # deliver_loop net sign ep body ks
         | Answered s \<Rightarrow> if accepted_status s then [req] else req # deliver_loop net sign ep body ks)"

definition deliver :: "int \<Rightarrow> (nat \<Rightarrow> attempt) \<Rightarrow> (string \<Rightarrow> string \<Rightarrow> string) \<Rightarrow> Endpoint \<Rightarrow> string \<Rightarrow> sent list" where
  "deliver maxRetries net sign ep body = deliver_loop net sign ep body [0..<nat (maxRetries + 1)]"

text \<open>What the libraries do: encoding, signing, and the attempts for an event at an endpoint.\<close>

record http =
  ht_marshal :: "Event \<Rightarrow> string option"
  ht_sign :: "string \<Rightarrow> string \<Rightarrow> string"
  ht_net :: "Event \<Rightarrow> Endpoint \<Rightarrow> nat \<Rightarrow> attempt"

definition webhook_dispatch :: "http \<Rightarrow> int \<Rightarrow> Endpoint list \<Rightarrow> Event \<Rightarrow> sent list" where
  "webhook_dispatch w maxRetries endpoints e =
     (case ht_marshal w e of
        None \<Rightarrow> []
      | Some body \<Rightarrow>
          concat (map (\<lambda>ep. if wants ep (ev_Type e)
                              then deliver maxRetries (ht_net w e ep) (ht_sign w) ep body else []) endpoints))"

subsection \<open>The dispatcher\<close>

datatype worker = NotStarted | Waiting | Dispatching Event | Returned

text \<open>
  \<open>di_pending\<close> are the \<open>Emit\<close> calls between their check and their send. The last three fields record
  what happened: the events that were offered to the queue, those it took, and those the worker
  has delivered, with the requests made.
\<close>

record Dispatcher =
  di_endpoints :: "Endpoint list"
  di_maxRetries :: int
  di_queue :: "Event list"
  di_closed :: bool
  di_quit :: bool
  di_done :: bool
  di_started :: bool
  di_stopped :: bool
  di_worker :: worker
  di_pending :: "Event list"
  di_offered :: "Event list"
  di_taken :: "Event list"
  di_delivered :: "Event list"
  di_requests :: "sent list"

definition NewDispatcher :: "Endpoint list \<Rightarrow> int \<Rightarrow> Dispatcher" where
  "NewDispatcher endpoints maxRetries =
     \<lparr> di_endpoints = endpoints, di_maxRetries = maxRetries, di_queue = [], di_closed = False,
       di_quit = False, di_done = False, di_started = False, di_stopped = False, di_worker = NotStarted,
       di_pending = [], di_offered = [], di_taken = [], di_delivered = [], di_requests = [] \<rparr>"

definition Start :: "Dispatcher \<Rightarrow> Dispatcher" where
  "Start d = (if di_started d then d else d\<lparr> di_started := True, di_worker := Waiting \<rparr>)"

text \<open>The first half of \<open>Stop\<close>; the second is the wait for \<open>di_done\<close>.\<close>

definition StopSignal :: "Dispatcher \<Rightarrow> Dispatcher option" where
  "StopSignal d =
     (if di_stopped d then Some d
      else if di_quit d then None
      else Some (d\<lparr> di_stopped := True, di_closed := True, di_quit := True \<rparr>))"

definition stop_returns :: "Dispatcher \<Rightarrow> bool" where
  "stop_returns d = di_done d"

definition emit_check :: "Event \<Rightarrow> Dispatcher \<Rightarrow> Dispatcher" where
  "emit_check e d = (if di_closed d then d else d\<lparr> di_pending := di_pending d @ [e] \<rparr>)"

definition emit_send :: "nat \<Rightarrow> Dispatcher \<Rightarrow> Dispatcher" where
  "emit_send i d =
     (if i < length (di_pending d) then
        let e = di_pending d ! i;
            d1 = d\<lparr> di_pending := take i (di_pending d) @ drop (Suc i) (di_pending d),
                    di_offered := di_offered d @ [e] \<rparr>
        in if length (di_queue d) < queueSize
           then d1\<lparr> di_queue := di_queue d @ [e], di_taken := di_taken d @ [e] \<rparr> else d1
      else d)"

text \<open>The worker's \<open>select\<close> picks a channel that is ready; both may be.\<close>

definition worker_quit :: "Dispatcher \<Rightarrow> Dispatcher option" where
  "worker_quit d =
     (if di_worker d = Waiting \<and> di_quit d
      then (if di_done d then None else Some (d\<lparr> di_worker := Returned, di_done := True \<rparr>))
      else Some d)"

definition worker_take :: "Dispatcher \<Rightarrow> Dispatcher" where
  "worker_take d =
     (case (di_worker d, di_queue d) of
        (Waiting, e # es) \<Rightarrow> d\<lparr> di_queue := es, di_worker := Dispatching e \<rparr>
      | _ \<Rightarrow> d)"

definition worker_dispatch :: "http \<Rightarrow> Dispatcher \<Rightarrow> Dispatcher" where
  "worker_dispatch w d =
     (case di_worker d of
        Dispatching e \<Rightarrow>
          d\<lparr> di_worker := Waiting, di_delivered := di_delivered d @ [e],
             di_requests := di_requests d @ webhook_dispatch w (di_maxRetries d) (di_endpoints d) e \<rparr>
      | _ \<Rightarrow> d)"

datatype hook_op = OpStart | OpStop | OpEmitCheck Event | OpEmitSend nat | OpQuit | OpTake | OpDispatch

fun hook_step :: "http \<Rightarrow> hook_op \<Rightarrow> Dispatcher \<Rightarrow> Dispatcher option" where
  "hook_step w OpStart d = Some (Start d)"
| "hook_step w OpStop d = StopSignal d"
| "hook_step w (OpEmitCheck e) d = Some (emit_check e d)"
| "hook_step w (OpEmitSend i) d = Some (emit_send i d)"
| "hook_step w OpQuit d = worker_quit d"
| "hook_step w OpTake d = Some (worker_take d)"
| "hook_step w OpDispatch d = Some (worker_dispatch w d)"

fun hook_run :: "http \<Rightarrow> hook_op list \<Rightarrow> Dispatcher \<Rightarrow> Dispatcher option" where
  "hook_run w [] d = Some d"
| "hook_run w (op # ops) d = (case hook_step w op d of None \<Rightarrow> None | Some d' \<Rightarrow> hook_run w ops d')"

text \<open>\<open>AttachWebhooks\<close> of the indexer: the first call builds and starts a dispatcher.\<close>

definition AttachWebhooks :: "Endpoint list \<Rightarrow> int \<Rightarrow> Dispatcher option \<Rightarrow> Dispatcher option" where
  "AttachWebhooks endpoints maxRetries current =
     (case current of
        Some d \<Rightarrow> Some d
      | None \<Rightarrow> Some (Start (NewDispatcher endpoints maxRetries)))"

end
