(* ===== verification/Webhook_Props.thy ===== *)
theory Webhook_Props
  imports Webhooks
begin

text \<open>
  Webhook delivery: the dispatcher's invariant over every interleaving of \<open>Start\<close>, \<open>Stop\<close>, \<open>Emit\<close> and the
  worker, the number of requests an event costs, and the shape of one delivery.
\<close>

section \<open>One delivery\<close>

lemma wants_iff: "wants ep t \<longleftrightarrow> ep_Events ep = [] \<or> t \<in> set (ep_Events ep)"
  by (auto simp: wants_def list_ex_iff)

lemma deliver_loop_length: "length (deliver_loop net sign ep body ks) \<le> length ks"
  by (induction ks) (auto simp: Let_def split: attempt.splits)

lemma deliver_length: "length (deliver m net sign ep body) \<le> nat (m + 1)"
  using deliver_loop_length [of net sign ep body "[0..<nat (m + 1)]"] by (simp add: deliver_def)

lemma deliver_loop_prefix:
  "\<exists>n \<le> length ks. map se_wait (deliver_loop net sign ep body ks) = map (\<lambda>k. int k * 200) (take n ks)"
proof (induction ks)
  case (Cons k ks)
  then obtain n where n: "n \<le> length ks"
    "map se_wait (deliver_loop net sign ep body ks) = map (\<lambda>k. int k * 200) (take n ks)"
    by blast
  show ?case
  proof (cases "net k")
    case BuildFailed
    then show ?thesis by (intro exI [of _ 0]) simp
  next
    case TransportError
    then show ?thesis using n by (intro exI [of _ "Suc n"]) (simp add: Let_def)
  next
    case (Answered s)
    then show ?thesis
      using n by (cases "accepted_status s") (force intro: exI [of _ "Suc 0"] exI [of _ "Suc n"] simp: Let_def)+
  qed
qed simp

lemma dispatch_length:
  "length (webhook_dispatch w m eps e) \<le> nat (m + 1) * length (filter (\<lambda>ep. wants ep (ev_Type e)) eps)"
proof (cases "ht_marshal w e")
  case (Some body)
  have "length (concat (map (\<lambda>ep. if wants ep (ev_Type e) then deliver m (ht_net w e ep) (ht_sign w) ep body else []) eps))
        \<le> nat (m + 1) * length (filter (\<lambda>ep. wants ep (ev_Type e)) eps)"
    by (induction eps) (auto intro: add_mono deliver_length)
  then show ?thesis using Some by (simp add: webhook_dispatch_def)
qed (simp add: webhook_dispatch_def)

section \<open>The dispatcher's invariant\<close>

definition in_flight :: "Dispatcher \<Rightarrow> Event list" where
  "in_flight d = (case di_worker d of Dispatching e \<Rightarrow> [e] | _ \<Rightarrow> [])"

definition queue_inv :: "http \<Rightarrow> Dispatcher \<Rightarrow> bool" where
  "queue_inv w d \<longleftrightarrow>
     di_taken d = di_delivered d @ in_flight d @ di_queue d \<and>
     length (di_queue d) \<le> queueSize \<and>
     subseq (di_taken d) (di_offered d) \<and>
     di_requests d = concat (map (webhook_dispatch w (di_maxRetries d) (di_endpoints d)) (di_delivered d))"

definition flag_inv :: "Dispatcher \<Rightarrow> bool" where
  "flag_inv d \<longleftrightarrow>
     di_quit d = di_stopped d \<and> di_closed d = di_stopped d \<and>
     (di_worker d = NotStarted) = (\<not> di_started d) \<and>
     di_done d = (di_worker d = Returned) \<and> (di_done d \<longrightarrow> di_quit d)"

lemma flag_invD:
  assumes "flag_inv d"
  shows "di_quit d = di_stopped d" "di_closed d = di_stopped d" "di_done d = (di_worker d = Returned)"
  using assms by (simp_all add: flag_inv_def)

lemmas hook_ops = Start_def StopSignal_def emit_check_def emit_send_def worker_quit_def worker_take_def
  worker_dispatch_def in_flight_def

lemma hook_step_total:
  assumes "flag_inv d"
  shows "\<exists>d'. hook_step w op d = Some d'"
  using assms by (cases op) (auto simp: flag_inv_def StopSignal_def worker_quit_def)

lemma flags_ops:
  assumes "flag_inv d"
  shows "flag_inv (Start d)" "flag_inv (emit_check e d)" "flag_inv (emit_send i d)" "flag_inv (worker_take d)"
    "flag_inv (worker_dispatch w d)"
proof -
  show "flag_inv (Start d)" "flag_inv (emit_check e d)" "flag_inv (emit_send i d)"
    using assms by (auto simp: flag_inv_def Start_def emit_check_def emit_send_def Let_def)
  show "flag_inv (worker_take d)"
    using assms by (cases "di_worker d"; cases "di_queue d") (auto simp: flag_inv_def worker_take_def)
  show "flag_inv (worker_dispatch w d)"
    using assms by (cases "di_worker d") (auto simp: flag_inv_def worker_dispatch_def)
qed

lemma flags_signals:
  assumes "flag_inv d"
  shows "StopSignal d = Some d' \<Longrightarrow> flag_inv d'" "worker_quit d = Some d' \<Longrightarrow> flag_inv d'"
  using assms by (auto simp: flag_inv_def StopSignal_def worker_quit_def split: if_splits)

lemma hook_step_flags:
  assumes "flag_inv d" "hook_step w op d = Some d'"
  shows "flag_inv d'"
  using assms flags_ops [OF assms(1)] flags_signals [OF assms(1)] by (cases op) auto

lemma hook_step_config:
  assumes "hook_step w op d = Some d'"
  shows "di_endpoints d' = di_endpoints d" "di_maxRetries d' = di_maxRetries d"
  using assms by (cases op; auto simp: hook_ops Let_def split: if_splits worker.splits list.splits)+

lemma emit_send_queue:
  assumes "queue_inv w d"
  shows "queue_inv w (emit_send i d)"
proof -
  have q: "di_taken d = di_delivered d @ in_flight d @ di_queue d" "subseq (di_taken d) (di_offered d)"
    using assms unfolding queue_inv_def by blast+
  have "subseq (di_taken d @ [e]) (di_offered d @ [e])" for e
    using q(2) by simp
  then have "subseq (di_delivered d @ in_flight d @ di_queue d @ [e]) (di_offered d @ [e])" for e
    by (metis q(1) append.assoc)
  moreover have "subseq (di_delivered d @ in_flight d @ di_queue d) (di_offered d @ [e])" for e
    using q by (metis subseq_rev_drop_many)
  ultimately show ?thesis
    using assms q by (auto simp: queue_inv_def emit_send_def in_flight_def Let_def)
qed

lemma queue_ops:
  assumes "queue_inv w d" "flag_inv d"
  shows "queue_inv w (Start d)" "queue_inv w (emit_check e d)" "queue_inv w (worker_take d)"
    "queue_inv w (worker_dispatch w d)"
proof -
  show "queue_inv w (Start d)"
    using assms by (cases "di_worker d") (auto simp: queue_inv_def flag_inv_def Start_def in_flight_def)
  show "queue_inv w (emit_check e d)"
    using assms(1) by (auto simp: queue_inv_def emit_check_def in_flight_def)
  show "queue_inv w (worker_take d)"
    using assms(1) by (cases "di_worker d"; cases "di_queue d") (auto simp: queue_inv_def worker_take_def in_flight_def)
  show "queue_inv w (worker_dispatch w d)"
    using assms(1) by (cases "di_worker d") (auto simp: queue_inv_def worker_dispatch_def in_flight_def)
qed

lemma queue_signals:
  assumes "queue_inv w d"
  shows "StopSignal d = Some d' \<Longrightarrow> queue_inv w d'" "worker_quit d = Some d' \<Longrightarrow> queue_inv w d'"
  using assms by (auto simp: queue_inv_def in_flight_def StopSignal_def worker_quit_def split: if_splits)

lemma hook_step_queue:
  assumes "queue_inv w d" "flag_inv d" "hook_step w op d = Some d'"
  shows "queue_inv w d'"
  using assms(3) queue_ops [OF assms(1,2)] queue_signals [OF assms(1)] emit_send_queue [OF assms(1)] by (cases op) auto

lemma hook_run_inv:
  assumes "queue_inv w d" "flag_inv d"
  shows "\<exists>d'. hook_run w ops d = Some d' \<and> queue_inv w d' \<and> flag_inv d' \<and>
              di_endpoints d' = di_endpoints d \<and> di_maxRetries d' = di_maxRetries d"
  using assms
proof (induction ops arbitrary: d)
  case (Cons op ops)
  obtain d1 where d1: "hook_step w op d = Some d1"
    using hook_step_total [OF Cons.prems(2)] by blast
  show ?case
    using Cons.IH [OF hook_step_queue [OF Cons.prems d1] hook_step_flags [OF Cons.prems(2) d1]]
      hook_step_config [OF d1] d1 by simp
qed simp

lemma new_inv: "queue_inv w (NewDispatcher eps m)" "flag_inv (NewDispatcher eps m)"
  by (simp_all add: queue_inv_def flag_inv_def NewDispatcher_def in_flight_def queueSize_def)

lemma stop_finishes:
  assumes "flag_inv d" "di_started d" "di_stopped d"
  shows "\<exists>d'. hook_run w [OpDispatch, OpQuit] d = Some d' \<and> stop_returns d'"
  using assms
  by (cases "di_worker d") (auto simp: flag_inv_def worker_dispatch_def worker_quit_def stop_returns_def)

lemma requests_bound:
  assumes "\<And>e. length (f e) \<le> (k :: nat)"
  shows "length (concat (map f es)) \<le> k * length es"
  using assms by (induction es) (auto intro: add_mono)

lemma event_bound: "length (webhook_dispatch w m eps e) \<le> nat (m + 1) * length eps"
proof -
  have "nat (m + 1) * length (filter (\<lambda>ep. wants ep (ev_Type e)) eps) \<le> nat (m + 1) * length eps"
    by (intro mult_le_mono2) simp
  then show ?thesis using dispatch_length [of w m eps e] by linarith
qed

text \<open>
  C31. Webhook delivery is safe under every interleaving of \<open>Start\<close>, \<open>Stop\<close>, the two halves of \<open>Emit\<close> and the
  worker: no channel is closed twice, so no history panics; the events the queue took are, in
  order, those delivered, the one in flight and those buffered, each taken once from what \<open>Emit\<close>
  offered; the buffer stays within 1024; the requests made are exactly those of delivering the
  delivered events in order, at most \<open>maxRetries + 1\<close> per endpoint and event; and once a started
  dispatcher has been told to stop, \<open>Stop\<close> returns as soon as the delivery in flight ends.
\<close>

theorem webhook_delivery:
  "\<exists>d. hook_run w ops (NewDispatcher eps m) = Some d \<and>
       di_taken d = di_delivered d @ in_flight d @ di_queue d \<and>
       subseq (di_taken d) (di_offered d) \<and>
       length (di_queue d) \<le> 1024 \<and>
       di_requests d = concat (map (webhook_dispatch w m eps) (di_delivered d)) \<and>
       length (di_requests d) \<le> nat (m + 1) * length eps * length (di_delivered d) \<and>
       (di_started d \<and> di_stopped d \<longrightarrow>
          (\<exists>d'. hook_run w [OpDispatch, OpQuit] d = Some d' \<and> stop_returns d'))"
proof -
  obtain d where d: "hook_run w ops (NewDispatcher eps m) = Some d" "queue_inv w d" "flag_inv d"
    "di_endpoints d = eps" "di_maxRetries d = m"
    using hook_run_inv [OF new_inv, of w ops eps m] by (auto simp: NewDispatcher_def)
  have "length (concat (map (webhook_dispatch w m eps) (di_delivered d)))
        \<le> nat (m + 1) * length eps * length (di_delivered d)"
    by (rule requests_bound [OF event_bound])
  then show ?thesis
    using d stop_finishes [OF d(3)] by (intro exI [of _ d]) (auto simp: queue_inv_def queueSize_def)
qed

text \<open>
  An endpoint that fails once and then accepts: the event is offered before and sent after \<open>Stop\<close> is
  called, delivered with two requests, and \<open>Stop\<close> returns.
\<close>

definition sample_http :: http where
  "sample_http = \<lparr> ht_marshal = (\<lambda>e. Some (ev_Type e)), ht_sign = (\<lambda>s b. s @ b),
                   ht_net = (\<lambda>e ep k. if k = 0 then TransportError else Answered 204) \<rparr>"

definition sample_endpoint :: Endpoint where
  "sample_endpoint = \<lparr> ep_URL = ''http://h'', ep_Secret = ''k'', ep_Events = [''wrap''] \<rparr>"

definition sample_event :: Event where
  "sample_event = \<lparr> ev_Type = ''wrap'', ev_Payload = [] \<rparr>"

definition sample_ops :: "hook_op list" where
  "sample_ops = [OpStart, OpStart, OpEmitCheck sample_event, OpStop, OpStop, OpEmitCheck sample_event,
                 OpEmitSend 0, OpTake]"

lemmas sample_hooks = sample_ops_def sample_http_def sample_endpoint_def sample_event_def NewDispatcher_def
  hook_ops queueSize_def webhook_dispatch_def deliver_def wants_def accepted_status_def upt_rec Let_def

theorem webhook_delivery_witness:
  "\<exists>d d'. hook_run sample_http sample_ops (NewDispatcher [sample_endpoint] 2) = Some d \<and>
          di_started d \<and> di_stopped d \<and> in_flight d = [sample_event] \<and>
          hook_run sample_http [OpDispatch, OpQuit] d = Some d' \<and> stop_returns d' \<and>
          map se_wait (di_requests d') = [0, 200]"
proof -
  obtain d where d: "hook_run sample_http sample_ops (NewDispatcher [sample_endpoint] 2) = Some d"
    and live: "di_started d \<and> di_stopped d \<longrightarrow>
      (\<exists>d'. hook_run sample_http [OpDispatch, OpQuit] d = Some d' \<and> stop_returns d')"
    using webhook_delivery [of sample_http sample_ops "[sample_endpoint]" 2] by blast
  have st: "di_started d" "di_stopped d" "in_flight d = [sample_event]"
    using d by (auto simp: sample_hooks)
  obtain d' where d': "hook_run sample_http [OpDispatch, OpQuit] d = Some d'" "stop_returns d'"
    using live st by blast
  have "map se_wait (di_requests d') = [0, 200]"
    using d d'(1) by (auto simp: sample_hooks)
  then show ?thesis using d d' st by (intro exI [of _ d] exI [of _ d'] conjI)
qed

end
