(* ===== verification/Configuration.thy ===== *)
theory Configuration
  imports Node_Pool Watchdog Webhooks
begin

text \<open>
  \<open>internal/config/config.go\<close> and the startup of \<open>cmd/indexer\<close>: the settings, the node list built from
  the legacy variables, validation, and the way from the settings to a running indexer. Reading
  the file, the environment and the defaults is the configuration library's: its result is an
  argument. So are the parts of the standard library that work on UTF-8, URLs and durations.
\<close>

subsection \<open>Settings\<close>

record WebhookEndpoint =
  we_URL :: string
  we_Secret :: string
  we_Events :: "string list"

record WebhooksConfig =
  wh_Enabled :: bool
  wh_Endpoints :: "WebhookEndpoint list"
  wh_TimeoutSeconds :: int
  wh_MaxRetries :: int

record config_NodeEntry =
  cn_URL :: string
  cn_Label :: string
  cn_ProbeURL :: string

record WatchdogConfig =
  wd_Enabled :: bool
  wd_Interval :: int
  wd_StallThreshold :: int
  wd_IndexerDriftThreshold :: int
  wd_NodeDriftThreshold :: int
  wd_UnhealthyStreak :: int
  wd_FailbackStreak :: int

record HealthConfig =
  hc_Enabled :: bool
  hc_Port :: int

record IndexerConfig =
  ic_Nodes :: "config_NodeEntry list"
  ic_Watchdog :: WatchdogConfig
  ic_Health :: HealthConfig

record DatabaseConfig =
  dc_Host :: string
  dc_Port :: int
  dc_Name :: string
  dc_User :: string
  dc_Password :: string
  dc_PoolSize :: int

record LoggingConfig =
  lc_Level :: string
  lc_Format :: string

record config_CronConfig =
  cc_VotingActivityInterval :: string
  cc_TokenHoldersInterval :: string

text \<open>\<open>APIConfig\<close> and \<open>MCPConfig\<close> have the same fields.\<close>

record APIConfig =
  ac_Port :: int
  ac_MetricsPort :: int
  ac_JWTSecret :: string
  ac_CORSAllowedOrigins :: string
  ac_RateLimitPerMinute :: int

type_synonym MCPConfig = APIConfig

record Config =
  cf_WebSocketURL :: string
  cf_Database :: DatabaseConfig
  cf_Logging :: LoggingConfig
  cf_Cron :: config_CronConfig
  cf_API :: APIConfig
  cf_MCP :: MCPConfig
  cf_Indexer :: IndexerConfig
  cf_Webhooks :: WebhooksConfig
  cf_BackfillOnStartup :: bool

text \<open>\<open>strings.Split(s, sep)\<close> for a separator of one byte.\<close>

fun Split :: "char \<Rightarrow> string \<Rightarrow> string list" where
  "Split sep [] = [[]]"
| "Split sep (c # cs) =
     (if c = sep then [] # Split sep cs
      else (case Split sep cs of [] \<Rightarrow> [[c]] | w # ws \<Rightarrow> (c # w) # ws))"

definition CORSAllowedOriginsList :: "(string \<Rightarrow> string) \<Rightarrow> string \<Rightarrow> string list" where
  "CORSAllowedOriginsList TrimSpace origins =
     (if origins = [] then []
      else filter (\<lambda>t. t \<noteq> []) (map TrimSpace (Split (CHR '','') origins)))"

definition EffectiveJWTSecret :: "MCPConfig \<Rightarrow> string \<Rightarrow> string" where
  "EffectiveJWTSecret m apiSecret = (if ac_JWTSecret m \<noteq> [] then ac_JWTSecret m else apiSecret)"

definition ConnectionString :: "DatabaseConfig \<Rightarrow> string" where
  "ConnectionString d =
     ''postgres://'' @ dc_User d @ '':'' @ dc_Password d @ ''@'' @ dc_Host d @ '':'' @ FormatInt (dc_Port d) @
     ''/'' @ dc_Name d @ ''?sslmode=disable''"

subsection \<open>Probe addresses\<close>

text \<open>What \<open>url.Parse\<close> yields; \<open>Hostname\<close> is without the brackets of an IPv6 address.\<close>

record parsed_url =
  ur_Scheme :: string
  ur_Hostname :: string
  ur_Port :: string
  ur_Path :: string

definition deriveProbeURL :: "(string \<Rightarrow> parsed_url option) \<Rightarrow> string \<Rightarrow> string" where
  "deriveProbeURL Parse wsURL =
     (case Parse wsURL of
        None \<Rightarrow> []
      | Some u \<Rightarrow>
          if ur_Scheme u \<noteq> ''ws'' \<and> ur_Scheme u \<noteq> ''wss'' then []
          else if ur_Port u = [] then []
          else
            (case Atoi (ur_Port u) of
               None \<Rightarrow> []
             | Some portNum \<Rightarrow>
                 if portNum \<noteq> 35998 then []
                 else (let scheme = (if ur_Scheme u = ''wss'' then ''https'' else ''http'')
                       in scheme @ ''://'' @ ur_Hostname u @ '':'' @ FormatInt (portNum - 1) @ ur_Path u)))"

subsection \<open>Loading\<close>

record config_libs =
  cl_TrimSpace :: "string \<Rightarrow> string"
  cl_ToLower :: "string \<Rightarrow> string"
  cl_ParseURL :: "string \<Rightarrow> parsed_url option"
  cl_ParseDuration :: "string \<Rightarrow> int option"
  cl_ParseLevel :: "string \<Rightarrow> string option"

definition node_entry :: "config_libs \<Rightarrow> string \<Rightarrow> string \<Rightarrow> config_NodeEntry" where
  "node_entry lib u label =
     \<lparr> cn_URL = u, cn_Label = label,
       cn_ProbeURL = (let derived = deriveProbeURL (cl_ParseURL lib) u in if derived \<noteq> [] then derived else []) \<rparr>"

fun fallback_nodes :: "config_libs \<Rightarrow> int \<Rightarrow> string list \<Rightarrow> config_NodeEntry list" where
  "fallback_nodes lib k [] = []"
| "fallback_nodes lib k (s # ss) =
     (let u = cl_TrimSpace lib s
      in if u = [] then fallback_nodes lib k ss
         else node_entry lib u (''fallback-'' @ FormatInt k) # fallback_nodes lib (k + 1) ss)"

definition legacy_nodes :: "config_libs \<Rightarrow> string \<Rightarrow> string \<Rightarrow> config_NodeEntry list" where
  "legacy_nodes lib ws fb =
     node_entry lib ws ''primary'' #
     (if fb \<noteq> [] then fallback_nodes lib 1 (Split (CHR '','') fb) else [])"

definition Validate :: "Config \<Rightarrow> string option" where
  "Validate c =
     (let d = cf_Database c
      in if cf_WebSocketURL c = [] then Some ''node.ws_url is required''
         else if dc_Host d = [] then Some ''database.host is required''
         else if dc_Port d \<le> 0 \<or> 65535 < dc_Port d then Some ''database.port must be between 1 and 65535''
         else if dc_Name d = [] then Some ''database.name is required''
         else if dc_User d = [] then Some ''database.user is required''
         else if dc_Password d = []
              then Some ''database.password is required (set in config.yaml or DATABASE_PASSWORD env var)''
         else None)"

text \<open>
  \<open>decoded\<close> is what the library read and unmarshaled, or its error; \<open>fb\<close> the variable
  \<open>NODE_URL_FALLBACKS\<close>.
\<close>

definition load :: "config_libs \<Rightarrow> string + Config \<Rightarrow> string \<Rightarrow> string + Config" where
  "load lib decoded fb =
     (case decoded of
        Inl err \<Rightarrow> Inl err
      | Inr c \<Rightarrow>
          let cfg = (if ic_Nodes (cf_Indexer c) = [] \<and> cf_WebSocketURL c \<noteq> []
                     then c\<lparr> cf_Indexer := (cf_Indexer c)\<lparr> ic_Nodes := legacy_nodes lib (cf_WebSocketURL c) fb \<rparr> \<rparr>
                     else c)
          in (case Validate cfg of
                Some err \<Rightarrow> Inl (''config validation failed: '' @ err)
              | None \<Rightarrow> Inr cfg))"

text \<open>The level and the encoding of the logger; the library builds the rest.\<close>

definition BuildLogger :: "config_libs \<Rightarrow> LoggingConfig \<Rightarrow> string + string \<times> string" where
  "BuildLogger lib l =
     (case (if lc_Level l \<noteq> [] then cl_ParseLevel lib (cl_ToLower lib (lc_Level l)) else Some ''info'') of
        None \<Rightarrow> Inl ''invalid logging.level''
      | Some level \<Rightarrow>
          (let format = cl_ToLower lib (lc_Format l)
           in if format = ''json'' then Inr (level, ''json'')
              else if format = [] \<or> format = ''console'' then Inr (level, ''console'')
              else Inl ''invalid logging.format''))"

definition ParseCronInterval :: "config_libs \<Rightarrow> string \<Rightarrow> int \<Rightarrow> int option" where
  "ParseCronInterval lib s defaultInterval = (if s = [] then Some defaultInterval else cl_ParseDuration lib s)"

subsection \<open>Tokens\<close>

definition NewSigner :: "string \<Rightarrow> string option" where
  "NewSigner secret = (if secret = [] then None else Some secret)"

record Claims =
  cm_Subject :: string
  cm_IssuedAt :: int
  cm_ExpiresAt :: int
  cm_Scope :: string

fun Join :: "string list \<Rightarrow> string \<Rightarrow> string" where
  "Join [] sep = []"
| "Join [s] sep = s"
| "Join (s # t # ss) sep = s @ sep @ Join (t # ss) sep"

text \<open>\<open>now\<close> and \<open>ttl\<close> are nanoseconds; numeric dates are whole seconds. Signing is the library's.\<close>

definition Issue :: "(string \<Rightarrow> Claims \<Rightarrow> string option) \<Rightarrow> string \<Rightarrow> int \<Rightarrow> string \<Rightarrow> int \<Rightarrow> string list \<Rightarrow> string option" where
  "Issue sign secret now sub ttl scopes =
     (if sub = [] then None
      else if ttl \<le> 0 then None
      else sign secret \<lparr> cm_Subject = sub, cm_IssuedAt = now div second, cm_ExpiresAt = (now + ttl) div second,
             cm_Scope = Join scopes '' '' \<rparr>)"

definition splitScopes :: "(string \<Rightarrow> string) \<Rightarrow> string \<Rightarrow> string list" where
  "splitScopes TrimSpace s =
     (if s = [] then [] else filter (\<lambda>t. t \<noteq> []) (map TrimSpace (Split (CHR '','') s)))"

definition jwt_secret_env :: "string \<Rightarrow> (string \<Rightarrow> string) \<Rightarrow> string" where
  "jwt_secret_env secretEnv Getenv =
     (if secretEnv = []
      then (if Getenv ''API_JWT_SECRET'' = [] \<and> Getenv ''MCP_JWT_SECRET'' \<noteq> [] then ''MCP_JWT_SECRET''
            else ''API_JWT_SECRET'')
      else secretEnv)"

definition jwt_issue :: "(string \<Rightarrow> string) \<Rightarrow> (string \<Rightarrow> Claims \<Rightarrow> string option) \<Rightarrow> (string \<Rightarrow> string) \<Rightarrow> int \<Rightarrow>
    string \<Rightarrow> int \<Rightarrow> string \<Rightarrow> string \<Rightarrow> int + string" where
  "jwt_issue TrimSpace sign Getenv now sub ttl scope secretEnv =
     (if sub = [] then Inl 2
      else
        (let secret = Getenv (jwt_secret_env secretEnv Getenv)
         in if secret = [] then Inl 2
            else
              (case NewSigner secret of
                 None \<Rightarrow> Inl 1
               | Some s \<Rightarrow>
                   (case Issue sign s now sub ttl (splitScopes TrimSpace scope) of
                      None \<Rightarrow> Inl 1
                    | Some token \<Rightarrow> Inr token))))"

subsection \<open>The health server\<close>

record HealthSnapshot =
  hs_Ready :: bool
  hs_State :: string
  hs_NodeLabel :: string
  hs_Drift :: int

text \<open>A node label outside the pool would be a panic: \<open>None\<close>.\<close>

definition HealthSnapshot_of :: "WatchdogConfigForIndexer \<Rightarrow> watch \<Rightarrow> HealthSnapshot option" where
  "HealthSnapshot_of cfg w =
     (case Entry (w_pool w) (sy_activeIdx (w_state w)) of
        None \<Rightarrow> None
      | Some entry \<Rightarrow>
          Some \<lparr> hs_Ready = HealthSnapshot_Ready cfg w, hs_State = sy_lastClass (w_state w),
                 hs_NodeLabel = ne_Label entry, hs_Drift = sy_lastDrift (w_state w) \<rparr>)"

definition health_readyz :: "HealthSnapshot \<Rightarrow> int \<times> string \<times> HealthSnapshot" where
  "health_readyz snap = (if hs_Ready snap then (200, ''ready'', snap) else (503, ''draining'', snap))"

subsection \<open>Starting the indexer\<close>

definition toIndexerNodes :: "config_NodeEntry list \<Rightarrow> NodeEntry list" where
  "toIndexerNodes =
     map (\<lambda>n. \<lparr> ne_URL = cn_URL n, ne_Label = cn_Label n, ne_ProbeURL = cn_ProbeURL n \<rparr>)"

definition toWebhookEndpoints :: "WebhookEndpoint list \<Rightarrow> Endpoint list" where
  "toWebhookEndpoints = map (\<lambda>e. \<lparr> ep_URL = we_URL e, ep_Secret = we_Secret e, ep_Events = we_Events e \<rparr>)"

definition watchdog_config :: "WatchdogConfig \<Rightarrow> WatchdogConfigForIndexer" where
  "watchdog_config w =
     \<lparr> wc_Enabled = wd_Enabled w, wc_Interval = wd_Interval w, wc_StallThreshold = wd_StallThreshold w,
       wc_IndexerDriftThreshold = wd_IndexerDriftThreshold w, wc_NodeDriftThreshold = wd_NodeDriftThreshold w,
       wc_UnhealthyStreak = wd_UnhealthyStreak w, wc_FailbackStreak = wd_FailbackStreak w \<rparr>"

text \<open>
  What the outside does during startup: the database and migrations, which addresses cannot be
  dialed, the network at the k-th probe of the primary and at the fallbacks, the context during
  the retries, the clock and the database's content.
\<close>

record outside =
  ou_database_ok :: bool
  ou_migrations_ok :: bool
  ou_dial_fails :: "string \<Rightarrow> bool"
  ou_nets :: "nat \<Rightarrow> network"
  ou_before :: "nat \<Rightarrow> bool"
  ou_sleep :: "nat \<Rightarrow> bool"
  ou_fallback_net :: "nat \<Rightarrow> network"
  ou_now :: int
  ou_db :: db

datatype startup = Exit string | Panic | Running watch "Dispatcher option"

definition after_probe :: "outside \<Rightarrow> watch \<Rightarrow> watch option option" where
  "after_probe ou w =
     (let run = fst (ProbeWithRetry (ou_nets ou) (ou_before ou) (ou_sleep ou) (w_pool w) 0 5 (1000 * millisecond));
          w1 = w\<lparr> w_pool := pool_after (ou_nets ou) (w_pool w) 0 (rr_calls run) \<rparr>
      in if rr_end run = Succeeded then Some (Some w1)
         else startup_fallback (ou_fallback_net ou) (ou_dial_fails ou) (ou_now ou) [1..<Len (w_pool w1)] w1)"

definition start_indexer :: "config_libs \<Rightarrow> string + Config \<Rightarrow> string \<Rightarrow> outside \<Rightarrow> startup" where
  "start_indexer lib decoded fb ou =
     (case load lib decoded fb of
        Inl err \<Rightarrow> Exit ''failed to load configuration''
      | Inr cfg \<Rightarrow>
          (case BuildLogger lib (cf_Logging cfg) of
             Inl err \<Rightarrow> Exit ''failed to initialize logger''
           | Inr _ \<Rightarrow>
               (case ic_Nodes (cf_Indexer cfg) of
                  [] \<Rightarrow> Exit ''no nodes configured (set NODE_URL_WS or indexer.nodes)''
                | primary # _ \<Rightarrow>
                    if \<not> ou_database_ok ou then Exit ''failed to connect to database''
                    else if \<not> ou_migrations_ok ou then Exit ''failed to run migrations''
                    else if ou_dial_fails ou (cn_URL primary) then Exit ''failed to connect to primary node''
                    else if ParseCronInterval lib (cc_VotingActivityInterval (cf_Cron cfg)) (600 * second) = None
                    then Exit ''invalid cron.voting_activity_interval''
                    else if ParseCronInterval lib (cc_TokenHoldersInterval (cf_Cron cfg)) (600 * second) = None
                    then Exit ''invalid cron.token_holders_interval''
                    else
                      (let pool = NewNodePool (toIndexerNodes (ic_Nodes (cf_Indexer cfg)));
                           w = NewIndexerWithNodes pool (cn_URL primary) 0 (ou_db ou);
                           wh = cf_Webhooks cfg;
                           hooks = (if wh_Enabled wh
                                    then AttachWebhooks (toWebhookEndpoints (wh_Endpoints wh)) (wh_MaxRetries wh) None
                                    else None)
                       in if wd_Enabled (ic_Watchdog (cf_Indexer cfg))
                          then (case after_probe ou w of
                                  None \<Rightarrow> Panic
                                | Some None \<Rightarrow> Exit ''all nodes failed startup probe''
                                | Some (Some w') \<Rightarrow> Running w' hooks)
                          else Running w hooks))))"

end
