(* ===== verification/Startup_Props.thy ===== *)
theory Startup_Props
  imports Configuration Watchdog_Props Webhook_Props
begin

text \<open>
  From the settings to a running indexer: what \<open>Load\<close> guarantees, and that the state \<open>main\<close> hands to the
  main loop is one the watchdog and the dispatcher are proved safe from.
\<close>

subsection \<open>Settings\<close>

lemma Split_not_Nil [simp]: "Split sep s \<noteq> []"
  by (induction s) (auto split: list.splits)

text \<open>Splitting inverts joining.\<close>

lemma Split_word: "sep \<notin> set w \<Longrightarrow> Split sep (w @ sep # rest) = w # Split sep rest"
  by (induction w) auto

lemma Split_single: "sep \<notin> set w \<Longrightarrow> Split sep w = [w]"
  by (induction w) auto

lemma Split_Join:
  assumes "ws \<noteq> []" "\<forall>w \<in> set ws. sep \<notin> set w"
  shows "Split sep (Join ws [sep]) = ws"
  using assms by (induction ws "[sep]" rule: Join.induct) (auto simp: Split_single Split_word)

lemma fallback_labels:
  "map cn_Label (fallback_nodes lib k ss) =
   map (\<lambda>i. ''fallback-'' @ FormatInt (k + int i)) [0..<length (fallback_nodes lib k ss)]"
proof (induction ss arbitrary: k)
  case (Cons s ss)
  have "map (\<lambda>i. ''fallback-'' @ FormatInt (k + 1 + int i)) [0..<n] =
      map (\<lambda>i. ''fallback-'' @ FormatInt (k + int i)) [1..<Suc n]" for n
    by (simp add: list_eq_iff_nth_eq algebra_simps del: upt_Suc)
  then show ?case
    using Cons.IH [of k] Cons.IH [of "k + 1"]
    by (simp add: Let_def node_entry_def upt_conv_Cons del: upt_Suc)
qed simp

lemma fallback_urls:
  "map cn_URL (fallback_nodes lib k ss) = filter (\<lambda>u. u \<noteq> []) (map (cl_TrimSpace lib) ss)"
  by (induction ss arbitrary: k) (simp_all add: Let_def node_entry_def)

lemma legacy_labels_distinct: "distinct (map cn_Label (legacy_nodes lib ws fb))"
proof -
  have "distinct (map cn_Label (fallback_nodes lib k ss))" for k ss
    unfolding fallback_labels by (simp add: distinct_map inj_on_def)
  moreover have "''primary'' \<notin> set (map cn_Label (fallback_nodes lib k ss))" for k ss
    unfolding fallback_labels by auto
  ultimately show ?thesis by (auto simp: legacy_nodes_def node_entry_def)
qed


lemma Validate_None:
  "Validate cfg = None \<longleftrightarrow> cf_WebSocketURL cfg \<noteq> [] \<and> dc_Host (cf_Database cfg) \<noteq> [] \<and>
     1 \<le> dc_Port (cf_Database cfg) \<and> dc_Port (cf_Database cfg) \<le> 65535 \<and> dc_Name (cf_Database cfg) \<noteq> [] \<and>
     dc_User (cf_Database cfg) \<noteq> [] \<and> dc_Password (cf_Database cfg) \<noteq> []"
  by (auto simp: Validate_def Let_def)

text \<open>User and password go into the connection string as they are, so it can be read in two ways.\<close>

lemma connection_string_ambiguous:
  "ConnectionString \<lparr> dc_Host = ''h'', dc_Port = 1, dc_Name = ''n'', dc_User = ''u'', dc_Password = ''p@x'', dc_PoolSize = 1 \<rparr>
   = ConnectionString \<lparr> dc_Host = ''x@h'', dc_Port = 1, dc_Name = ''n'', dc_User = ''u'', dc_Password = ''p'', dc_PoolSize = 1 \<rparr>"
  by (simp add: ConnectionString_def)

text \<open>The brackets of an IPv6 address are lost: the probe address has the colons of host and port run together.\<close>

lemma probe_url_ipv6:
  assumes "Parse ''ws://[::1]:35998'' =
    Some \<lparr> ur_Scheme = ''ws'', ur_Hostname = ''::1'', ur_Port = ''35998'', ur_Path = [] \<rparr>"
  shows "deriveProbeURL Parse ''ws://[::1]:35998'' = ''http://::1:35997''"
proof -
  have "Atoi ''35998'' = Some 35998" "FormatInt 35997 = ''35997''" by code_simp+
  then show ?thesis using assms by (simp add: deriveProbeURL_def)
qed

subsection \<open>The startup probe\<close>







subsection \<open>Startup\<close>












end
