(* ===== verification/Scripts.thy ===== *)
theory Scripts
  imports Decoder Repo_Accelerator Repo_Entries Repo_Ledger
begin

text \<open>
  The repair programs under \<open>scripts\<close>: \<open>backfill-rewards\<close>, which derives the reward log from the stored
  blocks, and \<open>repair-votes\<close>, which replaces the votes by what the stored blocks decode to. Both read
  and write the indexer's tables; the driver's faults are arguments.
\<close>

subsection \<open>backfill-rewards\<close>

definition blockTypeUserReceive :: int where
  "blockTypeUserReceive = 3"

definition blockTypeContractSend :: int where
  "blockTypeContractSend = 4"

definition is_reward :: "AccountBlock \<Rightarrow> AccountBlock \<Rightarrow> bool" where
  "is_reward ab paired \<longleftrightarrow>
     ab_Hash paired = ab_PairedAccountBlock ab \<and> ab_BlockType ab = blockTypeUserReceive \<and>
     (ab_Address paired = LiquidityTreasuryAddress \<or>
      ab_BlockType paired = blockTypeContractSend \<and> ab_ToAddress ab = EmptyAddress \<and>
      ab_TokenStandard ab = EmptyTokenStandard \<and>
      ab_Address paired \<in> {PillarAddress, SentinelAddress, StakeAddress})"

definition reward_receives :: "db \<Rightarrow> (AccountBlock \<times> AccountBlock) list" where
  "reward_receives d =
     order_asc (\<lambda>(ab, paired). ab_MomentumHeight ab)
       (filter (\<lambda>(ab, paired). is_reward ab paired) (List.product (account_blocks d) (account_blocks d)))"

definition script_determineRewardType :: "string \<Rightarrow> RewardType" where
  "script_determineRewardType sourceAddress =
     (if sourceAddress = PillarAddress then RewardTypePillar
      else if sourceAddress = SentinelAddress then RewardTypeSentinel
      else if sourceAddress = StakeAddress then RewardTypeStake
      else if sourceAddress = LiquidityTreasuryAddress \<or> sourceAddress = LiquidityAddress then RewardTypeLiquidity
      else RewardTypeUnknown)"

definition reward_row :: "AccountBlock \<Rightarrow> AccountBlock \<Rightarrow> int \<Rightarrow> RewardTransaction" where
  "reward_row ab paired amount =
     \<lparr> rt_Hash = ab_Hash ab, rt_Address = ab_Address ab,
       rt_RewardType = script_determineRewardType (ab_Address paired),
       rt_MomentumTimestamp = ab_MomentumTimestamp ab, rt_MomentumHeight = ab_MomentumHeight ab,
       rt_AccountHeight = ab_Height ab, rt_Amount = amount, rt_TokenStandard = ab_TokenStandard paired,
       rt_SourceAddress = ab_Address paired \<rparr>"

text \<open>
  The loop. \<open>ins\<close> and \<open>upd\<close> say for which receive hash the driver fails the insert or the update of the
  sums. The result is the error, the two counters and the database, which every statement has
  changed on its own.
\<close>

fun backfill_rewards_loop :: "(hash \<Rightarrow> bool) \<Rightarrow> (hash \<Rightarrow> bool) \<Rightarrow> (AccountBlock \<times> AccountBlock) list \<Rightarrow>
    int \<times> int \<times> db \<Rightarrow> string option \<times> int \<times> int \<times> db" where
  "backfill_rewards_loop ins upd [] s = (None, s)"
| "backfill_rewards_loop ins upd ((ab, paired) # rest) (insertedRT, addedCum, d) =
     (case ParseInt64 (FormatInt (ab_Amount paired)) of
        None \<Rightarrow> backfill_rewards_loop ins upd rest (insertedRT, addedCum, d)
      | Some amount \<Rightarrow>
          let rt = reward_row ab paired amount
          in if rt_RewardType rt = RewardTypeUnknown
             then backfill_rewards_loop ins upd rest (insertedRT, addedCum, d)
             else if ins (ab_Hash ab) then (Some ''insert reward_transaction'', insertedRT, addedCum, d)
             else if find_by rt_Hash (rt_Hash rt) (reward_transactions d) \<noteq> None
             then backfill_rewards_loop ins upd rest (insertedRT, addedCum, d)
             else
               let d1 = d\<lparr> reward_transactions := reward_transactions d @ [rt] \<rparr>
               in if upd (ab_Hash ab) then (Some ''upsert cumulative'', insertedRT + 1, addedCum, d1)
                  else
                    (case Reward_UpdateCumulative (rt_Address rt) (rt_RewardType rt) amount (rt_TokenStandard rt) d1 of
                       Inl err \<Rightarrow> (Some ''upsert cumulative'', insertedRT + 1, addedCum, d1)
                     | Inr d2 \<Rightarrow> backfill_rewards_loop ins upd rest (insertedRT + 1, addedCum + 1, d2)))"

definition backfill_rewards :: "(hash \<Rightarrow> bool) \<Rightarrow> (hash \<Rightarrow> bool) \<Rightarrow> db \<Rightarrow> string option \<times> int \<times> int \<times> db" where
  "backfill_rewards ins upd d = backfill_rewards_loop ins upd (reward_receives d) (0, 0, d)"

subsection \<open>repair-votes\<close>

text \<open>\<open>hex.DecodeString\<close>: pairs of digits, in either case.\<close>

definition hex_value :: "char \<Rightarrow> int option" where
  "hex_value c =
     (let n = of_char c :: int
      in if 48 \<le> n \<and> n \<le> 57 then Some (n - 48)
         else if 97 \<le> n \<and> n \<le> 102 then Some (n - 87)
         else if 65 \<le> n \<and> n \<le> 70 then Some (n - 55)
         else None)"

fun DecodeString :: "string \<Rightarrow> string option" where
  "DecodeString [] = Some []"
| "DecodeString [c] = None"
| "DecodeString (c1 # c2 # cs) =
     (case (hex_value c1, hex_value c2, DecodeString cs) of
        (Some h, Some l, Some bs) \<Rightarrow> Some (char_of (16 * h + l) # bs)
      | _ \<Rightarrow> None)"

definition vote_blocks :: "db \<Rightarrow> AccountBlock list" where
  "vote_blocks d =
     order_asc ab_MomentumHeight
       (filter (\<lambda>b. ab_ToAddress b = AcceleratorAddress \<and> ab_Method b \<in> {''VoteByName'', ''VoteByProdAddress''} \<and>
          ab_PairedAccountBlock b \<noteq> []) (account_blocks d))"

definition loadPillarOwners :: "db \<Rightarrow> (string \<times> address) list" where
  "loadPillarOwners d = fold (\<lambda>p m. alist_set (pl_Name p) (pl_OwnerAddress p) m) (pillars d) []"

text \<open>Unlike the indexer's decoder, an argument list that does not decode is a failure.\<close>

definition decodeFromAbi :: "string \<Rightarrow> abi option \<Rightarrow> (string \<times> string) list option" where
  "decodeFromAbi data contractAbi =
     (case contractAbi of
        None \<Rightarrow> None
      | Some a \<Rightarrow>
          if length data < 4 then None
          else
            (case find (matches_entry data) (abi_Entries a) of
               None \<Rightarrow> None
             | Some entry \<Rightarrow>
                 let result = [(''_method'', ae_Name entry)]
                 in if ae_Inputs entry \<noteq> [] \<and> 4 < length data then
                      (case abi_DecodeFunction a data of
                         Inl err \<Rightarrow> None
                       | Inr args \<Rightarrow>
                           Some (fold (\<lambda>(name, arg) m. alist_set name (formatArg arg) m) (zip (ae_Inputs entry) args) result))
                    else Some result))"

definition input_of :: "(string \<times> string) list \<Rightarrow> string \<Rightarrow> string" where
  "input_of m k = (case map_of m k of None \<Rightarrow> [] | Some v \<Rightarrow> v)"

definition resolveVoterAddress :: "AccountBlock \<Rightarrow> (string \<times> string) list \<Rightarrow> (string \<times> address) list \<Rightarrow> address" where
  "resolveVoterAddress b decoded pillarOwners =
     (if ab_Method b = ''VoteByName'' \<and> input_of decoded ''name'' \<noteq> []
      then (case map_of pillarOwners (input_of decoded ''name'') of Some owner \<Rightarrow> owner | None \<Rightarrow> ab_Address b)
      else ab_Address b)"

definition resolveProjectPhase :: "string \<Rightarrow> db \<Rightarrow> string \<times> string" where
  "resolveProjectPhase votingID d =
     (case find_by pj_VotingID votingID (projects d) of
        Some p \<Rightarrow>
          if pj_ID p \<noteq> [] then (pj_ID p, [])
          else (case find_by pp_VotingID votingID (project_phases d) of
                  Some ph \<Rightarrow> (pp_ProjectID ph, pp_ID ph) | None \<Rightarrow> ([], []))
      | None \<Rightarrow>
          (case find_by pp_VotingID votingID (project_phases d) of
             Some ph \<Rightarrow> (pp_ProjectID ph, pp_ID ph) | None \<Rightarrow> ([], [])))"

definition redecode :: "sdk \<Rightarrow> db \<Rightarrow> AccountBlock \<Rightarrow> Vote option" where
  "redecode sdk d b =
     (case DecodeString (ab_Data b) of
        None \<Rightarrow> None
      | Some data \<Rightarrow>
          (case (case decodeFromAbi data (sdk_Accelerator sdk) of
                   None \<Rightarrow> decodeFromAbi data (sdk_Common sdk) | Some m \<Rightarrow> Some m) of
             None \<Rightarrow> None
           | Some decoded \<Rightarrow>
               let votingID = input_of decoded ''id'';
                   voteValue = (case Atoi (input_of decoded ''vote'') of None \<Rightarrow> 0 | Some v \<Rightarrow> v)
               in if votingID = [] then None
                  else
                    let (projectID, phaseID) = resolveProjectPhase votingID d
                    in Some \<lparr> vo_MomentumHash = ab_MomentumHash b, vo_MomentumTimestamp = ab_MomentumTimestamp b,
                         vo_MomentumHeight = ab_MomentumHeight b,
                         vo_VoterAddress = resolveVoterAddress b decoded (loadPillarOwners d),
                         vo_ProjectID = projectID, vo_PhaseID = phaseID, vo_VotingID = votingID,
                         vo_Vote = int16 voteValue \<rparr>))"

definition repaired_votes :: "sdk \<Rightarrow> db \<Rightarrow> Vote list" where
  "repaired_votes sdk d = List.map_filter (redecode sdk d) (vote_blocks d)"

text \<open>
  A statement that fails inside a transaction makes PostgreSQL refuse every later one and turns
  the commit into a rollback. The unique index on voter and voting id (migration 006) makes a
  second insert with the same key fail.
\<close>

fun insert_votes :: "(nat \<Rightarrow> bool) \<Rightarrow> nat \<Rightarrow> Vote list \<Rightarrow> bool \<times> int \<times> Vote list \<Rightarrow> bool \<times> int \<times> Vote list" where
  "insert_votes fault k [] s = s"
| "insert_votes fault k (v # vs) (aborted, inserted, t) =
     insert_votes fault (Suc k) vs
       (if aborted \<or> fault k \<or> find_by vote_key (vote_key v) t \<noteq> None then (True, inserted, t)
        else (False, inserted + 1, t @ [v]))"

datatype repair_end = RepairFatal string | NothingToDo | Repaired int

text \<open>
  \<open>ready\<close>: the backup and the reads succeeded; \<open>begun\<close>: so did \<open>BEGIN\<close> and the \<open>DELETE\<close>.
\<close>

definition repair_votes :: "sdk \<Rightarrow> bool \<Rightarrow> bool \<Rightarrow> (nat \<Rightarrow> bool) \<Rightarrow> bool \<Rightarrow> db \<Rightarrow> repair_end \<times> db" where
  "repair_votes sdk ready begun fault commit_fails d =
     (if \<not> ready then (RepairFatal ''failed to backup or read'', d)
      else if vote_blocks d = [] then (NothingToDo, d)
      else if \<not> begun then (RepairFatal ''failed to begin or delete'', d)
      else
        (case insert_votes fault 0 (repaired_votes sdk d) (False, 0, []) of
           (aborted, inserted, t) \<Rightarrow>
             if aborted \<or> commit_fails then (RepairFatal ''failed to commit transaction'', d)
             else (Repaired inserted, d\<lparr> votes := t \<rparr>)))"

end
