(* ===== verification/Script_Props.thy ===== *)
theory Script_Props
  imports Scripts
begin

text \<open>
  What the repair programs do to the tables: the reward backfill is complete and can be repeated, but
  an interrupted one leaves sums short for good; the vote repair replaces the table or leaves it,
  and never gets through when a voter has voted twice.
\<close>

subsection \<open>Hexadecimal data\<close>

lemma hex_value_digit: "0 \<le> n \<Longrightarrow> n < 16 \<Longrightarrow> hex_value (hex_digit n) = Some n"
  by (auto simp: hex_value_def hex_digit_def Let_def)

lemma DecodeString_EncodeToString: "DecodeString (EncodeToString bs) = Some bs"
proof (induction bs)
  case (Cons b bs)
  have "0 \<le> (of_char b :: int)" "(of_char b :: int) < 256"
    by (simp_all add: of_char_def)
  then show ?case
    using Cons by (simp add: Let_def hex_value_digit)
qed simp

subsection \<open>The reward backfill\<close>

definition shortfall :: "address \<times> RewardType \<times> string \<Rightarrow> db \<Rightarrow> int" where
  "shortfall k d = reward_sum k d - cumulative_of k d"

definition logged :: "db \<Rightarrow> hash \<Rightarrow> bool" where
  "logged d h \<longleftrightarrow> find_by rt_Hash h (reward_transactions d) \<noteq> None"

lemma reward_sum_append:
  "reward_sum k (d\<lparr> reward_transactions := reward_transactions d @ [rt] \<rparr>) =
     reward_sum k d + (if rt_key rt = k then rt_Amount rt else 0)"
  by (simp add: reward_sum_def)

lemma is_reward_type: "is_reward ab paired \<Longrightarrow> script_determineRewardType (ab_Address paired) \<noteq> RewardTypeUnknown"
  by (auto simp: is_reward_def script_determineRewardType_def)

lemma UpdateCumulative_frame:
  assumes "Reward_UpdateCumulative a ty n tok d = Inr d'"
  shows "reward_transactions d' = reward_transactions d" "account_blocks d' = account_blocks d"
  using assms by (auto simp: Reward_UpdateCumulative_def map_Inr_eq_Inr)

definition grown :: "db \<Rightarrow> db \<Rightarrow> bool" where
  "grown d d' \<longleftrightarrow> account_blocks d' = account_blocks d \<and> (\<forall>h. logged d h \<longrightarrow> logged d' h)"

lemma grown_trans: "grown d d' \<Longrightarrow> grown d' d'' \<Longrightarrow> grown d d''"
  by (simp add: grown_def)

text \<open>One receive that is new and goes through.\<close>

lemma reward_step:
  assumes "Reward_UpdateCumulative (rt_Address rt) (rt_RewardType rt) (rt_Amount rt) (rt_TokenStandard rt)
      (d\<lparr> reward_transactions := reward_transactions d @ [rt] \<rparr>) = Inr d2"
  shows "shortfall k d2 = shortfall k d" "grown d d2" "logged d2 (rt_Hash rt)"
proof -
  let ?d1 = "d\<lparr> reward_transactions := reward_transactions d @ [rt] \<rparr>"
  note f = UpdateCumulative_frame [OF assms]
  have "cumulative_of k ?d1 = cumulative_of k d" by (simp add: cumulative_of_def)
  moreover have "reward_sum k d2 = reward_sum k ?d1" using f(1) by (simp add: reward_sum_def)
  ultimately show "shortfall k d2 = shortfall k d"
    using cumulative_Update [OF assms, of k] reward_sum_append [of k d rt]
    by (auto simp: shortfall_def rt_key_def)
  show "grown d d2" "logged d2 (rt_Hash rt)"
    using f by (auto simp: grown_def logged_def find_by_append split: option.splits)
qed

text \<open>What one turn of the loop that does not end it amounts to.\<close>

definition turn_ok :: "AccountBlock \<Rightarrow> AccountBlock \<Rightarrow> int \<times> int \<times> db \<Rightarrow> int \<times> int \<times> db \<Rightarrow> bool" where
  "turn_ok ab paired s s1 \<longleftrightarrow>
     (\<forall>k. shortfall k (snd (snd s1)) = shortfall k (snd (snd s))) \<and> grown (snd (snd s)) (snd (snd s1)) \<and>
     fst s1 - fst s = fst (snd s1) - fst (snd s) \<and>
     (is_reward ab paired \<and> fits_int64 (ab_Amount paired) \<longrightarrow> logged (snd (snd s1)) (ab_Hash ab))"

text \<open>The turn that ends the loop after the receive has been logged but not added.\<close>

definition turn_cut :: "AccountBlock \<Rightarrow> AccountBlock \<Rightarrow> db \<Rightarrow> db \<Rightarrow> bool" where
  "turn_cut ab paired d d1 \<longleftrightarrow>
     (let rt = reward_row ab paired (ab_Amount paired)
      in grown d d1 \<and> logged d1 (ab_Hash ab) \<and>
         (\<forall>k. shortfall k d1 = shortfall k d + (if k = rt_key rt then ab_Amount paired else 0)))"

lemma backfill_turn:
  "(\<exists>s1. backfill_rewards_loop ins upd ((ab, paired) # rest) (i, c, d) = backfill_rewards_loop ins upd rest s1 \<and>
      turn_ok ab paired (i, c, d) s1) \<or>
   backfill_rewards_loop ins upd ((ab, paired) # rest) (i, c, d) = (Some ''insert reward_transaction'', i, c, d) \<or>
   (\<exists>d1. backfill_rewards_loop ins upd ((ab, paired) # rest) (i, c, d) = (Some ''upsert cumulative'', i + 1, c, d1) \<and>
      turn_cut ab paired d d1)"
proof -
  let ?rt = "reward_row ab paired (ab_Amount paired)"
  let ?d1 = "d\<lparr> reward_transactions := reward_transactions d @ [?rt] \<rparr>"
  have skip: "turn_ok ab paired (i, c, d) (i, c, d)" if "\<not> is_reward ab paired \<or> \<not> fits_int64 (ab_Amount paired) \<or> logged d (ab_Hash ab)"
    using that by (auto simp: turn_ok_def grown_def)
  have cut: "turn_cut ab paired d ?d1"
    using reward_sum_append [of _ d ?rt]
    by (auto simp: turn_cut_def shortfall_def cumulative_of_def grown_def logged_def find_by_append reward_row_def
        Let_def split: option.splits)
  show ?thesis
  proof (cases "fits_int64 (ab_Amount paired) \<and> rt_RewardType ?rt \<noteq> RewardTypeUnknown")
    case False
    then have "\<not> is_reward ab paired \<or> \<not> fits_int64 (ab_Amount paired)"
      using is_reward_type by (auto simp: reward_row_def)
    then show ?thesis using False skip by (auto simp: ParseInt64_FormatInt Let_def)
  next
    case True
    show ?thesis
    proof (cases "Reward_UpdateCumulative (rt_Address ?rt) (rt_RewardType ?rt) (rt_Amount ?rt) (rt_TokenStandard ?rt) ?d1")
      case (Inl err)
      then show ?thesis
        using True skip cut by (auto simp: ParseInt64_FormatInt Let_def logged_def reward_row_def)
    next
      case (Inr d2)
      have "turn_ok ab paired (i, c, d) (i + 1, c + 1, d2)"
        using reward_step [OF Inr] by (simp add: turn_ok_def reward_row_def)
      then show ?thesis
        using True skip cut Inr by (auto simp: ParseInt64_FormatInt Let_def logged_def reward_row_def)
    qed
  qed
qed

lemma backfill_loop_done:
  assumes "backfill_rewards_loop ins upd rs (i, c, d) = (None, i', c', d')"
  shows "(\<forall>k. shortfall k d' = shortfall k d) \<and> grown d d' \<and> i' - i = c' - c \<and>
    (\<forall>(ab, paired) \<in> set rs. is_reward ab paired \<and> fits_int64 (ab_Amount paired) \<longrightarrow> logged d' (ab_Hash ab))"
  using assms
proof (induction rs arbitrary: i c d)
  case (Cons r rs)
  obtain ab paired where r: "r = (ab, paired)" by fastforce
  obtain i1 c1 d1 where 1: "backfill_rewards_loop ins upd rs (i1, c1, d1) = (None, i', c', d')"
    "turn_ok ab paired (i, c, d) (i1, c1, d1)"
    using backfill_turn [of ins upd ab paired rs i c d] Cons.prems r by auto
  have logged: "logged d1 h \<Longrightarrow> logged d' h" for h using Cons.IH [OF 1(1)] by (simp add: grown_def)
  then show ?case
    using Cons.IH [OF 1(1)] 1(2) r grown_trans [of d d1 d'] by (auto simp: turn_ok_def)
qed (simp add: grown_def)

lemma backfill_loop_cut:
  assumes "backfill_rewards_loop ins upd rs (i, c, d) = (Some ''upsert cumulative'', i', c', d')"
  shows "\<exists>(ab, paired) \<in> set rs. logged d' (ab_Hash ab) \<and> grown d d' \<and>
    (\<forall>k. shortfall k d' = shortfall k d +
       (if k = rt_key (reward_row ab paired (ab_Amount paired)) then ab_Amount paired else 0))"
  using assms
proof (induction rs arbitrary: i c d)
  case (Cons r rs)
  obtain ab paired where r: "r = (ab, paired)" by fastforce
  from backfill_turn [of ins upd ab paired rs i c d] Cons.prems r show ?case
  proof (elim disjE exE conjE)
    fix s1 assume s1: "backfill_rewards_loop ins upd ((ab, paired) # rs) (i, c, d) = backfill_rewards_loop ins upd rs s1"
      "turn_ok ab paired (i, c, d) s1"
    obtain i1 c1 d1 where "s1 = (i1, c1, d1)" by (cases s1)
    then show ?thesis
      using Cons.IH [of i1 c1 d1] Cons.prems s1 r grown_trans [of d d1 d'] by (fastforce simp: turn_ok_def)
  next
    fix d1 assume "backfill_rewards_loop ins upd ((ab, paired) # rs) (i, c, d) = (Some ''upsert cumulative'', i + 1, c, d1)"
      "turn_cut ab paired d d1"
    then show ?thesis using Cons.prems r by (auto simp: turn_cut_def Let_def)
  qed auto
qed simp

lemma backfill_loop_known:
  assumes "\<forall>(ab, paired) \<in> set rs. logged d (ab_Hash ab)"
  shows "backfill_rewards_loop (\<lambda>_. False) (\<lambda>_. False) rs (i, c, d) = (None, i, c, d)"
  using assms
  by (induction rs) (auto simp: Let_def logged_def reward_row_def split: option.splits)

lemma receives_grown: "grown d d' \<Longrightarrow> reward_receives d' = reward_receives d"
  by (simp add: reward_receives_def grown_def)

lemma in_receives: "(ab, paired) \<in> set (reward_receives d) \<Longrightarrow> is_reward ab paired \<and> paired \<in> set (account_blocks d)"
  by (auto simp: reward_receives_def)

text \<open>
  C33. The reward backfill is complete, exact and repeatable, but not when it is cut off. A run
  that ends logs every reward the stored blocks contain, adds to the sums exactly what it logs,
  and a second run changes nothing. A run cut off between logging a reward and adding it leaves
  the sum of its key short by that reward, and no later run makes up for it, although the program
  is meant to be run again.
\<close>

theorem reward_backfill:
  assumes "list_all (\<lambda>b. fits_int64 (ab_Amount b)) (account_blocks d)"
    and "backfill_rewards ins upd d = (err, n, c, d')"
  shows "(err = None \<longrightarrow> n = c \<and> (\<forall>k. shortfall k d' = shortfall k d) \<and>
      (\<forall>(ab, paired) \<in> set (reward_receives d). logged d' (ab_Hash ab)) \<and>
      backfill_rewards (\<lambda>_. False) (\<lambda>_. False) d' = (None, 0, 0, d')) \<and>
    (err = Some ''upsert cumulative'' \<longrightarrow>
      (\<exists>(ab, paired) \<in> set (reward_receives d). \<forall>ins2 upd2 n2 c2 d2.
         backfill_rewards ins2 upd2 d' = (None, n2, c2, d2) \<longrightarrow>
         (\<forall>k. shortfall k d2 = shortfall k d +
            (if k = rt_key (reward_row ab paired (ab_Amount paired)) then ab_Amount paired else 0))))"
proof (intro conjI impI)
  assume "err = None"
  then have ended: "backfill_rewards_loop ins upd (reward_receives d) (0, 0, d) = (None, n, c, d')"
    using assms(2) by (simp add: backfill_rewards_def)
  note facts = backfill_loop_done [OF ended]
  show "n = c" "\<forall>k. shortfall k d' = shortfall k d" using facts by auto
  show logged: "\<forall>(ab, paired) \<in> set (reward_receives d). logged d' (ab_Hash ab)"
    using facts in_receives [of _ _ d] assms(1) by (fastforce simp: list_all_iff)
  show "backfill_rewards (\<lambda>_. False) (\<lambda>_. False) d' = (None, 0, 0, d')"
    using facts logged receives_grown [of d d'] by (auto simp: backfill_rewards_def intro!: backfill_loop_known)
next
  assume "err = Some ''upsert cumulative''"
  then have "backfill_rewards_loop ins upd (reward_receives d) (0, 0, d) = (Some ''upsert cumulative'', n, c, d')"
    using assms(2) by (simp add: backfill_rewards_def)
  from backfill_loop_cut [OF this] obtain ab paired where cut: "(ab, paired) \<in> set (reward_receives d)"
    "\<forall>k. shortfall k d' = shortfall k d +
       (if k = rt_key (reward_row ab paired (ab_Amount paired)) then ab_Amount paired else 0)" by auto
  have "shortfall k d2 = shortfall k d'" if "backfill_rewards ins2 upd2 d' = (None, n2, c2, d2)" for ins2 upd2 n2 c2 d2 k
    using backfill_loop_done that unfolding backfill_rewards_def by blast
  then show "\<exists>(ab, paired) \<in> set (reward_receives d). \<forall>ins2 upd2 n2 c2 d2.
         backfill_rewards ins2 upd2 d' = (None, n2, c2, d2) \<longrightarrow>
         (\<forall>k. shortfall k d2 = shortfall k d +
            (if k = rt_key (reward_row ab paired (ab_Amount paired)) then ab_Amount paired else 0))"
    using cut by (intro bexI [of _ "(ab, paired)"]) auto
qed

text \<open>A receive whose sum cannot be updated, and a second run that does not see it any more.\<close>

definition ex_block :: "hash \<Rightarrow> address \<Rightarrow> address \<Rightarrow> int \<Rightarrow> hash \<Rightarrow> AccountBlock" where
  "ex_block h a to ty paired = \<lparr> ab_Hash = h, ab_MomentumHash = [], ab_MomentumTimestamp = 5, ab_MomentumHeight = 1,
     ab_BlockType = ty, ab_Height = 1, ab_Address = a, ab_ToAddress = to, ab_Amount = 7,
     ab_TokenStandard = EmptyTokenStandard, ab_Data = [], ab_Method = [], ab_Input = [], ab_PairedAccountBlock = paired,
     ab_DescendantOf = [] \<rparr>"

definition ex_reward_db :: db where
  "ex_reward_db = empty_db\<lparr> account_blocks :=
     [ex_block ''s'' StakeAddress ''bob'' 4 [], ex_block ''r'' ''bob'' EmptyAddress 3 ''s''] \<rparr>"

definition ex_cut :: "string option \<times> int \<times> int \<times> db" where
  "ex_cut = backfill_rewards (\<lambda>_. False) (\<lambda>_. True) ex_reward_db"

definition ex_cut_db :: db where
  "ex_cut_db = snd (snd (snd ex_cut))"

theorem reward_backfill_witness:
  "shortfall (''bob'', RewardTypeStake, EmptyTokenStandard) ex_cut_db = 7 \<and>
   backfill_rewards (\<lambda>_. False) (\<lambda>_. False) ex_cut_db = (None, 0, 0, ex_cut_db)"
proof -
  let ?key = "(''bob'', RewardTypeStake, EmptyTokenStandard)"
  have fits: "list_all (\<lambda>b. fits_int64 (ab_Amount b)) (account_blocks ex_reward_db)" by code_simp
  have cut: "backfill_rewards (\<lambda>_. False) (\<lambda>_. True) ex_reward_db = (Some ''upsert cumulative'', 1, 0, ex_cut_db)"
    unfolding ex_cut_db_def ex_cut_def by code_simp
  have again: "backfill_rewards (\<lambda>_. False) (\<lambda>_. False) ex_cut_db = (None, 0, 0, ex_cut_db)" by code_simp
  obtain ab paired where rec: "(ab, paired) \<in> set (reward_receives ex_reward_db)"
    and short: "shortfall ?key ex_cut_db = shortfall ?key ex_reward_db +
      (if ?key = rt_key (reward_row ab paired (ab_Amount paired)) then ab_Amount paired else 0)"
    using reward_backfill [OF fits cut] again by blast
  have "\<forall>(ab, paired) \<in> set (reward_receives ex_reward_db).
      rt_key (reward_row ab paired (ab_Amount paired)) = ?key \<and> ab_Amount paired = 7" by code_simp
  moreover have "shortfall ?key ex_reward_db = 0" by code_simp
  ultimately show ?thesis using rec short again by auto
qed

subsection \<open>The vote repair\<close>

lemma insert_votes_aborted [simp]: "insert_votes fault k vs (True, n, t) = (True, n, t)"
  by (induction vs arbitrary: k) auto

lemma insert_votes_done:
  assumes "insert_votes fault k vs (False, n, t) = (False, n', t')" "distinct (map vote_key t)"
  shows "t' = t @ vs \<and> n' = n + int (length vs) \<and> distinct (map vote_key (t @ vs))"
  using assms
proof (induction vs arbitrary: k n t)
  case (Cons v vs)
  then have v: "find_by vote_key (vote_key v) t = None" "\<not> fault k" by (auto split: if_splits)
  then have "distinct (map vote_key (t @ [v]))" using Cons.prems(2) by (auto simp: find_by_None)
  then show ?case using Cons.IH [of "Suc k" "n + 1" "t @ [v]"] Cons.prems(1) v by auto
qed simp

lemma insert_votes_distinct:
  assumes "distinct (map vote_key (t @ vs))"
  shows "insert_votes (\<lambda>_. False) k vs (False, n, t) = (False, n + int (length vs), t @ vs)"
  using assms
proof (induction vs arbitrary: k n t)
  case (Cons v vs)
  have fresh: "find_by vote_key (vote_key v) t = None"
    unfolding find_by_None using Cons.prems by (simp add: image_iff) metis
  have "insert_votes (\<lambda>_. False) (Suc k) vs (False, n + 1, t @ [v]) = (False, n + 1 + int (length vs), (t @ [v]) @ vs)"
    by (rule Cons.IH) (use Cons.prems in simp)
  then show ?case by (simp add: fresh)
qed simp

text \<open>
  C34. The vote repair is all or nothing, and it is nothing as soon as a voter has voted twice on
  one proposal: undisturbed, it replaces the votes by exactly the decoded ones when their keys
  are distinct, and otherwise ends in a failed commit with the table as it was, because the second
  insert aborts the transaction that the program means to continue. Whatever fails, the database
  is either unchanged or has exactly the decoded votes.
\<close>

theorem repair_all_or_nothing:
  "repair_votes sdk True True (\<lambda>_. False) False d =
     (if vote_blocks d = [] then (NothingToDo, d)
      else if distinct (map vote_key (repaired_votes sdk d))
      then (Repaired (int (length (repaired_votes sdk d))), d\<lparr> votes := repaired_votes sdk d \<rparr>)
      else (RepairFatal ''failed to commit transaction'', d)) \<and>
   snd (repair_votes sdk ready begun fault commit_fails d) \<in> {d, d\<lparr> votes := repaired_votes sdk d \<rparr>}"
proof
  obtain a n t where r: "insert_votes (\<lambda>_. False) 0 (repaired_votes sdk d) (False, 0, []) = (a, n, t)"
    by (cases "insert_votes (\<lambda>_. False) 0 (repaired_votes sdk d) (False, 0, [])")
  have "\<not> a \<longleftrightarrow> distinct (map vote_key (repaired_votes sdk d))"
    using r insert_votes_distinct [of "[]" "repaired_votes sdk d"]
      insert_votes_done [of "\<lambda>_. False" 0 "repaired_votes sdk d" 0 "[]" n t] by (cases a) auto
  then show "repair_votes sdk True True (\<lambda>_. False) False d =
     (if vote_blocks d = [] then (NothingToDo, d)
      else if distinct (map vote_key (repaired_votes sdk d))
      then (Repaired (int (length (repaired_votes sdk d))), d\<lparr> votes := repaired_votes sdk d \<rparr>)
      else (RepairFatal ''failed to commit transaction'', d))"
    using r insert_votes_distinct [of "[]" "repaired_votes sdk d" 0 0] by (auto simp: repair_votes_def)
next
  obtain a n t where r: "insert_votes fault 0 (repaired_votes sdk d) (False, 0, []) = (a, n, t)"
    by (cases "insert_votes fault 0 (repaired_votes sdk d) (False, 0, [])")
  show "snd (repair_votes sdk ready begun fault commit_fails d) \<in> {d, d\<lparr> votes := repaired_votes sdk d \<rparr>}"
  proof (cases a)
    case True
    then show ?thesis using r by (simp add: repair_votes_def)
  next
    case False
    then have "t = repaired_votes sdk d" using insert_votes_done [of fault 0 "repaired_votes sdk d" 0 "[]" n t] r by simp
    then show ?thesis using r by (simp add: repair_votes_def)
  qed
qed

end
