(* ===== verification/Middleware.thy ===== *)
theory Middleware
  imports Router
begin

text \<open>
  \<open>internal/api/middleware\<close>, \<open>internal/api/metrics\<close> and \<open>internal/api/httpx/respond.go\<close> at the level of
  the \<open>http.ResponseWriter\<close>: the two status recorders, request ids, logging, recovery, metrics, CORS,
  and how a response is written. A writer is given by its three methods on a state \<open>'w\<close>, so that a
  recorder is a function from writers to writers, as embedding the interface makes it in Go. The
  JSON encoder, the CORS library and the generator of ids are arguments.
\<close>

subsection \<open>Response writers\<close>

record 'w writer =
  wr_SetHeader :: "string \<Rightarrow> string \<Rightarrow> 'w \<Rightarrow> 'w"
  wr_WriteHeader :: "int \<Rightarrow> 'w \<Rightarrow> 'w"
  wr_Write :: "string \<Rightarrow> 'w \<Rightarrow> nat \<times> 'w"

text \<open>
  What \<open>net/http\<close> keeps of a response: the header map, the status line with the header as it was when
  it went out, the body the client took, and how many bytes more it will take. The first status
  wins, and a body without one is preceded by 200.
\<close>

record connection =
  cn_header :: "string \<Rightarrow> string"
  cn_sent :: "(int \<times> (string \<Rightarrow> string)) option"
  cn_body :: string
  cn_room :: nat

definition fresh_connection :: "nat \<Rightarrow> connection" where
  "fresh_connection room = \<lparr> cn_header = (\<lambda>_. []), cn_sent = None, cn_body = [], cn_room = room \<rparr>"

definition conn_WriteHeader :: "int \<Rightarrow> connection \<Rightarrow> connection" where
  "conn_WriteHeader code c = (if cn_sent c = None then c\<lparr> cn_sent := Some (code, cn_header c) \<rparr> else c)"

definition conn_Write :: "string \<Rightarrow> connection \<Rightarrow> nat \<times> connection" where
  "conn_Write b c =
     (let c' = conn_WriteHeader 200 c; n = min (length b) (cn_room c')
      in (n, c'\<lparr> cn_body := cn_body c' @ take n b, cn_room := cn_room c' - n \<rparr>))"

definition conn_writer :: "connection writer" where
  "conn_writer =
     \<lparr> wr_SetHeader = (\<lambda>k v c. c\<lparr> cn_header := (cn_header c)(k := v) \<rparr>),
       wr_WriteHeader = conn_WriteHeader, wr_Write = conn_Write \<rparr>"

text \<open>When the handler has returned without a status, the server sends 200.\<close>

definition finish :: "connection \<Rightarrow> connection" where
  "finish = conn_WriteHeader 200"

subsection \<open>Writing a response\<close>

record 'b encoders =
  ec_body :: "'b \<Rightarrow> string option"
  ec_problem :: "Problem_doc \<Rightarrow> string option"

definition write_body :: "'w writer \<Rightarrow> string \<Rightarrow> int \<Rightarrow> string \<Rightarrow> 'w \<Rightarrow> 'w" where
  "write_body w contentType status body s =
     snd (wr_Write w body (wr_WriteHeader w status (wr_SetHeader w ''Content-Type'' contentType s)))"

text \<open>What goes out for a response: content type, status and bytes.\<close>

definition problem_wire :: "'b encoders \<Rightarrow> Problem_doc \<Rightarrow> string \<times> int \<times> string" where
  "problem_wire enc p =
     (case ec_problem enc p of
        None \<Rightarrow> (''text/plain'', 500, ''internal error'')
      | Some body \<Rightarrow> (''application/problem+json'', pb_Status p, body))"

definition encode_failed :: Problem_doc where
  "encode_failed =
     \<lparr> pb_Type = ''about:blank'', pb_Title = StatusText 500, pb_Status = 500,
       pb_Detail = ''failed to encode response'', pb_Code = ''internal_error'' \<rparr>"

fun wire :: "'b encoders \<Rightarrow> 'b response \<Rightarrow> string \<times> int \<times> string" where
  "wire enc (JSON status v) =
     (case ec_body enc v of
        None \<Rightarrow> problem_wire enc encode_failed
      | Some body \<Rightarrow> (''application/json'', status, body))"
| "wire enc (ProblemJSON p) = problem_wire enc p"

definition write_response :: "'w writer \<Rightarrow> 'b encoders \<Rightarrow> 'b response \<Rightarrow> 'w \<Rightarrow> 'w" where
  "write_response w enc resp s =
     (case wire enc resp of (contentType, status, body) \<Rightarrow> write_body w contentType status body s)"

subsection \<open>Status recorders\<close>

text \<open>The logger's recorder keeps the last status it was given, and the bytes the client took.\<close>

record 'w log_rec =
  lr_inner :: 'w
  lr_status :: int
  lr_bytes :: int

definition log_writer :: "'w writer \<Rightarrow> 'w log_rec writer" where
  "log_writer w =
     \<lparr> wr_SetHeader = (\<lambda>k v s. s\<lparr> lr_inner := wr_SetHeader w k v (lr_inner s) \<rparr>),
       wr_WriteHeader = (\<lambda>code s. s\<lparr> lr_status := code, lr_inner := wr_WriteHeader w code (lr_inner s) \<rparr>),
       wr_Write =
         (\<lambda>b s. let s' = (if lr_status s = 0 then s\<lparr> lr_status := 200 \<rparr> else s)
                in case wr_Write w b (lr_inner s') of
                     (n, i) \<Rightarrow> (n, s'\<lparr> lr_inner := i, lr_bytes := lr_bytes s' + int n \<rparr>)) \<rparr>"

text \<open>The recorder of the metrics keeps the first status, and passes only that on.\<close>

record 'w metrics_rec =
  mr_inner :: 'w
  mr_status :: int
  mr_wroteHeader :: bool

definition metrics_writer :: "'w writer \<Rightarrow> 'w metrics_rec writer" where
  "metrics_writer w =
     \<lparr> wr_SetHeader = (\<lambda>k v s. s\<lparr> mr_inner := wr_SetHeader w k v (mr_inner s) \<rparr>),
       wr_WriteHeader =
         (\<lambda>code s. if \<not> mr_wroteHeader s
                   then s\<lparr> mr_status := code, mr_wroteHeader := True,
                          mr_inner := wr_WriteHeader w code (mr_inner s) \<rparr>
                   else s),
       wr_Write =
         (\<lambda>b s. case wr_Write w b (mr_inner s) of
                  (n, i) \<Rightarrow> (n, s\<lparr> mr_wroteHeader := True, mr_inner := i \<rparr>)) \<rparr>"

subsection \<open>Handlers\<close>

text \<open>
  A request with what its context carries: the id (empty when there is none), and whether a holder
  for the subject is there. \<open>hr_RoutePattern\<close> is what the router library reports after routing.
\<close>

record http_request =
  hr_request :: request
  hr_Method :: string
  hr_Path :: string
  hr_RoutePattern :: string
  hr_requestID :: string
  hr_holder :: bool

record http_line =
  hl_method :: string
  hl_path :: string
  hl_status :: int
  hl_bytes :: int
  hl_request_id :: string
  hl_sub :: "string option"

datatype log_entry = LogHttp http_line | LogPanic string string

text \<open>The holder's cell, the log, and the label values of the counted requests.\<close>

record world =
  wo_sub :: string
  wo_log :: "log_entry list"
  wo_requestsTotal :: "(string \<times> string \<times> string) list"

datatype ending = Returned | Panicked

type_synonym 'w handler = "http_request \<Rightarrow> 'w \<times> world \<Rightarrow> ending \<times> 'w \<times> world"

definition respond :: "'w writer \<Rightarrow> 'b encoders \<Rightarrow> 'b response \<Rightarrow> 'w \<times> world \<Rightarrow> ending \<times> 'w \<times> world" where
  "respond w enc resp = (\<lambda>(s, wo). (Returned, write_response w enc resp s, wo))"

subsection \<open>The middleware\<close>

definition HeaderRequestID :: string where
  "HeaderRequestID = ''X-Request-Id''"

definition request_id :: "string \<Rightarrow> http_request \<Rightarrow> string" where
  "request_id newid r =
     (let given = rq_Header (hr_request r) HeaderRequestID in if given = [] then newid else given)"

definition RequestID :: "string \<Rightarrow> 'w writer \<Rightarrow> 'w handler \<Rightarrow> 'w handler" where
  "RequestID newid w next r =
     (\<lambda>(s, wo). let ident = request_id newid r
                in next (r\<lparr> hr_requestID := ident \<rparr>) (wr_SetHeader w HeaderRequestID ident s, wo))"

definition SetSubject :: "http_request \<Rightarrow> string \<Rightarrow> world \<Rightarrow> world" where
  "SetSubject r sub wo = (if hr_holder r then wo\<lparr> wo_sub := sub \<rparr> else wo)"

definition Logger :: "'w log_rec handler \<Rightarrow> 'w handler" where
  "Logger next r =
     (\<lambda>(s, wo).
        case next (r\<lparr> hr_holder := True \<rparr>) (\<lparr> lr_inner = s, lr_status = 0, lr_bytes = 0 \<rparr>, wo\<lparr> wo_sub := [] \<rparr>) of
          (Panicked, rec, wo') \<Rightarrow> (Panicked, lr_inner rec, wo')
        | (Returned, rec, wo') \<Rightarrow>
            (Returned, lr_inner rec,
             wo'\<lparr> wo_log := wo_log wo' @
               [LogHttp \<lparr> hl_method = hr_Method r, hl_path = hr_Path r, hl_status = lr_status rec,
                  hl_bytes = lr_bytes rec, hl_request_id = hr_requestID r,
                  hl_sub = (if wo_sub wo' \<noteq> [] then Some (wo_sub wo') else None) \<rparr>] \<rparr>))"

definition unexpected :: "'b response" where
  "unexpected = WriteProblem 500 ''internal_error'' ''the server encountered an unexpected condition''"

definition Recover :: "'w writer \<Rightarrow> 'b encoders \<Rightarrow> 'w handler \<Rightarrow> 'w handler" where
  "Recover w enc next r s =
     (case next r s of
        (Returned, s', wo') \<Rightarrow> (Returned, s', wo')
      | (Panicked, s', wo') \<Rightarrow>
          respond w enc unexpected
            (s', wo'\<lparr> wo_log := wo_log wo' @ [LogPanic (hr_requestID r) (hr_Path r)] \<rparr>))"

record cors_Options =
  co_AllowedOrigins :: "string list"
  co_AllowedMethods :: "string list"
  co_AllowedHeaders :: "string list"
  co_ExposedHeaders :: "string list"
  co_AllowCredentials :: bool
  co_MaxAge :: int

definition CORS :: "(cors_Options \<Rightarrow> 'w handler \<Rightarrow> 'w handler) \<Rightarrow> string list \<Rightarrow> 'w handler \<Rightarrow> 'w handler" where
  "CORS cors_Handler allowedOrigins next =
     (if allowedOrigins = [] then next
      else cors_Handler
        \<lparr> co_AllowedOrigins = allowedOrigins, co_AllowedMethods = [''GET'', ''OPTIONS''],
          co_AllowedHeaders = [''Authorization'', ''Content-Type'', HeaderRequestID],
          co_ExposedHeaders = [HeaderRequestID], co_AllowCredentials = False, co_MaxAge = 300 \<rparr> next)"

definition route_label :: "http_request \<Rightarrow> string" where
  "route_label r = (if hr_RoutePattern r = [] then ''other'' else hr_RoutePattern r)"

definition Metrics_Middleware :: "'w metrics_rec handler \<Rightarrow> 'w handler" where
  "Metrics_Middleware next r =
     (\<lambda>(s, wo).
        case next r (\<lparr> mr_inner = s, mr_status = 200, mr_wroteHeader = False \<rparr>, wo) of
          (Panicked, sr, wo') \<Rightarrow> (Panicked, mr_inner sr, wo')
        | (Returned, sr, wo') \<Rightarrow>
            (Returned, mr_inner sr,
             wo'\<lparr> wo_requestsTotal :=
               wo_requestsTotal wo' @ [(hr_Method r, route_label r, FormatInt (mr_status sr))] \<rparr>))"

subsection \<open>Authentication and rate limit\<close>

definition Auth_handler :: "libs \<Rightarrow> 'w writer \<Rightarrow> 'b encoders \<Rightarrow> (string \<Rightarrow> 'w handler) \<Rightarrow> 'w handler" where
  "Auth_handler lib w enc next r =
     (\<lambda>(s, wo).
        case bearerToken (li_TrimSpace lib) (hr_request r) of
          Inl code \<Rightarrow>
            respond w enc
              (WriteProblem 401 code
                (if code = ''missing_token'' then ''missing Authorization header (want: Bearer <token>)''
                 else ''malformed Authorization header (want: Bearer <token>)'')) (s, wo)
        | Inr tok \<Rightarrow>
            (case Verify (li_parse lib) tok of
               Inl ErrTokenExpired \<Rightarrow> respond w enc (WriteProblem 401 ''expired_token'' ''token expired'') (s, wo)
             | Inl ErrTokenOther \<Rightarrow> respond w enc (WriteProblem 401 ''invalid_token'' ''invalid token'') (s, wo)
             | Inr subject \<Rightarrow> next subject r (s, SetSubject r subject wo)))"

definition RateLimit_handler :: "int \<Rightarrow> libs \<Rightarrow> 'w writer \<Rightarrow> 'b encoders \<Rightarrow> 'w handler \<Rightarrow> string \<Rightarrow> 'w handler" where
  "RateLimit_handler perMinute lib w enc next subject r s =
     (if perMinute \<le> 0 then next r s
      else if li_allow lib (keyBySubjectThenIP (li_KeyByIP lib) subject (hr_request r)) then next r s
      else respond w enc rateLimited s)"

end
