(* ===== verification/Server.thy ===== *)
theory Server
  imports Middleware Stream_Open
begin

text \<open>
  \<open>router.New\<close>: the route table and the middleware in front of it. The routing library finds the
  route of a method and a path, and its answer to a request without one is an argument, as is what
  happens to a connection after the upgrade to a WebSocket.
\<close>

subsection \<open>Routes\<close>

datatype route =
  RHealthz | RReadyz | RMomentumsStream | RTransactionsStream | RApi endpoint

fun endpoint_pattern :: "endpoint \<Rightarrow> string" where
  "endpoint_pattern EStatus = ''/status''"
| "endpoint_pattern EMomentums = ''/momentums''"
| "endpoint_pattern EMomentumsLatest = ''/momentums/latest''"
| "endpoint_pattern EMomentumsByHeight = ''/momentums/{height}''"
| "endpoint_pattern EAccount = ''/accounts/{address}''"
| "endpoint_pattern EAccountBalances = ''/accounts/{address}/balances''"
| "endpoint_pattern EAccountTransactions = ''/accounts/{address}/transactions''"
| "endpoint_pattern EAccountBlocks = ''/account_blocks''"
| "endpoint_pattern EAccountBlock = ''/account_blocks/{hash}''"
| "endpoint_pattern ETokens = ''/tokens''"
| "endpoint_pattern EToken = ''/tokens/{token_standard}''"
| "endpoint_pattern ETokenHolders = ''/tokens/{token_standard}/holders''"
| "endpoint_pattern EPillars = ''/pillars''"
| "endpoint_pattern EPillar = ''/pillars/{name}''"
| "endpoint_pattern EPillarDelegators = ''/pillars/{name}/delegators''"
| "endpoint_pattern EPillarVotingReport = ''/pillars/{name}/voting-report''"
| "endpoint_pattern ESentinels = ''/sentinels''"
| "endpoint_pattern EStakes = ''/stakes''"
| "endpoint_pattern EAccountStakes = ''/accounts/{address}/stakes''"
| "endpoint_pattern EFusions = ''/fusions''"
| "endpoint_pattern EAccountFusions = ''/accounts/{address}/fusions''"
| "endpoint_pattern EAccountRewards = ''/accounts/{address}/rewards''"
| "endpoint_pattern EAccountRewardsCumulative = ''/accounts/{address}/rewards/cumulative''"
| "endpoint_pattern EProjects = ''/projects''"
| "endpoint_pattern EProject = ''/projects/{id}''"
| "endpoint_pattern EProjectPhases = ''/projects/{id}/phases''"
| "endpoint_pattern EProjectVotes = ''/projects/{id}/votes''"
| "endpoint_pattern EProjectVotingReport = ''/projects/{id}/voting-report''"
| "endpoint_pattern EBridgeWraps = ''/bridge/wraps''"
| "endpoint_pattern EBridgeUnwraps = ''/bridge/unwraps''"
| "endpoint_pattern EAccountBridgeWraps = ''/accounts/{address}/bridge/wraps''"
| "endpoint_pattern EAccountBridgeUnwraps = ''/accounts/{address}/bridge/unwraps''"

fun route_pattern :: "route \<Rightarrow> string" where
  "route_pattern RHealthz = ''/healthz''"
| "route_pattern RReadyz = ''/readyz''"
| "route_pattern RMomentumsStream = ''/api/v1/momentums/stream''"
| "route_pattern RTransactionsStream = ''/api/v1/transactions/stream''"
| "route_pattern (RApi e) = ''/api/v1'' @ endpoint_pattern e"

subsection \<open>Dependencies\<close>

record Deps =
  de_libs :: libs
  de_Pool :: bool
  de_SyncStatus :: bool
  de_Hub :: "Momentum Hub option"
  de_TxHub :: "AccountBlock Hub option"
  de_Metrics :: bool
  de_CORSAllowedOrigins :: "string list"
  de_RateLimitPerMinute :: int
  de_Version :: string

text \<open>What the readiness probe meets.\<close>

record probe_env =
  pr_ping :: "string option"
  pr_schema :: schema_read
  pr_sync :: "sql_error + SyncStatus"
  pr_message :: "sql_error \<Rightarrow> string"
  pr_now :: int

text \<open>What the libraries do with a writer: the two upgraded streams, and a request without a route.\<close>

record 'w continuations =
  ct_momentums :: "string \<Rightarrow> int \<Rightarrow> 'w handler"
  ct_transactions :: "string \<Rightarrow> int \<Rightarrow> address \<Rightarrow> 'w handler"
  ct_notFound :: "'w handler"

datatype answer = AHealthy | AReady ready_body | ABody body

definition with_version :: "Deps \<Rightarrow> env \<Rightarrow> env" where
  "with_version deps en = en\<lparr> en_version := (if de_Version deps = [] then ''dev'' else de_Version deps) \<rparr>"

subsection \<open>The route table\<close>

definition healthz :: "answer response" where
  "healthz = WriteJSON 200 AHealthy"

definition api_handler :: "Deps \<Rightarrow> 'w writer \<Rightarrow> answer encoders \<Rightarrow> env \<Rightarrow> db \<Rightarrow> endpoint \<Rightarrow> 'w handler" where
  "api_handler deps w enc en d e =
     Auth_handler (de_libs deps) w enc
       (RateLimit_handler (de_RateLimitPerMinute deps) (de_libs deps) w enc
          (\<lambda>r. respond w enc (map_response ABody (serve (with_version deps en) e (hr_request r) d))))"

definition readyz_response :: "Deps \<Rightarrow> probe_env \<Rightarrow> answer response" where
  "readyz_response deps pr =
     map_response AReady
       (readyz (de_Pool deps) (pr_ping pr) (pr_schema pr) (if de_SyncStatus deps then Some (pr_sync pr) else None)
         (pr_message pr) (pr_now pr))"

fun refuse :: "problem \<Rightarrow> answer response" where
  "refuse (Problem status code detail) = WriteProblem status code detail"

definition momentums_handler :: "Deps \<Rightarrow> 'w writer \<Rightarrow> answer encoders \<Rightarrow> 'w continuations \<Rightarrow> 'w handler" where
  "momentums_handler deps w enc ct r s =
     (case de_Hub deps of
        None \<Rightarrow>
          respond w enc
            (WriteProblem 503 ''stream_disabled'' ''momentum stream hub is not configured on this instance'') s
      | Some hub \<Rightarrow>
          (case open_momentums (de_libs deps) (hr_request r) hub of
             Inl p \<Rightarrow> respond w enc (refuse p) s
           | Inr (subject, fromHeight) \<Rightarrow> ct_momentums ct subject fromHeight r s))"

definition transactions_handler :: "Deps \<Rightarrow> 'w writer \<Rightarrow> answer encoders \<Rightarrow> 'w continuations \<Rightarrow> 'w handler" where
  "transactions_handler deps w enc ct r s =
     (case de_TxHub deps of
        None \<Rightarrow>
          respond w enc
            (WriteProblem 503 ''stream_disabled'' ''transactions stream hub is not configured on this instance'') s
      | Some hub \<Rightarrow>
          (case open_transactions (de_libs deps) (hr_request r) hub of
             Inl p \<Rightarrow> respond w enc (refuse p) s
           | Inr (subject, fromHeight, address) \<Rightarrow> ct_transactions ct subject fromHeight address r s))"

definition routes :: "(string \<Rightarrow> string \<Rightarrow> route option) \<Rightarrow> Deps \<Rightarrow> 'w writer \<Rightarrow> answer encoders \<Rightarrow>
    'w continuations \<Rightarrow> probe_env \<Rightarrow> env \<Rightarrow> db \<Rightarrow> 'w handler" where
  "routes find_route deps w enc ct pr en d r =
     (case find_route (hr_Method r) (hr_Path r) of
        None \<Rightarrow> ct_notFound ct r
      | Some RHealthz \<Rightarrow> respond w enc healthz
      | Some RReadyz \<Rightarrow> respond w enc (readyz_response deps pr)
      | Some RMomentumsStream \<Rightarrow> momentums_handler deps w enc ct r
      | Some RTransactionsStream \<Rightarrow> transactions_handler deps w enc ct r
      | Some (RApi e) \<Rightarrow> api_handler deps w enc en d e r)"

subsection \<open>The chain\<close>

type_synonym cors_library =
  "cors_Options \<Rightarrow> connection log_rec handler \<Rightarrow> connection log_rec handler"

text \<open>The order of the calls of \<open>Use\<close>: the first is the outermost.\<close>

definition use_all :: "string \<Rightarrow> 'b encoders \<Rightarrow> cors_library \<Rightarrow> string list \<Rightarrow>
    connection log_rec handler \<Rightarrow> connection handler" where
  "use_all newid enc cors_Handler origins next =
     RequestID newid conn_writer
       (Logger (Recover (log_writer conn_writer) enc (CORS cors_Handler origins next)))"

abbreviation logged_writer :: "connection log_rec writer" where
  "logged_writer \<equiv> log_writer conn_writer"

abbreviation metered_writer :: "connection log_rec metrics_rec writer" where
  "metered_writer \<equiv> metrics_writer logged_writer"

definition New :: "string \<Rightarrow> cors_library \<Rightarrow> (string \<Rightarrow> string \<Rightarrow> route option) \<Rightarrow> answer encoders \<Rightarrow>
    connection log_rec metrics_rec continuations \<Rightarrow> connection log_rec continuations \<Rightarrow>
    Deps \<Rightarrow> probe_env \<Rightarrow> env \<Rightarrow> db \<Rightarrow> connection handler" where
  "New newid cors_Handler find_route enc ct1 ct2 deps pr en d =
     use_all newid enc cors_Handler (de_CORSAllowedOrigins deps)
       (if de_Metrics deps
        then Metrics_Middleware (routes find_route deps metered_writer enc ct1 pr en d)
        else routes find_route deps logged_writer enc ct2 pr en d)"

end
