(* ===== verification/Middleware_Props.thy ===== *)
theory Middleware_Props
  imports Server Rest_Props
begin

text \<open>
  What the middleware does to an answer. A writer is transparent when its operations act on the
  connection below as the connection's own would; both recorders are. So whatever a handler writes
  reaches the client unchanged, a panic ends in a 500 or in the answer that had begun, and each
  request leaves one line in the log.
\<close>

subsection \<open>Scripts of a handler\<close>

text \<open>Any handler, seen from its writer: the calls it makes and how it ends.\<close>

datatype writer_op = OpSetHeader string string | OpWriteHeader int | OpWrite string

fun run_op :: "'w writer \<Rightarrow> writer_op \<Rightarrow> 'w \<Rightarrow> 'w" where
  "run_op w (OpSetHeader k v) s = wr_SetHeader w k v s"
| "run_op w (OpWriteHeader code) s = wr_WriteHeader w code s"
| "run_op w (OpWrite b) s = snd (wr_Write w b s)"

definition run_ops :: "'w writer \<Rightarrow> writer_op list \<Rightarrow> 'w \<Rightarrow> 'w" where
  "run_ops w ops = fold (run_op w) ops"

definition scripted :: "'w writer \<Rightarrow> writer_op list \<Rightarrow> ending \<Rightarrow> 'w handler" where
  "scripted w ops e r = (\<lambda>(s, wo). (e, run_ops w ops s, wo))"

definition response_ops :: "'b encoders \<Rightarrow> 'b response \<Rightarrow> writer_op list" where
  "response_ops enc resp =
     (case wire enc resp of
        (contentType, status, body) \<Rightarrow> [OpSetHeader ''Content-Type'' contentType, OpWriteHeader status, OpWrite body])"

lemma write_response_ops: "write_response w enc resp s = run_ops w (response_ops enc resp) s"
  by (simp add: write_response_def response_ops_def run_ops_def write_body_def split: prod.split)

lemma run_ops_append [simp]: "run_ops w (ops @ ops') s = run_ops w ops' (run_ops w ops s)"
  by (simp add: run_ops_def)

subsection \<open>Transparent writers\<close>

locale transparent_writer =
  fixes w :: "'w writer" and view :: "'w \<Rightarrow> connection" and ok :: "'w \<Rightarrow> bool"
  assumes ok_op: "ok s \<Longrightarrow> ok (run_op w op s)"
    and view_op: "ok s \<Longrightarrow> view (run_op w op s) = run_op conn_writer op (view s)"
begin

lemma ok_ops: "ok s \<Longrightarrow> ok (run_ops w ops s)"
  unfolding run_ops_def by (induction ops arbitrary: s) (auto intro: ok_op)

lemma view_ops: "ok s \<Longrightarrow> view (run_ops w ops s) = run_ops conn_writer ops (view s)"
proof (induction ops arbitrary: s)
  case (Cons op ops)
  then show ?case by (simp add: run_ops_def ok_op view_op)
qed (simp add: run_ops_def)

lemma view_response: "ok s \<Longrightarrow> view (write_response w enc resp s) = write_response conn_writer enc resp (view s)"
  by (simp add: write_response_ops view_ops)

end

text \<open>The logger's recorder also counts the bytes of the body.\<close>

definition log_ok :: "connection log_rec \<Rightarrow> bool" where
  "log_ok s \<longleftrightarrow> lr_bytes s = int (length (cn_body (lr_inner s)))"

interpretation logged: transparent_writer logged_writer lr_inner log_ok
proof
  fix s :: "connection log_rec" and op
  assume "log_ok s"
  then show "log_ok (run_op logged_writer op s)" "lr_inner (run_op logged_writer op s) = run_op conn_writer op (lr_inner s)"
    by (cases op; simp add: log_ok_def log_writer_def conn_writer_def conn_Write_def conn_WriteHeader_def Let_def)+
qed

text \<open>
  The recorder of the metrics holds back a second status, which the connection would ignore: it
  knows that one was sent. As long as nothing was, its own status is the default.
\<close>

definition metrics_ok :: "connection log_rec metrics_rec \<Rightarrow> bool" where
  "metrics_ok s \<longleftrightarrow> log_ok (mr_inner s) \<and> (mr_wroteHeader s \<longleftrightarrow> cn_sent (lr_inner (mr_inner s)) \<noteq> None) \<and>
     mr_status s = (case cn_sent (lr_inner (mr_inner s)) of None \<Rightarrow> 200 | Some (code, hdr) \<Rightarrow> code)"

interpretation metered: transparent_writer metered_writer "\<lambda>s. lr_inner (mr_inner s)" metrics_ok
proof
  fix s :: "connection log_rec metrics_rec" and op
  assume *: "metrics_ok s"
  show "metrics_ok (run_op metered_writer op s)"
    using * logged.ok_op [of "mr_inner s" op]
    by (cases op) (auto simp: metrics_ok_def metrics_writer_def log_writer_def conn_writer_def conn_Write_def
        conn_WriteHeader_def Let_def split: prod.splits option.splits)
  show "lr_inner (mr_inner (run_op metered_writer op s)) = run_op conn_writer op (lr_inner (mr_inner s))"
    using *
    by (cases op) (auto simp: metrics_ok_def metrics_writer_def log_writer_def conn_writer_def conn_Write_def
        conn_WriteHeader_def Let_def split: prod.splits option.splits)
qed

text \<open>With valid codes the logger then knows the status that was sent, too.\<close>

definition valid_ops :: "writer_op list \<Rightarrow> bool" where
  "valid_ops ops \<longleftrightarrow> (\<forall>code. OpWriteHeader code \<in> set ops \<longrightarrow> 100 \<le> code)"

definition status_known :: "connection log_rec metrics_rec \<Rightarrow> bool" where
  "status_known s \<longleftrightarrow>
     (case cn_sent (lr_inner (mr_inner s)) of
        None \<Rightarrow> lr_status (mr_inner s) = 0
      | Some (code, hdr) \<Rightarrow> code \<noteq> 0 \<and> lr_status (mr_inner s) = code)"

lemma status_known_op:
  assumes "metrics_ok s" "status_known s" "valid_ops [op]"
  shows "status_known (run_op metered_writer op s)"
  using assms
  by (cases op) (auto simp: status_known_def valid_ops_def metrics_ok_def metrics_writer_def log_writer_def
      conn_writer_def conn_Write_def conn_WriteHeader_def Let_def split: prod.splits option.splits)

lemma status_known_ops:
  assumes "metrics_ok s" "status_known s" "valid_ops ops"
  shows "status_known (run_ops metered_writer ops s)"
  using assms
proof (induction ops arbitrary: s)
  case (Cons op ops)
  then have "status_known (run_op metered_writer op s)" "metrics_ok (run_op metered_writer op s)" "valid_ops ops"
    using status_known_op [of s op] metered.ok_op by (auto simp: valid_ops_def)
  from Cons.IH [OF this(2,1,3)] show ?case by (simp add: run_ops_def)
qed (simp add: run_ops_def)

subsection \<open>The chain\<close>

abbreviation start_recorder :: "connection \<Rightarrow> connection log_rec" where
  "start_recorder c \<equiv> \<lparr> lr_inner = c, lr_status = 0, lr_bytes = 0 \<rparr>"

abbreviation start_metered :: "connection \<Rightarrow> connection log_rec metrics_rec" where
  "start_metered c \<equiv> \<lparr> mr_inner = start_recorder c, mr_status = 200, mr_wroteHeader = False \<rparr>"

definition identified :: "string \<Rightarrow> connection \<Rightarrow> connection" where
  "identified ident c = wr_SetHeader conn_writer HeaderRequestID ident c"

lemma identified_simps [simp]:
  "cn_sent (identified ident c) = cn_sent c" "cn_body (identified ident c) = cn_body c"
  "cn_room (identified ident c) = cn_room c" "cn_header (identified ident c) = (cn_header c)(HeaderRequestID := ident)"
  by (simp_all add: identified_def conn_writer_def)

lemma fresh_simps [simp]:
  "cn_sent (fresh_connection room) = None" "cn_body (fresh_connection room) = []"
  "cn_room (fresh_connection room) = room"
  by (simp_all add: fresh_connection_def)

lemma start_ok:
  assumes "cn_sent c = None" "cn_body c = []"
  shows "log_ok (start_recorder c)" "metrics_ok (start_metered c)" "status_known (start_metered c)"
  using assms by (simp_all add: log_ok_def metrics_ok_def status_known_def)

lemma unexpected_status: "fst (snd (wire enc unexpected)) = 500"
  by (simp add: unexpected_def WriteProblem_def problem_wire_def split: option.split)

lemma logged_response:
  assumes "fst (snd (wire enc resp)) \<noteq> 0"
  shows "lr_status (write_response logged_writer enc resp s) = fst (snd (wire enc resp))"
  using assms
  by (auto simp: write_response_def write_body_def log_writer_def Let_def split: prod.splits)

text \<open>What the outer layers make of the result of the inner ones.\<close>

definition final_recorder :: "'b encoders \<Rightarrow> ending \<Rightarrow> connection log_rec \<Rightarrow> connection log_rec" where
  "final_recorder enc e rec = (if e = Panicked then write_response logged_writer enc unexpected rec else rec)"

definition final_line :: "string \<Rightarrow> http_request \<Rightarrow> connection log_rec \<Rightarrow> string \<Rightarrow> http_line" where
  "final_line ident r rec sub =
     \<lparr> hl_method = hr_Method r, hl_path = hr_Path r, hl_status = lr_status rec, hl_bytes = lr_bytes rec,
       hl_request_id = ident, hl_sub = (if sub \<noteq> [] then Some sub else None) \<rparr>"

abbreviation inner_request :: "string \<Rightarrow> http_request \<Rightarrow> http_request" where
  "inner_request ident r \<equiv> r\<lparr> hr_requestID := ident, hr_holder := True \<rparr>"

lemma use_all_result:
  assumes "next (inner_request (request_id newid r) r)
      (start_recorder (identified (request_id newid r) c), wo\<lparr> wo_sub := [] \<rparr>) = (e, rec, wo1)"
  shows "use_all newid enc cors [] next r (c, wo) =
    (Returned, lr_inner (final_recorder enc e rec),
     wo1\<lparr> wo_log := wo_log wo1 @ (if e = Panicked then [LogPanic (request_id newid r) (hr_Path r)] else []) @
       [LogHttp (final_line (request_id newid r) r (final_recorder enc e rec) (wo_sub wo1))] \<rparr>)"
  using assms
  by (cases e) (simp_all add: use_all_def CORS_def RequestID_def Logger_def Recover_def respond_def Let_def
      identified_def final_recorder_def final_line_def)

text \<open>What the metrics middleware hands on when the handler is a script.\<close>

lemma metered_script:
  assumes "cn_sent c = None" "cn_body c = []"
  shows "\<exists>rec. Metrics_Middleware (scripted metered_writer ops e) r (start_recorder c, wo) =
      (e, rec, wo\<lparr> wo_requestsTotal := wo_requestsTotal wo @
        (if e = Returned then [(hr_Method r, route_label r, FormatInt (fst (the (cn_sent (finish (lr_inner rec))))))] else []) \<rparr>)
    \<and> lr_inner rec = run_ops conn_writer ops c \<and> log_ok rec
    \<and> (valid_ops ops \<longrightarrow> lr_status rec = (case cn_sent (lr_inner rec) of None \<Rightarrow> 0 | Some (code, hdr) \<Rightarrow> code))"
proof -
  let ?s = "run_ops metered_writer ops (start_metered c)"
  note start = start_ok [OF assms]
  have ok: "metrics_ok ?s" and view: "lr_inner (mr_inner ?s) = run_ops conn_writer ops c"
    using metered.ok_ops [OF start(2)] metered.view_ops [OF start(2)] by auto
  have "mr_status ?s = fst (the (cn_sent (finish (lr_inner (mr_inner ?s)))))"
    using ok by (auto simp: metrics_ok_def finish_def conn_WriteHeader_def split: option.splits)
  moreover have "valid_ops ops \<Longrightarrow> status_known ?s"
    by (rule status_known_ops [OF start(2,3)])
  ultimately show ?thesis
    using ok view
    by (intro exI [of _ "mr_inner ?s"])
       (auto simp: Metrics_Middleware_def scripted_def metrics_ok_def status_known_def split: ending.split option.splits)
qed

text \<open>
  C36. The middleware is transparent and contains panics. Whatever calls a handler makes on its
  writer, with the metrics on and no CORS list, what reaches the connection is what those calls
  would have done there directly, after the request id and, when the handler panics, before the
  500 problem, which the client sees unless a status had gone out already. The chain always
  returns. One line is logged, with the request's id and the number of bytes sent; its status is
  the one that went out (0 when the handler wrote nothing), but 500 after a panic even when the client got another.
  A request is counted, under the status the client sees, exactly when its handler did not panic.
\<close>

theorem middleware_transparent:
  assumes "valid_ops ops"
  shows "case use_all newid enc cors [] (Metrics_Middleware (scripted metered_writer ops e)) r
              (fresh_connection room, wo) of
      (ending, c, wo') \<Rightarrow>
        ending = Returned \<and>
        c = run_ops conn_writer (OpSetHeader HeaderRequestID (request_id newid r) # ops @
              (if e = Panicked then response_ops enc unexpected else [])) (fresh_connection room) \<and>
        (\<exists>line. wo_log wo' = wo_log wo @
             (if e = Panicked then [LogPanic (request_id newid r) (hr_Path r)] else []) @ [LogHttp line] \<and>
           hl_request_id line = request_id newid r \<and> hl_bytes line = int (length (cn_body c)) \<and>
           hl_status line =
             (if e = Panicked then 500 else case cn_sent c of None \<Rightarrow> 0 | Some (code, hdr) \<Rightarrow> code)) \<and>
        wo_requestsTotal wo' = wo_requestsTotal wo @
          (if e = Returned then [(hr_Method r, route_label r, FormatInt (fst (the (cn_sent (finish c)))))] else [])"
proof -
  let ?id = "request_id newid r"
  let ?r = "r\<lparr> hr_requestID := ?id, hr_holder := True \<rparr>"
  let ?c = "identified ?id (fresh_connection room)"
  have label: "route_label ?r = route_label r" by (simp add: route_label_def)
  obtain rec where rec: "Metrics_Middleware (scripted metered_writer ops e) ?r (start_recorder ?c, wo\<lparr> wo_sub := [] \<rparr>) =
      (e, rec, wo\<lparr> wo_sub := [], wo_requestsTotal := wo_requestsTotal wo @
        (if e = Returned then [(hr_Method r, route_label r, FormatInt (fst (the (cn_sent (finish (lr_inner rec))))))] else []) \<rparr>)"
    and inner: "lr_inner rec = run_ops conn_writer ops ?c" "log_ok rec"
    and status: "lr_status rec = (case cn_sent (lr_inner rec) of None \<Rightarrow> 0 | Some (code, hdr) \<Rightarrow> code)"
    using metered_script [of ?c ops e ?r "wo\<lparr> wo_sub := [] \<rparr>"] assms by (auto simp: label)
  have panic: "lr_inner (write_response logged_writer enc unexpected rec) =
      run_ops conn_writer (ops @ response_ops enc unexpected) ?c"
    "lr_status (write_response logged_writer enc unexpected rec) = 500"
    "log_ok (write_response logged_writer enc unexpected rec)"
    using logged.view_response [OF inner(2)] inner logged_response [of enc unexpected rec]
      logged.ok_ops [OF inner(2)] by (simp_all add: write_response_ops unexpected_status)
  have start: "run_ops conn_writer (OpSetHeader HeaderRequestID ?id # ops') (fresh_connection room) =
      run_ops conn_writer ops' ?c" for ops'
    by (simp add: run_ops_def identified_def)
  note result = use_all_result [where ?next = "Metrics_Middleware (scripted metered_writer ops e)", OF rec]
  show ?thesis
    unfolding result using inner status panic
    by (cases e) (simp_all add: final_recorder_def final_line_def start log_ok_def)
qed

text \<open>A handler that has written a body and then panics: the client keeps 200, the log says 500.\<close>

definition ex_encoders :: "answer encoders" where
  "ex_encoders = \<lparr> ec_body = (\<lambda>v. Some ''{}''), ec_problem = (\<lambda>p. Some (pb_Code p)) \<rparr>"

definition ex_http :: "(string \<Rightarrow> string) \<Rightarrow> string \<Rightarrow> string \<Rightarrow> http_request" where
  "ex_http hdr path pattern =
     \<lparr> hr_request = \<lparr> rq_Query = (\<lambda>_. []), rq_Header = hdr, rq_URLParam = (\<lambda>_. []) \<rparr>, hr_Method = ''GET'',
       hr_Path = path, hr_RoutePattern = pattern, hr_requestID = [], hr_holder = False \<rparr>"

definition ex_world :: world where
  "ex_world = \<lparr> wo_sub = [], wo_log = [], wo_requestsTotal = [] \<rparr>"

theorem middleware_transparent_witness:
  "case use_all ''u1'' ex_encoders (\<lambda>_ h. h) []
          (Metrics_Middleware (scripted metered_writer [OpWriteHeader 200, OpWrite ''ok''] Panicked))
          (ex_http (\<lambda>_. []) ''/x'' ''/x'') (fresh_connection 100, ex_world) of
     (ending, c, wo') \<Rightarrow>
       ending = Returned \<and> fst (the (cn_sent c)) = 200 \<and> cn_body c = ''okinternal_error'' \<and>
       (\<exists>line. wo_log wo' = [LogPanic ''u1'' ''/x'', LogHttp line] \<and> hl_status line = 500) \<and>
       wo_requestsTotal wo' = []"
proof -
  have c: "run_ops conn_writer (OpSetHeader HeaderRequestID ''u1'' # [OpWriteHeader 200, OpWrite ''ok''] @
      response_ops ex_encoders unexpected) (fresh_connection 100) =
    \<lparr> cn_header = (\<lambda>_. [])(HeaderRequestID := ''u1'', ''Content-Type'' := ''application/problem+json''),
      cn_sent = Some (200, (\<lambda>_. [])(HeaderRequestID := ''u1'')), cn_body = ''okinternal_error'', cn_room = 84 \<rparr>"
    by (simp add: run_ops_def response_ops_def ex_encoders_def unexpected_def WriteProblem_def problem_wire_def
        conn_writer_def conn_Write_def conn_WriteHeader_def fresh_connection_def Let_def)
  have "request_id ''u1'' (ex_http (\<lambda>_. []) ''/x'' ''/x'') = ''u1''"
    by (simp add: request_id_def ex_http_def)
  with c show ?thesis
    using middleware_transparent [where ops = "[OpWriteHeader 200, OpWrite ''ok'']" and newid = "''u1''"
        and enc = ex_encoders and cors = "\<lambda>_ h. h" and e = Panicked and room = 100 and wo = ex_world
        and r = "ex_http (\<lambda>_. []) ''/x'' ''/x''"]
    by (auto simp: valid_ops_def ex_world_def ex_http_def split: prod.splits)
qed

subsection \<open>The server\<close>

lemma map_WriteProblem [simp]: "map_response f (WriteProblem s c t) = WriteProblem s c t"
  by (simp add: WriteProblem_def)

text \<open>The response to a request on a route; \<open>None\<close> when the connection becomes a stream.\<close>

fun answer_of :: "Deps \<Rightarrow> probe_env \<Rightarrow> env \<Rightarrow> db \<Rightarrow> request \<Rightarrow> route \<Rightarrow> answer response option" where
  "answer_of deps pr en d r RHealthz = Some (WriteJSON 200 AHealthy)"
| "answer_of deps pr en d r RReadyz = Some (readyz_response deps pr)"
| "answer_of deps pr en d r (RApi e) =
     Some (map_response ABody (api_v1 (de_libs deps) (de_RateLimitPerMinute deps) (with_version deps en) e r d))"
| "answer_of deps pr en d r RMomentumsStream =
     (case de_Hub deps of
        None \<Rightarrow> Some (WriteProblem 503 ''stream_disabled'' ''momentum stream hub is not configured on this instance'')
      | Some h \<Rightarrow> (case open_momentums (de_libs deps) r h of Inl p \<Rightarrow> Some (refuse p) | Inr _ \<Rightarrow> None))"
| "answer_of deps pr en d r RTransactionsStream =
     (case de_TxHub deps of
        None \<Rightarrow> Some (WriteProblem 503 ''stream_disabled'' ''transactions stream hub is not configured on this instance'')
      | Some h \<Rightarrow> (case open_transactions (de_libs deps) r h of Inl p \<Rightarrow> Some (refuse p) | Inr _ \<Rightarrow> None))"

definition verified_subject :: "libs \<Rightarrow> request \<Rightarrow> string option" where
  "verified_subject lib r =
     (case bearerToken (li_TrimSpace lib) r of
        Inl code \<Rightarrow> None
      | Inr tok \<Rightarrow> (case Verify (li_parse lib) tok of Inl err \<Rightarrow> None | Inr subject \<Rightarrow> Some subject))"

fun subject_of :: "libs \<Rightarrow> request \<Rightarrow> route \<Rightarrow> string option" where
  "subject_of lib r (RApi e) = verified_subject lib r"
| "subject_of lib r _ = None"

lemma api_handler_eq:
  "api_handler deps w enc en d e r (s, wo) =
     (Returned, write_response w enc (map_response ABody (api_v1 (de_libs deps) (de_RateLimitPerMinute deps)
        (with_version deps en) e (hr_request r) d)) s,
      case verified_subject (de_libs deps) (hr_request r) of None \<Rightarrow> wo | Some sub \<Rightarrow> SetSubject r sub wo)"
  by (simp add: api_handler_def Auth_handler_def RateLimit_handler_def respond_def api_v1_def Auth_def RateLimit_def
      verified_subject_def rateLimited_def split: sum.split verify_error.split)

lemma routes_answer:
  assumes "find_route (hr_Method r) (hr_Path r) = Some rt" "answer_of deps pr en d (hr_request r) rt = Some resp"
  shows "routes find_route deps w enc ct pr en d r (s, wo) =
    (Returned, write_response w enc resp s,
     case subject_of (de_libs deps) (hr_request r) rt of None \<Rightarrow> wo | Some sub \<Rightarrow> SetSubject r sub wo)"
  using assms
  by (cases rt) (auto simp: routes_def respond_def healthz_def momentums_handler_def transactions_handler_def
      api_handler_eq split: option.splits sum.splits)

lemma refuse_status [simp]: "response_status (refuse p) = problem_status p"
  by (cases p) simp

lemma readyz_status: "response_status (readyz a b c e f n) \<in> {200, 503}"
  by (auto simp: readyz_def split: option.split sum.split schema_read.split prod.split bool.split)

lemma api_status: "response_status (api_v1 lib perMinute en e r d) \<noteq> 0"
  using serve_status [of en e r d]
  by (auto simp: api_v1_def Auth_def RateLimit_def rateLimited_def handler_status_def query_status_def
      split: sum.splits verify_error.splits)

lemma refusal_status:
  "open_momentums lib r h = Inl p \<Longrightarrow> problem_status p \<noteq> 0"
  "open_transactions lib r h = Inl p \<Longrightarrow> problem_status p \<noteq> 0"
  using open_refusals [of lib r h p] by auto

lemma readyz_response_status: "response_status (readyz_response deps pr) \<noteq> 0"
  using readyz_status [of "de_Pool deps" "pr_ping pr" "pr_schema pr" "if de_SyncStatus deps then Some (pr_sync pr) else None"
      "pr_message pr" "pr_now pr"] by (auto simp: readyz_response_def)

lemma answer_status:
  assumes "answer_of deps pr en d r rt = Some resp"
  shows "response_status resp \<noteq> 0"
  using assms
  by (cases rt) (auto simp: readyz_response_status api_status refusal_status split: option.splits sum.splits)

lemma wire_status: "fst (snd (wire enc resp)) \<in> {response_status resp, 500}"
  by (cases resp) (auto simp: problem_wire_def encode_failed_def split: option.splits)

lemma conn_response:
  assumes "wire enc resp = (contentType, status, body)" "cn_sent c = None" "cn_body c = []"
  shows "write_response conn_writer enc resp c =
    \<lparr> cn_header = (cn_header c)(''Content-Type'' := contentType),
      cn_sent = Some (status, (cn_header c)(''Content-Type'' := contentType)),
      cn_body = take (cn_room c) body, cn_room = cn_room c - length body \<rparr>"
  using assms
  by (cases c) (auto simp: write_response_def write_body_def conn_writer_def conn_Write_def conn_WriteHeader_def
      Let_def min_def)

lemma recorded_response:
  assumes "wire enc resp = (contentType, status, body)" "cn_sent c = None" "status \<noteq> 0"
  shows "write_response logged_writer enc resp (start_recorder c) =
      \<lparr> lr_inner = write_response conn_writer enc resp c, lr_status = status,
        lr_bytes = int (min (length body) (cn_room c)) \<rparr>"
    "write_response metered_writer enc resp (start_metered c) =
      \<lparr> mr_inner = \<lparr> lr_inner = write_response conn_writer enc resp c, lr_status = status,
        lr_bytes = int (min (length body) (cn_room c)) \<rparr>, mr_status = status, mr_wroteHeader = True \<rparr>"
  using assms
  by (auto simp: write_response_def write_body_def log_writer_def metrics_writer_def conn_writer_def conn_Write_def
      conn_WriteHeader_def Let_def)

text \<open>Behind the logger, the holder is there and empty.\<close>

lemma routes_inner:
  assumes "find_route (hr_Method r) (hr_Path r) = Some rt" "answer_of deps pr en d (hr_request r) rt = Some resp"
  shows "routes find_route deps w enc ct pr en d (inner_request ident r) (s, wo\<lparr> wo_sub := [] \<rparr>) =
    (Returned, write_response w enc resp s,
     wo\<lparr> wo_sub := (case subject_of (de_libs deps) (hr_request r) rt of None \<Rightarrow> [] | Some sub \<Rightarrow> sub) \<rparr>)"
  using routes_answer [of find_route "inner_request ident r" rt deps pr en d resp w enc ct s "wo\<lparr> wo_sub := [] \<rparr>"] assms
  by (simp add: SetSubject_def split: option.split)

text \<open>
  C35. The server answers a request as its route does. With no CORS list, a request on a route that
  is not turned into a stream gets the status, content type and body of the route's response (the
  health and readiness probes, the authenticated endpoints behind token and rate limit, or the
  refusal of a stream), cut where the client stops reading, and its request id as a header; one
  line is logged with that status, the bytes sent, the id and the verified subject; and with
  metrics the request is counted once, under the same status. Nothing else is logged or counted.
\<close>

theorem server_answers:
  assumes "find_route (hr_Method r) (hr_Path r) = Some rt"
    and "answer_of deps pr en d (hr_request r) rt = Some resp"
    and "wire enc resp = (contentType, status, body)"
    and "de_CORSAllowedOrigins deps = []"
  shows "\<exists>hdr sub. hdr HeaderRequestID = request_id newid r \<and> hdr ''Content-Type'' = contentType \<and>
    sub = (case subject_of (de_libs deps) (hr_request r) rt of None \<Rightarrow> [] | Some sub \<Rightarrow> sub) \<and>
    New newid cors find_route enc ct1 ct2 deps pr en d r (fresh_connection room, wo) =
      (Returned,
       \<lparr> cn_header = hdr, cn_sent = Some (status, hdr), cn_body = take room body, cn_room = room - length body \<rparr>,
       wo\<lparr> wo_sub := sub,
           wo_log := wo_log wo @
             [LogHttp \<lparr> hl_method = hr_Method r, hl_path = hr_Path r, hl_status = status,
                hl_bytes = int (min (length body) room), hl_request_id = request_id newid r,
                hl_sub = (if sub = [] then None else Some sub) \<rparr>],
           wo_requestsTotal := wo_requestsTotal wo @
             (if de_Metrics deps then [(hr_Method r, route_label r, FormatInt status)] else []) \<rparr>)"
proof -
  let ?id = "request_id newid r"
  let ?c = "identified ?id (fresh_connection room)"
  let ?r = "inner_request ?id r"
  let ?sub = "case subject_of (de_libs deps) (hr_request r) rt of None \<Rightarrow> [] | Some sub \<Rightarrow> sub"
  have status: "status \<noteq> 0"
    using answer_status [OF assms(2)] wire_status [of enc resp] assms(3) by auto
  note recorded = recorded_response [OF assms(3) _ status, of ?c]
  let ?next = "if de_Metrics deps then Metrics_Middleware (routes find_route deps metered_writer enc ct1 pr en d)
        else routes find_route deps logged_writer enc ct2 pr en d"
  have inner: "?next ?r (start_recorder ?c, wo\<lparr> wo_sub := [] \<rparr>) =
      (Returned, \<lparr> lr_inner = write_response conn_writer enc resp ?c, lr_status = status,
         lr_bytes = int (min (length body) room) \<rparr>,
       wo\<lparr> wo_sub := ?sub, wo_requestsTotal := wo_requestsTotal wo @
         (if de_Metrics deps then [(hr_Method r, route_label r, FormatInt status)] else []) \<rparr>)"
    using recorded by (simp add: Metrics_Middleware_def routes_inner [where r = r and find_route = find_route, OF assms(1,2)] route_label_def)
  note result = use_all_result [where ?next = ?next and enc = enc and cors = cors, OF inner]
  show ?thesis
    unfolding New_def assms(4) result
    using conn_response [OF assms(3), of ?c]
    by (intro exI) (auto simp: final_recorder_def final_line_def HeaderRequestID_def)
qed

text \<open>A readiness probe of a server whose database is migrated too little, with metrics.\<close>

definition ex_deps :: Deps where
  "ex_deps =
     \<lparr> de_libs = \<lparr> li_TrimSpace = id, li_parse = (\<lambda>tok. Inr tok), li_KeyByIP = (\<lambda>r. []), li_allow = (\<lambda>key. True) \<rparr>,
       de_Pool = True, de_SyncStatus = True, de_Hub = None, de_TxHub = None, de_Metrics = True,
       de_CORSAllowedOrigins = [], de_RateLimitPerMinute = 60, de_Version = [] \<rparr>"

definition ex_probe :: probe_env where
  "ex_probe = \<lparr> pr_ping = None, pr_schema = SchemaRow 12 False, pr_sync = Inl NoRows, pr_message = (\<lambda>err. []), pr_now = 0 \<rparr>"

definition ex_routes :: "string \<Rightarrow> string \<Rightarrow> route option" where
  "ex_routes method path = (if method = ''GET'' \<and> path = ''/readyz'' then Some RReadyz else None)"

theorem server_answers_witness:
  "\<forall>ct1 ct2. \<exists>c wo'. New ''u1'' (\<lambda>_ h. h) ex_routes ex_encoders ct1 ct2 ex_deps ex_probe ex_env ex_rest_db
        (ex_http (\<lambda>k. if k = ''X-Request-Id'' then ''abc'' else []) ''/readyz'' ''/readyz'') (fresh_connection 6, ex_world) =
      (Returned, c, wo') \<and>
    fst (the (cn_sent c)) = 503 \<and> cn_body c = ''schema'' \<and>
    wo_requestsTotal wo' = [(''GET'', ''/readyz'', ''503'')] \<and>
    (\<exists>line. wo_log wo' = [LogHttp line] \<and> hl_status line = 503 \<and> hl_bytes line = 6 \<and> hl_request_id line = ''abc'')"
proof -
  let ?r = "ex_http (\<lambda>k. if k = ''X-Request-Id'' then ''abc'' else []) ''/readyz'' ''/readyz''"
  have route: "ex_routes (hr_Method ?r) (hr_Path ?r) = Some RReadyz"
    by (simp add: ex_routes_def ex_http_def)
  have wire: "wire ex_encoders (readyz_response ex_deps ex_probe) =
      (''application/problem+json'', 503, ''schema_not_migrated'')"
    by (simp add: readyz_response_def ex_deps_def ex_probe_def readyz_def minSchemaVersion_def ex_encoders_def
        WriteProblem_def problem_wire_def)
  have ident: "request_id ''u1'' ?r = ''abc''" "route_label ?r = ''/readyz''" "hr_Method ?r = ''GET''"
    by (simp_all add: request_id_def HeaderRequestID_def ex_http_def route_label_def)
  have "FormatInt 503 = ''503''" by code_simp
  note served = server_answers [where r = ?r and find_route = ex_routes and newid = "''u1''" and cors = "\<lambda>_ h. h"
      and room = 6 and wo = ex_world and deps = ex_deps and pr = ex_probe and enc = ex_encoders and en = ex_env
      and d = ex_rest_db and rt = RReadyz, OF route _ wire]
  show ?thesis
  proof (intro allI)
    fix ct1 ct2
    show "\<exists>c wo'. New ''u1'' (\<lambda>_ h. h) ex_routes ex_encoders ct1 ct2 ex_deps ex_probe ex_env ex_rest_db ?r
        (fresh_connection 6, ex_world) = (Returned, c, wo') \<and>
      fst (the (cn_sent c)) = 503 \<and> cn_body c = ''schema'' \<and>
      wo_requestsTotal wo' = [(''GET'', ''/readyz'', ''503'')] \<and>
      (\<exists>line. wo_log wo' = [LogHttp line] \<and> hl_status line = 503 \<and> hl_bytes line = 6 \<and> hl_request_id line = ''abc'')"
      using served [of ct1 ct2] \<open>FormatInt 503 = ''503''\<close> by (auto simp: ident ex_deps_def ex_world_def)
  qed
qed

end
