(* ===== verification/Background.thy ===== *)
theory Background
  imports Sync Cron Bridge_Sync Watchdog Webhooks
begin

text \<open>
  The goroutines of \<open>Indexer.Run\<close> (\<open>internal/indexer/indexer.go\<close>): the loops that refresh bridge data,
  cached data and statistics and watch the node, what their jobs do to the shared state, and the
  life of a run from the start of the loops to the return, as a step relation.
\<close>

subsection \<open>Intervals\<close>

definition default_interval :: "int \<Rightarrow> int" where
  "default_interval interval = (if interval \<le> 0 then 600 * second else interval)"

subsection \<open>The jobs and the state they share\<close>

text \<open>The pillar map, and the watchdog's state with the database.\<close>

record process =
  pc_cache :: cache
  pc_watch :: watch

abbreviation pc_db :: "process \<Rightarrow> db" where
  "pc_db s \<equiv> w_db (pc_watch s)"

definition set_db :: "db \<Rightarrow> process \<Rightarrow> process" where
  "set_db d s = s\<lparr> pc_watch := (pc_watch s)\<lparr> w_db := d \<rparr> \<rparr>"

datatype job =
    BridgeJob nat bridge_requests_api bridge_api
  | CachedJob nat sdk cached_api
  | CronJob cron_tick cron_env
  | WatchJob WatchdogConfigForIndexer tick_env

text \<open>\<open>None\<close>: the job does not return within its fuel, or panics.\<close>

fun run_job :: "job \<Rightarrow> process \<Rightarrow> process option" where
  "run_job (BridgeJob fuel rq api) s =
     (case syncBridgeData fuel rq api (pc_db s) of None \<Rightarrow> None | Some d \<Rightarrow> Some (set_db d s))"
| "run_job (CachedJob fuel sdk api) s =
     (case updateCachedData fuel sdk api (pc_cache s) (pc_db s) of
        None \<Rightarrow> None
      | Some (err, c, d) \<Rightarrow> Some ((set_db d s)\<lparr> pc_cache := c \<rparr>))"
| "run_job (CronJob tick env) s = Some (set_db (cron_job (tick, env) (pc_db s)) s)"
| "run_job (WatchJob cfg env) s =
     (case runWatchdogTick (classify_cfg cfg) (react_cfg cfg) env (pc_watch s) of
        None \<Rightarrow> None | Some w \<Rightarrow> Some (s\<lparr> pc_watch := w \<rparr>))"

fun run_jobs :: "job list \<Rightarrow> process \<Rightarrow> process option" where
  "run_jobs [] s = Some s"
| "run_jobs (j # js) s = (case run_job j s of None \<Rightarrow> None | Some s' \<Rightarrow> run_jobs js s')"

text \<open>The first round runs at once, then one per tick until the context is canceled.\<close>

definition runBridgeSyncLoop :: "nat \<times> bridge_requests_api \<times> bridge_api \<Rightarrow>
    (nat \<times> bridge_requests_api \<times> bridge_api) list \<Rightarrow> process \<Rightarrow> process option" where
  "runBridgeSyncLoop first ticks = run_jobs (map (\<lambda>(fuel, rq, api). BridgeJob fuel rq api) (first # ticks))"

definition runCachedDataSyncLoop :: "sdk \<Rightarrow> nat \<times> cached_api \<Rightarrow> (nat \<times> cached_api) list \<Rightarrow>
    process \<Rightarrow> process option" where
  "runCachedDataSyncLoop sdk first ticks = run_jobs (map (\<lambda>(fuel, api). CachedJob fuel sdk api) (first # ticks))"

subsection \<open>The life of a run\<close>

datatype loop = BridgeLoop | CachedDataLoop | CronLoop | WatchdogLoop

text \<open>A loop before its select, with the jobs it runs first; at the select; or returned.\<close>

datatype loop_phase = First nat | Selecting | Left

fun first_jobs :: "loop \<Rightarrow> nat" where
  "first_jobs BridgeLoop = 1"
| "first_jobs CachedDataLoop = 1"
| "first_jobs CronLoop = 3"
| "first_jobs WatchdogLoop = 0"

fun job_of :: "loop \<Rightarrow> job \<Rightarrow> bool" where
  "job_of BridgeLoop j = (case j of BridgeJob _ _ _ \<Rightarrow> True | _ \<Rightarrow> False)"
| "job_of CachedDataLoop j = (case j of CachedJob _ _ _ \<Rightarrow> True | _ \<Rightarrow> False)"
| "job_of CronLoop j = (case j of CronJob _ _ \<Rightarrow> True | _ \<Rightarrow> False)"
| "job_of WatchdogLoop j = (case j of WatchJob _ _ \<Rightarrow> True | _ \<Rightarrow> False)"

text \<open>
  The body of \<open>Run\<close>, then its deferred calls in the order in which they run: \<open>cancel\<close>, \<open>wg.Wait\<close>, the
  dispatcher's \<open>Stop\<close>.
\<close>

datatype main_phase =
    Body
  | Cancel "error option"
  | Wait "error option"
  | StopHooks "error option"
  | HooksSignaled "error option"
  | RunReturned "error option"
  | Crashed

record life =
  li_main :: main_phase
  li_tickers :: "loop \<Rightarrow> int list"
  li_ctx_done :: bool
  li_run_done :: bool
  li_loops :: "(loop \<times> loop_phase) list"
  li_wg :: int
  li_hooks :: "Dispatcher option"
  li_proc :: process

text \<open>The intervals of the tickers each loop makes; \<open>time.NewTicker\<close> panics unless they are positive.\<close>

fun tickers :: "int \<Rightarrow> int \<Rightarrow> int \<Rightarrow> loop \<Rightarrow> int list" where
  "tickers voting holders watch BridgeLoop = [60 * second]"
| "tickers voting holders watch CachedDataLoop = [300 * second]"
| "tickers voting holders watch CronLoop = [default_interval voting, default_interval holders, 3600 * second]"
| "tickers voting holders watch WatchdogLoop = [watch]"

record run_config =
  rc_VotingActivityInterval :: int
  rc_TokenHoldersInterval :: int
  rc_nodePool :: bool
  rc_watchdogCfg :: WatchdogConfigForIndexer

definition starts_watchdog :: "run_config \<Rightarrow> bool" where
  "starts_watchdog rc \<longleftrightarrow> rc_nodePool rc \<and> wc_Enabled (rc_watchdogCfg rc)"

definition start_loops :: "run_config \<Rightarrow> loop list" where
  "start_loops rc = [BridgeLoop, CachedDataLoop, CronLoop] @ (if starts_watchdog rc then [WatchdogLoop] else [])"

definition start_run :: "run_config \<Rightarrow> bool \<Rightarrow> Dispatcher option \<Rightarrow> int \<Rightarrow> process \<Rightarrow> life" where
  "start_run rc ctx_done hooks now s =
     \<lparr> li_main = Body,
       li_tickers = tickers (rc_VotingActivityInterval rc) (rc_TokenHoldersInterval rc) (wc_Interval (rc_watchdogCfg rc)),
       li_ctx_done = ctx_done, li_run_done = ctx_done,
       li_loops = map (\<lambda>l. (l, First (first_jobs l))) (start_loops rc),
       li_wg = 3 + (if starts_watchdog rc then 1 else 0), li_hooks = hooks,
       li_proc = s\<lparr> pc_watch := (pc_watch s)\<lparr> w_lastProgressAt := now \<rparr> \<rparr> \<rparr>"

definition set_phase :: "nat \<Rightarrow> loop_phase \<Rightarrow> life \<Rightarrow> life" where
  "set_phase i ph s = s\<lparr> li_loops := (li_loops s)[i := (fst (li_loops s ! i), ph)] \<rparr>"

text \<open>The main loop sees the shared state as its own.\<close>

definition main_view :: "process \<Rightarrow> sync_state" where
  "main_view p = \<lparr> ss_db = pc_db p, ss_cache = pc_cache p, ss_events = [],
     ss_lastProgressAt = w_lastProgressAt (pc_watch p) \<rparr>"

definition main_writes :: "sync_state \<Rightarrow> process \<Rightarrow> process" where
  "main_writes st p =
     p\<lparr> pc_cache := ss_cache st,
        pc_watch := (pc_watch p)\<lparr> w_db := ss_db st, w_lastProgressAt := ss_lastProgressAt st \<rparr> \<rparr>"

text \<open>
  The steps of a process that has not crashed: the caller cancels; a loop runs a first job or one
  for a tick, makes its tickers, or leaves its select when the run's context is done; the body
  processes a momentum, or ends with the value of \<open>sync\<close> or \<open>runSubscriptionLoop\<close>; the deferred
  calls. The dispatcher's worker moves on its own.
\<close>

inductive alive_step :: "life \<Rightarrow> life \<Rightarrow> bool" where
  cancel_ctx: "alive_step s (s\<lparr> li_ctx_done := True, li_run_done := True \<rparr>)"
| first_job:
    "\<lbrakk> i < length (li_loops s); li_loops s ! i = (l, First (Suc n)); job_of l j;
       run_job j (li_proc s) = Some p \<rbrakk> \<Longrightarrow> alive_step s (set_phase i (First n) (s\<lparr> li_proc := p \<rparr>))"
| to_select:
    "\<lbrakk> i < length (li_loops s); li_loops s ! i = (l, First 0); list_all (\<lambda>k. 0 < k) (li_tickers s l) \<rbrakk> \<Longrightarrow>
     alive_step s (set_phase i Selecting s)"
| bad_ticker:
    "\<lbrakk> i < length (li_loops s); li_loops s ! i = (l, First 0); \<not> list_all (\<lambda>k. 0 < k) (li_tickers s l) \<rbrakk> \<Longrightarrow>
     alive_step s (s\<lparr> li_main := Crashed \<rparr>)"
| tick:
    "\<lbrakk> i < length (li_loops s); li_loops s ! i = (l, Selecting); job_of l j;
       run_job j (li_proc s) = Some p \<rbrakk> \<Longrightarrow> alive_step s (s\<lparr> li_proc := p \<rparr>)"
| leave:
    "\<lbrakk> i < length (li_loops s); li_loops s ! i = (l, Selecting); li_run_done s \<rbrakk> \<Longrightarrow>
     alive_step s ((set_phase i Left s)\<lparr> li_wg := li_wg s - 1 \<rparr>)"
| body:
    "\<lbrakk> li_main s = Body; pe_others env = id; process_one env m (main_view (li_proc s)) = (e, st) \<rbrakk> \<Longrightarrow>
     alive_step s (s\<lparr> li_proc := main_writes st (li_proc s) \<rparr>)"
| body_ends: "li_main s = Body \<Longrightarrow> alive_step s (s\<lparr> li_main := Cancel e \<rparr>)"
| deferred_cancel: "li_main s = Cancel e \<Longrightarrow> alive_step s (s\<lparr> li_main := Wait e, li_run_done := True \<rparr>)"
| deferred_wait: "\<lbrakk> li_main s = Wait e; li_wg s = 0 \<rbrakk> \<Longrightarrow> alive_step s (s\<lparr> li_main := StopHooks e \<rparr>)"
| no_hooks: "\<lbrakk> li_main s = StopHooks e; li_hooks s = None \<rbrakk> \<Longrightarrow> alive_step s (s\<lparr> li_main := RunReturned e \<rparr>)"
| stop_signal:
    "\<lbrakk> li_main s = StopHooks e; li_hooks s = Some d; StopSignal d = Some d' \<rbrakk> \<Longrightarrow>
     alive_step s (s\<lparr> li_main := HooksSignaled e, li_hooks := Some d' \<rparr>)"
| stop_wait:
    "\<lbrakk> li_main s = HooksSignaled e; li_hooks s = Some d; stop_returns d \<rbrakk> \<Longrightarrow>
     alive_step s (s\<lparr> li_main := RunReturned e \<rparr>)"
| hook:
    "\<lbrakk> li_hooks s = Some d; hook_step w op d = Some d' \<rbrakk> \<Longrightarrow> alive_step s (s\<lparr> li_hooks := Some d' \<rparr>)"

definition run_step :: "life \<Rightarrow> life \<Rightarrow> bool" where
  "run_step s s' \<longleftrightarrow> li_main s \<noteq> Crashed \<and> alive_step s s'"

end
