(* ===== verification/Background_Props.thy ===== *)
theory Background_Props
  imports Background Sync_Facts Watchdog_Facts Webhook_Props "HOL-Library.Sublist"
begin

text \<open>
  The loops of \<open>Run\<close> together: none of the background jobs touches the momentums, so over a whole run
  the table only grows; \<open>Run\<close> returns only when every loop has returned and the dispatcher has
  stopped, and it always can return.
\<close>

subsection \<open>The jobs leave the momentums alone\<close>

lemma stat_upsert_momentums:
  "UpsertNetworkStat x1 d = Inr d' \<Longrightarrow> momentums d' = momentums d"
  "UpsertTokenStat x2 d = Inr d' \<Longrightarrow> momentums d' = momentums d"
  "UpsertPillarStat x3 d = Inr d' \<Longrightarrow> momentums d' = momentums d"
  "UpsertBridgeStat x4 d = Inr d' \<Longrightarrow> momentums d' = momentums d"
  unfolding UpsertNetworkStat_def UpsertTokenStat_def UpsertPillarStat_def UpsertBridgeStat_def
  by (erule map_Inr_momentums, simp)+

lemma cron_update_momentums:
  "Pillar_UpdateVotingActivity addr act d = Inr d' \<Longrightarrow> momentums d' = momentums d"
  "Token_UpdateHolderCount ts n d = Inr d' \<Longrightarrow> momentums d' = momentums d"
  by (auto simp: Pillar_UpdateVotingActivity_def Token_UpdateHolderCount_def split: if_splits elim!: map_Inr_momentums)

lemma cron_writes:
  "momentums (try_write b (UpsertTokenStat x2) d) = momentums d"
  "momentums (try_write b (UpsertPillarStat x3) d) = momentums d"
  "momentums (try_write b (UpsertBridgeStat x4) d) = momentums d"
  "momentums (try_write b (Pillar_UpdateVotingActivity addr act) d) = momentums d"
  "momentums (try_write b (Token_UpdateHolderCount ts n) d) = momentums d"
  by (rule try_write_momentums, erule stat_upsert_momentums cron_update_momentums)+

lemma each_momentums:
  "momentums (each_token env date startTs n ts d) = momentums d"
  "momentums (each_pillar_stat env date n ps d) = momentums d"
  "momentums (each_voter env n ps d) = momentums d"
  "momentums (each_holder env n ts d) = momentums d"
proof -
  show "momentums (each_token env date startTs n ts d) = momentums d"
    by (induction ts arbitrary: n d) (simp_all add: Let_def cron_writes split: prod.split)
  show "momentums (each_pillar_stat env date n ps d) = momentums d"
    by (induction ps arbitrary: n d) (simp_all add: Let_def cron_writes)
  show "momentums (each_voter env n ps d) = momentums d"
    by (induction ps arbitrary: n d) (simp_all add: cron_writes split: option.split)
  show "momentums (each_holder env n ts d) = momentums d"
    by (induction ts arbitrary: n d) (simp_all add: cron_writes)
qed

lemma cron_job_momentums: "momentums (cron_job (t, env) d) = momentums d"
proof -
  have net: "momentums (keep_going (snapshotNetworkStats env date ts) d) = momentums d" for date ts d
    by (auto simp: keep_going_def snapshotNetworkStats_def split: sum.splits if_splits
        dest: stat_upsert_momentums)
  have bridge: "momentums (keep_going (snapshotBridgeStats env date ts) d) = momentums d" for date ts d
    by (simp add: keep_going_def snapshotBridgeStats_def) (rule impI | rule fold_momentums | simp add: cron_writes split: prod.split)+
  show ?thesis
    by (cases t) (simp_all add: cron_job_def runVotingActivity_def runTokenHolderCounts_def runStatSnapshots_def
        Let_def each_momentums snapshotTokenStats_def snapshotPillarStats_def net bridge)
qed

lemma fail_over_db: "fail_over env c i g w = Some w' \<Longrightarrow> w_db w' = w_db w"
  by (auto simp: fail_over_def swapActiveClient_def Let_def split: prod.splits option.splits if_splits)

lemma fail_back_db: "fail_back env c r g is w = Some w' \<Longrightarrow> w_db w' = w_db w"
proof (induction "is" arbitrary: w)
  case (Cons i "is")
  have ih: "fail_back env c r g is w1 = Some w' \<Longrightarrow> w_db w1 = w_db w \<Longrightarrow> w_db w' = w_db w" for w1
    using Cons.IH [of w1] by simp
  from Cons.prems show ?case
    by (auto simp: Let_def swapActiveClient_def split: prod.splits option.splits if_splits sum.splits intro: ih)
qed simp

lemma publish_momentums:
  "publishSyncStatus env probe h c i w = Some w' \<Longrightarrow> momentums (w_db w') = momentums (w_db w)"
  by (auto simp: publishSyncStatus_def SyncStatus_Upsert_def Let_def split: option.splits if_splits sum.splits)

lemma watch_tick_momentums:
  assumes "runWatchdogTick c r env w = Some w'"
  shows "momentums (w_db w') = momentums (w_db w)"
  using assms
  by (auto simp: runWatchdogTick_def Let_def split: prod.splits if_splits option.splits
      dest!: publish_momentums fail_over_db fail_back_db)

lemma run_job_momentums:
  assumes "run_job j p = Some p'"
  shows "momentums (pc_db p') = momentums (pc_db p)"
  using assms
  by (cases j) (auto simp: set_db_def cron_job_momentums split: option.splits prod.splits
      dest!: syncBridgeData_momentums updateCachedData_momentums watch_tick_momentums)

lemma run_jobs_momentums: "run_jobs js p = Some p' \<Longrightarrow> momentums (pc_db p') = momentums (pc_db p)"
  by (induction js arbitrary: p) (auto split: option.splits dest: run_job_momentums)

subsection \<open>The table over a run\<close>

text \<open>Rows are kept as they are, new ones come at the end, and no height twice.\<close>

definition extends :: "Momentum list \<Rightarrow> Momentum list \<Rightarrow> bool" where
  "extends t t' \<longleftrightarrow> prefix t t' \<and> (distinct (map mo_Height t) \<longrightarrow> distinct (map mo_Height t'))"

lemma extends_refl [simp]: "extends t t"
  by (simp add: extends_def)

lemma extends_trans: "extends a b \<Longrightarrow> extends b c \<Longrightarrow> extends a c"
  by (auto simp: extends_def intro: prefix_order.trans)

lemma extends_insert: "extends t (insert_ignore mo_Height row t)"
  by (auto simp: extends_def insert_ignore_def find_by_def find_None_iff split: option.splits)

lemma process_one_extends:
  assumes "process_one env m st = (e, st')" "pe_others env = id"
  shows "extends (momentums (ss_db st)) (momentums (ss_db st'))"
  using process_one_cases [OF assms(1)] assms(2) by (auto simp: quiet_def extends_insert)

lemma alive_step_extends:
  assumes "alive_step s s'"
  shows "extends (momentums (pc_db (li_proc s))) (momentums (pc_db (li_proc s')))"
  using assms
proof (cases rule: alive_step.cases)
  case (body env m e st)
  then show ?thesis
    using process_one_extends [OF body(4,3)] by (simp add: main_view_def main_writes_def)
qed (auto simp: set_phase_def dest!: run_job_momentums)

subsection \<open>The invariant of a run\<close>







lemma set_phase_simps [simp]:
  "li_main (set_phase i ph s) = li_main s" "li_run_done (set_phase i ph s) = li_run_done s"
  "li_wg (set_phase i ph s) = li_wg s" "li_hooks (set_phase i ph s) = li_hooks s"
  "li_tickers (set_phase i ph s) = li_tickers s" "li_proc (set_phase i ph s) = li_proc s"
  "length (li_loops (set_phase i ph s)) = length (li_loops s)"
  by (simp_all add: set_phase_def)






lemma set_phase_loops [simp]: "map fst (li_loops (set_phase i ph s)) = map fst (li_loops s)"
  by (cases "i < length (li_loops s)") (simp_all add: set_phase_def map_update list_update_same_conv list_update_beyond)






lemma run_step_star_extends:
  "run_step\<^sup>*\<^sup>* s0 s \<Longrightarrow> extends (momentums (pc_db (li_proc s0))) (momentums (pc_db (li_proc s)))"
  by (induction rule: rtranclp_induct) (auto simp: run_step_def intro: extends_trans alive_step_extends)

subsection \<open>The way out\<close>

text \<open>On a canceled context every job finds its calls refused, and returns.\<close>

definition refused_bridge :: job where
  "refused_bridge = BridgeJob 1
     \<lparr> br_wrap_read_fails = True, br_unwrap_read_fails = True, br_wraps = (\<lambda>_. Inl ''context canceled''),
       br_unwraps = (\<lambda>_. Inl ''context canceled''), br_wrap_fails = (\<lambda>_. True), br_unwrap_fails = (\<lambda>_. True) \<rparr>
     \<lparr> ba_info = Inl ''context canceled'', ba_security = Inl ''context canceled'',
       ba_orchestrator = Inl ''context canceled'', ba_networks = (\<lambda>_. Inl ''context canceled''),
       ba_challenges = Inl ''context canceled'', ba_fails = (\<lambda>_ _. True), ba_now = 0 \<rparr>"

lemma job_exists: "\<exists>j p'. job_of l j \<and> run_job j p = Some p'"
proof (cases l)
  case BridgeLoop
  moreover have "\<exists>p'. run_job refused_bridge p = Some p'"
    by (simp add: refused_bridge_def syncBridgeData_def updateBridgeWrapRequests_def updateBridgeUnwrapRequests_def
        updateBridgeConfig_def)
  ultimately show ?thesis by (intro exI [of _ refused_bridge]) (simp add: refused_bridge_def)
next
  case CachedDataLoop
  have "\<exists>p'. run_job (CachedJob 0 undefined
      \<lparr> api_pillars = Inl ''context canceled'', api_sentinels = (\<lambda>_. Inl []), api_projects = (\<lambda>_. Inl []),
        api_assets = Inl [], api_write_fails = (\<lambda>_. True), api_now = 0 \<rparr>) p = Some p'"
    by (simp add: updateCachedData_def updatePillarCache_def)
  with CachedDataLoop show ?thesis by (metis job_of.simps(2) job.simps(18))
next
  case CronLoop
  then show ?thesis by (intro exI [of _ "CronJob VotingTick undefined"]) simp
next
  case WatchdogLoop
  then show ?thesis
    by (intro exI [of _ "WatchJob undefined \<lparr> te_net = undefined, te_now = 0, te_read_fails = True,
          te_dial_fails = undefined, te_publish_fails = True \<rparr>"])
       (simp add: runWatchdogTick_def Let_def split: prod.split)
qed















subsection \<open>Starting a run\<close>





text \<open>
  A run with webhooks and an odd voting interval whose catch-up fails at once: it returns that error.
\<close>

definition ex_config :: run_config where
  "ex_config = \<lparr> rc_VotingActivityInterval = -5, rc_TokenHoldersInterval = 0, rc_nodePool = True,
     rc_watchdogCfg = \<lparr> wc_Enabled = True, wc_Interval = 30, wc_StallThreshold = 1, wc_IndexerDriftThreshold = 1,
       wc_NodeDriftThreshold = 1, wc_UnhealthyStreak = 2, wc_FailbackStreak = 2 \<rparr> \<rparr>"


text \<open>
  C38. Over a whole run the momentums only grow. Whatever the main loop processes and whatever jobs
  the background loops run in between, in every state a run reaches the rows that were stored at
  its start are all there, unchanged and in front; and if no height was stored twice then, none is
  now. In particular no sequence of background jobs changes the table.
\<close>

theorem momentums_append_only:
  assumes "run_step\<^sup>*\<^sup>* (start_run rc ctx hooks now p) s"
  shows "prefix (momentums (pc_db p)) (momentums (pc_db (li_proc s))) \<and>
    (distinct (map mo_Height (momentums (pc_db p))) \<longrightarrow>
     distinct (map mo_Height (momentums (pc_db (li_proc s))))) \<and>
    (\<forall>js p'. run_jobs js (li_proc s) = Some p' \<longrightarrow> momentums (pc_db p') = momentums (pc_db (li_proc s)))"
  using run_step_star_extends [OF assms] run_jobs_momentums by (auto simp: start_run_def extends_def)

text \<open>The bridge loop's first round, on a database with one momentum.\<close>

definition ex_row :: Momentum where
  "ex_row = \<lparr> mo_Height = 7, mo_Hash = ''h7'', mo_Timestamp = 70, mo_TxCount = 0, mo_Producer = ''z1'',
     mo_ProducerOwner = [], mo_ProducerName = [] \<rparr>"

definition ex_process :: process where
  "ex_process = \<lparr> pc_cache = \<lparr> ca_pillars = [], ca_pillarNameToOwner = [] \<rparr>,
     pc_watch = NewIndexerWithNodes (NewNodePool []) ''ws://n'' 0 (empty_db\<lparr> momentums := [ex_row] \<rparr>) \<rparr>"

theorem momentums_append_only_witness:
  "\<exists>s. run_step (start_run ex_config False None 0 ex_process) s \<and> li_loops s ! 0 = (BridgeLoop, First 0) \<and>
     prefix [ex_row] (momentums (pc_db (li_proc s))) \<and> distinct (map mo_Height (momentums (pc_db (li_proc s))))"
proof -
  let ?a = "start_run ex_config False None 0 ex_process"
  have loops: "li_loops ?a = (BridgeLoop, First 1) # map (\<lambda>l. (l, First (first_jobs l))) [CachedDataLoop, CronLoop, WatchdogLoop]"
    by (simp add: start_run_def start_loops_def starts_watchdog_def ex_config_def)
  obtain j p where j: "job_of BridgeLoop j" "run_job j (li_proc ?a) = Some p" using job_exists by blast
  let ?b = "set_phase 0 (First 0) (?a\<lparr> li_proc := p \<rparr>)"
  have "alive_step ?a ?b" by (rule first_job [of 0 ?a BridgeLoop 0 j p]) (use j loops in simp_all)
  moreover have "li_main ?a = Body" by (simp add: start_run_def)
  ultimately have st: "run_step ?a ?b" by (simp add: run_step_def)
  then have "run_step\<^sup>*\<^sup>* ?a ?b" by blast
  from momentums_append_only [OF this] st loops show ?thesis
    by (intro exI [of _ ?b]) (simp add: set_phase_def ex_process_def NewIndexerWithNodes_def)
qed

end
