(* ===== verification/Outreach.thy ===== *)
theory Outreach
  imports Scripts Router
begin

text \<open>
  \<open>scripts/phase-outreach\<close>: a report that lists the pillars to ask for a vote on a pending phase of
  an accelerator project. Rows that a query leaves unordered come in the order of the tables. A
  value that cannot be scanned closes the rows: the loop keeps what it read so far.
\<close>

subsection \<open>Settings\<close>

definition envOrDefault :: "(string \<Rightarrow> string) \<Rightarrow> string \<Rightarrow> string \<Rightarrow> string" where
  "envOrDefault Getenv key defaultVal = (if Getenv key \<noteq> [] then Getenv key else defaultVal)"

text \<open>\<open>None\<close>: the program ends because the password is missing.\<close>

definition buildConnString :: "(string \<Rightarrow> string) \<Rightarrow> string option" where
  "buildConnString Getenv =
     (let host = envOrDefault Getenv ''DATABASE_ADDRESS'' ''localhost'';
          port = envOrDefault Getenv ''DATABASE_PORT'' ''5432'';
          name = envOrDefault Getenv ''DATABASE_NAME'' ''nom_indexer'';
          user = envOrDefault Getenv ''DATABASE_USERNAME'' ''postgres'';
          password = Getenv ''DATABASE_PASSWORD''
      in if password = [] then None
         else Some (''postgres://'' @ user @ '':'' @ password @ ''@'' @ host @ '':'' @ port @ ''/'' @ name @
                    ''?sslmode=disable''))"

subsection \<open>Queries\<close>

record pillarEntry =
  pe_Name :: string
  pe_Note :: string
  pe_ProposalsVoted :: int
  pe_YesVotes :: int
  pe_NoVotes :: int
  pe_AbstainVotes :: int

definition phase_rows :: "string \<Rightarrow> db \<Rightarrow> (ProjectPhase \<times> Project) list" where
  "phase_rows phaseID d =
     filter (\<lambda>(pp, p). pj_ID p = pp_ProjectID pp \<and> pp_ID pp = phaseID)
       (List.product (project_phases d) (projects d))"

definition status_label :: "int \<Rightarrow> string" where
  "status_label status =
     (if status = 1 then ''Accepted'' else if status = 2 then ''Rejected''
      else ''Unknown('' @ FormatInt status @ '')'')"

definition phase_voters :: "string \<Rightarrow> db \<Rightarrow> address list" where
  "phase_voters phaseID d = map vo_VoterAddress (filter (\<lambda>v. vo_PhaseID v = phaseID) (votes d))"

definition phase_count :: "string \<Rightarrow> int \<Rightarrow> db \<Rightarrow> int" where
  "phase_count phaseID k d = count_where (\<lambda>v. vo_PhaseID v = phaseID \<and> vo_Vote v = k) (votes d)"

definition uniqueVoters :: "string \<Rightarrow> db \<Rightarrow> int" where
  "uniqueVoters phaseID d = int (length (remdups (phase_voters phaseID d)))"

definition activePillars :: "db \<Rightarrow> int" where
  "activePillars d = count_where (\<lambda>p. \<not> pl_IsRevoked p) (pillars d)"

definition quorum :: "db \<Rightarrow> int" where
  "quorum d = (let q = activePillars d div 3 in if q = 0 then 1 else q)"

definition votesNeeded :: "string \<Rightarrow> db \<Rightarrow> int" where
  "votesNeeded phaseID d = (let n = quorum d - uniqueVoters phaseID d in if n < 0 then 0 else n)"

definition vote_label :: "int \<Rightarrow> string option" where
  "vote_label v = (if v = 0 then Some ''Yes'' else if v = 1 then Some ''No'' else if v = 2 then Some ''Abstain'' else None)"

text \<open>\<open>DISTINCT ON\<close>: the first row of each name.\<close>

fun distinct_on :: "('r \<Rightarrow> 'k) \<Rightarrow> 'r list \<Rightarrow> 'r list" where
  "distinct_on key [] = []"
| "distinct_on key (r # rs) = r # distinct_on key (filter (\<lambda>x. key x \<noteq> key r) rs)"

definition owner_votes :: "(Vote \<Rightarrow> bool) \<Rightarrow> (Pillar \<Rightarrow> bool) \<Rightarrow> db \<Rightarrow> (Vote \<times> Pillar) list" where
  "owner_votes P Q d =
     filter (\<lambda>(v, p). pl_OwnerAddress p = vo_VoterAddress v \<and> P v \<and> Q p) (List.product (votes d) (pillars d))"

fun scan_votes :: "(string \<times> string option) list \<Rightarrow> (string \<times> string) list" where
  "scan_votes [] = []"
| "scan_votes ((name, Some vote) # rows) = (name, vote) # scan_votes rows"
| "scan_votes ((name, None) # rows) = [(name, [])]"

definition currentVotes :: "string \<Rightarrow> db \<Rightarrow> (string \<times> string) list" where
  "currentVotes phaseID d =
     scan_votes
       (map (\<lambda>(v, p). (pl_Name p, vote_label (vo_Vote v)))
         (order_asc (\<lambda>(v, p). pl_Name p)
           (distinct_on (\<lambda>(v, p). pl_Name p) (owner_votes (\<lambda>v. vo_PhaseID v = phaseID) (\<lambda>p. True) d))))"

text \<open>A vote on the project itself by an active pillar's owner who has not voted on the phase.\<close>

definition on_project :: "string \<Rightarrow> Vote \<Rightarrow> bool" where
  "on_project projectID v \<longleftrightarrow> vo_ProjectID v = projectID \<and> vo_PhaseID v = []"

definition note_entry :: "string \<Rightarrow> string \<Rightarrow> pillarEntry" where
  "note_entry name note = \<lparr> pe_Name = name, pe_Note = note, pe_ProposalsVoted = 0, pe_YesVotes = 0,
     pe_NoVotes = 0, pe_AbstainVotes = 0 \<rparr>"

definition tier1 :: "string \<Rightarrow> string \<Rightarrow> db \<Rightarrow> pillarEntry list" where
  "tier1 projectID phaseID d =
     map (\<lambda>name. note_entry name ''Voted YES on project'')
       (sort (remdups (map (\<lambda>(v, p). pl_Name p)
         (owner_votes
            (\<lambda>v. on_project projectID v \<and> vo_Vote v = 0 \<and> vo_VoterAddress v \<notin> set (phase_voters phaseID d))
            (\<lambda>p. \<not> pl_IsRevoked p) d))))"

definition yes_voters :: "string \<Rightarrow> db \<Rightarrow> address list" where
  "yes_voters projectID d =
     map vo_VoterAddress (filter (\<lambda>v. on_project projectID v \<and> vo_Vote v = 0) (votes d))"

definition tier2 :: "string \<Rightarrow> string \<Rightarrow> db \<Rightarrow> pillarEntry list" where
  "tier2 projectID phaseID d =
     map (\<lambda>(name, vote). note_entry name (''Voted '' @ vote @ '' on project''))
       (scan_votes (order_asc fst (remdups (map (\<lambda>(v, p). (pl_Name p, vote_label (vo_Vote v)))
         (owner_votes
            (\<lambda>v. on_project projectID v \<and> vo_Vote v \<in> {1, 2} \<and>
                 vo_VoterAddress v \<notin> set (phase_voters phaseID d) \<and>
                 vo_VoterAddress v \<notin> set (yes_voters projectID d))
            (\<lambda>p. \<not> pl_IsRevoked p) d)))))"

definition project_voters :: "string \<Rightarrow> db \<Rightarrow> address list" where
  "project_voters projectID d = remdups (map vo_VoterAddress (filter (on_project projectID) (votes d)))"

definition tier3_rows :: "string \<Rightarrow> string \<Rightarrow> db \<Rightarrow> (Vote \<times> Pillar) list" where
  "tier3_rows projectID phaseID d =
     owner_votes
       (\<lambda>v. vo_VoterAddress v \<notin> set (phase_voters phaseID d) \<and> vo_VoterAddress v \<notin> set (project_voters projectID d))
       (\<lambda>p. \<not> pl_IsRevoked p) d"

definition group_entry :: "(Vote \<times> Pillar) list \<Rightarrow> string \<Rightarrow> pillarEntry" where
  "group_entry rows name =
     (let vs = map fst (filter (\<lambda>(v, p). pl_Name p = name) rows)
      in \<lparr> pe_Name = name, pe_Note = [], pe_ProposalsVoted = int (length (remdups (map vo_VotingID vs))),
           pe_YesVotes = count_where (\<lambda>v. vo_Vote v = 0) vs, pe_NoVotes = count_where (\<lambda>v. vo_Vote v = 1) vs,
           pe_AbstainVotes = count_where (\<lambda>v. vo_Vote v = 2) vs \<rparr>)"

definition tier3 :: "string \<Rightarrow> string \<Rightarrow> db \<Rightarrow> pillarEntry list" where
  "tier3 projectID phaseID d =
     (let rows = tier3_rows projectID phaseID d
      in order_desc pe_ProposalsVoted
           (filter (\<lambda>e. 5 \<le> pe_ProposalsVoted e)
             (map (group_entry rows) (remdups (map (\<lambda>(v, p). pl_Name p) rows)))))"

subsection \<open>The report\<close>

abbreviation nl :: string where
  "nl \<equiv> [CHR 0x0A]"

abbreviation num :: "int \<Rightarrow> string" where
  "num \<equiv> FormatInt"

definition numbered :: "(int \<Rightarrow> 'e \<Rightarrow> string) \<Rightarrow> 'e list \<Rightarrow> string" where
  "numbered line es = concat (map (\<lambda>(i, e). line (int i + 1) e) (List.enumerate 0 es))"

definition note_table :: "pillarEntry list \<Rightarrow> string" where
  "note_table es =
     (if es = [] then ''_(none)_'' @ nl
      else ''| # | Pillar | Note |'' @ nl @ ''|---|--------|------|'' @ nl @
           numbered (\<lambda>i e. ''| '' @ num i @ '' | '' @ pe_Name e @ '' | '' @ pe_Note e @ '' |'' @ nl) es)"

definition activity_table :: "pillarEntry list \<Rightarrow> string" where
  "activity_table es =
     (if es = [] then ''_(none with 5+ proposals voted)_'' @ nl
      else ''| # | Pillar | Proposals Voted | Yes | No | Abstain |'' @ nl @
           ''|---|--------|---------------:|----:|---:|--------:|'' @ nl @
           numbered (\<lambda>i e. ''| '' @ num i @ '' | '' @ pe_Name e @ '' | '' @ num (pe_ProposalsVoted e) @ '' | '' @
             num (pe_YesVotes e) @ '' | '' @ num (pe_NoVotes e) @ '' | '' @ num (pe_AbstainVotes e) @ '' |'' @ nl) es)"

definition report_head :: "string \<Rightarrow> string \<Rightarrow> string \<Rightarrow> string \<Rightarrow> string" where
  "report_head phaseName projectName phaseID generated =
     ''# Phase Outreach: '' @ phaseName @ nl @ nl @
     ''**Project:** '' @ projectName @ nl @
     ''**Phase:** '' @ phaseName @ nl @
     ''**Phase ID:** `'' @ phaseID @ ''`'' @ nl @
     ''**Status:** Pending (not yet approved)'' @ nl @
     ''**Generated:** '' @ generated @ nl @ nl"

definition report_votes :: "string \<Rightarrow> db \<Rightarrow> string" where
  "report_votes phaseID d =
     ''## Current Votes'' @ nl @ nl @ ''| Metric | Value |'' @ nl @ ''|--------|-------|'' @ nl @
     ''| Phase Votes | '' @ num (phase_count phaseID 0 d) @ '' Yes / '' @ num (phase_count phaseID 1 d) @ '' No / '' @
       num (phase_count phaseID 2 d) @ '' Abstain ('' @ num (uniqueVoters phaseID d) @ '' unique voters) |'' @ nl @
     ''| Active Pillars | '' @ num (activePillars d) @ '' |'' @ nl @
     ''| Quorum | '' @ num (quorum d) @ '' (1/3 of active pillars) |'' @ nl @
     (if 0 < votesNeeded phaseID d
      then ''| **Votes Needed** | **'' @ num (votesNeeded phaseID d) @ '' more to reach quorum** |'' @ nl
      else ''| **Votes Needed** | **Quorum reached! ('' @ num (uniqueVoters phaseID d) @ '' >= '' @ num (quorum d) @
           '')** |'' @ nl) @
     nl @ ''### Pillars who already voted'' @ nl @ nl @ ''| Pillar | Vote |'' @ nl @ ''|--------|------|'' @ nl @
     concat (map (\<lambda>(name, vote). ''| '' @ name @ '' | '' @ vote @ '' |'' @ nl) (currentVotes phaseID d))"

definition report_tiers :: "pillarEntry list \<Rightarrow> pillarEntry list \<Rightarrow> pillarEntry list \<Rightarrow> int \<Rightarrow> string" where
  "report_tiers t1 t2 t3 needed =
     nl @ ''## Tier 1: Voted YES on project, haven't voted on this phase'' @ nl @ nl @
     ''> Most likely to vote YES '' @ em_dash @ '' they already approved the project.'' @ nl @ nl @ note_table t1 @
     nl @ ''## Tier 2: Voted on project (No/Abstain), haven't voted on this phase'' @ nl @ nl @
     ''> Engaged with this project but didn't vote Yes.'' @ nl @ nl @ note_table t2 @
     nl @ ''## Tier 3: Active voters who didn't vote on this project or phase'' @ nl @ nl @
     ''> Ranked by number of unique proposals voted on (min 5).'' @ nl @ nl @ activity_table t3 @
     nl @ ''## Summary'' @ nl @ nl @
     ''- **'' @ num (int (length t1)) @ '' Tier 1** + **'' @ num (int (length t2)) @ '' Tier 2** + **'' @
       num (int (length t3)) @ '' Tier 3** = **'' @ num (int (length t1 + length t2 + length t3)) @
       '' pillars** to contact'' @ nl @
     (if 0 < needed then ''- **'' @ num needed @ '' more votes** needed for quorum'' @ nl else [])"

datatype outreach_end = OutreachFatal string | Saved string string

text \<open>
  \<open>fails\<close> says which query, or the creation of the file, fails; the messages leave out the text of that
  failure. The file is named after the date.
\<close>

definition phase_outreach :: "(string \<Rightarrow> string) \<Rightarrow> string list \<Rightarrow> (string \<Rightarrow> bool) \<Rightarrow> string \<Rightarrow> string \<Rightarrow>
    db \<Rightarrow> outreach_end" where
  "phase_outreach Getenv args fails today generated d =
     (case args of
        [] \<Rightarrow> OutreachFatal ''usage: go run scripts/phase-outreach/main.go <phase_id>''
      | phaseID # _ \<Rightarrow>
          (case buildConnString Getenv of
             None \<Rightarrow> OutreachFatal ''DATABASE_PASSWORD environment variable is required''
           | Some conn \<Rightarrow>
               if fails ''connect'' then OutreachFatal ''failed to connect''
               else
                 (case (if fails ''phase'' then [] else phase_rows phaseID d) of
                    [] \<Rightarrow> OutreachFatal (''phase '' @ phaseID @ '' not found'')
                  | (pp, p) # _ \<Rightarrow>
                      if pp_Status pp \<noteq> 0
                      then OutreachFatal (''phase is already '' @ status_label (pp_Status pp) @ '' (status='' @
                             num (pp_Status pp) @ ''), no outreach needed'')
                      else if fails ''counts'' then OutreachFatal ''failed to get vote counts''
                      else if fails ''pillars'' then OutreachFatal ''failed to count pillars''
                      else if fails ''current'' then OutreachFatal ''failed to query current votes''
                      else if fails ''tier1'' then OutreachFatal ''failed to query tier 1''
                      else if fails ''tier2'' then OutreachFatal ''failed to query tier 2''
                      else if fails ''tier3'' then OutreachFatal ''failed to query tier 3''
                      else if fails ''create'' then OutreachFatal (''failed to create phase-outreach-'' @ today @ ''.md'')
                      else
                        (let projectID = pp_ProjectID pp
                         in Saved (''phase-outreach-'' @ today @ ''.md'')
                              (report_head (pp_Name pp) (pj_Name p) phaseID generated @
                               report_votes phaseID d @
                               report_tiers (tier1 projectID phaseID d) (tier2 projectID phaseID d)
                                 (tier3 projectID phaseID d) (votesNeeded phaseID d))))))"

end
