(* ===== verification/Outreach_Props.thy ===== *)
theory Outreach_Props
  imports Outreach
begin

text \<open>
  The tiers of the outreach report against what they are meant to hold, the arithmetic of the
  quorum, and the votes the report misses.
\<close>

subsection \<open>Lists from joins\<close>

lemma in_owner_votes:
  "(v, p) \<in> set (owner_votes P Q d) \<longleftrightarrow>
   v \<in> set (votes d) \<and> p \<in> set (pillars d) \<and> pl_OwnerAddress p = vo_VoterAddress v \<and> P v \<and> Q p"
  by (auto simp: owner_votes_def)

lemma in_voters:
  "a \<in> set (phase_voters phaseID d) \<longleftrightarrow> (\<exists>v \<in> set (votes d). vo_PhaseID v = phaseID \<and> vo_VoterAddress v = a)"
  "a \<in> set (yes_voters projectID d) \<longleftrightarrow>
     (\<exists>v \<in> set (votes d). on_project projectID v \<and> vo_Vote v = 0 \<and> vo_VoterAddress v = a)"
  "a \<in> set (project_voters projectID d) \<longleftrightarrow> (\<exists>v \<in> set (votes d). on_project projectID v \<and> vo_VoterAddress v = a)"
  by (auto simp: phase_voters_def yes_voters_def project_voters_def)

lemma scan_votes_all: "list_all (\<lambda>r. snd r \<noteq> None) rows \<Longrightarrow> scan_votes rows = map (\<lambda>(n, l). (n, the l)) rows"
  by (induction rows rule: scan_votes.induct) auto

subsection \<open>The tiers as sets\<close>

text \<open>The active pillars whose owner has not voted on the phase.\<close>

definition undecided :: "string \<Rightarrow> db \<Rightarrow> Pillar set" where
  "undecided phaseID d =
     {p \<in> set (pillars d). \<not> pl_IsRevoked p \<and> (\<forall>v \<in> set (votes d). vo_PhaseID v = phaseID \<longrightarrow> vo_VoterAddress v \<noteq> pl_OwnerAddress p)}"

text \<open>The votes an owner has cast on the project itself, and on any proposal.\<close>

definition project_votes :: "string \<Rightarrow> Pillar \<Rightarrow> db \<Rightarrow> int set" where
  "project_votes projectID p d =
     {vo_Vote v | v. v \<in> set (votes d) \<and> vo_VoterAddress v = pl_OwnerAddress p \<and> on_project projectID v}"

lemma tier1_names:
  "set (map pe_Name (tier1 projectID phaseID d)) =
   {pl_Name p | p. p \<in> undecided phaseID d \<and> 0 \<in> project_votes projectID p d}"
  by (force simp: tier1_def note_entry_def in_owner_votes undecided_def project_votes_def phase_voters_def comp_def
      image_iff split: prod.splits)

lemma tier2_labels:
  "list_all (\<lambda>r. snd r \<noteq> None) (order_asc fst (remdups (map (\<lambda>(v, p). (pl_Name p, vote_label (vo_Vote v)))
     (owner_votes (\<lambda>v. on_project projectID v \<and> vo_Vote v \<in> {1, 2} \<and> P v) Q d))))"
  by (auto simp: list_all_iff in_owner_votes vote_label_def)

lemma tier2_names:
  "set (map pe_Name (tier2 projectID phaseID d)) =
   {pl_Name p | p. p \<in> undecided phaseID d \<and> 0 \<notin> project_votes projectID p d \<and>
      project_votes projectID p d \<inter> {1, 2} \<noteq> {}}"
proof -
  let ?rows = "owner_votes (\<lambda>v. on_project projectID v \<and> vo_Vote v \<in> {1, 2} \<and>
      vo_VoterAddress v \<notin> set (phase_voters phaseID d) \<and> vo_VoterAddress v \<notin> set (yes_voters projectID d))
      (\<lambda>p. \<not> pl_IsRevoked p) d"
  have "set (map pe_Name (tier2 projectID phaseID d)) = (\<lambda>(v, p). pl_Name p) ` set ?rows"
    unfolding tier2_def scan_votes_all [OF tier2_labels]
    by (simp add: note_entry_def image_image case_prod_beta)
  also have "\<dots> = {pl_Name p | p. p \<in> undecided phaseID d \<and> 0 \<notin> project_votes projectID p d \<and>
      project_votes projectID p d \<inter> {1, 2} \<noteq> {}}"
    (is "?names = {pl_Name p | p. ?P p}")
  proof -
    have "(\<exists>v. (v, p) \<in> set ?rows) \<longleftrightarrow> ?P p" for p
      unfolding in_owner_votes undecided_def project_votes_def in_voters by auto
    then show ?thesis by (force simp: image_iff)
  qed
  finally show ?thesis .
qed

text \<open>The proposals that the undecided pillars of a name, none of which voted on the project, voted on.\<close>

definition voted_on :: "string \<Rightarrow> string \<Rightarrow> string \<Rightarrow> db \<Rightarrow> string set" where
  "voted_on projectID phaseID name d =
     {vo_VotingID v | v p. v \<in> set (votes d) \<and> p \<in> undecided phaseID d \<and> project_votes projectID p d = {} \<and>
        pl_Name p = name \<and> vo_VoterAddress v = pl_OwnerAddress p}"

lemma in_tier3_rows:
  "(v, p) \<in> set (tier3_rows projectID phaseID d) \<longleftrightarrow>
   v \<in> set (votes d) \<and> p \<in> undecided phaseID d \<and> project_votes projectID p d = {} \<and> vo_VoterAddress v = pl_OwnerAddress p"
  unfolding tier3_rows_def in_owner_votes undecided_def project_votes_def in_voters by auto

lemma group_entry_count:
  "pe_Name (group_entry rows name) = name"
  "pe_ProposalsVoted (group_entry (tier3_rows projectID phaseID d) name) = int (card (voted_on projectID phaseID name d))"
proof -
  show "pe_Name (group_entry rows name) = name" by (simp add: group_entry_def Let_def)
  have "set (map vo_VotingID (map fst (filter (\<lambda>(v, p). pl_Name p = name) (tier3_rows projectID phaseID d)))) =
      voted_on projectID phaseID name d"
    by (force simp: voted_on_def in_tier3_rows image_iff)
  then show "pe_ProposalsVoted (group_entry (tier3_rows projectID phaseID d) name) =
      int (card (voted_on projectID phaseID name d))"
    by (simp only: group_entry_def Let_def pillarEntry.simps length_remdups_card_conv)
qed

lemma tier3_entries:
  "(\<lambda>e. (pe_Name e, pe_ProposalsVoted e)) ` set (tier3 projectID phaseID d) =
   {(name, int k) | name k. k = card (voted_on projectID phaseID name d) \<and> 5 \<le> k}"
proof -
  let ?rows = "tier3_rows projectID phaseID d"
  have named: "name \<in> (\<lambda>(v, p). pl_Name p) ` set ?rows" if "5 \<le> card (voted_on projectID phaseID name d)" for name
  proof -
    have "voted_on projectID phaseID name d \<noteq> {}" using that by auto
    then obtain v p where "(v, p) \<in> set ?rows" "pl_Name p = name"
      unfolding voted_on_def in_tier3_rows by blast
    then show ?thesis by force
  qed
  have "set (tier3 projectID phaseID d) =
      group_entry ?rows ` {name \<in> (\<lambda>(v, p). pl_Name p) ` set ?rows. 5 \<le> pe_ProposalsVoted (group_entry ?rows name)}"
    by (auto simp: tier3_def Let_def)
  then have "(\<lambda>e. (pe_Name e, pe_ProposalsVoted e)) ` set (tier3 projectID phaseID d) =
      (\<lambda>name. (name, int (card (voted_on projectID phaseID name d)))) `
        {name \<in> (\<lambda>(v, p). pl_Name p) ` set ?rows. 5 \<le> card (voted_on projectID phaseID name d)}"
    by (simp add: image_image group_entry_count)
  with named show ?thesis by auto
qed

lemma tier3_sorted: "sorted_wrt (\<ge>) (map pe_ProposalsVoted (tier3 projectID phaseID d))"
proof -
  have "sorted (map (\<lambda>e. - pe_ProposalsVoted e) (sort_key (\<lambda>e. - pe_ProposalsVoted e) es))" for es by simp
  then show ?thesis by (simp add: tier3_def Let_def order_desc_def sorted_wrt_map)
qed

text \<open>
  C40. The outreach report sorts the right pillars into its tiers. Among the active pillars whose
  owner has not voted on the phase, tier 1 names exactly those with a yes on the project, tier 2
  exactly those with a no or an abstention and no yes, and tier 3 exactly those that have not voted
  on the project but on five proposals or more, each with their number and by falling numbers. The
  votes needed are what the distinct voters of the phase lack to a third of the active pillars, at
  least one.
\<close>

theorem outreach_tiers:
  "pe_Name ` set (tier1 projectID phaseID d) =
     {pl_Name p | p. p \<in> undecided phaseID d \<and> 0 \<in> project_votes projectID p d} \<and>
   pe_Name ` set (tier2 projectID phaseID d) =
     {pl_Name p | p. p \<in> undecided phaseID d \<and> 0 \<notin> project_votes projectID p d \<and>
        project_votes projectID p d \<inter> {1, 2} \<noteq> {}} \<and>
   (\<lambda>e. (pe_Name e, pe_ProposalsVoted e)) ` set (tier3 projectID phaseID d) =
     {(name, int k) | name k. k = card (voted_on projectID phaseID name d) \<and> 5 \<le> k} \<and>
   sorted_wrt (\<ge>) (map pe_ProposalsVoted (tier3 projectID phaseID d)) \<and>
   votesNeeded phaseID d =
     max 0 (max 1 (activePillars d div 3) - int (card (vo_VoterAddress ` {v \<in> set (votes d). vo_PhaseID v = phaseID})))"
proof -
  have "card (vo_VoterAddress ` {v \<in> set (votes d). vo_PhaseID v = phaseID}) = length (remdups (phase_voters phaseID d))"
    by (simp add: phase_voters_def flip: card_set)
  moreover have "0 \<le> activePillars d" by (simp add: activePillars_def count_where_def)
  ultimately have needed: "votesNeeded phaseID d =
     max 0 (max 1 (activePillars d div 3) - int (card (vo_VoterAddress ` {v \<in> set (votes d). vo_PhaseID v = phaseID})))"
    by (simp add: votesNeeded_def quorum_def uniqueVoters_def Let_def)
  show ?thesis
    using tier1_names [of projectID phaseID d] tier2_names [of projectID phaseID d]
    by (simp only: needed tier3_entries tier3_sorted set_map simp_thms)
qed

text \<open>
  A vote cast through the producer's address is stored under that address; the report joins owners
  only, so it lists a pillar that has voted on the phase.
\<close>

definition ex_outreach_db :: db where
  "ex_outreach_db = empty_db\<lparr>
     pillars := [\<lparr> pl_OwnerAddress = ''owner'', pl_ProducerAddress = ''producer'', pl_WithdrawAddress = [],
       pl_Name = ''Anvil'', pl_Rank = 1, pl_GiveMomentumRewardPercentage = 0, pl_GiveDelegateRewardPercentage = 0,
       pl_IsRevocable = False, pl_RevokeCooldown = 0, pl_RevokeTimestamp = 0, pl_Weight = 0,
       pl_EpochProducedMomentums = 0, pl_EpochExpectedMomentums = 0, pl_SlotCostQsr = 0, pl_SpawnTimestamp = 0,
       pl_VotingActivity = (0, 1), pl_ProducedMomentumCount = 0, pl_IsRevoked = False \<rparr>],
     votes := [\<lparr> vo_MomentumHash = ''m1'', vo_MomentumTimestamp = 1, vo_MomentumHeight = 1, vo_VoterAddress = ''owner'',
         vo_ProjectID = ''P'', vo_PhaseID = [], vo_VotingID = ''v1'', vo_Vote = 0 \<rparr>,
       \<lparr> vo_MomentumHash = ''m2'', vo_MomentumTimestamp = 2, vo_MomentumHeight = 2, vo_VoterAddress = ''producer'',
         vo_ProjectID = ''P'', vo_PhaseID = ''Q'', vo_VotingID = ''v2'', vo_Vote = 0 \<rparr>] \<rparr>"

lemma producer_votes_missed:
  "map pe_Name (tier1 ''P'' ''Q'' ex_outreach_db) = [''Anvil'']" "currentVotes ''Q'' ex_outreach_db = []"
  by code_simp+

end
