(* ===== verification/Repair.thy ===== *)
theory Repair
  imports Outreach
begin

text \<open>
  The run of \<open>scripts/repair-votes\<close> around the transaction of \<open>Scripts\<close>: the connection (its settings are read
  as in \<open>Outreach\<close>), the backup of the votes table by a \<open>pg_dump\<close> inside a container, the reads, and
  the summary of the decoded votes. What the commands and the file system answer are arguments.
\<close>

subsection \<open>The backup\<close>

text \<open>\<open>bytes.Contains\<close>.\<close>

definition contains :: "string \<Rightarrow> string \<Rightarrow> bool" where
  "contains s sub \<longleftrightarrow> list_ex (\<lambda>k. take (length sub) (drop k s) = sub) [0..<Suc (length s)]"

datatype backup_error =
    DockerUnavailable string
  | ContainerNotRunning string
  | NoBackupDir string
  | NoPipe string
  | DumpNotStarted string
  | NoBackupFile string
  | WriteFailed string
  | GzipNotClosed string
  | DumpFailed string
  | StatPanic

text \<open>
  The output of a command with its arguments, or its error; the other fields are the errors of the
  single steps. \<open>bk_Stat\<close>: whether the written file can be inspected.
\<close>

record backup_env =
  bk_ps :: "string + string"
  bk_MkdirAll :: "string \<Rightarrow> string option"
  bk_now :: string
  bk_StdoutPipe :: "string option"
  bk_Start :: "string list \<Rightarrow> string option"
  bk_stdout :: "string list \<Rightarrow> string"
  bk_Create :: "string \<Rightarrow> string option"
  bk_gzip :: "string \<Rightarrow> string"
  bk_Copy :: "string option"
  bk_Close :: "string option"
  bk_Wait :: "string option"
  bk_Stat :: bool

definition dump_command :: "(string \<Rightarrow> string) \<Rightarrow> string list" where
  "dump_command Getenv =
     [''docker'', ''exec'', envOrDefault Getenv ''POSTGRES_CONTAINER'' ''nom-indexer-postgres'', ''pg_dump'',
      ''-U'', envOrDefault Getenv ''DATABASE_USERNAME'' ''postgres'',
      ''-d'', envOrDefault Getenv ''DATABASE_NAME'' ''nom_indexer'', ''-t'', ''votes'']"

text \<open>The path and the content of the backup.\<close>

definition backupVotesTable :: "(string \<Rightarrow> string) \<Rightarrow> backup_env \<Rightarrow> backup_error + string \<times> string" where
  "backupVotesTable Getenv b =
     (let containerName = envOrDefault Getenv ''POSTGRES_CONTAINER'' ''nom-indexer-postgres'';
          backupDir = ''scripts/backups'';
          backupFile = backupDir @ ''/votes_backup_'' @ bk_now b @ ''.sql.gz'';
          cmd = dump_command Getenv
      in case bk_ps b of
           Inl err \<Rightarrow> Inl (DockerUnavailable err)
         | Inr out \<Rightarrow>
             if \<not> contains out containerName then Inl (ContainerNotRunning containerName)
             else
               (case bk_MkdirAll b backupDir of
                  Some err \<Rightarrow> Inl (NoBackupDir err)
                | None \<Rightarrow>
                    (case bk_StdoutPipe b of
                       Some err \<Rightarrow> Inl (NoPipe err)
                     | None \<Rightarrow>
                         (case bk_Start b cmd of
                            Some err \<Rightarrow> Inl (DumpNotStarted err)
                          | None \<Rightarrow>
                              (case bk_Create b backupFile of
                                 Some err \<Rightarrow> Inl (NoBackupFile err)
                               | None \<Rightarrow>
                                   (case bk_Copy b of
                                      Some err \<Rightarrow> Inl (WriteFailed err)
                                    | None \<Rightarrow>
                                        (case bk_Close b of
                                           Some err \<Rightarrow> Inl (GzipNotClosed err)
                                         | None \<Rightarrow>
                                             (case bk_Wait b of
                                                Some err \<Rightarrow> Inl (DumpFailed err)
                                              | None \<Rightarrow>
                                                  if \<not> bk_Stat b then Inl StatPanic
                                                  else Inr (backupFile, bk_gzip b (bk_stdout b cmd))))))))))"

subsection \<open>The program\<close>

text \<open>The logged counts per vote value.\<close>

definition repair_label :: "int \<Rightarrow> string" where
  "repair_label k = (if k = 0 then ''Yes'' else if k = 1 then ''No'' else if k = 2 then ''Abstain'' else ''Unknown'')"

definition vote_summary :: "Vote list \<Rightarrow> (int \<times> string \<times> int) list" where
  "vote_summary vs =
     map (\<lambda>k. (k, repair_label k, count_where (\<lambda>v. vo_Vote v = k) vs)) (remdups (map vo_Vote vs))"

text \<open>\<open>rp_reads\<close>: the error of loading the owners or of reading the vote blocks.\<close>

record repair_env =
  rp_Getenv :: "string \<Rightarrow> string"
  rp_New :: "string \<Rightarrow> string option"
  rp_Ping :: "string option"
  rp_backup :: backup_env
  rp_reads :: "string option"
  rp_begun :: bool
  rp_insert_fails :: "nat \<Rightarrow> bool"
  rp_commit_fails :: bool

definition repair_main :: "sdk \<Rightarrow> repair_env \<Rightarrow> db \<Rightarrow> repair_end \<times> (string \<times> string) option \<times> db" where
  "repair_main sdk rp d =
     (case buildConnString (rp_Getenv rp) of
        None \<Rightarrow> (RepairFatal ''DATABASE_PASSWORD environment variable is required'', None, d)
      | Some conn \<Rightarrow>
          (case rp_New rp conn of
             Some err \<Rightarrow> (RepairFatal (''failed to connect to database: '' @ err), None, d)
           | None \<Rightarrow>
               (case rp_Ping rp of
                  Some err \<Rightarrow> (RepairFatal (''failed to ping database: '' @ err), None, d)
                | None \<Rightarrow>
                    (case backupVotesTable (rp_Getenv rp) (rp_backup rp) of
                       Inl err \<Rightarrow> (RepairFatal ''failed to backup votes table'', None, d)
                     | Inr file \<Rightarrow>
                         (case rp_reads rp of
                            Some err \<Rightarrow> (RepairFatal err, Some file, d)
                          | None \<Rightarrow>
                              (case repair_votes sdk True (rp_begun rp) (rp_insert_fails rp) (rp_commit_fails rp) d of
                                 (e, d') \<Rightarrow> (e, Some file, d')))))))"

subsection \<open>Facts\<close>

lemma backup_complete:
  assumes "backupVotesTable Getenv b = Inr (path, content)"
  shows "content = bk_gzip b (bk_stdout b (dump_command Getenv))" "bk_Wait b = None" "bk_Copy b = None"
    "bk_Create b path = None" "\<exists>out. bk_ps b = Inr out \<and> contains out (dump_command Getenv ! 2)"
  using assms by (auto simp: backupVotesTable_def dump_command_def Let_def split: sum.splits option.splits if_splits)

lemma repair_votes_changes_votes:
  assumes "repair_votes sdk ready begun fault commit_fails d = (e, d')" "d' \<noteq> d"
  shows "\<exists>t. d' = d\<lparr> votes := t \<rparr>"
  using assms by (auto simp: repair_votes_def split: if_splits prod.splits)

text \<open>
  No vote is touched before its table has been dumped, compressed and written completely. The dump
  is the container's: its command does not name the host the program connects to.
\<close>

lemma repair_needs_backup:
  assumes "repair_main sdk rp d = (e, file, d')" "d' \<noteq> d"
  shows "\<exists>path t. file = Some (path, bk_gzip (rp_backup rp) (bk_stdout (rp_backup rp) (dump_command (rp_Getenv rp)))) \<and>
    bk_Wait (rp_backup rp) = None \<and> d' = d\<lparr> votes := t \<rparr>"
proof -
  obtain path content where f: "file = Some (path, content)" "backupVotesTable (rp_Getenv rp) (rp_backup rp) = Inr (path, content)"
    and r: "repair_votes sdk True (rp_begun rp) (rp_insert_fails rp) (rp_commit_fails rp) d = (e, d')"
    using assms by (auto simp: repair_main_def split: option.splits sum.splits prod.splits)
  from repair_votes_changes_votes [OF r assms(2)] obtain t where "d' = d\<lparr> votes := t \<rparr>" by (elim exE)
  with f backup_complete(1,2) [OF f(2)] show ?thesis by auto
qed

lemma dump_ignores_host:
  assumes "\<forall>k \<in> {''POSTGRES_CONTAINER'', ''DATABASE_USERNAME'', ''DATABASE_NAME''}. Getenv k = Getenv' k"
  shows "dump_command Getenv = dump_command Getenv'"
  using assms by (simp add: dump_command_def envOrDefault_def)

lemma vote_summary_total: "sum_list (map (\<lambda>(k, l, n). n) (vote_summary vs)) = int (length vs)"
proof -
  have "(\<Sum>k \<in> set (map vo_Vote vs). count_where (\<lambda>v. vo_Vote v = k) vs) = int (length vs)"
  proof (induction vs)
    case (Cons v vs)
    let ?c = "\<lambda>k. count_where (\<lambda>v. vo_Vote v = k) vs"
    have "?c k = 0" if "k \<notin> set (map vo_Vote vs)" for k
      using that by (induction vs) auto
    then have "(\<Sum>k \<in> set (map vo_Vote (v # vs)). ?c k) = (\<Sum>k \<in> set (map vo_Vote vs). ?c k)"
      by (intro sum.mono_neutral_right) auto
    moreover have "(\<Sum>k \<in> set (map vo_Vote (v # vs)). if vo_Vote v = k then 1 else 0 :: int) = 1"
      by (simp add: sum.delta')
    ultimately show ?case using Cons.IH by (simp add: sum.distrib)
  qed simp
  then show ?thesis
    by (simp add: vote_summary_def comp_def sum_list_distinct_conv_sum_set)
qed

end
