(* ===== verification/Mcp_Server.thy ===== *)
theory Mcp_Server
  imports Mcp Middleware
begin

text \<open>
  What \<open>internal/mcp/server\<close> and \<open>internal/mcp/tools\<close> put around the tools: the schema overview, the
  names under which the tools are registered, the result of a call, the counting middleware, CORS,
  and the paths the server listens on. The JSON encoder is an argument; the protocol is the SDK's.
\<close>

subsection \<open>The schema overview\<close>

record schemaTable =
  sh_Name :: string
  sh_Domain :: string
  sh_Purpose :: string
  sh_Tools :: "string list"

record schemaOverview =
  so_Version :: int
  so_Tables :: "schemaTable list"
  so_Notes :: "string list"

text \<open>The arrow of the descriptions, in UTF-8.\<close>

definition arrow :: string where
  "arrow = [CHR 0xE2, CHR 0x86, CHR 0x92]"

abbreviation schema_row :: "string \<Rightarrow> string \<Rightarrow> string \<Rightarrow> string list \<Rightarrow> schemaTable" where
  "schema_row name domain purpose tools \<equiv>
     \<lparr> sh_Name = name, sh_Domain = domain, sh_Purpose = purpose, sh_Tools = tools \<rparr>"

definition catalog :: schemaOverview where
  "catalog =
     \<lparr> so_Version = 1,
       so_Tables =
       [schema_row ''momentums'' ''core_ledger'' ''Block headers indexed by height.''
          [''get_momentum_by_height'', ''get_latest_momentum'', ''list_momentums'', ''get_status''],
        schema_row ''account_blocks'' ''core_ledger'' ''Every transaction with decoded ABI inputs.''
          [''list_account_blocks'', ''get_account_block'', ''list_account_transactions''],
        schema_row ''accounts'' ''core_ledger'' ''One row per address; flow metrics, delegation, genesis seed.''
          [''get_account''],
        schema_row ''balances'' ''core_ledger'' ''Current balance per (address, token).''
          [''list_account_balances'', ''list_token_holders''],
        schema_row ''tokens'' ''core_ledger'' ''ZTS token registry with current supply + holder/tx counts.''
          [''list_tokens'', ''get_token''],
        schema_row ''token_mints'' ''core_ledger'' ''Every mint event as its own row.''
          [],
        schema_row ''token_burns'' ''core_ledger'' ''Every burn event as its own row.''
          [],
        schema_row ''pillars'' ''pillars'' ''Current pillar registry.''
          [''list_pillars'', ''get_pillar_by_name'', ''list_pillar_delegators'', ''get_pillar_voting_history''],
        schema_row ''pillar_updates'' ''pillars'' ''Append-only history of pillar config changes.''
          [],
        schema_row ''delegations'' ''pillars'' (''Time-bucketed delegator '' @ arrow @ '' pillar intervals.'')
          [],
        schema_row ''sentinels'' ''sentinels_stakes_plasma'' ''Sentinel node registrations.''
          [''list_sentinels''],
        schema_row ''stakes'' ''sentinels_stakes_plasma'' ''Staking entries (with ABI-derived cancel_id).''
          [''list_stakes'', ''list_account_stakes''],
        schema_row ''fusions'' ''sentinels_stakes_plasma'' ''Plasma fusion entries (with ABI-derived cancel_id).''
          [''list_fusions'', ''list_account_fusions''],
        schema_row ''projects'' ''accelerator_z'' ''Accelerator-Z funding projects.''
          [''list_projects'', ''get_project'', ''get_project_voting_report''],
        schema_row ''project_phases'' ''accelerator_z'' ''Project phases (sub-grants).''
          [''list_project_phases''],
        schema_row ''votes'' ''accelerator_z'' ''Pillar votes on projects/phases.''
          [''list_project_votes'', ''get_project_voting_report'', ''get_pillar_voting_history''],
        schema_row ''reward_transactions'' ''rewards'' ''Per-event reward receipts.''
          [''list_account_rewards''],
        schema_row ''cumulative_rewards'' ''rewards'' ''Running total per (address, type, token).''
          [''get_account_cumulative_rewards''],
        schema_row ''wrap_token_requests'' ''bridge'' (''ZTS '' @ arrow @ '' external-chain wrap intents.'')
          [''list_bridge_wraps'', ''list_account_bridge_wraps''],
        schema_row ''unwrap_token_requests'' ''bridge'' (''External-chain '' @ arrow @ '' ZTS unwrap intents.'')
          [''list_bridge_unwraps'', ''list_account_bridge_unwraps''],
        schema_row ''bridge_networks'' ''bridge'' ''Configured destination networks (paginated from BridgeApi).''
          [],
        schema_row ''bridge_network_tokens'' ''bridge'' ''Per-network token pair configuration (fees, min, redeem delay).''
          [],
        schema_row ''bridge_admin'' ''bridge'' ''Singleton with current administrator + halt state.''
          [],
        schema_row ''bridge_guardians'' ''bridge'' ''Active guardian set.''
          [],
        schema_row ''bridge_orchestrator_info'' ''bridge'' ''Singleton with orchestrator parameters.''
          [],
        schema_row ''bridge_security_info'' ''bridge'' ''Singleton with security delay parameters.''
          [],
        schema_row ''network_stat_histories'' ''daily_snapshots'' ''Daily network-wide totals + activity.''
          [],
        schema_row ''token_stat_histories'' ''daily_snapshots'' ''Daily per-token mints/burns + carried state.''
          [],
        schema_row ''pillar_stat_histories'' ''daily_snapshots'' ''Daily per-pillar weight + delegator count.''
          [],
        schema_row ''bridge_stat_histories'' ''daily_snapshots'' ''Daily per-(network, chain, token) wrap/unwrap volume.''
          []],
       so_Notes =
       [(''All amounts/balances/supplies are int64 (BIGINT) '' @ em_dash @ '' JSON-encoded as strings to dodge JavaScript Number precision loss.''),
        ''All timestamps are Unix seconds (BIGINT).'',
        ''All hashes and addresses are lowercase hex/zenon strings.'',
        ''No foreign keys: joins are by hash/address/standard. The indexer writes per momentum in a transaction.''] \<rparr>"

subsection \<open>Registered tools\<close>

fun tool_name :: "tool_call \<Rightarrow> string" where
  "tool_name TStatus = ''get_status''"
| "tool_name (TMomentumByHeight _) = ''get_momentum_by_height''"
| "tool_name TLatestMomentum = ''get_latest_momentum''"
| "tool_name (TMomentums _ _) = ''list_momentums''"
| "tool_name (TAccount _) = ''get_account''"
| "tool_name (TAccountBalances _) = ''list_account_balances''"
| "tool_name (TTokens _) = ''list_tokens''"
| "tool_name (TToken _) = ''get_token''"
| "tool_name (TTokenHolders _ _) = ''list_token_holders''"
| "tool_name (TAccountBlocks _ _) = ''list_account_blocks''"
| "tool_name (TAccountBlock _) = ''get_account_block''"
| "tool_name (TAccountTransactions _ _ _) = ''list_account_transactions''"
| "tool_name (TPillars _ _) = ''list_pillars''"
| "tool_name (TPillar _) = ''get_pillar_by_name''"
| "tool_name (TPillarDelegators _ _) = ''list_pillar_delegators''"
| "tool_name (TPillarVotingHistory _) = ''get_pillar_voting_history''"
| "tool_name (TSentinels _ _) = ''list_sentinels''"
| "tool_name (TStakes _ _) = ''list_stakes''"
| "tool_name (TAccountStakes _ _ _) = ''list_account_stakes''"
| "tool_name (TFusions _ _) = ''list_fusions''"
| "tool_name (TAccountFusions _ _ _) = ''list_account_fusions''"
| "tool_name (TAccountRewards _ _) = ''list_account_rewards''"
| "tool_name (TAccountCumulativeRewards _) = ''get_account_cumulative_rewards''"
| "tool_name (TProjects _) = ''list_projects''"
| "tool_name (TProject _) = ''get_project''"
| "tool_name (TProjectPhases _) = ''list_project_phases''"
| "tool_name (TProjectVotes _ _) = ''list_project_votes''"
| "tool_name (TProjectVotingReport _) = ''get_project_voting_report''"
| "tool_name (TBridgeWraps _) = ''list_bridge_wraps''"
| "tool_name (TBridgeUnwraps _) = ''list_bridge_unwraps''"
| "tool_name (TAccountBridgeWraps _ _) = ''list_account_bridge_wraps''"
| "tool_name (TAccountBridgeUnwraps _ _) = ''list_account_bridge_unwraps''"

definition registered_tools :: "string list" where
  "registered_tools =
     [''get_status'', ''get_schema_overview'',
      ''get_momentum_by_height'', ''get_latest_momentum'', ''list_momentums'',
      ''get_account'', ''list_account_balances'',
      ''list_tokens'', ''get_token'', ''list_token_holders'',
      ''list_account_blocks'', ''get_account_block'', ''list_account_transactions'',
      ''list_pillars'', ''get_pillar_by_name'', ''list_pillar_delegators'', ''get_pillar_voting_history'',
      ''list_sentinels'',
      ''list_stakes'', ''list_account_stakes'', ''list_fusions'', ''list_account_fusions'',
      ''list_account_rewards'', ''get_account_cumulative_rewards'',
      ''list_projects'', ''get_project'', ''list_project_phases'', ''list_project_votes'',
      ''get_project_voting_report'',
      ''list_bridge_wraps'', ''list_bridge_unwraps'', ''list_account_bridge_wraps'',
      ''list_account_bridge_unwraps'']"

subsection \<open>Results\<close>

record 'v CallToolResult =
  tr_IsError :: bool
  tr_Text :: string
  tr_Structured :: "'v option"

definition jsonResult :: "('v \<Rightarrow> string + string) \<Rightarrow> 'v \<Rightarrow> 'v CallToolResult" where
  "jsonResult MarshalIndent v =
     (case MarshalIndent v of
        Inl err \<Rightarrow> \<lparr> tr_IsError = True, tr_Text = ''marshal failed: '' @ err, tr_Structured = None \<rparr>
      | Inr body \<Rightarrow> \<lparr> tr_IsError = False, tr_Text = body, tr_Structured = Some v \<rparr>)"

datatype tool_value = VOverview schemaOverview | VBody body

datatype tool_request = CallSchemaOverview | CallTool tool_call

definition getSchemaOverview :: "(tool_value \<Rightarrow> string + string) \<Rightarrow> tool_value CallToolResult" where
  "getSchemaOverview MarshalIndent = jsonResult MarshalIndent (VOverview catalog)"

text \<open>A repository error is the call's error.\<close>

definition handle_call :: "(tool_value \<Rightarrow> string + string) \<Rightarrow> env \<Rightarrow> db \<Rightarrow> tool_request \<Rightarrow>
    sql_error + tool_value CallToolResult" where
  "handle_call MarshalIndent en d q =
     (case q of
        CallSchemaOverview \<Rightarrow> Inr (getSchemaOverview MarshalIndent)
      | CallTool t \<Rightarrow>
          (case call_tool en t d of
             Inl err \<Rightarrow> Inl err
           | Inr v \<Rightarrow> Inr (jsonResult MarshalIndent (VBody v))))"

definition request_name :: "tool_request \<Rightarrow> string" where
  "request_name q = (case q of CallSchemaOverview \<Rightarrow> ''get_schema_overview'' | CallTool t \<Rightarrow> tool_name t)"

subsection \<open>The counting middleware\<close>

definition methodCallTool :: string where
  "methodCallTool = ''tools/call''"

text \<open>
  A method handler answers with its result, whether that is a tool's result marked as an error,
  and whether the call failed. The counter keeps the labels of every observation.
\<close>

definition mcp_Middleware :: "(string \<Rightarrow> string option \<Rightarrow> 'r \<times> bool option \<times> bool) \<Rightarrow> string \<Rightarrow> string option \<Rightarrow>
    (string \<times> string) list \<Rightarrow> ('r \<times> bool option \<times> bool) \<times> (string \<times> string) list" where
  "mcp_Middleware next method name callTotal =
     (if method \<noteq> methodCallTool then (next method name, callTotal)
      else
        (case next method name of
           (res, isError, failed) \<Rightarrow>
             ((res, isError, failed), callTotal @ [(toolName name, mcp_classify isError failed)])))"

subsection \<open>The server\<close>

definition implName :: string where
  "implName = ''nom-indexer-mcp''"

definition implVersion :: string where
  "implVersion = ''0.1.0''"

record mcp_server =
  ms_Name :: string
  ms_Version :: string
  ms_tools_version :: string
  ms_metered :: bool

definition mcp_New :: "string \<Rightarrow> bool \<Rightarrow> mcp_server" where
  "mcp_New version has_middlewares =
     \<lparr> ms_Name = implName, ms_Version = implVersion,
       ms_tools_version = (if version = [] then ''dev'' else version), ms_metered = has_middlewares \<rparr>"

definition mcp_CORS :: "(cors_Options \<Rightarrow> 'h \<Rightarrow> 'h) \<Rightarrow> string list \<Rightarrow> 'h \<Rightarrow> 'h" where
  "mcp_CORS cors_Handler allowedOrigins next =
     (if allowedOrigins = [] then next
      else cors_Handler
        \<lparr> co_AllowedOrigins = allowedOrigins, co_AllowedMethods = [''GET'', ''POST'', ''DELETE'', ''OPTIONS''],
          co_AllowedHeaders = [''Accept'', ''Authorization'', ''Content-Type'', ''X-Request-Id'', ''Mcp-Session-Id'',
            ''MCP-Protocol-Version'', ''Last-Event-ID''],
          co_ExposedHeaders = [''X-Request-Id'', ''Mcp-Session-Id'', ''MCP-Protocol-Version''],
          co_AllowCredentials = False, co_MaxAge = 300 \<rparr> next)"

text \<open>The paths of the public listener: the protocol behind CORS, token and limit, and two open probes.\<close>

datatype 'b mcp_page = Rpc "'b mcp_response" | Alive | Readiness "int \<times> string option" | NoPage

definition mcp_mux :: "((request \<Rightarrow> 'b mcp_response) \<Rightarrow> request \<Rightarrow> 'b mcp_response) \<Rightarrow> libs \<Rightarrow> int \<Rightarrow> (request \<Rightarrow> 'b) \<Rightarrow>
    bool \<Rightarrow> string option \<Rightarrow> schema_read \<Rightarrow> string \<Rightarrow> request \<Rightarrow> 'b mcp_page" where
  "mcp_mux cors lib perMinute handle has_pool ping_error schema path r =
     (if path = ''/mcp'' \<or> take 5 path = ''/mcp/'' then Rpc (cors (mcp_http lib perMinute handle) r)
      else if path = ''/healthz'' then Alive
      else if path = ''/readyz'' then Readiness (mcp_Readyz has_pool ping_error schema)
      else NoPage)"

subsection \<open>Facts\<close>

text \<open>
  The overview names only registered tools, every tool but itself appears in it, and no table
  twice. It does not list every table the indexer fills.
\<close>

lemma catalog_tools:
  "set (concat (map sh_Tools (so_Tables catalog))) = set registered_tools - {''get_schema_overview''}"
  "distinct (map sh_Name (so_Tables catalog))" "distinct registered_tools"
  by code_simp+

lemma tool_registered: "tool_name t \<in> set registered_tools"
  by (cases t) (simp_all add: registered_tools_def)

lemma catalog_gaps:
  "\<forall>t \<in> {''htlcs'', ''swap_assets'', ''swap_retrievals'', ''bridge_time_challenges'', ''indexer_sync_status''}.
     t \<notin> set (map sh_Name (so_Tables catalog))"
  by code_simp

text \<open>Every call of a tool is counted once, as an error exactly when it failed or its result is one.\<close>

lemma mcp_counts:
  assumes "next methodCallTool name = (res, isError, failed)"
  shows "mcp_Middleware next methodCallTool name counts =
    ((res, isError, failed),
     counts @ [(toolName name, if failed \<or> isError = Some True then ''error'' else ''ok'')])"
  using assms by (auto simp: mcp_Middleware_def mcp_classify_def)

end
