(* ===== verification/Commands.thy ===== *)
theory Commands
  imports Configuration Server Mcp_Server Sync
begin

text \<open>
  The programs under \<open>cmd\<close> and what they start with: \<open>internal/database\<close>, the defaults and variables of
  \<open>internal/config\<close>, and the main functions of \<open>cmd/api\<close>, \<open>cmd/mcp\<close>, \<open>cmd/backfill\<close> and the end of
  \<open>cmd/indexer\<close>. What the driver, the migration library and the listeners answer are arguments.
\<close>

subsection \<open>Defaults and variables\<close>

datatype setting = VString string | VInt int | VBool bool

definition config_defaults :: "(string \<times> setting) list" where
  "config_defaults =
     [(''node.ws_url'', VString ''wss://test.hc1node.com''),
      (''database.host'', VString ''localhost''),
      (''database.port'', VInt 5432),
      (''database.name'', VString ''nom_indexer''),
      (''database.user'', VString ''postgres''),
      (''database.pool_size'', VInt 10),
      (''logging.level'', VString ''info''),
      (''logging.format'', VString ''console''),
      (''cron.voting_activity_interval'', VString ''10m''),
      (''cron.token_holders_interval'', VString ''10m''),
      (''api.port'', VInt 8080),
      (''api.metrics_port'', VInt 9090),
      (''api.cors_allowed_origins'', VString []),
      (''api.rate_limit_per_minute'', VInt 60),
      (''mcp.port'', VInt 8081),
      (''mcp.metrics_port'', VInt 9091),
      (''mcp.cors_allowed_origins'', VString []),
      (''mcp.rate_limit_per_minute'', VInt 60),
      (''backfill_on_startup'', VBool False),
      (''indexer.watchdog.enabled'', VBool False),
      (''indexer.watchdog.interval'', VString ''30s''),
      (''indexer.watchdog.stall_threshold'', VString ''60s''),
      (''indexer.watchdog.indexer_drift_threshold'', VInt 3),
      (''indexer.watchdog.node_drift_threshold'', VInt 3),
      (''indexer.watchdog.unhealthy_streak'', VInt 2),
      (''indexer.watchdog.failback_streak'', VInt 5),
      (''indexer.health.enabled'', VBool True),
      (''indexer.health.port'', VInt 9092),
      (''webhooks.enabled'', VBool False),
      (''webhooks.timeout_seconds'', VInt 5),
      (''webhooks.max_retries'', VInt 3)]"

definition env_bindings :: "(string \<times> string) list" where
  "env_bindings =
     [(''node.ws_url'', ''NODE_URL_WS''),
      (''database.host'', ''DATABASE_ADDRESS''),
      (''database.port'', ''DATABASE_PORT''),
      (''database.name'', ''DATABASE_NAME''),
      (''database.user'', ''DATABASE_USERNAME''),
      (''database.password'', ''DATABASE_PASSWORD''),
      (''logging.level'', ''LOG_LEVEL''),
      (''logging.format'', ''LOG_FORMAT''),
      (''backfill_on_startup'', ''BACKFILL_ON_STARTUP''),
      (''api.port'', ''API_PORT''),
      (''api.metrics_port'', ''API_METRICS_PORT''),
      (''api.jwt_secret'', ''API_JWT_SECRET''),
      (''api.cors_allowed_origins'', ''API_CORS_ALLOWED_ORIGINS''),
      (''api.rate_limit_per_minute'', ''API_RATE_LIMIT_PER_MINUTE''),
      (''mcp.port'', ''MCP_PORT''),
      (''mcp.metrics_port'', ''MCP_METRICS_PORT''),
      (''mcp.jwt_secret'', ''MCP_JWT_SECRET''),
      (''mcp.cors_allowed_origins'', ''MCP_CORS_ALLOWED_ORIGINS''),
      (''mcp.rate_limit_per_minute'', ''MCP_RATE_LIMIT_PER_MINUTE''),
      (''indexer.watchdog.enabled'', ''INDEXER_WATCHDOG_ENABLED''),
      (''indexer.watchdog.interval'', ''INDEXER_WATCHDOG_INTERVAL''),
      (''indexer.watchdog.stall_threshold'', ''INDEXER_WATCHDOG_STALL_THRESHOLD''),
      (''indexer.watchdog.indexer_drift_threshold'', ''INDEXER_WATCHDOG_INDEXER_DRIFT_THRESHOLD''),
      (''indexer.watchdog.node_drift_threshold'', ''INDEXER_WATCHDOG_NODE_DRIFT_THRESHOLD''),
      (''indexer.watchdog.unhealthy_streak'', ''INDEXER_WATCHDOG_UNHEALTHY_STREAK''),
      (''indexer.watchdog.failback_streak'', ''INDEXER_WATCHDOG_FAILBACK_STREAK''),
      (''indexer.health.enabled'', ''INDEXER_HEALTH_ENABLED''),
      (''indexer.health.port'', ''INDEXER_HEALTH_PORT''),
      (''webhooks.enabled'', ''WEBHOOKS_ENABLED'')]"

definition config_paths :: "string list" where
  "config_paths = [''.'', ''/app'']"

text \<open>\<open>read\<close> is the configuration library: search paths, defaults and variables to settings or an error.\<close>

definition Load :: "config_libs \<Rightarrow> (string list \<Rightarrow> (string \<times> setting) list \<Rightarrow> (string \<times> string) list \<Rightarrow> string + Config) \<Rightarrow>
    string \<Rightarrow> string + Config" where
  "Load lib read fb = load lib (read config_paths config_defaults env_bindings) fb"

subsection \<open>The database\<close>

record pool_config =
  po_conn :: string
  po_MaxConns :: int
  po_MinConns :: int
  po_MaxConnLifetime :: int
  po_MaxConnIdleTime :: int
  po_HealthCheckPeriod :: int

text \<open>What the driver answers: to the connection string, to the new pool, to the first ping.\<close>

record driver =
  dr_parse :: "string \<Rightarrow> string option"
  dr_create :: "pool_config \<Rightarrow> string option"
  dr_ping :: "pool_config \<Rightarrow> string option"

definition NewPool :: "driver \<Rightarrow> DatabaseConfig \<Rightarrow> string + pool_config" where
  "NewPool dr cfg =
     (let connString = ConnectionString cfg
      in case dr_parse dr connString of
           Some err \<Rightarrow> Inl (''failed to parse connection string: '' @ err)
         | None \<Rightarrow>
             let poolConfig = \<lparr> po_conn = connString, po_MaxConns = int32 (dc_PoolSize cfg), po_MinConns = 2,
                   po_MaxConnLifetime = 3600 * second, po_MaxConnIdleTime = 1800 * second,
                   po_HealthCheckPeriod = 60 * second \<rparr>
             in case dr_create dr poolConfig of
                  Some err \<Rightarrow> Inl (''failed to create connection pool: '' @ err)
                | None \<Rightarrow>
                    (case dr_ping dr poolConfig of
                       Some err \<Rightarrow> Inl (''failed to ping database: '' @ err)
                     | None \<Rightarrow> Inr poolConfig))"

definition HealthCheck :: "driver \<Rightarrow> pool_config \<Rightarrow> string option" where
  "HealthCheck dr pool = dr_ping dr pool"

datatype up_result = UpDone | ErrNoChange | UpFailed string

datatype version_result = AtVersion int bool | ErrNilVersion | VersionFailed string

record migrate_library =
  ml_driver :: "string option"
  ml_instance :: "string \<Rightarrow> string option"
  ml_Up :: up_result
  ml_Version :: version_result

text \<open>The error, or the last line logged.\<close>

definition RunMigrations :: "migrate_library \<Rightarrow> string \<Rightarrow> string + string" where
  "RunMigrations ml migrationsPath =
     (case ml_driver ml of
        Some err \<Rightarrow> Inl (''failed to create postgres driver: '' @ err)
      | None \<Rightarrow>
          (case ml_instance ml (''file://'' @ migrationsPath) of
             Some err \<Rightarrow> Inl (''failed to create migrate instance: '' @ err)
           | None \<Rightarrow>
               (case ml_Up ml of
                  UpFailed err \<Rightarrow> Inl (''failed to run migrations: '' @ err)
                | _ \<Rightarrow>
                    (case ml_Version ml of
                       VersionFailed err \<Rightarrow> Inl (''failed to get migration version: '' @ err)
                     | ErrNilVersion \<Rightarrow> Inr ''no migrations applied yet''
                     | AtVersion version dirty \<Rightarrow> Inr ''migrations completed''))))"

subsection \<open>The API server\<close>

datatype 'p command = Fatal string | Serving 'p

record http_server =
  hp_Addr :: string
  hp_ReadHeaderTimeout :: int
  hp_ReadTimeout :: int
  hp_WriteTimeout :: int
  hp_IdleTimeout :: int

definition port_addr :: "int \<Rightarrow> string" where
  "port_addr port = '':'' @ FormatInt port"

definition metrics_server :: "int \<Rightarrow> http_server" where
  "metrics_server port =
     \<lparr> hp_Addr = port_addr port, hp_ReadHeaderTimeout = 5 * second, hp_ReadTimeout = 0, hp_WriteTimeout = 0,
       hp_IdleTimeout = 0 \<rparr>"

text \<open>What the libraries bring to a server: token parsing under a secret, client addresses, the window.\<close>

record server_libs =
  sl_parse :: "string \<Rightarrow> string \<Rightarrow> verify_error + string"
  sl_KeyByIP :: "request \<Rightarrow> string"
  sl_allow :: "string \<Rightarrow> bool"

definition request_libs :: "config_libs \<Rightarrow> server_libs \<Rightarrow> string \<Rightarrow> libs" where
  "request_libs lib sl secret =
     \<lparr> li_TrimSpace = cl_TrimSpace lib, li_parse = sl_parse sl secret, li_KeyByIP = sl_KeyByIP sl, li_allow = sl_allow sl \<rparr>"

record api_process =
  ap_pool :: pool_config
  ap_deps :: Deps
  ap_server :: http_server
  ap_metrics :: http_server

definition api_deps :: "config_libs \<Rightarrow> server_libs \<Rightarrow> string \<Rightarrow> string \<Rightarrow> Config \<Rightarrow> Deps" where
  "api_deps lib sl version secret cfg =
     \<lparr> de_libs = request_libs lib sl secret, de_Pool = True, de_SyncStatus = True,
       de_Hub = Some (Hub.New 0 0), de_TxHub = Some (Hub.New 0 0), de_Metrics = True,
       de_CORSAllowedOrigins = CORSAllowedOriginsList (cl_TrimSpace lib) (ac_CORSAllowedOrigins (cf_API cfg)),
       de_RateLimitPerMinute = ac_RateLimitPerMinute (cf_API cfg), de_Version = version \<rparr>"

definition api_main :: "config_libs \<Rightarrow> server_libs \<Rightarrow> driver \<Rightarrow> string \<Rightarrow> string + Config \<Rightarrow> api_process command" where
  "api_main lib sl dr version loaded =
     (case loaded of
        Inl err \<Rightarrow> Fatal (''failed to load configuration: '' @ err)
      | Inr cfg \<Rightarrow>
          if ac_JWTSecret (cf_API cfg) = []
          then Fatal ''error: api.jwt_secret (env API_JWT_SECRET) is required''
          else
            (case BuildLogger lib (cf_Logging cfg) of
               Inl err \<Rightarrow> Fatal (''failed to initialize logger: '' @ err)
             | Inr _ \<Rightarrow>
                 (case NewSigner (ac_JWTSecret (cf_API cfg)) of
                    None \<Rightarrow> Fatal ''failed to initialize JWT signer''
                  | Some secret \<Rightarrow>
                      (case NewPool dr (cf_Database cfg) of
                         Inl err \<Rightarrow> Fatal ''failed to connect to database''
                       | Inr pool \<Rightarrow>
                           Serving \<lparr> ap_pool = pool, ap_deps = api_deps lib sl version secret cfg,
                             ap_server = \<lparr> hp_Addr = port_addr (ac_Port (cf_API cfg)),
                               hp_ReadHeaderTimeout = 10 * second, hp_ReadTimeout = 30 * second,
                               hp_WriteTimeout = 30 * second, hp_IdleTimeout = 120 * second \<rparr>,
                             ap_metrics = metrics_server (ac_MetricsPort (cf_API cfg)) \<rparr>))))"

text \<open>
  The end of a serving process: a listener's error is fatal; after a signal both servers are shut
  down, and a failure to do so is only logged.
\<close>

datatype serving_end = ServingFatal string | ServingStopped "string list"

definition serve_until :: "string \<Rightarrow> string \<Rightarrow> string option \<Rightarrow> string option \<Rightarrow> string option \<Rightarrow> serving_end" where
  "serve_until name warning listener_error shutdown_error metrics_error =
     (case listener_error of
        Some err \<Rightarrow> ServingFatal (''server error: '' @ err)
      | None \<Rightarrow>
          ServingStopped
            ([''shutdown signal received''] @
             (case shutdown_error of None \<Rightarrow> [] | Some err \<Rightarrow> [warning]) @
             (case metrics_error of None \<Rightarrow> [] | Some err \<Rightarrow> [''metrics graceful shutdown failed'']) @
             [name @ '' stopped'']))"

subsection \<open>The MCP server\<close>

record mcp_process =
  mp_pool :: pool_config
  mp_libs :: libs
  mp_mcp :: mcp_server
  mp_rate :: int
  mp_origins :: "string list"
  mp_server :: http_server
  mp_metrics :: http_server

definition mcp_main :: "config_libs \<Rightarrow> server_libs \<Rightarrow> driver \<Rightarrow> string \<Rightarrow> string + Config \<Rightarrow> mcp_process command" where
  "mcp_main lib sl dr version loaded =
     (case loaded of
        Inl err \<Rightarrow> Fatal (''failed to load configuration: '' @ err)
      | Inr cfg \<Rightarrow>
          (let secret = EffectiveJWTSecret (cf_MCP cfg) (ac_JWTSecret (cf_API cfg))
           in if secret = []
              then Fatal ''error: mcp.jwt_secret (env MCP_JWT_SECRET) or api.jwt_secret (env API_JWT_SECRET) is required''
              else
                (case BuildLogger lib (cf_Logging cfg) of
                   Inl err \<Rightarrow> Fatal (''failed to initialize logger: '' @ err)
                 | Inr _ \<Rightarrow>
                     (case NewPool dr (cf_Database cfg) of
                        Inl err \<Rightarrow> Fatal ''failed to connect to database''
                      | Inr pool \<Rightarrow>
                          (case NewSigner secret of
                             None \<Rightarrow> Fatal ''failed to initialize JWT signer''
                           | Some s \<Rightarrow>
                               Serving \<lparr> mp_pool = pool, mp_libs = request_libs lib sl s, mp_mcp = mcp_New version True,
                                 mp_rate = ac_RateLimitPerMinute (cf_MCP cfg),
                                 mp_origins = CORSAllowedOriginsList (cl_TrimSpace lib) (ac_CORSAllowedOrigins (cf_MCP cfg)),
                                 mp_server = \<lparr> hp_Addr = port_addr (ac_Port (cf_MCP cfg)),
                                   hp_ReadHeaderTimeout = 10 * second, hp_ReadTimeout = 30 * second,
                                   hp_WriteTimeout = 0, hp_IdleTimeout = 120 * second \<rparr>,
                                 mp_metrics = metrics_server (ac_MetricsPort (cf_MCP cfg)) \<rparr>)))))"

text \<open>The handler of the running process on its public listener.\<close>

definition mcp_serve :: "(cors_Options \<Rightarrow> (request \<Rightarrow> 'b mcp_response) \<Rightarrow> request \<Rightarrow> 'b mcp_response) \<Rightarrow>
    mcp_process \<Rightarrow> (request \<Rightarrow> 'b) \<Rightarrow> string option \<Rightarrow> schema_read \<Rightarrow> string \<Rightarrow> request \<Rightarrow> 'b mcp_page" where
  "mcp_serve cors_Handler p handle ping_error schema path r =
     mcp_mux (mcp_CORS cors_Handler (mp_origins p)) (mp_libs p) (mp_rate p) handle True ping_error schema path r"

subsection \<open>The backfill tool\<close>

datatype backfill_end =
    BackfillFatal string
  | BackfillHung
  | StoppedGracefully sync_state
  | BackfillComplete sync_state

text \<open>
  \<open>dial\<close>: the error of dialing the node; the warm-up reads \<open>api\<close> with fuel and may fail, which is only
  logged; \<open>ctx_done\<close>: the context when \<open>Backfill\<close> has returned an error.
\<close>

definition backfill_main :: "config_libs \<Rightarrow> driver \<Rightarrow> (string \<Rightarrow> string option) \<Rightarrow> nat \<Rightarrow> sdk \<Rightarrow> cached_api \<Rightarrow>
    backfill_env \<Rightarrow> bool \<Rightarrow> string + Config \<Rightarrow> db \<Rightarrow> backfill_end" where
  "backfill_main lib dr dial fuel sdk api env ctx_done loaded d =
     (case loaded of
        Inl err \<Rightarrow> BackfillFatal (''failed to load configuration: '' @ err)
      | Inr cfg \<Rightarrow>
          (case BuildLogger lib (cf_Logging cfg) of
             Inl err \<Rightarrow> BackfillFatal (''failed to initialize logger: '' @ err)
           | Inr _ \<Rightarrow>
               (case NewPool dr (cf_Database cfg) of
                  Inl err \<Rightarrow> BackfillFatal ''failed to connect to database''
                | Inr pool \<Rightarrow>
                    (case dial (cf_WebSocketURL cfg) of
                       Some err \<Rightarrow> BackfillFatal ''failed to connect to node''
                     | None \<Rightarrow>
                         (case updateCachedData fuel sdk api \<lparr> ca_pillars = [], ca_pillarNameToOwner = [] \<rparr> d of
                            None \<Rightarrow> BackfillHung
                          | Some (_, c, d1) \<Rightarrow>
                              (case Backfill env \<lparr> ss_db = d1, ss_cache = c, ss_events = [], ss_lastProgressAt = 0 \<rparr> of
                                 (None, st) \<Rightarrow> BackfillComplete st
                               | (Some err, st) \<Rightarrow>
                                   if ctx_done then StoppedGracefully st else BackfillFatal ''backfill failed''))))))"

subsection \<open>The health server of the indexer\<close>

datatype health_page = HealthAlive | HealthReadiness "int \<times> string \<times> HealthSnapshot" | NoHealthPage

definition health_NewServer :: "HealthSnapshot \<Rightarrow> string \<Rightarrow> health_page" where
  "health_NewServer snapshot path =
     (if path = ''/healthz'' then HealthAlive
      else if path = ''/readyz'' then HealthReadiness (health_readyz snapshot)
      else NoHealthPage)"

definition health_ListenAndServe :: "string \<Rightarrow> http_server" where
  "health_ListenAndServe addr =
     \<lparr> hp_Addr = addr, hp_ReadHeaderTimeout = 5 * second, hp_ReadTimeout = 10 * second,
       hp_WriteTimeout = 10 * second, hp_IdleTimeout = 60 * second \<rparr>"

definition start_health :: "HealthConfig \<Rightarrow> http_server option" where
  "start_health hc = (if hc_Enabled hc then Some (health_ListenAndServe (port_addr (hc_Port hc))) else None)"

subsection \<open>The end of the indexer\<close>

datatype indexer_end = IndexerBusy | IndexerStopped | IndexerFatal string | IndexerEnded

text \<open>A failed backfill at startup is logged; the live indexer starts anyway.\<close>

definition run_indexer :: "Config \<Rightarrow> backfill_env \<Rightarrow> int \<Rightarrow> prime \<Rightarrow> sync_round list \<Rightarrow> loop_round list \<Rightarrow> bool \<Rightarrow>
    sync_state \<Rightarrow> indexer_end \<times> sync_state" where
  "run_indexer cfg env now p rs ls ctx_done st =
     (let st1 = (if cf_BackfillOnStartup cfg then snd (Backfill env st) else st)
      in case Run now p rs ls st1 of
           (Ended (Some err), st') \<Rightarrow> (if ctx_done then IndexerStopped else IndexerFatal err, st')
         | (Ended None, st') \<Rightarrow> (IndexerEnded, st')
         | (_, st') \<Rightarrow> (IndexerBusy, st'))"

end
