(* ===== verification/Command_Props.thy ===== *)
theory Command_Props
  imports Commands
begin

text \<open>
  From the configuration to what is served: no server starts without a secret, and what it answers
  on its protected side needs a token signed with that secret.
\<close>

subsection \<open>Settings\<close>

text \<open>Every bound variable has a default, except the password and the two secrets.\<close>

lemma bindings_without_default:
  "filter (\<lambda>k. map_of config_defaults k = None) (map fst env_bindings) =
     [''database.password'', ''api.jwt_secret'', ''mcp.jwt_secret'']"
  "distinct (map fst env_bindings)" "distinct (map snd env_bindings)" "distinct (map fst config_defaults)"
  by code_simp+



subsection \<open>The database\<close>


text \<open>Migrations succeed exactly when each call does, and nothing to do counts as success.\<close>

lemma RunMigrations_ok:
  "(\<exists>line. RunMigrations ml path = Inr line) \<longleftrightarrow>
   ml_driver ml = None \<and> ml_instance ml (''file://'' @ path) = None \<and> (\<forall>err. ml_Up ml \<noteq> UpFailed err) \<and>
   (\<forall>err. ml_Version ml \<noteq> VersionFailed err)"
  by (auto simp: RunMigrations_def split: option.splits up_result.splits version_result.splits)

subsection \<open>The servers\<close>
















end
