(* ===== verification/Spec2Isabelle.thy ===== *)
theory Spec2Isabelle
  imports Contract_Props Json_Props Watchdog_Props Bridge_Props Sync_Props Cron_Props Stream_Props Rest_Props
    Stream_Open Mcp_Props Webhook_Props Startup_Props Script_Props Middleware_Props Background_Props
    Outreach_Props Repair Command_Props
begin

text \<open>
  \<^bold>\<open>Verification of nom-indexer-go\<close>

  nom-indexer-go follows a Zenon node, writes momentums, account blocks and the effects of the
  embedded contracts to PostgreSQL, and serves them over REST, WebSocket,
  MCP and webhooks. This
  development models its Go code in HOL, operation by operation, and proves what makes each part
  correct. Definitions keep the names of the Go functions; a Go package prefix is added where two
  packages use one name (\<open>Momentum_Insert\<close>, \<open>Stake_List\<close>).

  \<^bold>\<open>Conventions.\<close> A Go integer is an \<open>int\<close>; every conversion or product that can lose information
  goes through \<open>int64\<close>, \<open>int32\<close>, \<open>int16\<close> or \<open>uint64\<close> of \<open>Prelude\<close>, which wrap as Go does. A string or
  byte slice is a list of bytes. Structs are records, a nil pointer is \<open>None\<close>, an error is \<open>Inl\<close>. A
  table is the list of its rows in insertion order and the database is the record \<open>db\<close> of
  \<open>Store\<close>. What is not in the repository is an argument: the answers of the node, the SDK's
  ABI tables, the driver's faults, the clock, the JWT, WebSocket and rate-limit libraries.

  \<^bold>\<open>Foundations.\<close>
  \<^item> \<open>Prelude\<close>: integers, \<open>strconv\<close>, \<open>encoding/hex\<close>, results, list lemmas.
  \<^item> \<open>Table\<close>: reading and upserting rows; locale \<open>upsert_table\<close>, interpreted for every upserted table.
  \<^item> \<open>Paging\<close>: \<open>repository/list.go\<close>; locale \<open>listing\<close>, interpreted for every \<open>List\<close> method.
  \<^item> \<open>Models\<close>, \<open>Json\<close>: \<open>internal/models\<close> and the JSON text of the \<open>input\<close> column.

  \<^bold>\<open>Repositories\<close> (\<open>internal/repository\<close>). \<open>Repo_Account\<close>, \<open>Repo_Ledger\<close>, \<open>Repo_Pillar\<close>,
  \<open>Repo_Token\<close>, \<open>Repo_Entries\<close>, \<open>Repo_Accelerator\<close> and \<open>Repo_Bridge\<close> have one definition per method.
  \<open>Batch\<close> is the \<open>pgx.Batch\<close> as a list of statements with its interpreter; \<open>Counters\<close> has the
  invariants of the statements (counts, sums, open intervals, keys).

  \<^bold>\<open>Indexer\<close> (\<open>internal/indexer\<close>).
  \<^item> \<open>Chain\<close>, \<open>Decoder\<close>, \<open>Embedded\<close>, \<open>Processor\<close>: the node's data, \<open>decoder.go\<close>, \<open>embedded.go\<close> and
    \<open>rewards.go\<close>, \<open>processor.go\<close>. \<open>Processor_Facts\<close>, \<open>Momentum_Props\<close> and \<open>Contract_Props\<close> show that a
    momentum is written atomically, that counters, reward sums, keys and delegation intervals stay
    exact, what contract calls record, and where reprocessing and \<open>UpdatePillar\<close> go wrong.
  \<^item> \<open>Retry\<close>, \<open>Node_Pool\<close>, \<open>Watchdog\<close>: \<open>retry.go\<close>, \<open>nodepool.go\<close>, \<open>syncinfo.go\<close>, \<open>watchdog.go\<close>.
    \<open>Watchdog_Facts\<close> and \<open>Watchdog_Props\<close> show safety of every tick, when the node changes, that a
    failover happens, and where it cannot.
  \<^item> \<open>Cached_Data\<close>, \<open>Bridge_Sync\<close>, \<open>Sync\<close>, \<open>Cron\<close>: the loops of \<open>indexer.go\<close> and \<open>cron.go\<close>. A loop reads
    a script of what node, driver and context do; \<open>page_loop\<close> has fuel, and \<open>page_loop_complete\<close> shows
    that one unit more than the number of pages is enough. \<open>Sync_Facts\<close>, \<open>Sync_Props\<close>,
    \<open>Bridge_Props\<close> and \<open>Cron_Props\<close> show that the catch-up keeps and completes the prefix of the chain, that
    backfill closes holes, that the bridge tables mirror the node and that the daily jobs are
    exact and idempotent.
  \<^item> \<open>Background\<close>: the goroutines of \<open>Indexer.Run\<close> on their shared state, as a step relation from the start
    of the loops over the caller's cancel to the deferred calls. \<open>Background_Props\<close> shows that every
    run can shut down and that a returned one has stopped everything, and that no interleaving of
    main loop and jobs changes or repeats a stored momentum. The jobs of one loop are single steps:
    a job interleaves with others only through the database.

  \<^bold>\<open>API\<close> (\<open>internal/api\<close>, \<open>internal/auth\<close>).
  \<^item> \<open>Hub\<close>, \<open>Streams\<close>, \<open>Stream_Open\<close>: the NOTIFY fan-out, cut into steps at every point where another
    goroutine may come in, and the two stream handlers with what they check before they subscribe. \<open>Hub_Props\<close> and \<open>Stream_Props\<close> show that no interleaving sends
    on or closes a closed channel, that clients see no silent gap and no block twice, and the nil
    map that makes a transactions stream panic.
  \<^item> \<open>Httpx\<close>, \<open>Dto\<close>, \<open>Rest\<close>, \<open>Router\<close>: parsing and responses, wire shapes, every REST handler, the
    routes behind their middleware and the readiness probe. \<open>Rest_Props\<close> shows that nothing is
    served without a token, that walking the pages of any listing yields every row once, what
    happens at the edge of 64 bits, and that voting reports partition the active pillars.
  \<^item> \<open>Middleware\<close>, \<open>Server\<close>: request ids, logging, recovery, CORS, metrics and the status recorders over an
    abstract \<open>http.ResponseWriter\<close>, how a response goes out, and \<open>router.New\<close> with its routes. \<open>Middleware_Props\<close>
    has the locale \<open>transparent_writer\<close> of a recorder that passes on what it is given, interpreted for
    both recorders, and shows that the whole server sends, logs and counts what its routes answer,
    and what becomes of a panic.

  \<^bold>\<open>MCP, webhooks, startup\<close> (\<open>internal/mcp\<close>, \<open>internal/webhooks\<close>, \<open>internal/config\<close>, \<open>cmd\<close>).
  \<^item> \<open>Mcp\<close>: every tool, the token and rate-limit middleware, the readiness probe. \<open>Mcp_Props\<close> shows
    that a tool and the REST endpoint asked for the same thing answer the same. \<open>Mcp_Server\<close>: the schema
    overview, tool names and results, the call counter, CORS and the paths of the listener.
  \<^item> \<open>Webhooks\<close>: the dispatcher's queue, worker and delivery loop, cut into steps like the hub.
    \<open>Webhook_Props\<close> shows safety, order and bounded effort for every interleaving.
  \<^item> \<open>Configuration\<close>: the settings, the node list, tokens, the health server and \<open>main\<close> of \<open>cmd/indexer\<close> up to the
    main loop. \<open>Startup_Props\<close> joins it to the watchdog and the dispatcher: every start ends in an
    exit or in a state their guarantees hold from.
  \<^item> \<open>Scripts\<close>: the repair programs \<open>backfill-rewards\<close> and \<open>repair-votes\<close>. \<open>Script_Props\<close> shows what they
    guarantee and where an interruption or a repeated vote defeats them. \<open>Repair\<close> has the run of \<open>repair-votes\<close>
    around its transaction, and shows that no vote is touched before the table is backed up.

  \<^item> \<open>Outreach\<close>: the report program \<open>phase-outreach\<close>, queries and text. \<open>Outreach_Props\<close> shows which pillars
    its tiers name, and the votes it misses.
  \<^item> \<open>Commands\<close>: defaults and variables of the settings, \<open>internal/database\<close>, and the main functions of
    \<open>cmd/api\<close>, \<open>cmd/mcp\<close>, \<open>cmd/backfill\<close> and the end of \<open>cmd/indexer\<close> with its health server. \<open>Command_Props\<close> shows that a server
    that serves has a secret and serves only those who hold a token of it.

  \<^bold>\<open>Not modelled.\<close> The generated server of \<open>oapi\<close> is not used by the router. The build pipeline runs
  outside the system. Listeners, signals, the registry of the metrics, durations and stack traces in
  logs are left to the libraries and the runtime. Libraries are arguments: the routing match, CORS,
  the rate limiter's window, the configuration reader, the migration runner, the database driver,
  the MCP protocol, the upgraded WebSocket. JSON encoding of DTOs is the standard library's, and so
  are durations, URL parsing and trimming of UTF-8 text, which are arguments.
\<close>

end
